(* ===== verification/Prelude.thy ===== *)
theory Prelude
  imports Main "HOL-Library.Multiset" "HOL-Library.State_Monad" "HOL-Library.Word"
    "HOL-Library.List_Lexorder" "HOL-Library.Char_ord"
begin

text \<open>
  Shared ground of the development: the Go types every component uses (strings, times,
  error values with their wrapping chain), the few functions of Go's standard library
  the operator calls on them, and the calculus for stateful code.

  Stateful Go code is a \<open>('s, 'a) state\<close> of \<open>State_Monad\<close>. Two predicates carry the
  proofs about it. \<open>post m s Q\<close> says that \<open>Q\<close> holds of the value and of the final state
  of running \<open>m\<close> from \<open>s\<close>; its rules are equations, so that \<open>simp\<close> walks through a whole
  handler. \<open>keeps f m\<close> says that \<open>m\<close> leaves the observation \<open>f\<close> of the state as it was,
  and is proved by introduction rules collected in \<open>keeps_intro\<close>.
\<close>

named_theorems keeps_intro \<open>operations that leave an observation of the state unchanged\<close>

type_synonym time = int
type_synonym duration = int
type_synonym int32 = "32 word"
type_synonym uint32 = "32 word"
type_synonym int64 = "64 word"

abbreviation ret :: "'a \<Rightarrow> ('s, 'a) state" where
  "ret \<equiv> State_Monad.return"

section \<open>Strings\<close>

text \<open>A Go string is a sequence of bytes, as \<^typ>\<open>string\<close> is.\<close>

definition HasPrefix :: "string \<Rightarrow> string \<Rightarrow> bool" where
  "HasPrefix s p \<longleftrightarrow> take (length p) s = p"

fun Join :: "string list \<Rightarrow> string \<Rightarrow> string" where
  "Join [] sep = []"
| "Join [x] sep = x"
| "Join (x # y # xs) sep = x @ sep @ Join (y # xs) sep"

definition newline :: string where
  "newline = [CHR 0x0A]"

fun itoa :: "nat \<Rightarrow> string" where
  "itoa n = (if n < 10 then [char_of (48 + n)] else itoa (n div 10) @ [char_of (48 + n mod 10)])"

declare itoa.simps [simp del]

section \<open>Errors\<close>

text \<open>
  A Go \<open>error\<close>: the sentinel \<open>ldapclient.ErrGroupNotFound\<close>, an error made by
  \<open>fmt.Errorf\<close> without and with one \<open>%w\<close> (the message is the formatted string), and an
  error value made by code outside the repository, of which only an identity and its
  message are known. A nil error is \<^term>\<open>None\<close>, or the \<^term>\<open>Inr\<close> of a result.
\<close>

datatype error =
    ErrGroupNotFound
  | ErrText string
  | ErrWrap string error
  | ErrExt nat string

primrec Error :: "error \<Rightarrow> string" where
  "Error ErrGroupNotFound = ''ldapclient: group not found''"
| "Error (ErrText m) = m"
| "Error (ErrWrap m e) = m"
| "Error (ErrExt n m) = m"

text \<open>\<open>fmt.Errorf(pre + "%w" + post, err)\<close>.\<close>

definition Errorf_w :: "string \<Rightarrow> error \<Rightarrow> string \<Rightarrow> error" where
  "Errorf_w pre err suffix = ErrWrap (pre @ Error err @ suffix) err"

text \<open>\<open>errors.Is\<close>: the error or one that it wraps is the target.\<close>

primrec errors_Is :: "error \<Rightarrow> error \<Rightarrow> bool" where
  "errors_Is ErrGroupNotFound t \<longleftrightarrow> t = ErrGroupNotFound"
| "errors_Is (ErrText m) t \<longleftrightarrow> t = ErrText m"
| "errors_Is (ErrWrap m e) t \<longleftrightarrow> t = ErrWrap m e \<or> errors_Is e t"
| "errors_Is (ErrExt n m) t \<longleftrightarrow> t = ErrExt n m"

lemma errors_Is_refl [simp]: "errors_Is e e"
  by (cases e) simp_all

lemma errors_Is_Errorf_w [simp]:
  "errors_Is (Errorf_w pre e suffix) ErrGroupNotFound \<longleftrightarrow> errors_Is e ErrGroupNotFound"
  by (simp add: Errorf_w_def)

lemma Error_Errorf_w [simp]: "Error (Errorf_w pre e suffix) = pre @ Error e @ suffix"
  by (simp add: Errorf_w_def)

section \<open>Running stateful code\<close>

definition post :: "('s, 'a) state \<Rightarrow> 's \<Rightarrow> ('a \<Rightarrow> 's \<Rightarrow> bool) \<Rightarrow> bool" where
  "post m s Q \<longleftrightarrow> (case run_state m s of (x, t) \<Rightarrow> Q x t)"

lemma post_ret [simp]: "post (ret x) s Q \<longleftrightarrow> Q x s"
  by (simp add: post_def)

lemma post_bind [simp]:
  "post (State_Monad.bind m f) s Q \<longleftrightarrow> post m s (\<lambda>x t. post (f x) t Q)"
  by (simp add: post_def split: prod.splits)

lemma post_mono: "post m s Q \<Longrightarrow> (\<And>x t. Q x t \<Longrightarrow> R x t) \<Longrightarrow> post m s R"
  by (auto simp: post_def)

lemma post_run: "post m s Q \<longleftrightarrow> Q (fst (run_state m s)) (snd (run_state m s))"
  by (simp add: post_def split: prod.splits)

lemma postD: "post m s Q \<Longrightarrow> run_state m s = (x, t) \<Longrightarrow> Q x t"
  by (simp add: post_def)

text \<open>Bringing two programs into the same shape: a continuation is pushed into the branches.\<close>

lemma bind_case_sum:
  "State_Monad.bind (case x of Inl e \<Rightarrow> f e | Inr y \<Rightarrow> g y) h =
   (case x of Inl e \<Rightarrow> State_Monad.bind (f e) h | Inr y \<Rightarrow> State_Monad.bind (g y) h)"
  by (cases x) simp_all

lemma bind_if:
  "State_Monad.bind (if b then m else n) h = (if b then State_Monad.bind m h else State_Monad.bind n h)"
  by simp

lemma bind_cong_eq: "(\<And>x. f x = g x) \<Longrightarrow> State_Monad.bind m f = State_Monad.bind m g"
  by (rule arg_cong[where f = "State_Monad.bind m"], rule ext)

lemma case_sum_eq:
  "(\<And>e. x = Inl e \<Longrightarrow> f e = f' e) \<Longrightarrow> (\<And>y. x = Inr y \<Longrightarrow> g y = g' y) \<Longrightarrow>
   (case x of Inl e \<Rightarrow> f e | Inr y \<Rightarrow> g y) = (case x of Inl e \<Rightarrow> f' e | Inr y \<Rightarrow> g' y)"
  by (cases x) simp_all

lemma bind_case_option:
  "State_Monad.bind (case x of None \<Rightarrow> m | Some y \<Rightarrow> g y) h =
   (case x of None \<Rightarrow> State_Monad.bind m h | Some y \<Rightarrow> State_Monad.bind (g y) h)"
  by (cases x) simp_all

lemma case_option_eq:
  "m = m' \<Longrightarrow> (\<And>y. x = Some y \<Longrightarrow> g y = g' y) \<Longrightarrow>
   (case x of None \<Rightarrow> m | Some y \<Rightarrow> g y) = (case x of None \<Rightarrow> m' | Some y \<Rightarrow> g' y)"
  by (cases x) simp_all

lemma bind_case_ret:
  "State_Monad.bind (case r of Inl e \<Rightarrow> ret (f e) | Inr y \<Rightarrow> ret (g y)) h =
   h (case r of Inl e \<Rightarrow> f e | Inr y \<Rightarrow> g y)"
  by (cases r) simp_all

section \<open>Observations left unchanged\<close>

definition keeps :: "('s \<Rightarrow> 'b) \<Rightarrow> ('s, 'a) state \<Rightarrow> bool" where
  "keeps f m \<longleftrightarrow> (\<forall>s. f (snd (run_state m s)) = f s)"

lemma keeps_ret [keeps_intro]: "keeps f (ret x)"
  by (simp add: keeps_def)

lemma keeps_bind [keeps_intro]:
  "keeps f m \<Longrightarrow> (\<And>x. keeps f (g x)) \<Longrightarrow> keeps f (State_Monad.bind m g)"
  by (simp add: keeps_def split: prod.splits) (metis snd_conv)

lemma keeps_sum [keeps_intro]:
  "(\<And>e. x = Inl e \<Longrightarrow> keeps f (g e)) \<Longrightarrow> (\<And>y. x = Inr y \<Longrightarrow> keeps f (h y)) \<Longrightarrow>
   keeps f (case x of Inl e \<Rightarrow> g e | Inr y \<Rightarrow> h y)"
  by (cases x) simp_all

lemma keeps_option [keeps_intro]:
  "keeps f n \<Longrightarrow> (\<And>y. x = Some y \<Longrightarrow> keeps f (h y)) \<Longrightarrow>
   keeps f (case x of None \<Rightarrow> n | Some y \<Rightarrow> h y)"
  by (cases x) simp_all

lemma keeps_if [keeps_intro]:
  "(b \<Longrightarrow> keeps f m) \<Longrightarrow> (\<not> b \<Longrightarrow> keeps f n) \<Longrightarrow> keeps f (if b then m else n)"
  by simp

lemma keeps_list [keeps_intro]:
  "keeps f n \<Longrightarrow> (\<And>y ys. x = y # ys \<Longrightarrow> keeps f (h y ys)) \<Longrightarrow>
   keeps f (case x of [] \<Rightarrow> n | y # ys \<Rightarrow> h y ys)"
  by (cases x) simp_all

lemma keepsD: "keeps f m \<Longrightarrow> run_state m s = (x, t) \<Longrightarrow> f t = f s"
  by (metis keeps_def snd_conv)

section \<open>Facts about the value returned\<close>

text \<open>\<open>yields Q m\<close>: whatever the state, the value that \<open>m\<close> returns satisfies \<open>Q\<close>.\<close>

named_theorems yields_intro \<open>facts about the values operations return\<close>

definition yields :: "('a \<Rightarrow> bool) \<Rightarrow> ('s, 'a) state \<Rightarrow> bool" where
  "yields Q m \<longleftrightarrow> (\<forall>s. Q (fst (run_state m s)))"

lemma yieldsD: "yields Q m \<Longrightarrow> Q (fst (run_state m s))"
  by (simp add: yields_def)

lemma yields_run: "yields Q m \<Longrightarrow> run_state m s = (x, t) \<Longrightarrow> Q x"
  by (metis yields_def fst_conv)

lemma yields_ret [yields_intro]: "Q x \<Longrightarrow> yields Q (ret x)"
  by (simp add: yields_def)

lemma yields_bind_any [yields_intro]:
  "(\<And>x. yields Q (f x)) \<Longrightarrow> yields Q (State_Monad.bind m f)"
  by (simp add: yields_def split: prod.splits)

lemma yields_bind:
  "yields P m \<Longrightarrow> (\<And>x. P x \<Longrightarrow> yields Q (f x)) \<Longrightarrow> yields Q (State_Monad.bind m f)"
  by (simp add: yields_def split: prod.splits) (metis fst_conv)

lemma yields_sum [yields_intro]:
  "(\<And>e. x = Inl e \<Longrightarrow> yields Q (g e)) \<Longrightarrow> (\<And>y. x = Inr y \<Longrightarrow> yields Q (h y)) \<Longrightarrow>
   yields Q (case x of Inl e \<Rightarrow> g e | Inr y \<Rightarrow> h y)"
  by (cases x) simp_all

lemma yields_option [yields_intro]:
  "(x = None \<Longrightarrow> yields Q n) \<Longrightarrow> (\<And>y. x = Some y \<Longrightarrow> yields Q (h y)) \<Longrightarrow>
   yields Q (case x of None \<Rightarrow> n | Some y \<Rightarrow> h y)"
  by (cases x) simp_all

lemma yields_list [yields_intro]:
  "(x = [] \<Longrightarrow> yields Q n) \<Longrightarrow> (\<And>y ys. x = y # ys \<Longrightarrow> yields Q (h y ys)) \<Longrightarrow>
   yields Q (case x of [] \<Rightarrow> n | y # ys \<Rightarrow> h y ys)"
  by (cases x) simp_all

lemma yields_if [yields_intro]:
  "(b \<Longrightarrow> yields Q m) \<Longrightarrow> (\<not> b \<Longrightarrow> yields Q n) \<Longrightarrow> yields Q (if b then m else n)"
  by simp

section \<open>Lists\<close>

lemma HasPrefix_append [simp]: "HasPrefix (p @ s) p"
  by (simp add: HasPrefix_def)

text \<open>A joined list determines its parts when no part contains the separator.\<close>

lemma split_unique:
  assumes "c \<notin> set a" and "c \<notin> set b" and "a @ c # x = b @ c # y"
  shows "a = b \<and> x = y"
  using assms
proof (induction a arbitrary: b)
  case Nil
  then show ?case by (cases b) auto
next
  case (Cons z a)
  then show ?case by (cases b) auto
qed

lemma Join_Cons: "Join (x # xs) sep = (if xs = [] then x else x @ sep @ Join xs sep)"
  by (cases xs) simp_all

lemma Join_inject:
  assumes "\<forall>x \<in> set xs. c \<notin> set x" and "\<forall>y \<in> set ys. c \<notin> set y"
    and "xs \<noteq> []" and "ys \<noteq> []" and "Join xs [c] = Join ys [c]"
  shows "xs = ys"
  using assms
proof (induction xs arbitrary: ys)
  case Nil
  then show ?case by simp
next
  case (Cons x xs)
  then obtain y ys' where ys: "ys = y # ys'" by (cases ys) auto
  show ?case
  proof (cases "xs = [] \<or> ys' = []")
    case True
    with Cons.prems ys show ?thesis
      by (auto simp: Join_Cons split: if_splits)
  next
    case False
    with Cons.prems(5) ys have eq: "x @ c # Join xs [c] = y @ c # Join ys' [c]"
      by (simp add: Join_Cons)
    have "c \<notin> set x" and "c \<notin> set y" using Cons.prems(1,2) ys by auto
    from split_unique[OF this eq] have "x = y" and "Join xs [c] = Join ys' [c]" by auto
    moreover have "xs = ys'"
      using Cons.IH[of ys'] Cons.prems(1,2) ys False calculation(2) by auto
    ultimately show ?thesis using ys by simp
  qed
qed

end
