(* ===== verification/Api_Types.thy ===== *)
theory Api_Types
  imports Prelude
begin

text \<open>
  The data of the operator: the Kubernetes structures it reads and writes (metadata,
  conditions, RBAC subjects and bindings, Secrets) and the three custom resources of
  \<open>api/v1alpha1\<close> with their condition types and reasons. A struct is a record whose
  fields carry a short prefix, since Isabelle's field names are global; a pointer that
  may be nil is an option. Of the Kubernetes structures the fields that the operator
  reads, writes or must leave alone are kept (labels and annotations are there because an
  update of an existing object has to preserve them).
\<close>

section \<open>Kubernetes metadata\<close>

record ObjectKey =
  key_Namespace :: string
  key_Name :: string

record OwnerReference =
  or_APIVersion :: string
  or_Kind :: string
  or_Name :: string
  or_UID :: string
  or_Controller :: "bool option"
  or_BlockOwnerDeletion :: "bool option"

record ObjectMeta =
  om_Name :: string
  om_Namespace :: string
  om_UID :: string
  om_ResourceVersion :: string
  om_Generation :: int64
  om_DeletionTimestamp :: "time option"
  om_Finalizers :: "string list"
  om_OwnerReferences :: "OwnerReference list"
  om_Labels :: "(string \<times> string) list"
  om_Annotations :: "(string \<times> string) list"

text \<open>The zero \<open>metav1.ObjectMeta\<close> with its name and namespace set.\<close>

definition newObjectMeta :: "string \<Rightarrow> string \<Rightarrow> ObjectMeta" where
  "newObjectMeta name namespace =
     \<lparr>om_Name = name, om_Namespace = namespace, om_UID = [], om_ResourceVersion = [],
      om_Generation = 0, om_DeletionTimestamp = None, om_Finalizers = [],
      om_OwnerReferences = [], om_Labels = [], om_Annotations = []\<rparr>"

definition ObjectKeyFromObject :: "ObjectMeta \<Rightarrow> ObjectKey" where
  "ObjectKeyFromObject m = \<lparr>key_Namespace = om_Namespace m, key_Name = om_Name m\<rparr>"

datatype ConditionStatus = ConditionTrue | ConditionFalse | ConditionUnknown

record Condition =
  c_Type :: string
  c_Status :: ConditionStatus
  c_ObservedGeneration :: int64
  c_LastTransitionTime :: "time option"
  c_Reason :: string
  c_Message :: string

text \<open>
  The condition literals of the reconcilers set type, status, reason and message; the
  other fields are zero.
\<close>

definition newCondition :: "string \<Rightarrow> ConditionStatus \<Rightarrow> string \<Rightarrow> string \<Rightarrow> Condition" where
  "newCondition type status reason message =
     \<lparr>c_Type = type, c_Status = status, c_ObservedGeneration = 0,
      c_LastTransitionTime = None, c_Reason = reason, c_Message = message\<rparr>"

section \<open>RBAC objects and Secrets\<close>

record Subject =
  s_Kind :: string
  s_APIGroup :: string
  s_Name :: string
  s_Namespace :: string

record RbacRoleRef =
  rr_APIGroup :: string
  rr_Kind :: string
  rr_Name :: string

record RoleBinding =
  rb_meta :: ObjectMeta
  rb_Subjects :: "Subject list"
  rb_RoleRef :: RbacRoleRef

record ClusterRoleBinding =
  crb_meta :: ObjectMeta
  crb_Subjects :: "Subject list"
  crb_RoleRef :: RbacRoleRef

record Secret =
  sec_meta :: ObjectMeta
  sec_Data :: "string \<rightharpoonup> string"

definition UserKind :: string where "UserKind = ''User''"
definition GroupName :: string where "GroupName = ''rbac.authorization.k8s.io''"

section \<open>Condition types and reasons (conditions.go)\<close>

definition ConditionReady :: string where "ConditionReady = ''Ready''"
definition ConditionDegraded :: string where "ConditionDegraded = ''Degraded''"
definition ConditionGroupNotFound :: string where "ConditionGroupNotFound = ''GroupNotFound''"
definition ReasonSyncSucceeded :: string where "ReasonSyncSucceeded = ''SyncSucceeded''"
definition ReasonLDAPUnreachable :: string where "ReasonLDAPUnreachable = ''LDAPUnreachable''"
definition ReasonBindFailed :: string where "ReasonBindFailed = ''BindFailed''"
definition ReasonGroupNotFound :: string where "ReasonGroupNotFound = ''GroupNotFound''"
definition ReasonInvalidSpec :: string where "ReasonInvalidSpec = ''InvalidSpec''"

lemmas condition_types = ConditionReady_def ConditionDegraded_def ConditionGroupNotFound_def

section \<open>LDAPProvider (ldapprovider_types.go)\<close>

record SecretKeyRef =
  skr_Name :: string
  skr_Key :: string

record TLSConfigSpec =
  tcs_CASecretRef :: "SecretKeyRef option"

text \<open>\<open>DirectoryType\<close> is a string type with three named values.\<close>

type_synonym DirectoryType = string

definition DirectoryTypeOpenLDAP :: DirectoryType where "DirectoryTypeOpenLDAP = ''OpenLDAP''"
definition DirectoryTypeActiveDirectory :: DirectoryType where
  "DirectoryTypeActiveDirectory = ''ActiveDirectory''"
definition DirectoryTypeFreeIPA :: DirectoryType where "DirectoryTypeFreeIPA = ''FreeIPA''"

record LDAPProviderSpec =
  lps_URL :: string
  lps_BindDN :: string
  lps_BindPasswordSecretRef :: SecretKeyRef
  lps_TLSConfig :: "TLSConfigSpec option"
  lps_InsecureSkipTLS :: bool
  lps_UserSearchBase :: string
  lps_GroupSearchBase :: string
  lps_SyncInterval :: duration
  lps_UsernameAttribute :: string
  lps_DirectoryType :: DirectoryType

record LDAPProviderStatus =
  lpst_ObservedGeneration :: int64
  lpst_Conditions :: "Condition list"
  lpst_LastVerifiedTime :: "time option"

record LDAPProvider =
  lp_meta :: ObjectMeta
  lp_Spec :: LDAPProviderSpec
  lp_Status :: LDAPProviderStatus

section \<open>RBACGroupBinding (rbacgroupbinding\_types.go)\<close>

record RoleRef =
  role_Kind :: string
  role_Name :: string

record RBACGroupBindingSpec =
  rgbs_ProviderRef :: string
  rgbs_GroupDN :: string
  rgbs_RoleRef :: RoleRef

record RBACGroupBindingStatus =
  rgbst_ObservedGeneration :: int64
  rgbst_Conditions :: "Condition list"
  rgbst_LastSyncTime :: "time option"
  rgbst_MemberCount :: int32
  rgbst_MembersPreview :: "string list"
  rgbst_MembersTruncated :: bool
  rgbst_MembersHash :: string
  rgbst_RoleBindingRef :: "string option"

record RBACGroupBinding =
  rgb_meta :: ObjectMeta
  rgb_Spec :: RBACGroupBindingSpec
  rgb_Status :: RBACGroupBindingStatus

section \<open>ClusterRBACGroupBinding (clusterrbacgroupbinding\_types.go)\<close>

record ClusterRBACGroupBindingSpec =
  crgbs_ProviderRef :: string
  crgbs_GroupDN :: string
  crgbs_ClusterRoleRef :: string

record ClusterRBACGroupBindingStatus =
  crgbst_ObservedGeneration :: int64
  crgbst_Conditions :: "Condition list"
  crgbst_LastSyncTime :: "time option"
  crgbst_MemberCount :: int32
  crgbst_MembersPreview :: "string list"
  crgbst_MembersTruncated :: bool
  crgbst_MembersHash :: string
  crgbst_ClusterRoleBindingRef :: "string option"

record ClusterRBACGroupBinding =
  crgb_meta :: ObjectMeta
  crgb_Spec :: ClusterRBACGroupBindingSpec
  crgb_Status :: ClusterRBACGroupBindingStatus

text \<open>The objects the API client handles, as one type.\<close>

datatype object =
    ORBACGroupBinding RBACGroupBinding
  | OClusterRBACGroupBinding ClusterRBACGroupBinding
  | OLDAPProvider LDAPProvider
  | ORoleBinding RoleBinding
  | OClusterRoleBinding ClusterRoleBinding
  | OSecret Secret

primrec object_meta :: "object \<Rightarrow> ObjectMeta" where
  "object_meta (ORBACGroupBinding b) = rgb_meta b"
| "object_meta (OClusterRBACGroupBinding b) = crgb_meta b"
| "object_meta (OLDAPProvider p) = lp_meta p"
| "object_meta (ORoleBinding b) = rb_meta b"
| "object_meta (OClusterRoleBinding b) = crb_meta b"
| "object_meta (OSecret x) = sec_meta x"

section \<open>Reading conditions\<close>

text \<open>
  \<open>findCondition\<close> of \<open>readiness.go\<close>: the first condition of a type. The status of a
  type is what every reader of the conditions sees.
\<close>

fun findCondition :: "Condition list \<Rightarrow> string \<Rightarrow> Condition option" where
  "findCondition [] t = None"
| "findCondition (c # cs) t = (if c_Type c = t then Some c else findCondition cs t)"

lemma findCondition_Some:
  "findCondition cs t = Some c \<Longrightarrow> c \<in> set cs \<and> c_Type c = t"
  by (induction cs) (auto split: if_splits)

lemma findCondition_None: "findCondition cs t = None \<longleftrightarrow> t \<notin> c_Type ` set cs"
  by (induction cs) auto

end
