(* ===== verification/Ratelimit.thy ===== *)
theory Ratelimit
  imports Api_Types Complex_Main
begin

text \<open>
  The rate-limiter registry of \<open>internal/ldapclient/ratelimit.go\<close>. \<open>rate.NewLimiter\<close>
  is code outside the repository: a limiter is an object with an identity of its own,
  made with a rate and a burst, and the registry hands out pointers to it, so the model
  keeps the identity (\<open>lim_id\<close>) that a pointer comparison sees. The mutex makes each
  method one atomic step, so the methods are functions on the registry and concurrent use
  is a sequence of them.
\<close>

record limiter =
  lim_id :: nat
  lim_rate :: rat
  lim_burst :: int

text \<open>A nil map reads as empty; \<open>Get\<close> makes it on first use.\<close>

record Limiters =
  l_Rate :: rat
  l_Burst :: int
  l_limiters :: "(string \<rightharpoonup> limiter) option"
  l_next :: nat

definition DefaultRate :: rat where "DefaultRate = 5"
definition DefaultBurst :: int where "DefaultBurst = 10"

definition newLimiters :: "rat \<Rightarrow> int \<Rightarrow> Limiters" where
  "newLimiters r b = \<lparr>l_Rate = r, l_Burst = b, l_limiters = None, l_next = 0\<rparr>"

definition Limiters_rate :: "Limiters \<Rightarrow> rat" where
  "Limiters_rate l = (if l_Rate l = 0 then DefaultRate else l_Rate l)"

definition Limiters_burst :: "Limiters \<Rightarrow> int" where
  "Limiters_burst l = (if l_Burst l = 0 then DefaultBurst else l_Burst l)"

text \<open>\<open>l.limiters[key]\<close>: a nil map has no keys.\<close>

definition Limiters_lookup :: "Limiters \<Rightarrow> string \<Rightarrow> limiter option" where
  "Limiters_lookup l key = (case l_limiters l of None \<Rightarrow> None | Some m \<Rightarrow> m key)"

text \<open>\<open>rate.NewLimiter\<close> allocates: the new limiter is none of the earlier ones.\<close>

definition NewLimiter :: "Limiters \<Rightarrow> rat \<Rightarrow> int \<Rightarrow> limiter \<times> Limiters" where
  "NewLimiter l r b =
     (\<lparr>lim_id = l_next l, lim_rate = r, lim_burst = b\<rparr>, l\<lparr>l_next := Suc (l_next l)\<rparr>)"

definition Limiters_Get :: "Limiters \<Rightarrow> string \<Rightarrow> limiter \<times> Limiters" where
  "Limiters_Get l key =
     (let l = (if l_limiters l = None then l\<lparr>l_limiters := Some Map.empty\<rparr> else l)
      in case Limiters_lookup l key of
           Some x \<Rightarrow> (x, l)
         | None \<Rightarrow>
             let (x, l) = NewLimiter l (Limiters_rate l) (Limiters_burst l)
             in (x, l\<lparr>l_limiters := map_option (\<lambda>m. m(key \<mapsto> x)) (l_limiters l)\<rparr>))"

text \<open>\<open>delete\<close> on a nil map does nothing.\<close>

definition Limiters_Delete :: "Limiters \<Rightarrow> string \<Rightarrow> Limiters" where
  "Limiters_Delete l key = l\<lparr>l_limiters := map_option (\<lambda>m. m(key := None)) (l_limiters l)\<rparr>"

section \<open>Well-formedness\<close>

text \<open>
  Every registered limiter was allocated by this registry with its rate and burst, and no
  two keys share one.
\<close>

definition Limiters_wf :: "Limiters \<Rightarrow> bool" where
  "Limiters_wf l \<longleftrightarrow>
     (\<forall>k x. Limiters_lookup l k = Some x \<longrightarrow> lim_id x < l_next l \<and>
        lim_rate x = Limiters_rate l \<and> lim_burst x = Limiters_burst l) \<and>
     (\<forall>k k' x y. Limiters_lookup l k = Some x \<longrightarrow> Limiters_lookup l k' = Some y \<longrightarrow>
        lim_id x = lim_id y \<longrightarrow> k = k')"

text \<open>Using the registry: a sequence of the two methods.\<close>

datatype registry_op = RGet string | RDelete string

primrec registry_step :: "Limiters \<Rightarrow> registry_op \<Rightarrow> Limiters" where
  "registry_step l (RGet k) = snd (Limiters_Get l k)"
| "registry_step l (RDelete k) = Limiters_Delete l k"

definition registry_run :: "Limiters \<Rightarrow> registry_op list \<Rightarrow> Limiters" where
  "registry_run = foldl registry_step"

section \<open>Lookup after each method\<close>

lemma Limiters_Get_result:
  "fst (Limiters_Get l k) =
     (case Limiters_lookup l k of
        Some x \<Rightarrow> x
      | None \<Rightarrow> \<lparr>lim_id = l_next l, lim_rate = Limiters_rate l, lim_burst = Limiters_burst l\<rparr>)"
  by (auto simp: Limiters_Get_def Limiters_lookup_def NewLimiter_def Limiters_rate_def
      Limiters_burst_def Let_def split: option.splits)

lemma Limiters_lookup_Get:
  "Limiters_lookup (snd (Limiters_Get l k)) k' =
     (if k' = k then Some (fst (Limiters_Get l k)) else Limiters_lookup l k')"
  by (auto simp: Limiters_Get_def Limiters_lookup_def NewLimiter_def Let_def split: option.splits)

lemma Limiters_lookup_Delete:
  "Limiters_lookup (Limiters_Delete l k) k' = (if k' = k then None else Limiters_lookup l k')"
  by (auto simp: Limiters_Delete_def Limiters_lookup_def split: option.splits)

lemma Limiters_next_Get:
  "l_next (snd (Limiters_Get l k)) = (if Limiters_lookup l k = None then Suc (l_next l) else l_next l)"
  by (auto simp: Limiters_Get_def Limiters_lookup_def NewLimiter_def Let_def split: option.splits)

lemma Limiters_next_Delete [simp]: "l_next (Limiters_Delete l k) = l_next l"
  by (simp add: Limiters_Delete_def)

lemma Limiters_config_Get [simp]:
  "l_Rate (snd (Limiters_Get l k)) = l_Rate l"
  "l_Burst (snd (Limiters_Get l k)) = l_Burst l"
  by (auto simp: Limiters_Get_def Limiters_lookup_def NewLimiter_def Let_def split: option.splits)

lemma Limiters_wf_new: "Limiters_wf (newLimiters r b)"
  by (simp add: Limiters_wf_def Limiters_lookup_def newLimiters_def)

lemma Limiters_budget_Get [simp]:
  "Limiters_rate (snd (Limiters_Get l k)) = Limiters_rate l"
  "Limiters_burst (snd (Limiters_Get l k)) = Limiters_burst l"
  by (simp_all add: Limiters_rate_def Limiters_burst_def)

lemma Limiters_budget_Delete [simp]:
  "Limiters_rate (Limiters_Delete l k) = Limiters_rate l"
  "Limiters_burst (Limiters_Delete l k) = Limiters_burst l"
  by (simp_all add: Limiters_rate_def Limiters_burst_def Limiters_Delete_def)

lemma Limiters_wf_id: "Limiters_wf l \<Longrightarrow> Limiters_lookup l k = Some x \<Longrightarrow> lim_id x < l_next l"
  by (simp add: Limiters_wf_def)

lemma Limiters_wf_distinct:
  "Limiters_wf l \<Longrightarrow> Limiters_lookup l k = Some x \<Longrightarrow> Limiters_lookup l k' = Some y \<Longrightarrow>
   k \<noteq> k' \<Longrightarrow> lim_id x \<noteq> lim_id y"
  unfolding Limiters_wf_def by blast

lemma Limiters_wf_Get:
  assumes wf: "Limiters_wf l"
  shows "Limiters_wf (snd (Limiters_Get l k))"
proof (cases "Limiters_lookup l k")
  case None
  have "Limiters_lookup l i = Some x \<Longrightarrow> lim_id x \<noteq> l_next l" for i x
    using Limiters_wf_id[OF wf, of i x] by simp
  with None wf show ?thesis
    unfolding Limiters_wf_def
    by (auto simp: Limiters_lookup_Get Limiters_Get_result Limiters_next_Get less_SucI)
      (metis less_irrefl)
next
  case (Some x)
  then have "Limiters_lookup (snd (Limiters_Get l k)) i = Limiters_lookup l i" for i
    by (simp add: Limiters_lookup_Get Limiters_Get_result)
  with Some wf show ?thesis by (simp add: Limiters_wf_def Limiters_next_Get)
qed

lemma Limiters_wf_Delete: "Limiters_wf l \<Longrightarrow> Limiters_wf (Limiters_Delete l k)"
  by (auto simp: Limiters_wf_def Limiters_lookup_Delete)

lemma registry_step_keeps:
  "Limiters_wf l \<Longrightarrow> Limiters_wf (registry_step l op)"
  "Limiters_rate (registry_step l op) = Limiters_rate l"
  "Limiters_burst (registry_step l op) = Limiters_burst l"
  by (cases op; simp add: Limiters_wf_Get Limiters_wf_Delete)+

lemma registry_run_keeps:
  "Limiters_wf l \<Longrightarrow> Limiters_wf (registry_run l ops)"
  "Limiters_rate (registry_run l ops) = Limiters_rate l"
  "Limiters_burst (registry_run l ops) = Limiters_burst l"
  unfolding registry_run_def
  by (induction ops arbitrary: l) (simp_all add: registry_step_keeps)

section \<open>The registry contract\<close>

text \<open>
  What the users of the registry rely on: \<open>get\<close> returns what is registered and registers
  what it returns, \<open>delete\<close> forgets, and both leave the other keys alone.
\<close>

locale keyed_registry =
  fixes get :: "'r \<Rightarrow> string \<Rightarrow> 'v \<times> 'r"
    and delete :: "'r \<Rightarrow> string \<Rightarrow> 'r"
    and look :: "'r \<Rightarrow> string \<Rightarrow> 'v option"
  assumes get_hit: "look r k = Some v \<Longrightarrow> fst (get r k) = v"
    and look_get: "look (snd (get r k)) k' = (if k' = k then Some (fst (get r k)) else look r k')"
    and look_delete: "look (delete r k) k' = (if k' = k then None else look r k')"
begin

definition use :: "'r \<Rightarrow> registry_op \<Rightarrow> 'r" where
  "use r op = (case op of RGet k \<Rightarrow> snd (get r k) | RDelete k \<Rightarrow> delete r k)"

lemma use_stable: "op \<noteq> RDelete k \<Longrightarrow> look r k = Some v \<Longrightarrow> look (use r op) k = Some v"
  by (cases op) (auto simp: use_def look_get look_delete get_hit)

lemma uses_stable:
  "RDelete k \<notin> set ops \<Longrightarrow> look r k = Some v \<Longrightarrow> look (foldl use r ops) k = Some v"
  by (induction ops arbitrary: r) (auto simp: use_stable)

lemma get_shared:
  "RDelete k \<notin> set ops \<Longrightarrow> fst (get (foldl use (snd (get r k)) ops) k) = fst (get r k)"
  by (rule get_hit, rule uses_stable) (simp_all add: look_get)

end

interpretation limiters: keyed_registry Limiters_Get Limiters_Delete Limiters_lookup
  by unfold_locales (simp_all add: Limiters_Get_result Limiters_lookup_Get Limiters_lookup_Delete)

lemma registry_run_use: "registry_run = foldl limiters.use"
proof -
  have "registry_step l op = limiters.use l op" for l op
    by (cases op) (simp_all add: limiters.use_def)
  then have "registry_step = limiters.use" by (intro ext)
  then show ?thesis by (simp add: registry_run_def)
qed

section \<open>Guarantees\<close>

text \<open>
  After any use of a fresh registry, the limiters of two providers are distinct
  objects, each with the registry's rate and burst (the defaults for zero), and a provider
  that was deleted gets a limiter that no provider had when it was deleted.
\<close>

theorem limiters_separate_providers:
  fixes r :: rat and b :: int and ops :: "registry_op list"
  assumes "k \<noteq> k'"
  defines "reg \<equiv> registry_run (newLimiters r b) ops"
  shows "lim_id (fst (Limiters_Get reg k)) \<noteq> lim_id (fst (Limiters_Get (snd (Limiters_Get reg k)) k'))
    \<and> lim_rate (fst (Limiters_Get reg k)) = (if r = 0 then 5 else r)
    \<and> lim_burst (fst (Limiters_Get reg k)) = (if b = 0 then 10 else b)
    \<and> Limiters_lookup reg j \<noteq> Some (fst (Limiters_Get (Limiters_Delete reg k) k))"
proof -
  have wf: "Limiters_wf reg" unfolding reg_def by (simp add: registry_run_keeps Limiters_wf_new)
  have budget: "Limiters_rate reg = (if r = 0 then 5 else r)" "Limiters_burst reg = (if b = 0 then 10 else b)"
    unfolding reg_def registry_run_keeps
    by (simp_all add: Limiters_rate_def Limiters_burst_def newLimiters_def DefaultRate_def DefaultBurst_def)
  let ?reg1 = "snd (Limiters_Get reg k)"
  have "Limiters_lookup (snd (Limiters_Get ?reg1 k')) k = Some (fst (Limiters_Get reg k))"
      "Limiters_lookup (snd (Limiters_Get ?reg1 k')) k' = Some (fst (Limiters_Get ?reg1 k'))"
    using assms(1) by (simp_all add: Limiters_lookup_Get)
  then have "lim_id (fst (Limiters_Get reg k)) \<noteq> lim_id (fst (Limiters_Get ?reg1 k'))"
    using Limiters_wf_distinct[OF Limiters_wf_Get[OF Limiters_wf_Get[OF wf]]] assms(1) by blast
  moreover have "lim_rate (fst (Limiters_Get reg k)) = Limiters_rate reg"
      "lim_burst (fst (Limiters_Get reg k)) = Limiters_burst reg"
    using wf by (auto simp: Limiters_Get_result Limiters_wf_def split: option.splits)
  moreover have "Limiters_lookup reg j \<noteq> Some (fst (Limiters_Get (Limiters_Delete reg k) k))"
    using Limiters_wf_id[OF wf, of j] by (auto simp: Limiters_Get_result Limiters_lookup_Delete)
  ultimately show ?thesis by (simp add: budget)
qed

theorem limiters_separate_providers_witness:
  "lim_id (fst (Limiters_Get (registry_run (newLimiters 0 3) [RGet ''corp'']) ''corp'')) \<noteq>
   lim_id (fst (Limiters_Get (snd (Limiters_Get (registry_run (newLimiters 0 3) [RGet ''corp'']) ''corp'')) ''lab''))"
  using limiters_separate_providers[of "''corp''" "''lab''" 0 3 "[RGet ''corp'']"] by simp

end
