(* ===== verification/Metrics.thy ===== *)
theory Metrics
  imports Api_Types
begin

text \<open>
  The collectors of \<open>internal/metrics/metrics.go\<close>: two counter vectors, a gauge vector
  and a histogram vector, each indexed by its label values. A counter holds a natural
  number, the gauge the last value set for a label triple, and the histogram the
  durations observed, in the order they were observed (in nanoseconds; the code divides
  by a second when it observes).
\<close>

record metrics =
  SyncTotal :: "string \<times> string \<Rightarrow> nat"
  SyncDuration :: "string \<Rightarrow> duration list"
  LDAPErrorsTotal :: "string \<Rightarrow> nat"
  MembersCount :: "string \<times> string \<times> string \<Rightarrow> nat option"

definition emptyMetrics :: metrics where
  "emptyMetrics = \<lparr>SyncTotal = (\<lambda>_. 0), SyncDuration = (\<lambda>_. []), LDAPErrorsTotal = (\<lambda>_. 0),
     MembersCount = (\<lambda>_. None)\<rparr>"

definition SyncTotal_Inc :: "string \<Rightarrow> string \<Rightarrow> metrics \<Rightarrow> metrics" where
  "SyncTotal_Inc kind result m =
     m\<lparr>SyncTotal := (SyncTotal m)((kind, result) := Suc (SyncTotal m (kind, result)))\<rparr>"

definition LDAPErrorsTotal_Inc :: "string \<Rightarrow> metrics \<Rightarrow> metrics" where
  "LDAPErrorsTotal_Inc provider m =
     m\<lparr>LDAPErrorsTotal := (LDAPErrorsTotal m)(provider := Suc (LDAPErrorsTotal m provider))\<rparr>"

definition MembersCount_Set :: "string \<Rightarrow> string \<Rightarrow> string \<Rightarrow> nat \<Rightarrow> metrics \<Rightarrow> metrics" where
  "MembersCount_Set kind namespace name v m =
     m\<lparr>MembersCount := (MembersCount m)((kind, namespace, name) := Some v)\<rparr>"

definition SyncDuration_Observe :: "string \<Rightarrow> duration \<Rightarrow> metrics \<Rightarrow> metrics" where
  "SyncDuration_Observe kind d m =
     m\<lparr>SyncDuration := (SyncDuration m)(kind := SyncDuration m kind @ [d])\<rparr>"

lemmas metrics_defs =
  SyncTotal_Inc_def LDAPErrorsTotal_Inc_def MembersCount_Set_def SyncDuration_Observe_def

end
