(* ===== verification/Environment.thy ===== *)
theory Environment
  imports Ratelimit Metrics
begin

text \<open>
  What the operator calls but does not contain. The Kubernetes API client, the clock, the
  go-ldap library and a few helper functions are fields of the record \<open>env\<close>: parameters of
  every definition that uses them. A call that reaches outside the process takes the
  external world of type \<open>'w\<close>, of which nothing is known, and returns a new one.

  The operator's own state \<open>op_state\<close> holds that world, the metrics, the rate-limiter
  registries (addressed, since two components point to the same one) and a trace of the
  external calls, events and log lines in the order the code makes them. The trace is
  what the safety theorems speak about: that a write to the API server or a bind to a
  directory is never issued needs no assumption about how the server answers.

  What the code relies on from outside is stated at the end as predicates on \<open>env\<close>,
  which theorems take as hypotheses.
\<close>

section \<open>Data of the go-ldap, TLS and context libraries\<close>

type_synonym certpool = "string list"

record tls_Config =
  tls_RootCAs :: "certpool option"
  tls_ServerName :: string
  tls_InsecureSkipVerify :: bool

text \<open>\<open>&tls.Config{}\<close>.\<close>

definition zero_tls_Config :: tls_Config where
  "zero_tls_Config = \<lparr>tls_RootCAs = None, tls_ServerName = [], tls_InsecureSkipVerify = False\<rparr>"

type_synonym conn = nat

record Entry =
  e_DN :: string
  e_Attributes :: "(string \<times> string list) list"

record SearchRequest =
  sr_BaseDN :: string
  sr_Scope :: nat
  sr_DerefAliases :: nat
  sr_SizeLimit :: nat
  sr_TimeLimit :: nat
  sr_TypesOnly :: bool
  sr_Filter :: string
  sr_Attributes :: "string list"

record SearchResult =
  res_Entries :: "Entry list"
  res_Referrals :: "string list"

definition ScopeBaseObject :: nat where "ScopeBaseObject = 0"
definition ScopeWholeSubtree :: nat where "ScopeWholeSubtree = 2"
definition NeverDerefAliases :: nat where "NeverDerefAliases = 0"
definition LDAPResultReferral :: nat where "LDAPResultReferral = 10"
definition LDAPResultNoSuchObject :: nat where "LDAPResultNoSuchObject = 32"

text \<open>\<open>ldap.NewSearchRequest\<close> with the arguments the client passes.\<close>

definition NewSearchRequest :: "string \<Rightarrow> nat \<Rightarrow> string \<Rightarrow> string list \<Rightarrow> SearchRequest" where
  "NewSearchRequest base scope fltr attrs =
     \<lparr>sr_BaseDN = base, sr_Scope = scope, sr_DerefAliases = NeverDerefAliases, sr_SizeLimit = 0,
      sr_TimeLimit = 0, sr_TypesOnly = False, sr_Filter = fltr, sr_Attributes = attrs\<rparr>"

record Context =
  ctx_Deadline :: "time option"

section \<open>The parameters\<close>

datatype ListOption = MatchingFields string string | InNamespace string | Limit nat

record ('w, 'o) kclient =
  k_Get :: "ObjectKey \<Rightarrow> 'w \<Rightarrow> (error + 'o) \<times> 'w"
  k_List :: "ListOption list \<Rightarrow> 'w \<Rightarrow> (error + 'o list) \<times> 'w"
  k_Create :: "'o \<Rightarrow> 'w \<Rightarrow> (error + 'o) \<times> 'w"
  k_Update :: "'o \<Rightarrow> 'w \<Rightarrow> (error + 'o) \<times> 'w"
  k_Delete :: "'o \<Rightarrow> 'w \<Rightarrow> error option \<times> 'w"
  k_StatusUpdate :: "'o \<Rightarrow> 'w \<Rightarrow> (error + 'o) \<times> 'w"

record 'w env =
  rgb_client :: "('w, RBACGroupBinding) kclient"
  crgb_client :: "('w, ClusterRBACGroupBinding) kclient"
  lp_client :: "('w, LDAPProvider) kclient"
  rb_client :: "('w, RoleBinding) kclient"
  crb_client :: "('w, ClusterRoleBinding) kclient"
  secret_client :: "('w, Secret) kclient"
  time_Now :: "'w \<Rightarrow> time"
  apierrors_IsNotFound :: "error \<Rightarrow> bool"
  meta_SetStatusCondition :: "Condition list \<Rightarrow> Condition \<Rightarrow> 'w \<Rightarrow> Condition list"
  controllerutil_SetControllerReference :: "object \<Rightarrow> ObjectMeta \<Rightarrow> error + ObjectMeta"
  controllerutil_ContainsFinalizer :: "ObjectMeta \<Rightarrow> string \<Rightarrow> bool"
  controllerutil_AddFinalizer :: "ObjectMeta \<Rightarrow> string \<Rightarrow> ObjectMeta"
  controllerutil_RemoveFinalizer :: "ObjectMeta \<Rightarrow> string \<Rightarrow> ObjectMeta"
  equality_DeepEqual :: "OwnerReference list \<Rightarrow> OwnerReference list \<Rightarrow> bool"
  ldap_DialURL :: "string \<Rightarrow> tls_Config option \<Rightarrow> 'w \<Rightarrow> (error + conn) \<times> 'w"
  ldap_Bind :: "conn \<Rightarrow> string \<Rightarrow> string \<Rightarrow> 'w \<Rightarrow> error option \<times> 'w"
  ldap_StartTLS :: "conn \<Rightarrow> tls_Config \<Rightarrow> 'w \<Rightarrow> error option \<times> 'w"
  ldap_SetTimeout :: "conn \<Rightarrow> duration \<Rightarrow> 'w \<Rightarrow> unit \<times> 'w"
  ldap_Search :: "conn \<Rightarrow> SearchRequest \<Rightarrow> 'w \<Rightarrow> (error + SearchResult) \<times> 'w"
  ldap_SearchWithPaging :: "conn \<Rightarrow> SearchRequest \<Rightarrow> uint32 \<Rightarrow> 'w \<Rightarrow> (error + SearchResult) \<times> 'w"
  ldap_Close :: "conn \<Rightarrow> 'w \<Rightarrow> error option \<times> 'w"
  ldap_EscapeFilter :: "string \<Rightarrow> string"
  ldap_IsErrorWithCode :: "error \<Rightarrow> nat \<Rightarrow> bool"
  ldap_GetAttributeValues :: "Entry \<Rightarrow> string \<Rightarrow> string list"
  ldap_GetAttributeValue :: "Entry \<Rightarrow> string \<Rightarrow> string"
  limiter_Wait :: "limiter \<Rightarrow> Context \<Rightarrow> 'w \<Rightarrow> error option \<times> 'w"
  x509_AppendCertsFromPEM :: "certpool \<Rightarrow> string \<Rightarrow> bool \<times> certpool"
  strconv_Quote :: "string \<Rightarrow> string"

section \<open>The operator's state and its trace\<close>

datatype EventType = EventTypeNormal | EventTypeWarning

text \<open>
  One entry per external call that the theorems speak about, with the outcome where the
  code depends on it. The last argument of a write is whether the server accepted it.
\<close>

datatype action =
    AGet string ObjectKey
  | AList string "ListOption list"
  | ACreate object bool
  | AUpdate object bool
  | ADelete object bool
  | AStatusUpdate object bool
  | AEvent object EventType string string string
  | ALog string "string list"
  | AWait limiter bool
  | ADial string "tls_Config option" "conn option"
  | AStartTLS conn tls_Config bool
  | ASetTimeout conn duration
  | ABind conn string string bool
  | ASearch conn SearchRequest
  | ASearchPaged conn SearchRequest uint32
  | AClose conn

record 'w op_state =
  os_world :: 'w
  os_trace :: "action list"
  os_metrics :: metrics
  os_registries :: "nat \<Rightarrow> Limiters"

text \<open>An external call: the world moves and the call is recorded.\<close>

definition call :: "('a \<Rightarrow> action) \<Rightarrow> ('w \<Rightarrow> 'a \<times> 'w) \<Rightarrow> ('w op_state, 'a) state" where
  "call act f = State (\<lambda>s. case f (os_world s) of
     (x, w) \<Rightarrow> (x, s\<lparr>os_world := w, os_trace := os_trace s @ [act x]\<rparr>))"

text \<open>An output of the operator that has no answer: an event or a log line.\<close>

definition emit :: "action \<Rightarrow> ('w op_state, unit) state" where
  "emit a = State (\<lambda>s. ((), s\<lparr>os_trace := os_trace s @ [a]\<rparr>))"

definition Log :: "string \<Rightarrow> string list \<Rightarrow> ('w op_state, unit) state" where
  "Log msg args = emit (ALog msg args)"

text \<open>Reading the clock, and what \<open>SetStatusCondition\<close> reads of it.\<close>

definition observe :: "('w \<Rightarrow> 'a) \<Rightarrow> ('w op_state, 'a) state" where
  "observe f = State (\<lambda>s. (f (os_world s), s))"

definition Now :: "'w env \<Rightarrow> ('w op_state, time) state" where
  "Now E = observe (time_Now E)"

definition metric :: "(metrics \<Rightarrow> metrics) \<Rightarrow> ('w op_state, unit) state" where
  "metric f = State (\<lambda>s. ((), s\<lparr>os_metrics := f (os_metrics s)\<rparr>))"

definition accepted :: "error + 'a \<Rightarrow> bool" where
  "accepted r = (case r of Inl _ \<Rightarrow> False | Inr _ \<Rightarrow> True)"

lemma accepted_simps: "\<not> accepted (Inl e)" "accepted (Inr x)"
  by (simp_all add: accepted_def)

definition clientGet :: "string \<Rightarrow> ('w, 'o) kclient \<Rightarrow> ObjectKey \<Rightarrow> ('w op_state, error + 'o) state"
  where "clientGet kind K key = call (\<lambda>_. AGet kind key) (k_Get K key)"

definition clientList ::
  "string \<Rightarrow> ('w, 'o) kclient \<Rightarrow> ListOption list \<Rightarrow> ('w op_state, error + 'o list) state"
  where "clientList kind K opts = call (\<lambda>_. AList kind opts) (k_List K opts)"

definition clientCreate ::
  "('o \<Rightarrow> object) \<Rightarrow> ('w, 'o) kclient \<Rightarrow> 'o \<Rightarrow> ('w op_state, error + 'o) state"
  where "clientCreate wrap K x = call (\<lambda>r. ACreate (wrap x) (accepted r)) (k_Create K x)"

definition clientUpdate ::
  "('o \<Rightarrow> object) \<Rightarrow> ('w, 'o) kclient \<Rightarrow> 'o \<Rightarrow> ('w op_state, error + 'o) state"
  where "clientUpdate wrap K x = call (\<lambda>r. AUpdate (wrap x) (accepted r)) (k_Update K x)"

definition clientDelete ::
  "('o \<Rightarrow> object) \<Rightarrow> ('w, 'o) kclient \<Rightarrow> 'o \<Rightarrow> ('w op_state, error option) state"
  where "clientDelete wrap K x = call (\<lambda>r. ADelete (wrap x) (r = None)) (k_Delete K x)"

definition clientStatusUpdate ::
  "('o \<Rightarrow> object) \<Rightarrow> ('w, 'o) kclient \<Rightarrow> 'o \<Rightarrow> ('w op_state, error + 'o) state"
  where "clientStatusUpdate wrap K x =
    call (\<lambda>r. AStatusUpdate (wrap x) (accepted r)) (k_StatusUpdate K x)"

definition connClose :: "'w env \<Rightarrow> conn \<Rightarrow> ('w op_state, error option) state" where
  "connClose E c = call (\<lambda>_. AClose c) (ldap_Close E c)"

definition connBind :: "'w env \<Rightarrow> conn \<Rightarrow> string \<Rightarrow> string \<Rightarrow> ('w op_state, error option) state" where
  "connBind E c dn pw = call (\<lambda>r. ABind c dn pw (r = None)) (ldap_Bind E c dn pw)"

definition connStartTLS :: "'w env \<Rightarrow> conn \<Rightarrow> tls_Config \<Rightarrow> ('w op_state, error option) state" where
  "connStartTLS E c cfg = call (\<lambda>r. AStartTLS c cfg (r = None)) (ldap_StartTLS E c cfg)"

definition connSetTimeout :: "'w env \<Rightarrow> conn \<Rightarrow> duration \<Rightarrow> ('w op_state, unit) state" where
  "connSetTimeout E c d = call (\<lambda>_. ASetTimeout c d) (ldap_SetTimeout E c d)"

definition connSearch ::
  "'w env \<Rightarrow> conn \<Rightarrow> SearchRequest \<Rightarrow> ('w op_state, error + SearchResult) state" where
  "connSearch E c req = call (\<lambda>_. ASearch c req) (ldap_Search E c req)"

definition connSearchWithPaging ::
  "'w env \<Rightarrow> conn \<Rightarrow> SearchRequest \<Rightarrow> uint32 \<Rightarrow> ('w op_state, error + SearchResult) state" where
  "connSearchWithPaging E c req n =
     call (\<lambda>_. ASearchPaged c req n) (ldap_SearchWithPaging E c req n)"

definition DialURL ::
  "'w env \<Rightarrow> string \<Rightarrow> tls_Config option \<Rightarrow> ('w op_state, error + conn) state" where
  "DialURL E url opts =
     call (\<lambda>r. ADial url opts (case r of Inl _ \<Rightarrow> None | Inr c \<Rightarrow> Some c)) (ldap_DialURL E url opts)"

definition limiterWait :: "'w env \<Rightarrow> limiter \<Rightarrow> Context \<Rightarrow> ('w op_state, error option) state" where
  "limiterWait E x ctx = call (\<lambda>r. AWait x (r = None)) (limiter_Wait E x ctx)"

text \<open>
  The actions that change something in the cluster, and the ones that talk to a directory
  (the rate limiter and the log included).
\<close>

fun api_write :: "action \<Rightarrow> bool" where
  "api_write (ACreate _ _) = True"
| "api_write (AUpdate _ _) = True"
| "api_write (ADelete _ _) = True"
| "api_write (AStatusUpdate _ _) = True"
| "api_write _ = False"

fun directory_action :: "action \<Rightarrow> bool" where
  "directory_action (ALog _ _) = True"
| "directory_action (AWait _ _) = True"
| "directory_action (ADial _ _ _) = True"
| "directory_action (AStartTLS _ _ _) = True"
| "directory_action (ASetTimeout _ _) = True"
| "directory_action (ABind _ _ _ _) = True"
| "directory_action (ASearch _ _) = True"
| "directory_action (ASearchPaged _ _ _) = True"
| "directory_action (AClose _) = True"
| "directory_action _ = False"

section \<open>Running the primitive steps\<close>

lemmas call_defs =
  clientGet_def clientList_def clientCreate_def clientUpdate_def clientDelete_def
  clientStatusUpdate_def connClose_def connBind_def connStartTLS_def connSetTimeout_def
  connSearch_def connSearchWithPaging_def DialURL_def limiterWait_def

lemma post_call [simp]:
  "post (call act f) s Q \<longleftrightarrow>
     (case f (os_world s) of (x, w) \<Rightarrow> Q x (s\<lparr>os_world := w, os_trace := os_trace s @ [act x]\<rparr>))"
  by (simp add: post_def call_def split: prod.splits)

lemma post_emit [simp]: "post (emit a) s Q \<longleftrightarrow> Q () (s\<lparr>os_trace := os_trace s @ [a]\<rparr>)"
  by (simp add: post_def emit_def)

lemma post_observe [simp]: "post (observe f) s Q \<longleftrightarrow> Q (f (os_world s)) s"
  by (simp add: post_def observe_def)

lemma post_metric [simp]:
  "post (metric f) s Q \<longleftrightarrow> Q () (s\<lparr>os_metrics := f (os_metrics s)\<rparr>)"
  by (simp add: post_def metric_def)

section \<open>What a run adds to the trace\<close>

text \<open>
  \<open>emits R m\<close>: a run of \<open>m\<close> appends some actions to the trace, and the value it returns
  and these actions are related by \<open>R\<close>. The weaker \<open>only P m\<close> says each of them
  satisfies \<open>P\<close>.
\<close>

definition emits :: "('a \<Rightarrow> action list \<Rightarrow> bool) \<Rightarrow> ('w op_state, 'a) state \<Rightarrow> bool" where
  "emits R m \<longleftrightarrow> (\<forall>s. \<exists>as. os_trace (snd (run_state m s)) = os_trace s @ as \<and>
                           R (fst (run_state m s)) as)"

abbreviation only :: "(action \<Rightarrow> bool) \<Rightarrow> ('w op_state, 'a) state \<Rightarrow> bool" where
  "only P m \<equiv> emits (\<lambda>_. list_all P) m"

named_theorems only_intro \<open>the actions an operation can add to the trace\<close>

lemma emits_run:
  assumes "emits R m" and "run_state m s = (x, t)"
  obtains "as" where "os_trace t = os_trace s @ as" and "R x as"
  using assms unfolding emits_def by (metis fst_conv snd_conv)

lemma emits_post: "emits R m \<longleftrightarrow> (\<forall>s. post m s (\<lambda>x t. \<exists>as. os_trace t = os_trace s @ as \<and> R x as))"
  by (simp add: emits_def post_run)

lemma emits_ret: "R x [] \<Longrightarrow> emits R (ret x)"
  by (simp add: emits_def)

lemma emits_bind:
  assumes "emits R m" and "\<And>x. emits (S x) (f x)"
    and "\<And>x as y bs. R x as \<Longrightarrow> S x y bs \<Longrightarrow> T y (as @ bs)"
  shows "emits T (State_Monad.bind m f)"
  unfolding emits_def
proof
  fix s
  obtain x t where m: "run_state m s = (x, t)" by (cases "run_state m s")
  obtain y u where f: "run_state (f x) t = (y, u)" by (cases "run_state (f x) t")
  obtain "as" where "os_trace t = os_trace s @ as" "R x as"
    using assms(1) m by (rule emits_run)
  moreover obtain bs where "os_trace u = os_trace t @ bs" "S x y bs"
    using assms(2) f by (rule emits_run)
  ultimately show "\<exists>cs. os_trace (snd (run_state (State_Monad.bind m f) s)) = os_trace s @ cs
      \<and> T (fst (run_state (State_Monad.bind m f) s)) cs"
    using assms(3) m f by auto
qed

lemma emits_mono: "emits R m \<Longrightarrow> (\<And>x as. R x as \<Longrightarrow> S x as) \<Longrightarrow> emits S m"
  unfolding emits_def by metis

lemma emits_call: "(\<And>x. R x [act x]) \<Longrightarrow> emits R (call act f)"
  by (auto simp: emits_def call_def split: prod.splits)

lemma emits_emit: "R () [a] \<Longrightarrow> emits R (emit a)"
  by (auto simp: emits_def emit_def)

lemma emits_observe: "(\<And>x. R x []) \<Longrightarrow> emits R (observe f)"
  by (auto simp: emits_def observe_def)

lemma emits_metric: "R () [] \<Longrightarrow> emits R (metric f)"
  by (auto simp: emits_def metric_def)

lemma only_ret [only_intro]: "only P (ret x)"
  by (simp add: emits_ret)

lemma only_bind [only_intro]:
  "only P m \<Longrightarrow> (\<And>x. only P (f x)) \<Longrightarrow> only P (State_Monad.bind m f)"
  by (erule emits_bind) auto

lemma only_call [only_intro]: "(\<And>x. P (act x)) \<Longrightarrow> only P (call act f)"
  by (simp add: emits_call)

lemma only_emit [only_intro]: "P a \<Longrightarrow> only P (emit a)"
  by (simp add: emits_emit)

lemma only_observe [only_intro]: "only P (observe f)"
  by (simp add: emits_observe)

lemma only_metric [only_intro]: "only P (metric f)"
  by (simp add: emits_metric)

lemma only_sum [only_intro]:
  "(\<And>e. x = Inl e \<Longrightarrow> only P (g e)) \<Longrightarrow> (\<And>y. x = Inr y \<Longrightarrow> only P (h y)) \<Longrightarrow>
   only P (case x of Inl e \<Rightarrow> g e | Inr y \<Rightarrow> h y)"
  by (cases x) simp_all

lemma only_option [only_intro]:
  "only P n \<Longrightarrow> (\<And>y. x = Some y \<Longrightarrow> only P (h y)) \<Longrightarrow>
   only P (case x of None \<Rightarrow> n | Some y \<Rightarrow> h y)"
  by (cases x) simp_all

lemma only_list [only_intro]:
  "only P n \<Longrightarrow> (\<And>y ys. x = y # ys \<Longrightarrow> only P (h y ys)) \<Longrightarrow>
   only P (case x of [] \<Rightarrow> n | y # ys \<Rightarrow> h y ys)"
  by (cases x) simp_all

lemma only_if [only_intro]:
  "(b \<Longrightarrow> only P m) \<Longrightarrow> (\<not> b \<Longrightarrow> only P n) \<Longrightarrow> only P (if b then m else n)"
  by simp

section \<open>What the code relies on from outside\<close>

text \<open>
  \<open>meta.SetStatusCondition\<close>: the condition of the new condition's type becomes the new
  one (its transition time apart), every other condition stays as it was.
\<close>

definition same_condition :: "Condition \<Rightarrow> Condition \<Rightarrow> bool" where
  "same_condition c d \<longleftrightarrow> c_Type c = c_Type d \<and> c_Status c = c_Status d \<and>
     c_Reason c = c_Reason d \<and> c_Message c = c_Message d"

definition SetStatusCondition_ok :: "'w env \<Rightarrow> bool" where
  "SetStatusCondition_ok E \<longleftrightarrow>
     (\<forall>cs c w. (\<exists>d. findCondition (meta_SetStatusCondition E cs c w) (c_Type c) = Some d \<and>
                    same_condition d c) \<and>
        (\<forall>t. t \<noteq> c_Type c \<longrightarrow>
           findCondition (meta_SetStatusCondition E cs c w) t = findCondition cs t))"

text \<open>The finalizer helpers of \<open>controllerutil\<close>: a set of names on the object.\<close>

definition finalizers_ok :: "'w env \<Rightarrow> bool" where
  "finalizers_ok E \<longleftrightarrow>
     (\<forall>m f. controllerutil_ContainsFinalizer E m f \<longleftrightarrow> f \<in> set (om_Finalizers m)) \<and>
     (\<forall>m f. controllerutil_AddFinalizer E m f =
        (if f \<in> set (om_Finalizers m) then m else m\<lparr>om_Finalizers := om_Finalizers m @ [f]\<rparr>)) \<and>
     (\<forall>m f. controllerutil_RemoveFinalizer E m f =
        m\<lparr>om_Finalizers := filter (\<lambda>g. g \<noteq> f) (om_Finalizers m)\<rparr>)"

text \<open>
  The API server's answers for one kind of object, over the objects it stores (\<open>sto\<close>).
  A read returns what is stored under the key, or an error that is a NotFound only when nothing is
  stored; it changes nothing. A rejected write changes nothing. An accepted write stores
  an object that agrees with the one sent in what the operator sets (\<open>agree\<close>): the
  server fills in its own fields. Other kinds of objects are out of its reach, which
  the theorems that need it say separately.
\<close>

definition kclient_ok ::
  "'w env \<Rightarrow> ('w, 'o) kclient \<Rightarrow> ('o \<Rightarrow> ObjectMeta) \<Rightarrow> ('o \<Rightarrow> 'o \<Rightarrow> bool) \<Rightarrow>
   ('w \<Rightarrow> ObjectKey \<Rightarrow> 'o option) \<Rightarrow> bool" where
  "kclient_ok E K meta agree sto \<longleftrightarrow>
     (\<forall>key w. sto (snd (k_Get K key w)) = sto w \<and>
        (case fst (k_Get K key w) of
           Inl e \<Rightarrow> apierrors_IsNotFound E e \<longrightarrow> sto w key = None
         | Inr x \<Rightarrow> sto w key = Some x \<and> ObjectKeyFromObject (meta x) = key)) \<and>
     (\<forall>x w. case k_Create K x w of
        (Inl e, w') \<Rightarrow> sto w' = sto w
      | (Inr y, w') \<Rightarrow> agree x y \<and> sto w' = (sto w)(ObjectKeyFromObject (meta x) \<mapsto> y)) \<and>
     (\<forall>x w. case k_Update K x w of
        (Inl e, w') \<Rightarrow> sto w' = sto w
      | (Inr y, w') \<Rightarrow> agree x y \<and> sto w' = (sto w)(ObjectKeyFromObject (meta x) \<mapsto> y)) \<and>
     (\<forall>x w. case k_Delete K x w of
        (Some e, w') \<Rightarrow> sto w' = sto w
      | (None, w') \<Rightarrow> sto w' = (sto w)(ObjectKeyFromObject (meta x) := None))"

lemma kclient_okD:
  assumes "kclient_ok E K meta agree sto"
  shows "k_Get K k w = (Inr x, w') \<Longrightarrow>
      sto w' = sto w \<and> sto w k = Some x \<and> ObjectKeyFromObject (meta x) = k"
    and "k_Get K k w = (Inl e, w') \<Longrightarrow> sto w' = sto w \<and> (apierrors_IsNotFound E e \<longrightarrow> sto w k = None)"
    and "k_Create K x w = (Inl e, w') \<Longrightarrow> sto w' = sto w"
    and "k_Create K x w = (Inr y, w') \<Longrightarrow> agree x y \<and> sto w' = (sto w)(ObjectKeyFromObject (meta x) \<mapsto> y)"
    and "k_Update K x w = (Inl e, w') \<Longrightarrow> sto w' = sto w"
    and "k_Update K x w = (Inr y, w') \<Longrightarrow> agree x y \<and> sto w' = (sto w)(ObjectKeyFromObject (meta x) \<mapsto> y)"
    and "k_Delete K x w = (Some e, w') \<Longrightarrow> sto w' = sto w"
    and "k_Delete K x w = (None, w') \<Longrightarrow> sto w' = (sto w)(ObjectKeyFromObject (meta x) := None)"
proof -
  note ok = assms[unfolded kclient_ok_def]
  have get: "sto (snd (k_Get K k w)) = sto w \<and> (case fst (k_Get K k w) of
      Inl e \<Rightarrow> apierrors_IsNotFound E e \<longrightarrow> sto w k = None
    | Inr x \<Rightarrow> sto w k = Some x \<and> ObjectKeyFromObject (meta x) = k)"
    by (rule ok[THEN conjunct1, THEN spec, THEN spec])
  have create: "case k_Create K x w of (Inl e, w') \<Rightarrow> sto w' = sto w
      | (Inr y, w') \<Rightarrow> agree x y \<and> sto w' = (sto w)(ObjectKeyFromObject (meta x) \<mapsto> y)"
    by (rule ok[THEN conjunct2, THEN conjunct1, THEN spec, THEN spec])
  have update: "case k_Update K x w of (Inl e, w') \<Rightarrow> sto w' = sto w
      | (Inr y, w') \<Rightarrow> agree x y \<and> sto w' = (sto w)(ObjectKeyFromObject (meta x) \<mapsto> y)"
    by (rule ok[THEN conjunct2, THEN conjunct2, THEN conjunct1, THEN spec, THEN spec])
  have delete: "case k_Delete K x w of (Some e, w') \<Rightarrow> sto w' = sto w
      | (None, w') \<Rightarrow> sto w' = (sto w)(ObjectKeyFromObject (meta x) := None)"
    by (rule ok[THEN conjunct2, THEN conjunct2, THEN conjunct2, THEN spec, THEN spec])
  show "k_Get K k w = (Inr x, w') \<Longrightarrow>
      sto w' = sto w \<and> sto w k = Some x \<and> ObjectKeyFromObject (meta x) = k"
    "k_Get K k w = (Inl e, w') \<Longrightarrow> sto w' = sto w \<and> (apierrors_IsNotFound E e \<longrightarrow> sto w k = None)"
    using get by auto
  show "k_Create K x w = (Inl e, w') \<Longrightarrow> sto w' = sto w"
    "k_Create K x w = (Inr y, w') \<Longrightarrow> agree x y \<and> sto w' = (sto w)(ObjectKeyFromObject (meta x) \<mapsto> y)"
    using create by auto
  show "k_Update K x w = (Inl e, w') \<Longrightarrow> sto w' = sto w"
    "k_Update K x w = (Inr y, w') \<Longrightarrow> agree x y \<and> sto w' = (sto w)(ObjectKeyFromObject (meta x) \<mapsto> y)"
    using update by auto
  show "k_Delete K x w = (Some e, w') \<Longrightarrow> sto w' = sto w"
    "k_Delete K x w = (None, w') \<Longrightarrow> sto w' = (sto w)(ObjectKeyFromObject (meta x) := None)"
    using delete by auto
qed

lemma kclient_ok_mono:
  assumes "kclient_ok E K meta agree sto" and "\<And>x y. agree x y \<Longrightarrow> agree' x y"
  shows "kclient_ok E K meta agree' sto"
  unfolding kclient_ok_def
proof (intro conjI)
  show "\<forall>x w. case k_Create K x w of (Inl e, w') \<Rightarrow> sto w' = sto w
      | (Inr y, w') \<Rightarrow> agree' x y \<and> sto w' = (sto w)(ObjectKeyFromObject (meta x) \<mapsto> y)"
    using assms(2) by (auto split: prod.splits sum.splits dest!: kclient_okD(3,4)[OF assms(1)])
  show "\<forall>x w. case k_Update K x w of (Inl e, w') \<Rightarrow> sto w' = sto w
      | (Inr y, w') \<Rightarrow> agree' x y \<and> sto w' = (sto w)(ObjectKeyFromObject (meta x) \<mapsto> y)"
    using assms(2) by (auto split: prod.splits sum.splits dest!: kclient_okD(5,6)[OF assms(1)])
qed (use assms(1) in \<open>simp_all add: kclient_ok_def\<close>)

text \<open>
  A list call reads a cache: \<open>sto\<close> is what the cache holds of the kind, and \<open>idx\<close> the field
  index registered for it. The answer holds objects that every option selects, all of them
  when no limit is asked for, and at least one of them otherwise.
\<close>

fun selects :: "('o \<Rightarrow> ObjectMeta) \<Rightarrow> ('o \<Rightarrow> string \<Rightarrow> string list) \<Rightarrow> 'o \<Rightarrow> ListOption \<Rightarrow> bool" where
  "selects meta idx x (MatchingFields f v) \<longleftrightarrow> v \<in> set (idx x f)"
| "selects meta idx x (InNamespace ns) \<longleftrightarrow> om_Namespace (meta x) = ns"
| "selects meta idx x (Limit n) \<longleftrightarrow> True"

fun is_limit :: "ListOption \<Rightarrow> bool" where
  "is_limit (Limit n) \<longleftrightarrow> True"
| "is_limit _ \<longleftrightarrow> False"

definition selected ::
  "('o \<Rightarrow> ObjectMeta) \<Rightarrow> ('o \<Rightarrow> string \<Rightarrow> string list) \<Rightarrow> ListOption list \<Rightarrow> 'o set \<Rightarrow> 'o set" where
  "selected meta idx opts S = {x \<in> S. list_all (selects meta idx x) opts}"

definition klist_ok ::
  "('w, 'o) kclient \<Rightarrow> ('o \<Rightarrow> ObjectMeta) \<Rightarrow> ('o \<Rightarrow> string \<Rightarrow> string list) \<Rightarrow> ('w \<Rightarrow> 'o set) \<Rightarrow> bool" where
  "klist_ok K meta idx sto \<longleftrightarrow> (\<forall>opts w xs w'. k_List K opts w = (Inr xs, w') \<longrightarrow>
     set xs \<subseteq> selected meta idx opts (sto w) \<and>
     (list_ex is_limit opts \<or> set xs = selected meta idx opts (sto w)) \<and>
     (xs = [] \<longrightarrow> selected meta idx opts (sto w) = {}))"

lemma klist_okD:
  assumes "klist_ok K meta idx sto" and "k_List K opts w = (Inr xs, w')"
  shows "\<not> list_ex is_limit opts \<Longrightarrow> set xs = selected meta idx opts (sto w)"
    and "xs = [] \<Longrightarrow> x \<in> sto w \<Longrightarrow> \<not> list_all (selects meta idx x) opts"
proof -
  have ok: "list_ex is_limit opts \<or> set xs = selected meta idx opts (sto w)"
    "xs = [] \<longrightarrow> selected meta idx opts (sto w) = {}"
    using assms unfolding klist_ok_def by metis+
  then show "\<not> list_ex is_limit opts \<Longrightarrow> set xs = selected meta idx opts (sto w)"
    "xs = [] \<Longrightarrow> x \<in> sto w \<Longrightarrow> \<not> list_all (selects meta idx x) opts"
    by (auto simp: selected_def)
qed

lemma klist_answer:
  assumes "klist_ok K meta idx sto" and "k_List K opts w = (Inr xs, w')"
  shows "xs = [] \<longleftrightarrow> \<not> (\<exists>x \<in> sto w. list_all (selects meta idx x) opts)"
proof -
  have "set xs \<subseteq> selected meta idx opts (sto w)" "xs = [] \<longrightarrow> selected meta idx opts (sto w) = {}"
    using assms unfolding klist_ok_def by metis+
  then show ?thesis by (cases xs) (auto simp: selected_def)
qed

end
