(* ===== verification/Ldap_Client.thy ===== *)
theory Ldap_Client
  imports Environment
begin

text \<open>
  The package \<open>internal/ldapclient\<close>: the directory client of \<open>client.go\<close>, the interfaces
  of \<open>grouper.go\<close> and the in-memory \<open>fake.Grouper\<close>. The go-ldap connection is the
  interface \<open>ldapConn\<close> of the source, whose methods are parameters; every dial, TLS
  upgrade, bind, search and close is an entry of the trace, so that the theorems can say
  in which order they happen and that each connection opened is closed.
\<close>

section \<open>Configuration\<close>

definition DefaultPageSize :: uint32 where "DefaultPageSize = 1000"

definition MatchingRuleInChainOID :: string where
  "MatchingRuleInChainOID = ''1.2.840.113556.1.4.1941''"

record Config =
  cfg_URL :: string
  cfg_BindDN :: string
  cfg_BindPassword :: string
  cfg_InsecureSkipTLS :: bool
  cfg_TLSConfig :: "tls_Config option"
  cfg_UserSearchBase :: string
  cfg_GroupSearchBase :: string
  cfg_UsernameAttribute :: string
  cfg_DirectoryType :: DirectoryType
  cfg_PageSize :: uint32
  cfg_Limiter :: "limiter option"

definition pageSize :: "Config \<Rightarrow> uint32" where
  "pageSize cfg = (if cfg_PageSize cfg = 0 then DefaultPageSize else cfg_PageSize cfg)"

definition tlsConfig :: "Config \<Rightarrow> tls_Config" where
  "tlsConfig cfg = (case cfg_TLSConfig cfg of Some t \<Rightarrow> t | None \<Rightarrow> zero_tls_Config)"

section \<open>Connecting\<close>

definition isLDAPS :: "Config \<Rightarrow> bool" where
  "isLDAPS cfg \<longleftrightarrow> HasPrefix (cfg_URL cfg) ''ldaps://''"

definition dialOpts :: "Config \<Rightarrow> tls_Config option" where
  "dialOpts cfg = (if isLDAPS cfg then Some (tlsConfig cfg) else None)"

definition dial :: "'w env \<Rightarrow> Config \<Rightarrow> ('w op_state, error + conn) state" where
  "dial E cfg = do {
     r \<leftarrow> DialURL E (cfg_URL cfg) (dialOpts cfg);
     case r of
       Inl err \<Rightarrow> ret (Inl err)
     | Inr conn \<Rightarrow>
         if \<not> isLDAPS cfg \<and> \<not> cfg_InsecureSkipTLS cfg
         then do {
           t \<leftarrow> connStartTLS E conn (tlsConfig cfg);
           case t of
             Some err \<Rightarrow> do {
               _ \<leftarrow> connClose E conn;
               ret (Inl (Errorf_w ''starttls: '' err []))
             }
           | None \<Rightarrow> ret (Inr conn)
         }
         else ret (Inr conn)
   }"

text \<open>The part of \<open>connectAndBind\<close> after a successful dial: the deadline and the bind.\<close>

definition bindConn ::
  "'w env \<Rightarrow> Config \<Rightarrow> Context \<Rightarrow> conn \<Rightarrow> ('w op_state, error + conn) state" where
  "bindConn E cfg ctx conn = do {
     _ \<leftarrow> (case ctx_Deadline ctx of
             None \<Rightarrow> ret ()
           | Some deadline \<Rightarrow> do {
               now \<leftarrow> Now E;
               connSetTimeout E conn (deadline - now)
             });
     b \<leftarrow> connBind E conn (cfg_BindDN cfg) (cfg_BindPassword cfg);
     case b of
       Some err \<Rightarrow> do {
         _ \<leftarrow> connClose E conn;
         ret (Inl (Errorf_w ''ldapclient: bind: '' err []))
       }
     | None \<Rightarrow> ret (Inr conn)
   }"

definition connectAndBind ::
  "'w env \<Rightarrow> Config \<Rightarrow> Context \<Rightarrow> ('w op_state, error + conn) state" where
  "connectAndBind E cfg ctx = do {
     w \<leftarrow> (case cfg_Limiter cfg of None \<Rightarrow> ret None | Some l \<Rightarrow> limiterWait E l ctx);
     case w of
       Some err \<Rightarrow> ret (Inl (Errorf_w ''ldapclient: rate limit: '' err []))
     | None \<Rightarrow> do {
         d \<leftarrow> dial E cfg;
         case d of
           Inl err \<Rightarrow> ret (Inl (Errorf_w ''ldapclient: dial: '' err []))
         | Inr conn \<Rightarrow> bindConn E cfg ctx conn
       }
   }"

definition Ping :: "'w env \<Rightarrow> Config \<Rightarrow> Context \<Rightarrow> ('w op_state, error option) state" where
  "Ping E cfg ctx = do {
     r \<leftarrow> connectAndBind E cfg ctx;
     case r of
       Inl err \<Rightarrow> ret (Some err)
     | Inr conn \<Rightarrow> do {
         _ \<leftarrow> connClose E conn;
         ret None
       }
   }"

section \<open>Searching\<close>

definition logReferrals :: "string \<Rightarrow> string \<Rightarrow> string list \<Rightarrow> ('w op_state, unit) state" where
  "logReferrals operation subjectDN referrals =
     (if referrals = [] then ret ()
      else Log ''directory returned referrals that will not be followed''
             (operation # subjectDN # referrals))"

definition logReferralChasingSkipped :: "string \<Rightarrow> string \<Rightarrow> ('w op_state, unit) state" where
  "logReferralChasingSkipped operation subjectDN =
     Log ''directory returned a referral instead of a result; referral chasing is not implemented''
       [operation, subjectDN]"

definition lookupGroup ::
  "'w env \<Rightarrow> conn \<Rightarrow> string \<Rightarrow> ('w op_state, error + Entry) state" where
  "lookupGroup E conn groupDN = do {
     r \<leftarrow> connSearch E conn
            (NewSearchRequest groupDN ScopeBaseObject ''(objectClass=*)'' [''member'', ''uniqueMember'']);
     case r of
       Inl err \<Rightarrow>
         if ldap_IsErrorWithCode E err LDAPResultNoSuchObject
         then ret (Inl (Errorf_w ''ldapclient: '' ErrGroupNotFound ('': '' @ groupDN)))
         else if ldap_IsErrorWithCode E err LDAPResultReferral
         then do {
           logReferralChasingSkipped ''group lookup'' groupDN;
           ret (Inl (Errorf_w (''ldapclient: lookup group '' @ groupDN @ '': directory returned a referral instead of a result, and referral chasing is not implemented: '') err []))
         }
         else ret (Inl (Errorf_w (''ldapclient: lookup group '' @ groupDN @ '': '') err []))
     | Inr result \<Rightarrow> do {
         logReferrals ''group lookup'' groupDN (res_Referrals result);
         case res_Entries result of
           [] \<Rightarrow> ret (Inl (Errorf_w ''ldapclient: '' ErrGroupNotFound ('': '' @ groupDN)))
         | entry # _ \<Rightarrow> ret (Inr entry)
       }
   }"

definition membershipFilter :: "'w env \<Rightarrow> Config \<Rightarrow> string \<Rightarrow> string" where
  "membershipFilter E cfg groupDN =
     (let dn = ldap_EscapeFilter E groupDN
      in if cfg_DirectoryType cfg = DirectoryTypeActiveDirectory
         then ''(memberOf:'' @ MatchingRuleInChainOID @ '':='' @ dn @ '')''
         else ''(memberOf='' @ dn @ '')'')"

text \<open>A skipped member (a stale DN, one behind a referral, an empty answer) is the empty name.\<close>

definition lookupUsername ::
  "'w env \<Rightarrow> Config \<Rightarrow> conn \<Rightarrow> string \<Rightarrow> ('w op_state, error + string) state" where
  "lookupUsername E cfg conn dn = do {
     r \<leftarrow> connSearch E conn
            (NewSearchRequest dn ScopeBaseObject ''(objectClass=*)'' [cfg_UsernameAttribute cfg]);
     case r of
       Inl err \<Rightarrow>
         if ldap_IsErrorWithCode E err LDAPResultNoSuchObject then ret (Inr [])
         else if ldap_IsErrorWithCode E err LDAPResultReferral
         then do {
           logReferralChasingSkipped ''member lookup'' dn;
           ret (Inr [])
         }
         else ret (Inl err)
     | Inr result \<Rightarrow> do {
         logReferrals ''member lookup'' dn (res_Referrals result);
         case res_Entries result of
           [] \<Rightarrow> ret (Inr [])
         | entry # _ \<Rightarrow> ret (Inr (ldap_GetAttributeValue E entry (cfg_UsernameAttribute cfg)))
       }
   }"

fun usernames :: "'w env \<Rightarrow> Entry list \<Rightarrow> string \<Rightarrow> string list" where
  "usernames E [] attr = []"
| "usernames E (e # es) attr =
     (let v = ldap_GetAttributeValue E e attr
      in if v \<noteq> [] then v # usernames E es attr else usernames E es attr)"

text \<open>The loop over the group entry's own member DNs.\<close>

fun resolveMemberDNs ::
  "'w env \<Rightarrow> Config \<Rightarrow> conn \<Rightarrow> string list \<Rightarrow> string list \<Rightarrow> ('w op_state, error + string list) state"
where
  "resolveMemberDNs E cfg conn [] members = ret (Inr members)"
| "resolveMemberDNs E cfg conn (dn # dns) members = do {
     r \<leftarrow> lookupUsername E cfg conn dn;
     case r of
       Inl err \<Rightarrow> ret (Inl (Errorf_w (''resolve member '' @ strconv_Quote E dn @ '': '') err []))
     | Inr username \<Rightarrow>
         resolveMemberDNs E cfg conn dns (if username \<noteq> [] then members @ [username] else members)
   }"

definition resolveMembers ::
  "'w env \<Rightarrow> Config \<Rightarrow> conn \<Rightarrow> string \<Rightarrow> Entry \<Rightarrow> ('w op_state, error + string list) state" where
  "resolveMembers E cfg conn groupDN groupEntry = do {
     r \<leftarrow> connSearchWithPaging E conn
            (NewSearchRequest (cfg_UserSearchBase cfg) ScopeWholeSubtree
               (membershipFilter E cfg groupDN) [cfg_UsernameAttribute cfg])
            (pageSize cfg);
     case r of
       Inl err \<Rightarrow> do {
         (if ldap_IsErrorWithCode E err LDAPResultReferral
          then logReferralChasingSkipped ''reverse membership query'' groupDN else ret ());
         ret (Inl (Errorf_w ''query members via memberOf: '' err []))
       }
     | Inr result \<Rightarrow> do {
         logReferrals ''reverse membership query'' groupDN (res_Referrals result);
         if res_Entries result \<noteq> []
         then ret (Inr (usernames E (res_Entries result) (cfg_UsernameAttribute cfg)))
         else do {
           let memberDNs = ldap_GetAttributeValues E groupEntry ''member'';
           let memberDNs = (if memberDNs = [] then ldap_GetAttributeValues E groupEntry ''uniqueMember''
                            else memberDNs);
           resolveMemberDNs E cfg conn memberDNs []
         }
       }
   }"

text \<open>\<open>defer conn.Close()\<close> runs after the body on each of its returns.\<close>

definition GetGroupMembers ::
  "'w env \<Rightarrow> Config \<Rightarrow> Context \<Rightarrow> string \<Rightarrow> ('w op_state, error + string list) state" where
  "GetGroupMembers E cfg ctx groupDN = do {
     c \<leftarrow> connectAndBind E cfg ctx;
     case c of
       Inl err \<Rightarrow> ret (Inl err)
     | Inr conn \<Rightarrow> do {
         r \<leftarrow> (do {
           g \<leftarrow> lookupGroup E conn groupDN;
           case g of
             Inl err \<Rightarrow> ret (Inl err)
           | Inr groupEntry \<Rightarrow> do {
               m \<leftarrow> resolveMembers E cfg conn groupDN groupEntry;
               case m of
                 Inl err \<Rightarrow> ret (Inl (Errorf_w (''ldapclient: resolve members for '' @ groupDN @ '': '') err []))
               | Inr members \<Rightarrow> ret (Inr (sort members))
             }
         });
         _ \<leftarrow> connClose E conn;
         ret r
       }
   }"

section \<open>The interfaces, and the fake implementation\<close>

type_synonym 'w Grouper = "Context \<Rightarrow> string \<Rightarrow> ('w op_state, error + string list) state"
type_synonym 'w Pinger = "Context \<Rightarrow> ('w op_state, error option) state"

record FakeGrouper =
  fg_Groups :: "string \<rightharpoonup> string list"
  fg_Errors :: "string \<rightharpoonup> error option"

text \<open>A nil error registered in \<open>Errors\<close> is returned as it is: no members, no error.\<close>

definition fake_GetGroupMembers :: "FakeGrouper \<Rightarrow> 'w Grouper" where
  "fake_GetGroupMembers g ctx groupDN =
     (case fg_Errors g groupDN of
        Some (Some err) \<Rightarrow> ret (Inl err)
      | Some None \<Rightarrow> ret (Inr [])
      | None \<Rightarrow>
          (case fg_Groups g groupDN of
             None \<Rightarrow> ret (Inl (Errorf_w [] ErrGroupNotFound ('': '' @ groupDN)))
           | Some members \<Rightarrow> ret (Inr members)))"

section \<open>The shape of a connection attempt\<close>

text \<open>
  Every way \<open>dial\<close> and \<open>connectAndBind\<close> can go, as the actions they leave in the trace
  and the result that goes with them.
\<close>

definition needsStartTLS :: "Config \<Rightarrow> bool" where
  "needsStartTLS cfg \<longleftrightarrow> \<not> isLDAPS cfg \<and> \<not> cfg_InsecureSkipTLS cfg"

abbreviation dialAction :: "Config \<Rightarrow> conn option \<Rightarrow> action" where
  "dialAction cfg c \<equiv> ADial (cfg_URL cfg) (dialOpts cfg) c"

definition upgrade :: "Config \<Rightarrow> conn \<Rightarrow> action list" where
  "upgrade cfg c = (if needsStartTLS cfg then [AStartTLS c (tlsConfig cfg) True] else [])"

inductive dial_trace :: "Config \<Rightarrow> error + conn \<Rightarrow> action list \<Rightarrow> bool" for cfg where
  unreachable: "dial_trace cfg (Inl err) [dialAction cfg None]"
| upgrade_failed: "needsStartTLS cfg \<Longrightarrow>
    dial_trace cfg (Inl err) [dialAction cfg (Some c), AStartTLS c (tlsConfig cfg) False, AClose c]"
| dialled: "dial_trace cfg (Inr c) (dialAction cfg (Some c) # upgrade cfg c)"

inductive wait_trace :: "Config \<Rightarrow> error option \<Rightarrow> action list \<Rightarrow> bool" for cfg where
  unlimited: "cfg_Limiter cfg = None \<Longrightarrow> wait_trace cfg None []"
| waited: "cfg_Limiter cfg = Some l \<Longrightarrow> wait_trace cfg None [AWait l True]"
| refused: "cfg_Limiter cfg = Some l \<Longrightarrow> wait_trace cfg (Some err) [AWait l False]"

inductive connect_trace :: "Config \<Rightarrow> error + conn \<Rightarrow> action list \<Rightarrow> bool" for cfg where
  rate_limited: "wait_trace cfg (Some err) ws \<Longrightarrow> connect_trace cfg (Inl err') ws"
| dial_failed: "wait_trace cfg None ws \<Longrightarrow> dial_trace cfg (Inl err) ds \<Longrightarrow>
    connect_trace cfg (Inl err') (ws @ ds)"
| bind_failed: "wait_trace cfg None ws \<Longrightarrow> list_all (\<lambda>a. \<exists>d. a = ASetTimeout c d) ts \<Longrightarrow>
    connect_trace cfg (Inl err) (ws @ dialAction cfg (Some c) # upgrade cfg c @ ts @
      [ABind c (cfg_BindDN cfg) (cfg_BindPassword cfg) False, AClose c])"
| connected: "wait_trace cfg None ws \<Longrightarrow> list_all (\<lambda>a. \<exists>d. a = ASetTimeout c d) ts \<Longrightarrow>
    connect_trace cfg (Inr c) (ws @ dialAction cfg (Some c) # upgrade cfg c @ ts @
      [ABind c (cfg_BindDN cfg) (cfg_BindPassword cfg) True])"

inductive_cases dial_trace_Inr: "dial_trace cfg (Inr c) as"
inductive_cases connect_trace_Inr: "connect_trace cfg (Inr c) as"
inductive_cases connect_trace_Inl: "connect_trace cfg (Inl e) as"

lemma dialled_plain: "\<not> needsStartTLS cfg \<Longrightarrow> dial_trace cfg (Inr c) [dialAction cfg (Some c)]"
  using dial_trace.dialled[of cfg c] by (simp add: upgrade_def)

lemma dialled_upgraded: "needsStartTLS cfg \<Longrightarrow>
    dial_trace cfg (Inr c) [dialAction cfg (Some c), AStartTLS c (tlsConfig cfg) True]"
  using dial_trace.dialled[of cfg c] by (simp add: upgrade_def)

lemma dial_emits: "emits (dial_trace cfg) (dial E cfg)"
  unfolding emits_def
  by (auto simp: dial_def call_defs call_def split: prod.splits sum.splits option.splits
      intro!: dial_trace.unreachable dialled_plain dialled_upgraded dial_trace.upgrade_failed)
    (auto simp: needsStartTLS_def)

lemma wait_emits:
  "emits (wait_trace cfg)
     (case cfg_Limiter cfg of None \<Rightarrow> ret None | Some l \<Rightarrow> limiterWait E l ctx)"
proof (cases "cfg_Limiter cfg")
  case None
  then show ?thesis by (simp add: emits_ret wait_trace.unlimited)
next
  case (Some l)
  have "wait_trace cfg x [AWait l (x = None)]" for x
    using Some by (cases x) (simp_all add: wait_trace.waited wait_trace.refused)
  with Some show ?thesis by (simp add: limiterWait_def emits_call)
qed

text \<open>After the dial: perhaps a deadline, then the bind, and a close if it fails.\<close>

definition bind_trace :: "Config \<Rightarrow> conn \<Rightarrow> error + conn \<Rightarrow> action list \<Rightarrow> bool" where
  "bind_trace cfg c r as \<longleftrightarrow> (\<exists>ts. list_all (\<lambda>a. \<exists>d. a = ASetTimeout c d) ts \<and>
     (r = Inr c \<and> as = ts @ [ABind c (cfg_BindDN cfg) (cfg_BindPassword cfg) True] \<or>
      isl r \<and> as = ts @ [ABind c (cfg_BindDN cfg) (cfg_BindPassword cfg) False, AClose c]))"

lemma bindConn_emits: "emits (bind_trace cfg c) (bindConn E cfg ctx c)"
  unfolding bindConn_def
proof (rule emits_bind)
  show "emits (\<lambda>_ ts. list_all (\<lambda>a. \<exists>d. a = ASetTimeout c d) ts)
      (case ctx_Deadline ctx of None \<Rightarrow> ret ()
       | Some deadline \<Rightarrow> do { now \<leftarrow> Now E; connSetTimeout E c (deadline - now) })"
    by (auto simp: Now_def connSetTimeout_def intro!: only_intro)
next
  fix u
  show "emits (bind_trace cfg c) (do {
        b \<leftarrow> connBind E c (cfg_BindDN cfg) (cfg_BindPassword cfg);
        case b of
          Some err \<Rightarrow> do { _ \<leftarrow> connClose E c; ret (Inl (Errorf_w ''ldapclient: bind: '' err [])) }
        | None \<Rightarrow> ret (Inr c) })"
    unfolding emits_def
    by (auto simp: call_defs call_def bind_trace_def split: prod.splits option.splits)
next
  fix u ts r bs
  assume "list_all (\<lambda>a. \<exists>d. a = ASetTimeout c d) ts"
    and "bind_trace cfg c r bs"
  then obtain ts' where "list_all (\<lambda>a. \<exists>d. a = ASetTimeout c d) (ts @ ts')" and
    "r = Inr c \<and> ts @ bs = (ts @ ts') @ [ABind c (cfg_BindDN cfg) (cfg_BindPassword cfg) True] \<or>
     isl r \<and> ts @ bs = (ts @ ts') @ [ABind c (cfg_BindDN cfg) (cfg_BindPassword cfg) False, AClose c]"
    unfolding bind_trace_def by auto
  then show "bind_trace cfg c r (ts @ bs)" unfolding bind_trace_def by blast
qed

lemma connect_emits: "emits (connect_trace cfg) (connectAndBind E cfg ctx)"
  unfolding emits_def
proof
  fix s
  let ?wait = "case cfg_Limiter cfg of None \<Rightarrow> ret None | Some l \<Rightarrow> limiterWait E l ctx"
  let ?goal = "\<exists>as. os_trace (snd (run_state (connectAndBind E cfg ctx) s)) = os_trace s @ as \<and>
      connect_trace cfg (fst (run_state (connectAndBind E cfg ctx) s)) as"
  obtain w s1 where W: "run_state ?wait s = (w, s1)" by (cases "run_state ?wait s")
  obtain ws where ws: "os_trace s1 = os_trace s @ ws" "wait_trace cfg w ws"
    using wait_emits W by (rule emits_run)
  show ?goal
  proof (cases w)
    case (Some err)
    with ws W show ?thesis
      unfolding connectAndBind_def by (auto intro: connect_trace.rate_limited)
  next
    case None
    note w = None
    obtain d s2 where D: "run_state (dial E cfg) s1 = (d, s2)" by (cases "run_state (dial E cfg) s1")
    obtain ds where ds: "os_trace s2 = os_trace s1 @ ds" "dial_trace cfg d ds"
      using dial_emits D by (rule emits_run)
    show ?thesis
    proof (cases d)
      case (Inl err)
      with ws ds W D w show ?thesis
        unfolding connectAndBind_def by (auto intro: connect_trace.dial_failed)
    next
      case (Inr c)
      with ds have ds': "ds = dialAction cfg (Some c) # upgrade cfg c"
        by (auto elim: dial_trace_Inr)
      obtain r s3 where B: "run_state (bindConn E cfg ctx c) s2 = (r, s3)"
        by (cases "run_state (bindConn E cfg ctx c) s2")
      obtain bs where "os_trace s3 = os_trace s2 @ bs" "bind_trace cfg c r bs"
        using bindConn_emits B by (rule emits_run)
      moreover have "connect_trace cfg r (ws @ ds @ bs)"
        using calculation(2) ws(2) w unfolding bind_trace_def ds'
        by (auto simp: isl_def intro: connect_trace.connected connect_trace.bind_failed)
      ultimately show ?thesis
        using ws ds W D w Inr B unfolding connectAndBind_def by auto
    qed
  qed
qed

end
