(* ===== verification/Indexers.thy ===== *)
theory Indexers
  imports Environment
begin

text \<open>
  \<open>indexers.go\<close>: the field indexes the operator registers with the manager's cache, so that
  bindings can be listed by the provider they refer to and providers by the secrets they
  read.
\<close>

definition providerRefIndexField :: string where "providerRefIndexField = ''.spec.providerRef''"
definition secretRefIndexField :: string where "secretRefIndexField = ''.spec.secretRefs''"

definition indexRBACGroupBinding :: "RBACGroupBinding \<Rightarrow> string list" where
  "indexRBACGroupBinding b = [rgbs_ProviderRef (rgb_Spec b)]"

definition indexClusterRBACGroupBinding :: "ClusterRBACGroupBinding \<Rightarrow> string list" where
  "indexClusterRBACGroupBinding b = [crgbs_ProviderRef (crgb_Spec b)]"

definition indexLDAPProvider :: "LDAPProvider \<Rightarrow> string list" where
  "indexLDAPProvider p =
     (let keys = [skr_Name (lps_BindPasswordSecretRef (lp_Spec p))]
      in case lps_TLSConfig (lp_Spec p) of
           None \<Rightarrow> keys
         | Some t \<Rightarrow> (case tcs_CASecretRef t of None \<Rightarrow> keys | Some ref \<Rightarrow> keys @ [skr_Name ref]))"

text \<open>The functions as they are handed to \<open>IndexField\<close>, each for its kind of object.\<close>

datatype IndexerFunc =
    IndexRBACGroupBinding "RBACGroupBinding \<Rightarrow> string list"
  | IndexClusterRBACGroupBinding "ClusterRBACGroupBinding \<Rightarrow> string list"
  | IndexLDAPProvider "LDAPProvider \<Rightarrow> string list"

text \<open>\<open>SetupIndexers\<close>, over the manager's \<open>IndexField\<close>. It stops at the first error.\<close>

definition SetupIndexers :: "(string \<Rightarrow> IndexerFunc \<Rightarrow> ('s, error option) state) \<Rightarrow> ('s, error option) state" where
  "SetupIndexers IndexField = do {
     e \<leftarrow> IndexField providerRefIndexField (IndexRBACGroupBinding indexRBACGroupBinding);
     case e of
       Some err \<Rightarrow> ret (Some err)
     | None \<Rightarrow> do {
         e \<leftarrow> IndexField providerRefIndexField (IndexClusterRBACGroupBinding indexClusterRBACGroupBinding);
         case e of
           Some err \<Rightarrow> ret (Some err)
         | None \<Rightarrow> IndexField secretRefIndexField (IndexLDAPProvider indexLDAPProvider)
       }
   }"

text \<open>What the indexes answer for a field, as the cache uses them.\<close>

definition rgb_index :: "RBACGroupBinding \<Rightarrow> string \<Rightarrow> string list" where
  "rgb_index b f = (if f = providerRefIndexField then indexRBACGroupBinding b else [])"

definition crgb_index :: "ClusterRBACGroupBinding \<Rightarrow> string \<Rightarrow> string list" where
  "crgb_index b f = (if f = providerRefIndexField then indexClusterRBACGroupBinding b else [])"

definition lp_index :: "LDAPProvider \<Rightarrow> string \<Rightarrow> string list" where
  "lp_index p f = (if f = secretRefIndexField then indexLDAPProvider p else [])"

lemma index_refs [simp]:
  "rgb_index b providerRefIndexField = [rgbs_ProviderRef (rgb_Spec b)]"
  "crgb_index c providerRefIndexField = [crgbs_ProviderRef (crgb_Spec c)]"
  "lp_index p secretRefIndexField = indexLDAPProvider p"
  by (simp_all add: rgb_index_def indexRBACGroupBinding_def crgb_index_def indexClusterRBACGroupBinding_def
      lp_index_def)

lemma index_secrets:
  "set (indexLDAPProvider p) = insert (skr_Name (lps_BindPasswordSecretRef (lp_Spec p)))
     (case lps_TLSConfig (lp_Spec p) of None \<Rightarrow> {}
      | Some t \<Rightarrow> skr_Name ` set_option (tcs_CASecretRef t))"
  by (auto simp: indexLDAPProvider_def Let_def split: option.splits)

end
