(* ===== verification/Sim_World.thy ===== *)
theory Sim_World
  imports Indexers
begin

text \<open>
  A concrete environment, used by the witnesses to instantiate the parameters: an API
  server that stores objects in lists and rejects the operations named in
  \<open>sim_denied\<close>, a clock that stands still, and a directory that answers from two functions.
  Nothing of the operator is defined here, and no theorem about the operator assumes that
  its surroundings look like this; the lemmas at the end show that the hypotheses the
  theorems do make hold of it.
\<close>

type_synonym 'o table = "'o list"

record sim =
  sim_rgbs :: "RBACGroupBinding table"
  sim_crgbs :: "ClusterRBACGroupBinding table"
  sim_lps :: "LDAPProvider table"
  sim_rbs :: "RoleBinding table"
  sim_crbs :: "ClusterRoleBinding table"
  sim_secrets :: "Secret table"
  sim_denied :: "string list"
  sim_clock :: time
  sim_dial :: "error option"
  sim_tls :: "error option"
  sim_bind :: "error option"
  sim_search :: "SearchRequest \<Rightarrow> error + SearchResult"
  sim_paged :: "SearchRequest \<Rightarrow> error + SearchResult"
  sim_next :: nat

definition stored :: "('o \<Rightarrow> ObjectMeta) \<Rightarrow> 'o table \<Rightarrow> ObjectKey \<Rightarrow> 'o option" where
  "stored meta t k = find (\<lambda>x. ObjectKeyFromObject (meta x) = k) t"

definition drop_key :: "('o \<Rightarrow> ObjectMeta) \<Rightarrow> ObjectKey \<Rightarrow> 'o table \<Rightarrow> 'o table" where
  "drop_key meta k t = filter (\<lambda>x. ObjectKeyFromObject (meta x) \<noteq> k) t"

definition put :: "('o \<Rightarrow> ObjectMeta) \<Rightarrow> 'o \<Rightarrow> 'o table \<Rightarrow> 'o table" where
  "put meta x t = x # drop_key meta (ObjectKeyFromObject (meta x)) t"

lemma stored_drop_key: "stored meta (drop_key meta k t) = (stored meta t)(k := None)"
  by (induction t) (auto simp: stored_def drop_key_def fun_eq_iff)

lemma stored_put: "stored meta (put meta x t) = (stored meta t)(ObjectKeyFromObject (meta x) \<mapsto> x)"
proof
  fix k
  show "stored meta (put meta x t) k = ((stored meta t)(ObjectKeyFromObject (meta x) \<mapsto> x)) k"
    using stored_drop_key[of meta "ObjectKeyFromObject (meta x)" t]
    by (auto simp: put_def stored_def fun_eq_iff)
qed

lemma table_key: "stored meta t k = Some x \<Longrightarrow> ObjectKeyFromObject (meta x) = k"
  by (auto simp: stored_def find_Some_iff)

definition notFound :: error where "notFound = ErrExt 404 ''not found''"
definition denied :: error where "denied = ErrExt 500 ''denied''"

definition sim_kclient ::
  "(sim \<Rightarrow> 'o table) \<Rightarrow> (('o table \<Rightarrow> 'o table) \<Rightarrow> sim \<Rightarrow> sim) \<Rightarrow> ('o \<Rightarrow> ObjectMeta) \<Rightarrow>
   ('o \<Rightarrow> string \<Rightarrow> string list) \<Rightarrow> (sim, 'o) kclient" where
  "sim_kclient tab upd meta idx =
     \<lparr>k_Get = (\<lambda>k w. (if ''get'' \<in> set (sim_denied w) then Inl denied
                       else case stored meta (tab w) k of None \<Rightarrow> Inl notFound | Some x \<Rightarrow> Inr x, w)),
      k_List = (\<lambda>opts w. (if ''list'' \<in> set (sim_denied w) then Inl denied
                          else Inr (filter (\<lambda>x. list_all (selects meta idx x) opts)
                                      (tab w)), w)),
      k_Create = (\<lambda>x w. if ''create'' \<in> set (sim_denied w) then (Inl denied, w)
                        else (Inr x, upd (put meta x) w)),
      k_Update = (\<lambda>x w. if ''update'' \<in> set (sim_denied w) then (Inl denied, w)
                        else (Inr x, upd (put meta x) w)),
      k_Delete = (\<lambda>x w. if ''delete'' \<in> set (sim_denied w) then (Some denied, w)
                        else (None, upd (drop_key meta (ObjectKeyFromObject (meta x))) w)),
      k_StatusUpdate = (\<lambda>x w. if ''status'' \<in> set (sim_denied w) then (Inl denied, w)
                              else (Inr x, upd (put meta x) w))\<rparr>"

fun sim_SetStatusCondition :: "Condition list \<Rightarrow> Condition \<Rightarrow> Condition list" where
  "sim_SetStatusCondition [] c = [c]"
| "sim_SetStatusCondition (d # ds) c =
     (if c_Type d = c_Type c then c # ds else d # sim_SetStatusCondition ds c)"

definition sim_ownerRef :: "object \<Rightarrow> OwnerReference" where
  "sim_ownerRef x = \<lparr>or_APIVersion = ''ldaprbac.io/v1alpha1'',
     or_Kind = (case x of ORBACGroupBinding _ \<Rightarrow> ''RBACGroupBinding'' | _ \<Rightarrow> ''ClusterRBACGroupBinding''),
     or_Name = om_Name (object_meta x), or_UID = om_UID (object_meta x),
     or_Controller = Some True, or_BlockOwnerDeletion = Some True\<rparr>"

definition sim_env :: "sim env" where
  "sim_env =
     \<lparr>rgb_client = sim_kclient sim_rgbs sim_rgbs_update rgb_meta rgb_index,
      crgb_client = sim_kclient sim_crgbs sim_crgbs_update crgb_meta crgb_index,
      lp_client = sim_kclient sim_lps sim_lps_update lp_meta lp_index,
      rb_client = sim_kclient sim_rbs sim_rbs_update rb_meta (\<lambda>_ _. []),
      crb_client = sim_kclient sim_crbs sim_crbs_update crb_meta (\<lambda>_ _. []),
      secret_client = sim_kclient sim_secrets sim_secrets_update sec_meta (\<lambda>_ _. []),
      time_Now = sim_clock,
      apierrors_IsNotFound = (\<lambda>e. e = notFound),
      meta_SetStatusCondition = (\<lambda>cs c w. sim_SetStatusCondition cs c),
      controllerutil_SetControllerReference =
        (\<lambda>x m. Inr (m\<lparr>om_OwnerReferences := om_OwnerReferences m @ [sim_ownerRef x]\<rparr>)),
      controllerutil_ContainsFinalizer = (\<lambda>m f. f \<in> set (om_Finalizers m)),
      controllerutil_AddFinalizer = (\<lambda>m f. if f \<in> set (om_Finalizers m) then m
         else m\<lparr>om_Finalizers := om_Finalizers m @ [f]\<rparr>),
      controllerutil_RemoveFinalizer = (\<lambda>m f. m\<lparr>om_Finalizers := filter (\<lambda>g. g \<noteq> f) (om_Finalizers m)\<rparr>),
      equality_DeepEqual = (=),
      ldap_DialURL = (\<lambda>url opts w. case sim_dial w of Some e \<Rightarrow> (Inl e, w)
         | None \<Rightarrow> (Inr (sim_next w), w\<lparr>sim_next := Suc (sim_next w)\<rparr>)),
      ldap_Bind = (\<lambda>c dn pw w. (sim_bind w, w)),
      ldap_StartTLS = (\<lambda>c t w. (sim_tls w, w)),
      ldap_SetTimeout = (\<lambda>c d w. ((), w)),
      ldap_Search = (\<lambda>c req w. (sim_search w req, w)),
      ldap_SearchWithPaging = (\<lambda>c req n w. (sim_paged w req, w)),
      ldap_Close = (\<lambda>c w. (None, w)),
      ldap_EscapeFilter = id,
      ldap_IsErrorWithCode = (\<lambda>e n. case e of ErrExt m _ \<Rightarrow> m = n | _ \<Rightarrow> False),
      ldap_GetAttributeValues = (\<lambda>e a. case map_of (e_Attributes e) a of None \<Rightarrow> [] | Some vs \<Rightarrow> vs),
      ldap_GetAttributeValue = (\<lambda>e a. case map_of (e_Attributes e) a of None \<Rightarrow> [] | Some vs \<Rightarrow>
         (case vs of [] \<Rightarrow> [] | v # _ \<Rightarrow> v)),
      limiter_Wait = (\<lambda>l ctx w. (None, w)),
      x509_AppendCertsFromPEM = (\<lambda>pool pem. (pem \<noteq> [], pem # pool)),
      strconv_Quote = (\<lambda>x. CHR 0x22 # x @ [CHR 0x22])\<rparr>"

definition empty_sim :: sim where
  "empty_sim = \<lparr>sim_rgbs = [], sim_crgbs = [], sim_lps = [], sim_rbs = [], sim_crbs = [],
     sim_secrets = [], sim_denied = [], sim_clock = 0, sim_dial = None, sim_tls = None, sim_bind = None,
     sim_search = (\<lambda>_. Inr \<lparr>res_Entries = [], res_Referrals = []\<rparr>),
     sim_paged = (\<lambda>_. Inr \<lparr>res_Entries = [], res_Referrals = []\<rparr>), sim_next = 0\<rparr>"

definition sim_start :: "sim \<Rightarrow> sim op_state" where
  "sim_start w = \<lparr>os_world = w, os_trace = [], os_metrics = emptyMetrics,
     os_registries = (\<lambda>_. newLimiters 0 0)\<rparr>"

section \<open>It meets the hypotheses\<close>

lemma sim_SetStatusCondition_find:
  "findCondition (sim_SetStatusCondition cs c) t = (if t = c_Type c then Some c else findCondition cs t)"
  by (induction cs) auto

lemma sim_SetStatusCondition_ok: "SetStatusCondition_ok sim_env"
  by (simp add: SetStatusCondition_ok_def sim_env_def sim_SetStatusCondition_find same_condition_def)

lemma sim_finalizers_ok: "finalizers_ok sim_env"
  by (simp add: finalizers_ok_def sim_env_def)

lemma sim_rb_client_ok:
  "kclient_ok sim_env (rb_client sim_env) rb_meta (=) (\<lambda>w. stored rb_meta (sim_rbs w))"
  by (auto simp: kclient_ok_def sim_env_def sim_kclient_def stored_put stored_drop_key notFound_def
      denied_def dest: table_key split: option.splits)

lemma sim_crb_client_ok:
  "kclient_ok sim_env (crb_client sim_env) crb_meta (=) (\<lambda>w. stored crb_meta (sim_crbs w))"
  by (auto simp: kclient_ok_def sim_env_def sim_kclient_def stored_put stored_drop_key notFound_def
      denied_def dest: table_key split: option.splits)

lemma sim_list_ok:
  "klist_ok (rgb_client sim_env) rgb_meta rgb_index (\<lambda>w. set (sim_rgbs w))"
  "klist_ok (crgb_client sim_env) crgb_meta crgb_index (\<lambda>w. set (sim_crgbs w))"
  "klist_ok (lp_client sim_env) lp_meta lp_index (\<lambda>w. set (sim_lps w))"
  by (auto simp: klist_ok_def sim_env_def sim_kclient_def selected_def filter_empty_conv split: if_splits)

lemma sim_DeepEqual: "\<forall>rs. equality_DeepEqual sim_env rs rs"
  by (simp add: sim_env_def)

section \<open>Sample objects\<close>

definition demo_meta :: "string \<Rightarrow> string \<Rightarrow> ObjectMeta" where
  "demo_meta name ns = (newObjectMeta name ns)\<lparr>om_UID := ''uid-'' @ name, om_Generation := 2\<rparr>"

definition demo_provider :: LDAPProvider where
  "demo_provider = \<lparr>lp_meta = demo_meta ''corp'' [],
     lp_Spec = \<lparr>lps_URL = ''ldap://dir'', lps_BindDN = ''cn=op'',
       lps_BindPasswordSecretRef = \<lparr>skr_Name = ''creds'', skr_Key = ''password''\<rparr>, lps_TLSConfig = None,
       lps_InsecureSkipTLS = False, lps_UserSearchBase = ''ou=people'', lps_GroupSearchBase = ''ou=groups'',
       lps_SyncInterval = 300, lps_UsernameAttribute = ''uid'', lps_DirectoryType = DirectoryTypeOpenLDAP\<rparr>,
     lp_Status = \<lparr>lpst_ObservedGeneration = 0, lpst_Conditions = [], lpst_LastVerifiedTime = None\<rparr>\<rparr>"

definition demo_secret :: Secret where
  "demo_secret = \<lparr>sec_meta = demo_meta ''creds'' ''ops'', sec_Data = [''password'' \<mapsto> ''hunter2'']\<rparr>"

definition demo_binding :: RBACGroupBinding where
  "demo_binding = \<lparr>rgb_meta = demo_meta ''devs'' ''team'',
     rgb_Spec = \<lparr>rgbs_ProviderRef = ''corp'', rgbs_GroupDN = ''cn=g'',
       rgbs_RoleRef = \<lparr>role_Kind = ''Role'', role_Name = ''edit''\<rparr>\<rparr>,
     rgb_Status = \<lparr>rgbst_ObservedGeneration = 0, rgbst_Conditions = [], rgbst_LastSyncTime = None,
       rgbst_MemberCount = 0, rgbst_MembersPreview = [], rgbst_MembersTruncated = False,
       rgbst_MembersHash = [], rgbst_RoleBindingRef = None\<rparr>\<rparr>"

definition demo_cluster_binding :: ClusterRBACGroupBinding where
  "demo_cluster_binding = \<lparr>crgb_meta = demo_meta ''admins'' [],
     crgb_Spec = \<lparr>crgbs_ProviderRef = ''corp'', crgbs_GroupDN = ''cn=g'',
       crgbs_ClusterRoleRef = ''cluster-admin''\<rparr>,
     crgb_Status = \<lparr>crgbst_ObservedGeneration = 0, crgbst_Conditions = [], crgbst_LastSyncTime = None,
       crgbst_MemberCount = 0, crgbst_MembersPreview = [], crgbst_MembersTruncated = False,
       crgbst_MembersHash = [], crgbst_ClusterRoleBindingRef = None\<rparr>\<rparr>"

definition demo_world :: sim where
  "demo_world = empty_sim\<lparr>
     sim_lps := [demo_provider],
     sim_secrets := [demo_secret],
     sim_rgbs := [demo_binding],
     sim_crgbs := [demo_cluster_binding],
     sim_clock := 1000\<rparr>"

lemmas demo_defs = demo_meta_def demo_provider_def demo_secret_def demo_binding_def
  demo_cluster_binding_def demo_world_def empty_sim_def newObjectMeta_def
  stored_def ObjectKeyFromObject_def

end
