(* ===== verification/Ldap_Client_Correct.thy ===== *)
theory Ldap_Client_Correct
  imports Ldap_Client Sim_World
begin

text \<open>
  What the directory client guarantees: the connections it opens are closed, credentials
  only travel over TLS unless plaintext was asked for, a missing group is told apart from
  every other failure, and the names it returns are the ones the directory holds. The last
  is a refinement: on a directory that does not change during the call, the client
  computes the abstract function \<open>directory_members\<close>.
\<close>

section \<open>Connections in a trace\<close>

fun opens :: "action \<Rightarrow> conn list" where
  "opens (ADial _ _ (Some c)) = [c]"
| "opens _ = []"

fun closes :: "action \<Rightarrow> conn list" where
  "closes (AClose c) = [c]"
| "closes _ = []"

definition opened :: "action list \<Rightarrow> conn list" where
  "opened as = concat (map opens as)"

definition closed :: "action list \<Rightarrow> conn list" where
  "closed as = concat (map closes as)"

lemma opened_simps [simp]:
  "opened [] = []" "opened (a # as) = opens a @ opened as" "opened (as @ bs) = opened as @ opened bs"
  by (simp_all add: opened_def)

lemma closed_simps [simp]:
  "closed [] = []" "closed (a # as) = closes a @ closed as" "closed (as @ bs) = closed as @ closed bs"
  by (simp_all add: closed_def)

text \<open>
  A session: either no connection was opened, or exactly one was, and it was closed
  exactly once, as the last thing done.
\<close>

definition session :: "action list \<Rightarrow> bool" where
  "session as \<longleftrightarrow> opened as = [] \<and> closed as = [] \<or>
     (\<exists>c bs. as = bs @ [AClose c] \<and> opened bs = [c] \<and> closed bs = [])"

text \<open>An open session is one where the connection is still to be closed.\<close>

definition open_session :: "conn \<Rightarrow> action list \<Rightarrow> bool" where
  "open_session c as \<longleftrightarrow> opened as = [c] \<and> closed as = []"

fun search_action :: "action \<Rightarrow> bool" where
  "search_action (ASearch _ _) = True"
| "search_action (ASearchPaged _ _ _) = True"
| "search_action (ALog _ _) = True"
| "search_action _ = False"

lemma search_actions_idle:
  "list_all search_action as \<Longrightarrow> opened as = [] \<and> closed as = []"
  by (induction "as") (auto elim: search_action.elims)

lemma timeouts_idle:
  "list_all (\<lambda>a. \<exists>d. a = ASetTimeout c d) as \<Longrightarrow> opened as = [] \<and> closed as = []"
  by (induction "as") auto

lemma upgrade_idle [simp]: "opened (upgrade cfg c) = []" "closed (upgrade cfg c) = []"
  by (simp_all add: upgrade_def)

lemma wait_idle: "wait_trace cfg w as \<Longrightarrow> opened as = [] \<and> closed as = []"
  by (auto elim: wait_trace.cases)

lemma session_close:
  "opened bs = [c] \<Longrightarrow> closed bs = [] \<Longrightarrow> session (bs @ [AClose c])"
  by (auto simp: session_def)

lemma session_prefix:
  assumes "opened ws = []" and "closed ws = []" and "session ds"
  shows "session (ws @ ds)"
proof -
  from assms(3) consider "opened ds = []" "closed ds = []"
    | c bs where "ds = bs @ [AClose c]" "opened bs = [c]" "closed bs = []"
    by (auto simp: session_def)
  then show ?thesis
  proof cases
    case 1
    with assms show ?thesis by (simp add: session_def)
  next
    case 2
    with assms session_close[of "ws @ bs" c] show ?thesis by simp
  qed
qed

lemma dial_trace_session: "dial_trace cfg (Inl err) ds \<Longrightarrow> session ds"
  using session_close by (fastforce simp: session_def elim!: dial_trace.cases)

lemma connect_trace_session:
  "connect_trace cfg r as \<Longrightarrow> (case r of Inl _ \<Rightarrow> session as | Inr c \<Rightarrow> open_session c as)"
proof (induction rule: connect_trace.induct)
  case (rate_limited err ws err')
  then show ?case using wait_idle by (simp add: session_def)
next
  case (dial_failed ws err ds err')
  then show ?case using wait_idle dial_trace_session session_prefix by simp
next
  case (bind_failed ws c ts err)
  let ?bs = "ws @ dialAction cfg (Some c) # upgrade cfg c @ ts @
      [ABind c (cfg_BindDN cfg) (cfg_BindPassword cfg) False]"
  have "opened ?bs = [c]" "closed ?bs = []"
    using bind_failed wait_idle timeouts_idle by auto
  then have "session (?bs @ [AClose c])" by (rule session_close)
  then show ?case by simp
next
  case (connected ws c ts)
  then show ?case using wait_idle timeouts_idle by (auto simp: open_session_def)
qed

lemma open_session_close:
  "open_session c as \<Longrightarrow> list_all search_action bs \<Longrightarrow> session (as @ bs @ [AClose c])"
  using search_actions_idle[of bs] session_close[of "as @ bs" c] by (simp add: open_session_def)

section \<open>What the searches do\<close>

lemmas search_defs = connSearch_def connSearchWithPaging_def logReferrals_def
  logReferralChasingSkipped_def Log_def

lemma lookupGroup_only [only_intro]: "only search_action (lookupGroup E c dn)"
  unfolding lookupGroup_def search_defs by (intro only_intro) auto

lemma lookupUsername_only [only_intro]: "only search_action (lookupUsername E cfg c dn)"
  unfolding lookupUsername_def search_defs by (intro only_intro) auto

lemma resolveMemberDNs_only [only_intro]: "only search_action (resolveMemberDNs E cfg c dns ms)"
  by (induction dns arbitrary: ms) (auto intro!: only_intro)

lemma resolveMembers_only [only_intro]: "only search_action (resolveMembers E cfg c dn g)"
  unfolding resolveMembers_def search_defs Let_def by (intro only_intro) auto

text \<open>The body between the bind and the deferred close.\<close>

definition queryMembers ::
  "'w env \<Rightarrow> Config \<Rightarrow> conn \<Rightarrow> string \<Rightarrow> ('w op_state, error + string list) state" where
  "queryMembers E cfg conn groupDN = do {
     g \<leftarrow> lookupGroup E conn groupDN;
     case g of
       Inl err \<Rightarrow> ret (Inl err)
     | Inr groupEntry \<Rightarrow> do {
         m \<leftarrow> resolveMembers E cfg conn groupDN groupEntry;
         case m of
           Inl err \<Rightarrow> ret (Inl (Errorf_w (''ldapclient: resolve members for '' @ groupDN @ '': '') err []))
         | Inr members \<Rightarrow> ret (Inr (sort members))
       }
   }"

lemma GetGroupMembers_query:
  "GetGroupMembers E cfg ctx groupDN = do {
     c \<leftarrow> connectAndBind E cfg ctx;
     case c of
       Inl err \<Rightarrow> ret (Inl err)
     | Inr conn \<Rightarrow> do { r \<leftarrow> queryMembers E cfg conn groupDN; _ \<leftarrow> connClose E conn; ret r }
   }"
  unfolding GetGroupMembers_def queryMembers_def ..

lemma queryMembers_only: "only search_action (queryMembers E cfg c dn)"
  unfolding queryMembers_def by (intro only_intro)

lemma close_emits: "emits (\<lambda>_ as. as = [AClose c]) (do { _ \<leftarrow> connClose E c; ret x })"
  unfolding connClose_def
  by (rule emits_bind[where R = "\<lambda>_ as. as = [AClose c]" and S = "\<lambda>_ _ as. as = []"])
    (simp_all add: emits_call emits_ret)

section \<open>Credentials over TLS\<close>

text \<open>The connections that are under TLS after an action, and whether a bind uses one.\<close>

fun tls_step :: "conn set \<Rightarrow> action \<Rightarrow> conn set" where
  "tls_step S (ADial url opts (Some c)) = (case opts of None \<Rightarrow> S - {c} | Some t \<Rightarrow> insert c S)"
| "tls_step S (AStartTLS c t ok) = (if ok then insert c S else S)"
| "tls_step S a = S"

fun bind_secured :: "conn set \<Rightarrow> action \<Rightarrow> bool" where
  "bind_secured S (ABind c dn pw ok) \<longleftrightarrow> c \<in> S"
| "bind_secured S a \<longleftrightarrow> True"

fun binds_secured :: "conn set \<Rightarrow> action list \<Rightarrow> bool" where
  "binds_secured S [] \<longleftrightarrow> True"
| "binds_secured S (a # as) \<longleftrightarrow> bind_secured S a \<and> binds_secured (tls_step S a) as"

lemma binds_secured_append:
  "binds_secured S (as @ bs) \<longleftrightarrow> binds_secured S as \<and> binds_secured (foldl tls_step S as) bs"
  by (induction "as" arbitrary: S) auto

lemma wait_secured: "wait_trace cfg w as \<Longrightarrow> binds_secured S as \<and> foldl tls_step S as = S"
  by (auto elim: wait_trace.cases)

lemma timeouts_secured:
  "list_all (\<lambda>a. \<exists>d. a = ASetTimeout c d) as \<Longrightarrow> binds_secured S as \<and> foldl tls_step S as = S"
  by (induction "as" arbitrary: S) auto

lemma search_secured: "list_all search_action as \<Longrightarrow> binds_secured S as \<and> foldl tls_step S as = S"
  by (induction "as" arbitrary: S) (auto elim: search_action.elims)

lemma dial_secured:
  assumes "isLDAPS cfg \<or> \<not> cfg_InsecureSkipTLS cfg"
  shows "binds_secured S (dialAction cfg (Some c) # upgrade cfg c)"
    and "c \<in> foldl tls_step S (dialAction cfg (Some c) # upgrade cfg c)"
  using assms by (auto simp: dialOpts_def upgrade_def needsStartTLS_def)

lemma connect_trace_secured:
  assumes "isLDAPS cfg \<or> \<not> cfg_InsecureSkipTLS cfg" and "connect_trace cfg r as"
  shows "binds_secured {} as"
  using assms(2)
proof (induction rule: connect_trace.induct)
  case (rate_limited err ws err')
  then show ?case using wait_secured by auto
next
  case (dial_failed ws err ds err')
  have "binds_secured S ds" for S
    using dial_failed(2) by (auto elim!: dial_trace.cases split: option.splits)
  with dial_failed(1) show ?case by (simp add: binds_secured_append wait_secured)
next
  case (bind_failed ws c ts err)
  then show ?case
    using dial_secured[OF assms(1), where c = c] by (auto simp: binds_secured_append wait_secured timeouts_secured)
next
  case (connected ws c ts)
  then show ?case
    using dial_secured[OF assms(1), where c = c] by (auto simp: binds_secured_append wait_secured timeouts_secured)
qed

section \<open>Telling a missing group from other failures\<close>

text \<open>
  The errors that go-ldap, the network and the rate limiter produce do not wrap the
  sentinel, which is a variable of this package.
\<close>

definition directory_errors_ok :: "'w env \<Rightarrow> bool" where
  "directory_errors_ok E \<longleftrightarrow>
     (\<forall>l ctx w e w'. limiter_Wait E l ctx w = (Some e, w') \<longrightarrow> \<not> errors_Is e ErrGroupNotFound) \<and>
     (\<forall>url opts w e w'. ldap_DialURL E url opts w = (Inl e, w') \<longrightarrow> \<not> errors_Is e ErrGroupNotFound) \<and>
     (\<forall>c t w e w'. ldap_StartTLS E c t w = (Some e, w') \<longrightarrow> \<not> errors_Is e ErrGroupNotFound) \<and>
     (\<forall>c dn pw w e w'. ldap_Bind E c dn pw w = (Some e, w') \<longrightarrow> \<not> errors_Is e ErrGroupNotFound) \<and>
     (\<forall>c req w e w'. ldap_Search E c req w = (Inl e, w') \<longrightarrow> \<not> errors_Is e ErrGroupNotFound) \<and>
     (\<forall>c req n w e w'. ldap_SearchWithPaging E c req n w = (Inl e, w') \<longrightarrow>
        \<not> errors_Is e ErrGroupNotFound)"

lemma directory_errorsD:
  assumes "directory_errors_ok E"
  shows "limiter_Wait E l ctx w = (Some e, w') \<Longrightarrow> \<not> errors_Is e ErrGroupNotFound"
    and "ldap_DialURL E url opts w = (Inl e, w') \<Longrightarrow> \<not> errors_Is e ErrGroupNotFound"
    and "ldap_StartTLS E c t w = (Some e, w') \<Longrightarrow> \<not> errors_Is e ErrGroupNotFound"
    and "ldap_Bind E c dn pw w = (Some e, w') \<Longrightarrow> \<not> errors_Is e ErrGroupNotFound"
    and "ldap_Search E c req w = (Inl e, w') \<Longrightarrow> \<not> errors_Is e ErrGroupNotFound"
    and "ldap_SearchWithPaging E c req n w = (Inl e, w') \<Longrightarrow> \<not> errors_Is e ErrGroupNotFound"
  using assms unfolding directory_errors_ok_def by - (metis+)

abbreviation not_missing :: "error + 'a \<Rightarrow> bool" where
  "not_missing r \<equiv> (\<forall>e. r = Inl e \<longrightarrow> \<not> errors_Is e ErrGroupNotFound)"

lemma connectAndBind_not_missing:
  assumes "directory_errors_ok E"
  shows "yields not_missing (connectAndBind E cfg ctx)"
  unfolding yields_def
  by (auto simp: connectAndBind_def bindConn_def dial_def Now_def call_defs call_def observe_def
      split: prod.splits sum.splits option.splits dest: directory_errorsD[OF assms])

lemma lookupUsername_not_missing:
  assumes "directory_errors_ok E"
  shows "yields not_missing (lookupUsername E cfg c dn)"
  unfolding yields_def
  by (auto simp: lookupUsername_def search_defs call_def emit_def
      split: prod.splits sum.splits list.splits dest: directory_errorsD[OF assms])

lemma resolveMemberDNs_not_missing:
  assumes "directory_errors_ok E"
  shows "yields not_missing (resolveMemberDNs E cfg c dns ms)"
proof (induction dns arbitrary: ms)
  case (Cons dn dns)
  show ?case
    unfolding resolveMemberDNs.simps
    by (rule yields_bind[OF lookupUsername_not_missing[OF assms]]) (auto intro!: yields_intro Cons)
qed (simp add: yields_ret)

lemma resolveMembers_not_missing:
  assumes "directory_errors_ok E"
  shows "yields not_missing (resolveMembers E cfg c dn g)"
proof -
  have "yields not_missing (connSearchWithPaging E c req n)" for req n
    unfolding yields_def by (auto simp: connSearchWithPaging_def call_def split: prod.splits
        dest: directory_errorsD[OF assms])
  then show ?thesis
    unfolding resolveMembers_def Let_def
    by (rule yields_bind)
      (auto intro!: yields_intro resolveMemberDNs_not_missing assms)
qed

text \<open>The search that decides: the group's own entry.\<close>

definition groupRequest :: "string \<Rightarrow> SearchRequest" where
  "groupRequest dn =
     NewSearchRequest dn ScopeBaseObject ''(objectClass=*)'' [''member'', ''uniqueMember'']"

definition group_missing :: "'w env \<Rightarrow> error + SearchResult \<Rightarrow> bool" where
  "group_missing E r = (case r of
     Inl e \<Rightarrow> ldap_IsErrorWithCode E e LDAPResultNoSuchObject | Inr res \<Rightarrow> res_Entries res = [])"

lemma lookupGroup_missing:
  assumes "directory_errors_ok E"
  shows "(\<exists>e. fst (run_state (lookupGroup E c dn) s) = Inl e \<and> errors_Is e ErrGroupNotFound) \<longleftrightarrow>
    group_missing E (fst (ldap_Search E c (groupRequest dn) (os_world s)))"
  by (auto simp: lookupGroup_def group_missing_def groupRequest_def search_defs call_def emit_def
      split: prod.splits sum.splits list.splits dest: directory_errorsD[OF assms])

lemma queryMembers_missing:
  assumes "directory_errors_ok E"
  shows "(\<exists>e. fst (run_state (queryMembers E cfg c dn) s) = Inl e \<and> errors_Is e ErrGroupNotFound) \<longleftrightarrow>
    group_missing E (fst (ldap_Search E c (groupRequest dn) (os_world s)))"
proof -
  obtain g t where G: "run_state (lookupGroup E c dn) s = (g, t)"
    by (cases "run_state (lookupGroup E c dn) s")
  have "not_missing (fst (run_state (resolveMembers E cfg c dn e) u))" for e u
    using resolveMembers_not_missing[OF assms] by (rule yieldsD)
  then have "(\<exists>e. fst (run_state (queryMembers E cfg c dn) s) = Inl e \<and> errors_Is e ErrGroupNotFound)
      \<longleftrightarrow> (\<exists>e. g = Inl e \<and> errors_Is e ErrGroupNotFound)"
    using G by (auto simp: queryMembers_def split: prod.splits sum.splits) (metis fst_conv)
  then show ?thesis using lookupGroup_missing[OF assms, of c dn s] G by simp
qed

section \<open>The names returned\<close>

lemma usernames_filter:
  "usernames E es attr = filter (\<lambda>v. v \<noteq> []) (map (\<lambda>e. ldap_GetAttributeValue E e attr) es)"
  by (induction es) (simp_all add: Let_def)

lemma resolveMemberDNs_names:
  "[] \<notin> set ms \<Longrightarrow>
   yields (\<lambda>r. \<forall>ns. r = Inr ns \<longrightarrow> [] \<notin> set ns) (resolveMemberDNs E cfg c dns ms)"
proof (induction dns arbitrary: ms)
  case (Cons dn dns)
  then show ?case by (auto intro!: yields_intro)
qed (simp add: yields_ret)

lemma resolveMembers_names:
  "yields (\<lambda>r. \<forall>ns. r = Inr ns \<longrightarrow> [] \<notin> set ns) (resolveMembers E cfg c dn g)"
  unfolding resolveMembers_def Let_def
  by (auto intro!: yields_intro resolveMemberDNs_names simp: usernames_filter)

lemma queryMembers_names:
  "yields (\<lambda>r. \<forall>ns. r = Inr ns \<longrightarrow> sorted ns \<and> [] \<notin> set ns) (queryMembers E cfg c dn)"
  unfolding queryMembers_def
  by (auto intro!: yields_intro yields_bind[OF resolveMembers_names])

section \<open>Refinement of an abstract directory\<close>

text \<open>
  What a group lookup means: the collection of user names, that the group does not exist,
  or that nothing can be said. A directory that does not change while the client talks to
  it over a connection is two functions of the request.
\<close>

datatype membership = Members "string multiset" | NoSuchGroup | Unavailable

definition snapshot ::
  "'w env \<Rightarrow> conn \<Rightarrow> (SearchRequest \<Rightarrow> error + SearchResult) \<Rightarrow> (SearchRequest \<Rightarrow> error + SearchResult) \<Rightarrow> bool"
where
  "snapshot E c search paged \<longleftrightarrow>
     (\<forall>req w. fst (ldap_Search E c req w) = search req) \<and>
     (\<forall>req n w. fst (ldap_SearchWithPaging E c req n w) = paged req)"

definition memberRequest :: "'w env \<Rightarrow> Config \<Rightarrow> string \<Rightarrow> SearchRequest" where
  "memberRequest E cfg dn = NewSearchRequest (cfg_UserSearchBase cfg) ScopeWholeSubtree
     (membershipFilter E cfg dn) [cfg_UsernameAttribute cfg]"

definition userRequest :: "Config \<Rightarrow> string \<Rightarrow> SearchRequest" where
  "userRequest cfg dn =
     NewSearchRequest dn ScopeBaseObject ''(objectClass=*)'' [cfg_UsernameAttribute cfg]"

text \<open>
  The name of one member DN: no name for a DN that is gone, out of reach or without the
  attribute, \<^term>\<open>None\<close> when the directory fails.
\<close>

definition member_name ::
  "'w env \<Rightarrow> Config \<Rightarrow> (SearchRequest \<Rightarrow> error + SearchResult) \<Rightarrow> string \<Rightarrow> string option" where
  "member_name E cfg search dn = (case search (userRequest cfg dn) of
     Inl e \<Rightarrow> if ldap_IsErrorWithCode E e LDAPResultNoSuchObject \<or>
                 ldap_IsErrorWithCode E e LDAPResultReferral then Some [] else None
   | Inr res \<Rightarrow> Some (case res_Entries res of [] \<Rightarrow> []
                       | e # _ \<Rightarrow> ldap_GetAttributeValue E e (cfg_UsernameAttribute cfg)))"

definition member_DNs :: "'w env \<Rightarrow> Entry \<Rightarrow> string list" where
  "member_DNs E g = (if ldap_GetAttributeValues E g ''member'' = []
     then ldap_GetAttributeValues E g ''uniqueMember'' else ldap_GetAttributeValues E g ''member'')"

definition named :: "string list \<Rightarrow> string multiset" where
  "named ns = mset (filter (\<lambda>n. n \<noteq> []) ns)"

text \<open>
  The specification: users whose memberOf names the group; if there are none, the users
  the group entry itself lists.
\<close>

definition resolved_members ::
  "'w env \<Rightarrow> Config \<Rightarrow> (SearchRequest \<Rightarrow> error + SearchResult) \<Rightarrow>
   (SearchRequest \<Rightarrow> error + SearchResult) \<Rightarrow> string \<Rightarrow> Entry \<Rightarrow> membership" where
  "resolved_members E cfg search paged dn g = (case paged (memberRequest E cfg dn) of
     Inl _ \<Rightarrow> Unavailable
   | Inr found \<Rightarrow>
       if res_Entries found \<noteq> []
       then Members (named (map (\<lambda>e. ldap_GetAttributeValue E e (cfg_UsernameAttribute cfg))
                              (res_Entries found)))
       else
         let names = map (member_name E cfg search) (member_DNs E g)
         in if None \<in> set names then Unavailable else Members (named (map the names)))"

definition directory_members ::
  "'w env \<Rightarrow> Config \<Rightarrow> (SearchRequest \<Rightarrow> error + SearchResult) \<Rightarrow>
   (SearchRequest \<Rightarrow> error + SearchResult) \<Rightarrow> string \<Rightarrow> membership" where
  "directory_members E cfg search paged dn =
     (if group_missing E (search (groupRequest dn)) then NoSuchGroup
      else case search (groupRequest dn) of
        Inl _ \<Rightarrow> Unavailable
      | Inr res \<Rightarrow> resolved_members E cfg search paged dn (hd (res_Entries res)))"

definition membership_of :: "error + string list \<Rightarrow> membership" where
  "membership_of r = (case r of
     Inr ms \<Rightarrow> Members (mset ms)
   | Inl e \<Rightarrow> if errors_Is e ErrGroupNotFound then NoSuchGroup else Unavailable)"

lemma snapshotD:
  assumes "snapshot E c search paged"
  shows "ldap_Search E c req w = (r, w') \<Longrightarrow> r = search req"
    and "ldap_SearchWithPaging E c req n w = (r, w') \<Longrightarrow> r = paged req"
  using assms unfolding snapshot_def by (metis fst_conv)+

lemma lookupUsername_refines:
  assumes "snapshot E c search paged"
  shows "(case member_name E cfg search dn of
      None \<Rightarrow> \<exists>e. fst (run_state (lookupUsername E cfg c dn) s) = Inl e
    | Some u \<Rightarrow> fst (run_state (lookupUsername E cfg c dn) s) = Inr u)"
  by (auto simp: lookupUsername_def member_name_def userRequest_def search_defs call_def emit_def
      split: prod.splits sum.splits list.splits option.splits dest!: snapshotD[OF assms])

lemma resolveMemberDNs_refines:
  assumes "snapshot E c search paged"
  shows "(if None \<in> set (map (member_name E cfg search) dns)
     then \<exists>e. fst (run_state (resolveMemberDNs E cfg c dns ms) s) = Inl e
     else fst (run_state (resolveMemberDNs E cfg c dns ms) s) =
       Inr (ms @ filter (\<lambda>n. n \<noteq> []) (map (the \<circ> member_name E cfg search) dns)))"
proof (induction dns arbitrary: ms s)
  case Nil
  then show ?case by simp
next
  case (Cons dn dns)
  obtain r t where L: "run_state (lookupUsername E cfg c dn) s = (r, t)"
    by (cases "run_state (lookupUsername E cfg c dn) s")
  show ?case
  proof (cases "member_name E cfg search dn")
    case None
    then show ?thesis using lookupUsername_refines[OF assms, where cfg = cfg and dn = dn and s = s] L by auto
  next
    case (Some u)
    then have "r = Inr u" using lookupUsername_refines[OF assms, where cfg = cfg and dn = dn and s = s] L by simp
    then show ?thesis
      using Cons[of "if u \<noteq> [] then ms @ [u] else ms" t] L Some by (auto split: if_splits)
  qed
qed

lemma lookupGroup_refines:
  assumes "snapshot E c search paged" and "directory_errors_ok E"
  shows "(case search (groupRequest dn) of
      Inl _ \<Rightarrow> \<exists>e. fst (run_state (lookupGroup E c dn) s) = Inl e
    | Inr res \<Rightarrow> res_Entries res \<noteq> [] \<longrightarrow>
        fst (run_state (lookupGroup E c dn) s) = Inr (hd (res_Entries res)))"
  by (auto simp: lookupGroup_def groupRequest_def search_defs call_def emit_def
      split: prod.splits sum.splits list.splits dest!: snapshotD[OF assms(1)])

text \<open>A failure of the member queries is never taken for a missing group.\<close>

definition resolution_of :: "error + string list \<Rightarrow> membership" where
  "resolution_of r = (case r of Inl _ \<Rightarrow> Unavailable | Inr ms \<Rightarrow> Members (mset ms))"

lemma resolveMemberDNs_resolution:
  assumes "snapshot E c search paged"
  shows "resolution_of (fst (run_state (resolveMemberDNs E cfg c dns []) s)) =
    (let names = map (member_name E cfg search) dns
     in if None \<in> set names then Unavailable else Members (named (map the names)))"
  using resolveMemberDNs_refines[OF assms, where cfg = cfg and dns = dns and ms = "[]" and s = s]
  by (auto simp: resolution_of_def named_def Let_def split: if_splits)

lemma resolveMembers_refines:
  assumes snap: "snapshot E c search paged"
  shows "resolution_of (fst (run_state (resolveMembers E cfg c dn g) s)) =
    resolved_members E cfg search paged dn g"
proof -
  obtain r w where S: "ldap_SearchWithPaging E c (memberRequest E cfg dn) (pageSize cfg) (os_world s) = (r, w)"
    by (cases "ldap_SearchWithPaging E c (memberRequest E cfg dn) (pageSize cfg) (os_world s)")
  have r: "paged (memberRequest E cfg dn) = r" using snapshotD(2)[OF snap S] by simp
  show ?thesis
  proof (cases r)
    case (Inl e)
    with S r show ?thesis
      by (auto simp: resolved_members_def resolution_of_def resolveMembers_def memberRequest_def search_defs
          call_def emit_def split: prod.splits)
  next
    case (Inr found)
    show ?thesis
    proof (cases "res_Entries found = []")
      case True
      with S Inr have "\<exists>t. run_state (resolveMembers E cfg c dn g) s =
          run_state (resolveMemberDNs E cfg c (member_DNs E g) []) t"
        by (auto simp: resolveMembers_def memberRequest_def member_DNs_def search_defs call_def emit_def Let_def)
      then show ?thesis
        using True Inr r resolveMemberDNs_resolution[OF snap, where cfg = cfg]
        by (auto simp: resolved_members_def)
    next
      case False
      with S Inr r show ?thesis
        by (auto simp: resolved_members_def resolution_of_def resolveMembers_def memberRequest_def named_def
            usernames_filter search_defs call_def emit_def)
    qed
  qed
qed

lemma queryMembers_refines:
  assumes snap: "snapshot E c search paged" and errs: "directory_errors_ok E"
  shows "membership_of (fst (run_state (queryMembers E cfg c dn) s)) =
    directory_members E cfg search paged dn"
proof -
  obtain r t where Q: "run_state (queryMembers E cfg c dn) s = (r, t)"
    by (cases "run_state (queryMembers E cfg c dn) s")
  obtain g t' where G: "run_state (lookupGroup E c dn) s = (g, t')"
    by (cases "run_state (lookupGroup E c dn) s")
  have missing: "(\<exists>e. r = Inl e \<and> errors_Is e ErrGroupNotFound) \<longleftrightarrow> group_missing E (search (groupRequest dn))"
    using queryMembers_missing[OF errs, where cfg = cfg and c = c and dn = dn and s = s] Q snap
    by (simp add: snapshot_def)
  show ?thesis
  proof (cases "group_missing E (search (groupRequest dn))")
    case True
    with missing Q show ?thesis by (auto simp: membership_of_def directory_members_def)
  next
    case False
    show ?thesis
    proof (cases "search (groupRequest dn)")
      case (Inl e)
      with False lookupGroup_refines[OF snap errs, where dn = dn and s = s] G missing Q
      show ?thesis by (auto simp: membership_of_def directory_members_def queryMembers_def)
    next
      case (Inr res)
      with False have "res_Entries res \<noteq> []" by (simp add: group_missing_def)
      then have g: "g = Inr (hd (res_Entries res))"
        using lookupGroup_refines[OF snap errs, where dn = dn and s = s] Inr G by simp
      obtain m u where M: "run_state (resolveMembers E cfg c dn (hd (res_Entries res))) t' = (m, u)"
        by (cases "run_state (resolveMembers E cfg c dn (hd (res_Entries res))) t'")
      have "membership_of r = resolution_of m"
        using Q G g M missing False
        by (auto simp: queryMembers_def membership_of_def resolution_of_def split: sum.splits)
      then show ?thesis
        using resolveMembers_refines[OF snap, where cfg = cfg and dn = dn and s = t'
            and g = "hd (res_Entries res)"] False Inr M Q
        by (simp add: directory_members_def)
    qed
  qed
qed

section \<open>Rate limiting\<close>

fun is_wait :: "action \<Rightarrow> bool" where
  "is_wait (AWait _ _) = True"
| "is_wait _ = False"

text \<open>One token is taken from the limiter, first; without it nothing else happens.\<close>

definition rate_limited_by :: "limiter \<Rightarrow> action list \<Rightarrow> bool" where
  "rate_limited_by l as \<longleftrightarrow>
     (\<exists>ok rest. as = AWait l ok # rest \<and> (\<not> ok \<longrightarrow> rest = []) \<and> \<not> list_ex is_wait rest)"

lemma search_no_wait: "list_all search_action as \<Longrightarrow> \<not> list_ex is_wait as"
  by (induction "as") (auto elim: search_action.elims)

lemma timeouts_no_wait: "list_all (\<lambda>a. \<exists>d. a = ASetTimeout c d) as \<Longrightarrow> \<not> list_ex is_wait as"
  by (induction "as") auto

lemma dial_no_wait: "dial_trace cfg r as \<Longrightarrow> \<not> list_ex is_wait as"
  by (auto elim!: dial_trace.cases simp: upgrade_def split: if_splits)

lemma connect_rate_limited:
  assumes "connect_trace cfg r as" and "cfg_Limiter cfg = Some l"
  shows "rate_limited_by l as \<and> (\<forall>c. r = Inr c \<longrightarrow> hd as = AWait l True)"
  using assms
proof (induction rule: connect_trace.induct)
  case (rate_limited err ws err')
  then show ?case by (auto simp: rate_limited_by_def elim!: wait_trace.cases)
next
  case (dial_failed ws err ds err')
  then show ?case
    using dial_no_wait[of cfg _ ds] by (auto simp: rate_limited_by_def elim!: wait_trace.cases)
next
  case (bind_failed ws c ts err)
  then show ?case
    using timeouts_no_wait[of c ts] by (auto simp: rate_limited_by_def upgrade_def elim!: wait_trace.cases)
next
  case (connected ws c ts)
  then show ?case
    using timeouts_no_wait[of c ts] by (auto simp: rate_limited_by_def upgrade_def elim!: wait_trace.cases)
qed

section \<open>The trace of a whole query\<close>

text \<open>A query is a connection attempt, then searches, then the close.\<close>

definition query_trace :: "Config \<Rightarrow> action list \<Rightarrow> bool" where
  "query_trace cfg as \<longleftrightarrow> (\<exists>r cs. connect_trace cfg r cs \<and> (case r of Inl _ \<Rightarrow> as = cs
     | Inr c \<Rightarrow> \<exists>qs. list_all search_action qs \<and> as = cs @ qs @ [AClose c]))"

lemma GetGroupMembers_trace: "emits (\<lambda>_. query_trace cfg) (GetGroupMembers E cfg ctx dn)"
  unfolding GetGroupMembers_query
proof (rule emits_bind[OF connect_emits])
  fix r
  show "emits (\<lambda>_ bs. case r of Inl _ \<Rightarrow> bs = []
        | Inr c \<Rightarrow> \<exists>qs. list_all search_action qs \<and> bs = qs @ [AClose c])
      (case r of Inl err \<Rightarrow> ret (Inl err)
       | Inr conn \<Rightarrow> do { r \<leftarrow> queryMembers E cfg conn dn; _ \<leftarrow> connClose E conn; ret r })"
    by (cases r) (auto simp: emits_ret intro!: emits_bind[OF queryMembers_only close_emits])
qed (auto simp: query_trace_def split: sum.splits; blast)

lemma Ping_trace: "emits (\<lambda>_. query_trace cfg) (Ping E cfg ctx)"
  unfolding Ping_def
proof (rule emits_bind[OF connect_emits])
  fix r
  show "emits (\<lambda>_ bs. case r of Inl _ \<Rightarrow> bs = []
        | Inr c \<Rightarrow> \<exists>qs. list_all search_action qs \<and> bs = qs @ [AClose c])
      (case r of Inl err \<Rightarrow> ret (Some err) | Inr conn \<Rightarrow> do { _ \<leftarrow> connClose E conn; ret None })"
    by (cases r) (auto simp: emits_ret intro: emits_mono[OF close_emits])
qed (auto simp: query_trace_def split: sum.splits; blast)

lemma query_trace_cases [consumes 1, case_names failed queried]:
  assumes "query_trace cfg as"
  obtains e where "connect_trace cfg (Inl e) as"
    | c cs qs where "connect_trace cfg (Inr c) cs" "list_all search_action qs" "as = cs @ qs @ [AClose c]"
proof -
  from assms obtain r cs where cs: "connect_trace cfg r cs"
    and r: "case r of Inl _ \<Rightarrow> as = cs | Inr c \<Rightarrow> \<exists>qs. list_all search_action qs \<and> as = cs @ qs @ [AClose c]"
    unfolding query_trace_def by blast
  show thesis
  proof (cases r)
    case (Inl e)
    with cs r that(1) show thesis by simp
  next
    case (Inr c)
    with cs r that(2) show thesis by auto
  qed
qed

lemma query_trace_session: "query_trace cfg as \<Longrightarrow> session as"
  by (cases rule: query_trace_cases)
    (use connect_trace_session open_session_close in fastforce)+

lemma query_trace_secured:
  assumes "isLDAPS cfg \<or> \<not> cfg_InsecureSkipTLS cfg" and "query_trace cfg as"
  shows "binds_secured {} as"
  using assms(2)
  by (cases rule: query_trace_cases)
    (use connect_trace_secured[OF assms(1)] search_secured in \<open>auto simp: binds_secured_append\<close>)

lemma query_trace_rate_limited:
  assumes "cfg_Limiter cfg = Some l" and "query_trace cfg as"
  shows "rate_limited_by l as"
  using assms(2)
proof (cases rule: query_trace_cases)
  case (failed e)
  then show ?thesis using connect_rate_limited assms(1) by blast
next
  case (queried c cs qs)
  then show ?thesis
    using connect_rate_limited[OF queried(1) assms(1)] search_no_wait[of qs]
    by (auto simp: rate_limited_by_def)
qed

section \<open>The Grouper interface\<close>

text \<open>
  What the reconcilers may rely on of a \<open>Grouper\<close>: a lookup talks to the directory only.
  It writes nothing to the cluster and leaves the metrics alone.
\<close>

locale membership_source =
  fixes grouper :: "'w Grouper"
  assumes lookup_directory: "only directory_action (grouper ctx dn)"
    and lookup_metrics: "keeps os_metrics (grouper ctx dn)"
begin

lemma lookup_writes_nothing: "only (\<lambda>a. \<not> api_write a) (grouper ctx dn)"
  by (rule emits_mono[OF lookup_directory])
    (auto simp: list_all_iff elim!: directory_action.elims dest!: bspec)

end

lemma keeps_metrics_call [keeps_intro]: "keeps os_metrics (call act f)"
  by (simp add: keeps_def call_def split: prod.splits)

lemma keeps_metrics_emit [keeps_intro]: "keeps os_metrics (emit a)"
  by (simp add: keeps_def emit_def)

lemma keeps_observe [keeps_intro]: "keeps g (observe f)"
  by (simp add: keeps_def observe_def)

text \<open>The operator's own state: its metrics and its limiter registries.\<close>

definition internals :: "'w op_state \<Rightarrow> metrics \<times> (nat \<Rightarrow> Limiters)" where
  "internals s = (os_metrics s, os_registries s)"

lemma keeps_internals [keeps_intro]: "keeps internals (call act f)" "keeps internals (emit a)"
  by (simp_all add: keeps_def internals_def call_def emit_def split: prod.splits)

lemma keeps_internalsD: "keeps internals m \<Longrightarrow> keeps os_metrics m" "keeps internals m \<Longrightarrow> keeps os_registries m"
  by (simp_all add: keeps_def internals_def)

lemmas client_defs = connectAndBind_def bindConn_def dial_def Now_def call_defs search_defs

lemma resolveMemberDNs_internals [keeps_intro]: "keeps internals (resolveMemberDNs E cfg c dns ms)"
  by (induction dns arbitrary: ms)
    (auto simp: lookupUsername_def client_defs intro!: keeps_intro)

lemma connectAndBind_internals [keeps_intro]: "keeps internals (connectAndBind E cfg ctx)"
  unfolding client_defs by (intro keeps_intro)

lemma queryMembers_internals [keeps_intro]: "keeps internals (queryMembers E cfg c dn)"
  unfolding queryMembers_def lookupGroup_def resolveMembers_def client_defs Let_def
  by (intro keeps_intro)

lemma connect_directory: "only directory_action (connectAndBind E cfg ctx)"
  unfolding client_defs by (auto intro!: only_intro)

lemma query_directory: "only directory_action (queryMembers E cfg c dn)"
  by (rule emits_mono[OF queryMembers_only]) (auto simp: list_all_iff elim!: search_action.elims dest!: bspec)

lemma client_internals: "keeps internals (GetGroupMembers E cfg ctx dn)" "keeps internals (Ping E cfg ctx)"
  unfolding GetGroupMembers_query Ping_def connClose_def by (intro keeps_intro)+

interpretation client: membership_source "GetGroupMembers E cfg" for E cfg
proof
  show "only directory_action (GetGroupMembers E cfg ctx dn)" for ctx dn
    unfolding GetGroupMembers_query connClose_def
    by (auto intro!: only_intro connect_directory query_directory)
  show "keeps os_metrics (GetGroupMembers E cfg ctx dn)" for ctx dn
    by (rule keeps_internalsD(1)[OF client_internals(1)])
qed

interpretation fake: membership_source "fake_GetGroupMembers g" for g
  by unfold_locales (auto simp: fake_GetGroupMembers_def split: option.splits intro!: only_intro keeps_intro)

end
