(* ===== verification/Ldap_Guarantees.thy ===== *)
theory Ldap_Guarantees
  imports Ldap_Client_Correct
begin

text \<open>
  The guarantees of the directory client, over the facts of \<open>Ldap_Client_Correct\<close>. Those
  that take a hypothesis on the directory come with a concrete directory that meets it.
\<close>

section \<open>Traces\<close>

text \<open>
  C32. Every \<open>GetGroupMembers\<close> and every \<open>Ping\<close> is one session: whatever the directory
  answers, they open at most one connection and, if they opened one, close exactly that
  connection, once, as the last thing they do. No error path leaks a connection.
\<close>

theorem directory_calls_are_sessions:
  "emits (\<lambda>_. session) (GetGroupMembers E cfg ctx dn) \<and> emits (\<lambda>_. session) (Ping E cfg ctx)"
  by (simp add: emits_mono[OF GetGroupMembers_trace query_trace_session]
      emits_mono[OF Ping_trace query_trace_session])

text \<open>
  C33. Credentials travel over TLS: unless the configuration is a plain \<open>ldap://\<close> URL with
  \<open>InsecureSkipTLS\<close> set, every bind that \<open>GetGroupMembers\<close> or \<open>Ping\<close> sends goes over a
  connection that was dialled with TLS or has completed StartTLS before.
\<close>

theorem credentials_over_TLS:
  assumes "isLDAPS cfg \<or> \<not> cfg_InsecureSkipTLS cfg"
  shows "emits (\<lambda>_. binds_secured {}) (GetGroupMembers E cfg ctx dn) \<and>
    emits (\<lambda>_. binds_secured {}) (Ping E cfg ctx)"
  by (simp add: emits_mono[OF GetGroupMembers_trace query_trace_secured[OF assms]]
      emits_mono[OF Ping_trace query_trace_secured[OF assms]])

definition plain_config :: Config where
  "plain_config = \<lparr>cfg_URL = ''ldap://dir'', cfg_BindDN = ''cn=op'', cfg_BindPassword = ''pw'',
     cfg_InsecureSkipTLS = False, cfg_TLSConfig = None, cfg_UserSearchBase = ''ou=people'',
     cfg_GroupSearchBase = ''ou=groups'', cfg_UsernameAttribute = ''uid'',
     cfg_DirectoryType = DirectoryTypeOpenLDAP, cfg_PageSize = 0,
     cfg_Limiter = Some \<lparr>lim_id = 0, lim_rate = 5, lim_burst = 10\<rparr>\<rparr>"

theorem credentials_over_TLS_witness:
  "emits (\<lambda>_. binds_secured {}) (GetGroupMembers sim_env plain_config \<lparr>ctx_Deadline = None\<rparr> ''cn=g'')"
  using credentials_over_TLS[of plain_config sim_env "\<lparr>ctx_Deadline = None\<rparr>" "''cn=g''"]
  by (simp add: plain_config_def)

text \<open>
  C34. With a rate limiter configured, a group lookup and a ping each take exactly one
  token, before anything else, and do nothing at all when the limiter refuses it.
\<close>

theorem directory_calls_rate_limited:
  assumes "cfg_Limiter cfg = Some l"
  shows "emits (\<lambda>_. rate_limited_by l) (GetGroupMembers E cfg ctx dn) \<and>
    emits (\<lambda>_. rate_limited_by l) (Ping E cfg ctx)"
  by (simp add: emits_mono[OF GetGroupMembers_trace query_trace_rate_limited[OF assms]]
      emits_mono[OF Ping_trace query_trace_rate_limited[OF assms]])

theorem directory_calls_rate_limited_witness:
  "emits (\<lambda>_. rate_limited_by \<lparr>lim_id = 0, lim_rate = 5, lim_burst = 10\<rparr>)
     (GetGroupMembers sim_env plain_config \<lparr>ctx_Deadline = None\<rparr> ''cn=g'')"
  using directory_calls_rate_limited[of plain_config "\<lparr>lim_id = 0, lim_rate = 5, lim_burst = 10\<rparr>"
      sim_env "\<lparr>ctx_Deadline = None\<rparr>" "''cn=g''"]
  by (simp add: plain_config_def)

section \<open>Results\<close>

lemma members_found_sorted:
  "fst (run_state (GetGroupMembers E cfg ctx dn) s) = Inr ns \<Longrightarrow> sorted ns \<and> [] \<notin> set ns"
proof -
  have "yields (\<lambda>r. \<forall>ns. r = Inr ns \<longrightarrow> sorted ns \<and> [] \<notin> set ns) (GetGroupMembers E cfg ctx dn)"
    unfolding GetGroupMembers_query
    by (auto intro!: yields_intro yields_bind[OF queryMembers_names])
  then show "fst (run_state (GetGroupMembers E cfg ctx dn) s) = Inr ns \<Longrightarrow> sorted ns \<and> [] \<notin> set ns"
    by (auto dest: yieldsD)
qed

text \<open>
  C30. What \<open>GetGroupMembers\<close> returns on success is sorted and contains no empty user name,
  whatever the directory answers.
\<close>

theorem members_sorted_and_named:
  "fst (run_state (GetGroupMembers E cfg ctx dn) s) \<in>
     range Inl \<union> Inr ` {ns. sorted ns \<and> [] \<notin> set ns}"
  using members_found_sorted[of E cfg ctx dn s]
  by (cases "fst (run_state (GetGroupMembers E cfg ctx dn) s)") auto

lemma GetGroupMembers_result:
  "fst (run_state (GetGroupMembers E cfg ctx dn) s) = (case run_state (connectAndBind E cfg ctx) s of
     (Inl err, _) \<Rightarrow> Inl err
   | (Inr c, t) \<Rightarrow> fst (run_state (queryMembers E cfg c dn) t))"
  by (simp add: GetGroupMembers_query split: prod.splits sum.splits)

lemma connect_error_not_missing:
  assumes "directory_errors_ok E" and "run_state (connectAndBind E cfg ctx) s = (Inl e, t)"
  shows "\<not> errors_Is e ErrGroupNotFound"
  using yields_run[OF connectAndBind_not_missing[OF assms(1)] assms(2)] by simp

text \<open>
  C31. A missing group is told apart from every other failure: \<open>errors.Is(err,
  ErrGroupNotFound)\<close> holds of the result exactly when the connection was made and the
  base search for the group's own entry found nothing or answered NoSuchObject. An outage,
  a refused bind, a referral or a failing member query is never reported as a missing
  group, which is what keeps access in place during an outage.
\<close>

theorem group_not_found_exactly:
  assumes "directory_errors_ok E"
  shows "(\<exists>e. fst (run_state (GetGroupMembers E cfg ctx dn) s) = Inl e \<and> errors_Is e ErrGroupNotFound)
    \<longleftrightarrow> (case run_state (connectAndBind E cfg ctx) s of
           (Inl _, _) \<Rightarrow> False
         | (Inr c, t) \<Rightarrow> group_missing E (fst (ldap_Search E c (groupRequest dn) (os_world t))))"
  unfolding GetGroupMembers_result
  using queryMembers_missing[OF assms] connect_error_not_missing[OF assms]
  by (auto split: prod.splits sum.splits)

lemma GetGroupMembers_membership:
  assumes "\<And>c. snapshot E c (search c) (paged c)" and "directory_errors_ok E"
  shows "membership_of (fst (run_state (GetGroupMembers E cfg ctx dn) s)) =
    (case fst (run_state (connectAndBind E cfg ctx) s) of
       Inl _ \<Rightarrow> Unavailable | Inr c \<Rightarrow> directory_members E cfg (search c) (paged c) dn)"
  unfolding GetGroupMembers_result
  using queryMembers_refines[OF assms] connect_error_not_missing[OF assms(2)]
  by (auto simp: membership_of_def split: prod.splits sum.splits)

text \<open>
  C28. Refinement: on a directory that does not change during the call, a connected client
  computes the abstract \<open>directory_members\<close> of the directory at the other end: no such group, unavailable, or the collection
  of user names, taken from the users whose memberOf names the group or, when there are
  none, from the members the group entry lists. Without a connection the answer is
  \<open>Unavailable\<close>.
\<close>

theorem GetGroupMembers_refines:
  assumes "\<forall>c. snapshot E c (search c) (paged c)" and "directory_errors_ok E"
  shows "membership_of (fst (run_state (GetGroupMembers E cfg ctx dn) s)) =
    (case fst (run_state (connectAndBind E cfg ctx) s) of
       Inl _ \<Rightarrow> Unavailable | Inr c \<Rightarrow> directory_members E cfg (search c) (paged c) dn)"
  by (rule GetGroupMembers_membership[OF _ assms(2)]) (simp add: assms(1))

text \<open>
  A directory for the witnesses: one group that lists three member DNs, without memberOf;
  the second member is gone, the third behind a referral.
\<close>

definition user_entry :: "string \<Rightarrow> string \<Rightarrow> Entry" where
  "user_entry dn name = \<lparr>e_DN = dn, e_Attributes = [(''uid'', [name])]\<rparr>"

definition small_search :: "SearchRequest \<Rightarrow> error + SearchResult" where
  "small_search req =
     (if sr_BaseDN req = ''cn=g'' then Inr \<lparr>res_Entries = [\<lparr>e_DN = ''cn=g'',
        e_Attributes = [(''member'', [''u1'', ''u2'', ''u3'', ''u4''])]\<rparr>], res_Referrals = []\<rparr>
      else if sr_BaseDN req = ''u1'' then Inr \<lparr>res_Entries = [user_entry ''u1'' ''bob''], res_Referrals = []\<rparr>
      else if sr_BaseDN req = ''u3'' then Inl (ErrExt 10 ''referral'')
      else if sr_BaseDN req = ''u4'' then Inr \<lparr>res_Entries = [user_entry ''u4'' ''alice''], res_Referrals = []\<rparr>
      else Inl (ErrExt 32 ''no such object''))"

definition small_env :: "sim env" where
  "small_env = sim_env\<lparr>ldap_DialURL := \<lambda>url opts w. (Inr 7, w), ldap_Bind := \<lambda>c dn pw w. (None, w),
     ldap_StartTLS := \<lambda>c t w. (None, w),
     ldap_Search := \<lambda>c req w. (small_search req, w),
     ldap_SearchWithPaging := \<lambda>c req n w. (Inr \<lparr>res_Entries = [], res_Referrals = []\<rparr>, w)\<rparr>"

lemma small_env_errors_ok: "directory_errors_ok small_env"
  by (auto simp: directory_errors_ok_def small_env_def sim_env_def small_search_def split: if_splits)

lemma small_env_snapshot:
  "\<forall>c. snapshot small_env c small_search (\<lambda>_. Inr \<lparr>res_Entries = [], res_Referrals = []\<rparr>)"
  by (simp add: snapshot_def small_env_def)

lemmas small_env_run = connectAndBind_def bindConn_def dial_def Now_def call_defs call_def observe_def
  plain_config_def isLDAPS_def HasPrefix_def small_env_def sim_env_def

lemma small_env_connects:
  "\<exists>t. run_state (connectAndBind small_env plain_config \<lparr>ctx_Deadline = None\<rparr>) s = (Inr 7, t)"
  by (simp add: small_env_run)

theorem group_not_found_exactly_witness:
  "\<exists>e. fst (run_state (GetGroupMembers small_env plain_config \<lparr>ctx_Deadline = None\<rparr> ''cn=x'')
     (sim_start empty_sim)) = Inl e \<and> errors_Is e ErrGroupNotFound"
proof -
  obtain t where t: "run_state (connectAndBind small_env plain_config \<lparr>ctx_Deadline = None\<rparr>)
      (sim_start empty_sim) = (Inr 7, t)"
    using small_env_connects by blast
  have "group_missing small_env (fst (ldap_Search small_env 7 (groupRequest ''cn=x'') (os_world t)))"
    by (simp add: small_env_def group_missing_def small_search_def groupRequest_def NewSearchRequest_def
        sim_env_def LDAPResultNoSuchObject_def)
  with group_not_found_exactly[OF small_env_errors_ok, of plain_config "\<lparr>ctx_Deadline = None\<rparr>"
      "''cn=x''" "sim_start empty_sim"] t
  show ?thesis by simp
qed

theorem GetGroupMembers_refines_witness:
  "membership_of (fst (run_state (GetGroupMembers small_env plain_config \<lparr>ctx_Deadline = None\<rparr> ''cn=g'')
     (sim_start empty_sim))) = Members {#''alice'', ''bob''#}"
proof -
  have "directory_members small_env plain_config small_search
      (\<lambda>_. Inr \<lparr>res_Entries = [], res_Referrals = []\<rparr>) ''cn=g'' = Members {#''alice'', ''bob''#}"
    by (simp add: directory_members_def group_missing_def resolved_members_def member_DNs_def
        member_name_def userRequest_def groupRequest_def NewSearchRequest_def small_search_def user_entry_def
        named_def small_env_def sim_env_def plain_config_def LDAPResultReferral_def
        LDAPResultNoSuchObject_def)
  then show ?thesis
    using GetGroupMembers_refines[OF small_env_snapshot small_env_errors_ok,
        of plain_config "\<lparr>ctx_Deadline = None\<rparr>" "''cn=g''" "sim_start empty_sim"]
      small_env_connects[of "sim_start empty_sim"]
    by auto
qed

text \<open>
  \<open>GroupSearchBase\<close> has no effect: two configurations that differ only in it behave
  the same, in every state and against every directory, since groups are looked up by
  their DN.
\<close>

theorem GroupSearchBase_unused:
  "GetGroupMembers E (cfg\<lparr>cfg_GroupSearchBase := b\<rparr>) = GetGroupMembers E cfg \<and>
   Ping E (cfg\<lparr>cfg_GroupSearchBase := b\<rparr>) = Ping E cfg"
proof -
  let ?cfg = "cfg\<lparr>cfg_GroupSearchBase := b\<rparr>"
  have same: "cfg_URL ?cfg = cfg_URL cfg" "cfg_BindDN ?cfg = cfg_BindDN cfg"
      "cfg_BindPassword ?cfg = cfg_BindPassword cfg" "cfg_InsecureSkipTLS ?cfg = cfg_InsecureSkipTLS cfg"
      "cfg_UserSearchBase ?cfg = cfg_UserSearchBase cfg" "cfg_Limiter ?cfg = cfg_Limiter cfg"
      "cfg_UsernameAttribute ?cfg = cfg_UsernameAttribute cfg" "tlsConfig ?cfg = tlsConfig cfg"
      "isLDAPS ?cfg = isLDAPS cfg" "dialOpts ?cfg = dialOpts cfg" "pageSize ?cfg = pageSize cfg"
      "membershipFilter E ?cfg = membershipFilter E cfg"
    by (simp_all add: tlsConfig_def isLDAPS_def dialOpts_def pageSize_def membershipFilter_def fun_eq_iff)
  have connect: "connectAndBind E ?cfg ctx = connectAndBind E cfg ctx" for ctx
    unfolding connectAndBind_def dial_def bindConn_def same ..
  have members: "resolveMemberDNs E ?cfg c dns ms = resolveMemberDNs E cfg c dns ms" for c dns ms
  proof (induction dns arbitrary: ms)
    case (Cons dn dns)
    show ?case unfolding resolveMemberDNs.simps lookupUsername_def same Cons ..
  qed simp
  have resolve: "resolveMembers E ?cfg c dn g = resolveMembers E cfg c dn g" for c dn g
    unfolding resolveMembers_def members same ..
  show ?thesis
    unfolding GetGroupMembers_def Ping_def fun_eq_iff connect resolve by simp
qed

text \<open>
  A member behind a referral is skipped: the lookup succeeds with the empty name, which
  \<open>resolveMemberDNs\<close> drops, and only a log line tells.
\<close>

lemma referred_member_dropped:
  assumes "ldap_Search E c (userRequest cfg dn) (os_world s) = (Inl e, w)"
    and "ldap_IsErrorWithCode E e LDAPResultReferral"
    and "\<not> ldap_IsErrorWithCode E e LDAPResultNoSuchObject"
  shows "post (lookupUsername E cfg c dn) s (\<lambda>r t. r = Inr [] \<and>
    (\<exists>msg. last (os_trace t) = ALog msg [''member lookup'', dn]))"
  using assms by (simp add: lookupUsername_def userRequest_def search_defs)

end
