(* ===== verification/Sha256.thy ===== *)
theory Sha256
  imports Prelude
begin

unbundle bit_operations_syntax

text \<open>
  The two functions of Go's standard library that \<open>rbacsync.MembersHash\<close> calls:
  \<open>crypto/sha256.Sum256\<close>, written from FIPS 180-4 on 32-bit words, and
  \<open>encoding/hex.EncodeToString\<close>.
\<close>

type_synonym byte = "8 word"
type_synonym w32 = "32 word"

section \<open>Round constants and initial state\<close>

text \<open>
  The constants of FIPS 180-4, in decimal: the first 32 bits of the fractional parts of the
  cube roots of the first 64 primes, and of the square roots of the first eight.
\<close>

definition sha_K :: "w32 list" where
  "sha_K = [
    1116352408, 1899447441, 3049323471, 3921009573, 961987163, 1508970993, 2453635748, 2870763221,
    3624381080, 310598401, 607225278, 1426881987, 1925078388, 2162078206, 2614888103, 3248222580,
    3835390401, 4022224774, 264347078, 604807628, 770255983, 1249150122, 1555081692, 1996064986,
    2554220882, 2821834349, 2952996808, 3210313671, 3336571891, 3584528711, 113926993, 338241895,
    666307205, 773529912, 1294757372, 1396182291, 1695183700, 1986661051, 2177026350, 2456956037,
    2730485921, 2820302411, 3259730800, 3345764771, 3516065817, 3600352804, 4094571909, 275423344,
    430227734, 506948616, 659060556, 883997877, 958139571, 1322822218, 1537002063, 1747873779,
    1955562222, 2024104815, 2227730452, 2361852424, 2428436474, 2756734187, 3204031479, 3329325298]"

record sha_state =
  ha :: w32
  hb :: w32
  hc :: w32
  hd' :: w32
  he :: w32
  hf :: w32
  hg :: w32
  hh :: w32

definition sha_init :: sha_state where
  "sha_init = \<lparr>ha = 0x6a09e667, hb = 0xbb67ae85, hc = 0x3c6ef372, hd' = 0xa54ff53a,
     he = 0x510e527f, hf = 0x9b05688c, hg = 0x1f83d9ab, hh = 0x5be0cd19\<rparr>"

section \<open>The compression function\<close>

definition rotr :: "nat \<Rightarrow> w32 \<Rightarrow> w32" where
  "rotr n x = drop_bit n x OR push_bit (32 - n) x"

definition small_sigma0 :: "w32 \<Rightarrow> w32" where
  "small_sigma0 x = rotr 7 x XOR rotr 18 x XOR drop_bit 3 x"

definition small_sigma1 :: "w32 \<Rightarrow> w32" where
  "small_sigma1 x = rotr 17 x XOR rotr 19 x XOR drop_bit 10 x"

definition big_sigma0 :: "w32 \<Rightarrow> w32" where
  "big_sigma0 x = rotr 2 x XOR rotr 13 x XOR rotr 22 x"

definition big_sigma1 :: "w32 \<Rightarrow> w32" where
  "big_sigma1 x = rotr 6 x XOR rotr 11 x XOR rotr 25 x"

definition sha_ch :: "w32 \<Rightarrow> w32 \<Rightarrow> w32 \<Rightarrow> w32" where
  "sha_ch x y z = (x AND y) XOR (NOT x AND z)"

definition sha_maj :: "w32 \<Rightarrow> w32 \<Rightarrow> w32 \<Rightarrow> w32" where
  "sha_maj x y z = (x AND y) XOR (x AND z) XOR (y AND z)"

text \<open>
  The message schedule: \<open>sha_schedule n ws\<close> extends the list of words, kept latest first,
  by \<open>n\<close> words computed from the sixteen before each.
\<close>

fun sha_schedule :: "nat \<Rightarrow> w32 list \<Rightarrow> w32 list" where
  "sha_schedule 0 ws = ws"
| "sha_schedule (Suc n) ws =
     sha_schedule n ((small_sigma1 (ws ! 1) + ws ! 6 + small_sigma0 (ws ! 14) + ws ! 15) # ws)"

definition sha_round :: "sha_state \<Rightarrow> w32 \<times> w32 \<Rightarrow> sha_state" where
  "sha_round s kw =
     (let t1 = hh s + big_sigma1 (he s) + sha_ch (he s) (hf s) (hg s) + fst kw + snd kw;
          t2 = big_sigma0 (ha s) + sha_maj (ha s) (hb s) (hc s)
      in \<lparr>ha = t1 + t2, hb = ha s, hc = hb s, hd' = hc s,
          he = hd' s + t1, hf = he s, hg = hf s, hh = hg s\<rparr>)"

definition sha_add :: "sha_state \<Rightarrow> sha_state \<Rightarrow> sha_state" where
  "sha_add s t = \<lparr>ha = ha s + ha t, hb = hb s + hb t, hc = hc s + hc t, hd' = hd' s + hd' t,
     he = he s + he t, hf = hf s + hf t, hg = hg s + hg t, hh = hh s + hh t\<rparr>"

text \<open>A block is sixteen words, first word first.\<close>

definition sha_block :: "sha_state \<Rightarrow> w32 list \<Rightarrow> sha_state" where
  "sha_block s block =
     sha_add s (foldl sha_round s (zip sha_K (rev (sha_schedule 48 (rev block)))))"

section \<open>Bytes and words\<close>

definition be_word :: "byte \<Rightarrow> byte \<Rightarrow> byte \<Rightarrow> byte \<Rightarrow> w32" where
  "be_word a b c d = push_bit 24 (ucast a) OR push_bit 16 (ucast b) OR push_bit 8 (ucast c) OR ucast d"

fun be_words :: "byte list \<Rightarrow> w32 list" where
  "be_words (a # b # c # d # xs) = be_word a b c d # be_words xs"
| "be_words _ = []"

definition be_bytes :: "w32 \<Rightarrow> byte list" where
  "be_bytes x = map (\<lambda>n. ucast (drop_bit n x)) [24, 16, 8, 0]"

definition be_length :: "nat \<Rightarrow> byte list" where
  "be_length n = map (\<lambda>i. word_of_nat (n div 2 ^ i)) [56, 48, 40, 32, 24, 16, 8, 0]"

definition sha_pad :: "byte list \<Rightarrow> byte list" where
  "sha_pad m = m @ [0x80] @ replicate ((119 - length m mod 64) mod 64) 0 @ be_length (8 * length m)"

function sha_blocks :: "sha_state \<Rightarrow> w32 list \<Rightarrow> sha_state" where
  "sha_blocks s ws = (if length ws < 16 then s else sha_blocks (sha_block s (take 16 ws)) (drop 16 ws))"
  by pat_completeness auto
termination
  by (relation "measure (\<lambda>(s, ws). length ws)") auto

declare sha_blocks.simps [simp del]

definition sha_digest :: "sha_state \<Rightarrow> byte list" where
  "sha_digest s = be_bytes (ha s) @ be_bytes (hb s) @ be_bytes (hc s) @ be_bytes (hd' s) @
     be_bytes (he s) @ be_bytes (hf s) @ be_bytes (hg s) @ be_bytes (hh s)"

definition Sum256 :: "byte list \<Rightarrow> byte list" where
  "Sum256 m = sha_digest (sha_blocks sha_init (be_words (sha_pad m)))"

section \<open>Hexadecimal\<close>

definition hexdigits :: string where
  "hexdigits = ''0123456789abcdef''"

definition EncodeToString :: "byte list \<Rightarrow> string" where
  "EncodeToString bs = concat (map (\<lambda>b. [hexdigits ! (unat b div 16), hexdigits ! (unat b mod 16)]) bs)"

definition bytes_of :: "string \<Rightarrow> byte list" where
  "bytes_of = map (\<lambda>c. word_of_nat (of_char c))"

section \<open>Sizes\<close>

lemma length_be_bytes: "length (be_bytes x) = 4"
  by (simp add: be_bytes_def)

lemma length_Sum256: "length (Sum256 m) = 32"
  by (simp add: Sum256_def sha_digest_def length_be_bytes)

lemma length_sha_pad: "length (sha_pad m) mod 64 = 0"
proof -
  define r where "r = length m mod 64"
  have r: "r < 64" by (simp add: r_def)
  have "(119 - r) mod 64 = (if r \<le> 55 then 55 - r else 119 - r)"
    using r by (simp add: le_mod_geq)
  then have "r + (119 - r) mod 64 = 55 \<or> r + (119 - r) mod 64 = 119"
    using r by auto
  then have "(r + (119 - r) mod 64 + 9) mod 64 = 0" by auto
  moreover have "length (sha_pad m) = length m + ((119 - r) mod 64 + 9)"
    by (simp add: sha_pad_def be_length_def r_def)
  ultimately show ?thesis
    by (metis add.assoc mod_add_left_eq r_def)
qed

lemma length_EncodeToString: "length (EncodeToString bs) = 2 * length bs"
  by (induction bs) (simp_all add: EncodeToString_def)

lemma EncodeToString_digits: "set (EncodeToString bs) \<subseteq> set hexdigits"
proof -
  have "hexdigits ! (unat b div 16) \<in> set hexdigits \<and> hexdigits ! (unat b mod 16) \<in> set hexdigits"
    for b :: byte
  proof -
    have "unat b < 256" using unsigned_less[of b, where 'a = nat] by simp
    then show ?thesis by (intro conjI nth_mem) (simp_all add: hexdigits_def)
  qed
  then show ?thesis by (auto simp: EncodeToString_def)
qed

text \<open>Two digests print alike only if they are equal: the printed form loses nothing.\<close>

lemma hexdigits_inject: "i < 16 \<Longrightarrow> j < 16 \<Longrightarrow> hexdigits ! i = hexdigits ! j \<Longrightarrow> i = j"
proof -
  have "distinct hexdigits" by (simp add: hexdigits_def)
  moreover have "length hexdigits = 16" by (simp add: hexdigits_def)
  ultimately show "i < 16 \<Longrightarrow> j < 16 \<Longrightarrow> hexdigits ! i = hexdigits ! j \<Longrightarrow> i = j"
    by (simp add: nth_eq_iff_index_eq)
qed

lemma bytes_of_inject: "bytes_of s = bytes_of t \<Longrightarrow> s = t"
proof -
  have "inj (\<lambda>c :: char. word_of_nat (of_char c) :: byte)"
  proof (rule injI)
    fix c d :: char
    assume "(word_of_nat (of_char c) :: byte) = word_of_nat (of_char d)"
    then have "of_char c mod 256 = (of_char d mod 256 :: nat)"
      by (simp add: word_of_nat_eq_iff take_bit_eq_mod)
    then show "c = d" by simp
  qed
  then show "bytes_of s = bytes_of t \<Longrightarrow> s = t"
    by (simp add: bytes_of_def inj_map_eq_map)
qed

lemma EncodeToString_Cons:
  "EncodeToString (b # bs) =
     hexdigits ! (unat b div 16) # hexdigits ! (unat b mod 16) # EncodeToString bs"
  by (simp add: EncodeToString_def)

lemma EncodeToString_inject: "EncodeToString bs = EncodeToString cs \<Longrightarrow> bs = cs"
proof (induction bs arbitrary: cs)
  case Nil
  then show ?case by (cases cs) (simp_all add: EncodeToString_def)
next
  case (Cons b bs)
  then obtain c cs' where cs: "cs = c # cs'"
    by (cases cs) (simp_all add: EncodeToString_def)
  have lt: "unat b div 16 < 16" "unat c div 16 < 16"
    using unsigned_less[of b, where 'a = nat] unsigned_less[of c, where 'a = nat] by auto
  from Cons.prems cs have h: "hexdigits ! (unat b div 16) = hexdigits ! (unat c div 16)"
    "hexdigits ! (unat b mod 16) = hexdigits ! (unat c mod 16)"
    and rest: "EncodeToString bs = EncodeToString cs'"
    by (simp_all add: EncodeToString_Cons)
  have "unat b div 16 = unat c div 16" using hexdigits_inject[OF lt h(1)] .
  moreover have "unat b mod 16 = unat c mod 16"
    using hexdigits_inject[OF _ _ h(2)] by simp
  ultimately have "unat b = unat c" by (metis mod_div_mult_eq)
  then have "b = c" by (rule unsigned_word_eqI)
  with Cons.IH[OF rest] cs show ?case by simp
qed

end
