(* ===== verification/Rbacsync.thy ===== *)
theory Rbacsync
  imports Api_Types Sha256
begin

text \<open>
  The package \<open>internal/rbacsync\<close>: building the desired RBAC objects from resolved
  members (\<open>subject.go\<close>, \<open>rolebinding.go\<close>, \<open>clusterrolebinding.go\<close>) and the
  comparison, preview, hash and count helpers of \<open>diff.go\<close>.

  \<open>sort.Slice\<close> is modelled by insertion, the algorithm Go uses for short slices. Go
  promises only that the result is a sorted permutation; the locale \<open>slice_sorter\<close> states
  that promise, and the facts about \<open>SubjectsEqual\<close> that matter are proved in it, so that
  they hold whatever algorithm the runtime picks.
\<close>

section \<open>Subjects and desired objects\<close>

definition newSubject :: "string \<Rightarrow> Subject" where
  "newSubject m = \<lparr>s_Kind = UserKind, s_APIGroup = GroupName, s_Name = m, s_Namespace = []\<rparr>"

fun Subjects :: "string list \<Rightarrow> Subject list" where
  "Subjects [] = []"
| "Subjects (m # ms) = newSubject m # Subjects ms"

definition BuildRoleBinding :: "RBACGroupBinding \<Rightarrow> string list \<Rightarrow> RoleBinding" where
  "BuildRoleBinding binding members =
     \<lparr>rb_meta = newObjectMeta (om_Name (rgb_meta binding)) (om_Namespace (rgb_meta binding)),
      rb_Subjects = Subjects members,
      rb_RoleRef = \<lparr>rr_APIGroup = GroupName,
                    rr_Kind = role_Kind (rgbs_RoleRef (rgb_Spec binding)),
                    rr_Name = role_Name (rgbs_RoleRef (rgb_Spec binding))\<rparr>\<rparr>"

definition BuildClusterRoleBinding :: "ClusterRBACGroupBinding \<Rightarrow> string list \<Rightarrow> ClusterRoleBinding" where
  "BuildClusterRoleBinding binding members =
     \<lparr>crb_meta = newObjectMeta (om_Name (crgb_meta binding)) [],
      crb_Subjects = Subjects members,
      crb_RoleRef = \<lparr>rr_APIGroup = GroupName, rr_Kind = ''ClusterRole'',
                     rr_Name = crgbs_ClusterRoleRef (crgb_Spec binding)\<rparr>\<rparr>"

section \<open>Comparing subjects\<close>

text \<open>The comparison function given to \<open>sort.Slice\<close>: kind, then namespace, then name.\<close>

definition subjectLess :: "Subject \<Rightarrow> Subject \<Rightarrow> bool" where
  "subjectLess x y =
     (if s_Kind x \<noteq> s_Kind y then s_Kind x < s_Kind y
      else if s_Namespace x \<noteq> s_Namespace y then s_Namespace x < s_Namespace y
      else s_Name x < s_Name y)"

fun insertSlice :: "('a \<Rightarrow> 'a \<Rightarrow> bool) \<Rightarrow> 'a \<Rightarrow> 'a list \<Rightarrow> 'a list" where
  "insertSlice lt x [] = [x]"
| "insertSlice lt x (y # ys) = (if lt y x then y # insertSlice lt x ys else x # y # ys)"

fun sortSlice :: "('a \<Rightarrow> 'a \<Rightarrow> bool) \<Rightarrow> 'a list \<Rightarrow> 'a list" where
  "sortSlice lt [] = []"
| "sortSlice lt (x # xs) = insertSlice lt x (sortSlice lt xs)"

definition sortedSubjects :: "Subject list \<Rightarrow> Subject list" where
  "sortedSubjects subjects = sortSlice subjectLess subjects"

text \<open>The element-wise comparison loop, over two slices of one length.\<close>

fun equalSlices :: "Subject list \<Rightarrow> Subject list \<Rightarrow> bool" where
  "equalSlices [] _ = True"
| "equalSlices (x # xs) (y # ys) = (if x \<noteq> y then False else equalSlices xs ys)"
| "equalSlices (x # xs) [] = False"

definition SubjectsEqual :: "Subject list \<Rightarrow> Subject list \<Rightarrow> bool" where
  "SubjectsEqual a b =
     (if length a \<noteq> length b then False
      else equalSlices (sortedSubjects a) (sortedSubjects b))"

section \<open>Preview, hash and count\<close>

definition previewCap :: nat where "previewCap = 20"

definition PreviewMembers :: "string list \<Rightarrow> string list \<times> bool" where
  "PreviewMembers members =
     (if length members \<le> previewCap then (members, False) else (take previewCap members, True))"

definition MembersHash :: "string list \<Rightarrow> string" where
  "MembersHash members = EncodeToString (Sum256 (bytes_of (Join members newline)))"

definition MaxInt32 :: nat where "MaxInt32 = 2 ^ 31 - 1"

text \<open>\<open>int32(count)\<close> truncates to 32 bits; the guard keeps it in range.\<close>

definition memberCount :: "nat \<Rightarrow> int32" where
  "memberCount n = (if n > MaxInt32 then word_of_nat MaxInt32 else word_of_nat n)"

definition MemberCount :: "string list \<Rightarrow> int32" where
  "MemberCount members = memberCount (length members)"

section \<open>Sorting a slice\<close>

text \<open>
  The key the comparison reads. It leaves out the API group, so two subjects that differ
  in the API group only are equal for the sort.
\<close>

datatype subject_key = SubjectKey (key_kind: string) (key_ns: string) (key_nm: string)

instantiation subject_key :: linorder
begin

definition less_subject_key :: "subject_key \<Rightarrow> subject_key \<Rightarrow> bool" where
  "less_subject_key x y \<longleftrightarrow> key_kind x < key_kind y \<or> key_kind x = key_kind y \<and>
     (key_ns x < key_ns y \<or> key_ns x = key_ns y \<and> key_nm x < key_nm y)"

definition less_eq_subject_key :: "subject_key \<Rightarrow> subject_key \<Rightarrow> bool" where
  "less_eq_subject_key x y \<longleftrightarrow> x < y \<or> x = y"

instance
proof
  fix x y z :: subject_key
  show "(x < y) = (x \<le> y \<and> \<not> y \<le> x)"
    by (auto simp: less_subject_key_def less_eq_subject_key_def)
  show "x \<le> x" by (simp add: less_eq_subject_key_def)
  show "x \<le> y \<Longrightarrow> y \<le> z \<Longrightarrow> x \<le> z"
    by (auto simp: less_subject_key_def less_eq_subject_key_def)
  show "x \<le> y \<Longrightarrow> y \<le> x \<Longrightarrow> x = y"
    by (auto simp: less_subject_key_def less_eq_subject_key_def)
  show "x \<le> y \<or> y \<le> x"
    by (cases x; cases y) (auto simp: less_subject_key_def less_eq_subject_key_def)
qed

end

definition subject_key :: "Subject \<Rightarrow> subject_key" where
  "subject_key s = SubjectKey (s_Kind s) (s_Namespace s) (s_Name s)"

lemma subjectLess_key: "subjectLess x y \<longleftrightarrow> subject_key x < subject_key y"
  by (auto simp: subjectLess_def subject_key_def less_subject_key_def)

text \<open>What \<open>sort.Slice\<close> promises of the slice it is given.\<close>

locale slice_sorter =
  fixes srt :: "Subject list \<Rightarrow> Subject list"
  assumes srt_mset: "mset (srt xs) = mset xs"
    and srt_sorted: "sorted (map subject_key (srt xs))"
begin

lemma srt_length: "length (srt xs) = length xs"
  using srt_mset by (metis size_mset)

lemma srt_set: "set (srt xs) = set xs"
  using srt_mset by (metis set_mset_mset)

text \<open>Comparing two sorted copies never calls different collections equal.\<close>

lemma srt_eq_imp_mset: "srt a = srt b \<Longrightarrow> mset a = mset b"
  using srt_mset by metis

text \<open>
  It calls equal collections equal when a key determines its subject. Without that the
  order among subjects with one key is the algorithm's choice.
\<close>

lemma srt_eqI:
  assumes "mset a = mset b" and "inj_on subject_key (set a)"
  shows "srt a = srt b"
proof (rule map_inj_on)
  have "sort (map subject_key a) = map subject_key (srt xs)" if "mset xs = mset a" for xs
    using that by (intro properties_for_sort srt_sorted) (simp add: srt_mset)
  from this[of a] this[of b] assms(1)
  show "map subject_key (srt a) = map subject_key (srt b)" by simp
  show "inj_on subject_key (set (srt a) \<union> set (srt b))"
    using assms by (metis mset_eq_setD srt_set sup.idem)
qed

end

lemma insertSlice_mset: "mset (insertSlice lt x ys) = add_mset x (mset ys)"
  by (induction ys) auto

lemma sortSlice_mset: "mset (sortSlice lt xs) = mset xs"
  by (induction xs) (auto simp: insertSlice_mset)

lemma insertSlice_set: "set (insertSlice lt x ys) = insert x (set ys)"
  by (induction ys) auto

lemma insertSlice_sorted:
  "sorted (map subject_key ys) \<Longrightarrow> sorted (map subject_key (insertSlice subjectLess x ys))"
proof (induction ys)
  case Nil
  then show ?case by simp
next
  case (Cons y ys)
  then show ?case
    by (auto simp: subjectLess_key insertSlice_set dest: order.strict_implies_order)
qed

interpretation insertion: slice_sorter sortedSubjects
proof
  show "mset (sortedSubjects xs) = mset xs" for xs
    by (simp add: sortedSubjects_def sortSlice_mset)
  have "sorted (map subject_key (sortSlice subjectLess xs))" for xs
    by (induction xs) (simp_all add: insertSlice_sorted)
  then show "sorted (map subject_key (sortedSubjects xs))" for xs
    by (simp add: sortedSubjects_def)
qed

section \<open>Facts for the controllers\<close>

lemma equalSlices_iff: "length xs = length ys \<Longrightarrow> equalSlices xs ys \<longleftrightarrow> xs = ys"
  by (induction xs ys rule: equalSlices.induct) auto

lemma SubjectsEqual_iff_sorted: "SubjectsEqual a b \<longleftrightarrow> sortedSubjects a = sortedSubjects b"
proof (cases "length a = length b")
  case True
  then show ?thesis
    using equalSlices_iff[of "sortedSubjects a" "sortedSubjects b"]
    by (simp add: SubjectsEqual_def insertion.srt_length)
next
  case False
  then have "length (sortedSubjects a) \<noteq> length (sortedSubjects b)"
    using insertion.srt_length[of a] insertion.srt_length[of b] by metis
  then have "sortedSubjects a \<noteq> sortedSubjects b" by metis
  with False show ?thesis by (simp add: SubjectsEqual_def)
qed

lemma SubjectsEqual_sound: "SubjectsEqual a b \<Longrightarrow> mset a = mset b"
  unfolding SubjectsEqual_iff_sorted by (rule insertion.srt_eq_imp_mset)

lemma SubjectsEqual_complete:
  "inj_on subject_key (set a) \<Longrightarrow> mset a = mset b \<Longrightarrow> SubjectsEqual a b"
  unfolding SubjectsEqual_iff_sorted by (rule insertion.srt_eqI)

lemma SubjectsEqual_refl [simp]: "SubjectsEqual a a"
  by (simp add: SubjectsEqual_iff_sorted)

lemma Subjects_map: "Subjects ms = map newSubject ms"
  by (induction ms) simp_all

lemma subject_key_newSubject: "inj_on subject_key (set (Subjects ms))"
  by (auto simp: inj_on_def Subjects_map subject_key_def newSubject_def)

lemma Join_newline_eq_Nil:
  "\<forall>m \<in> set ms. m \<noteq> [] \<Longrightarrow> Join ms newline = [] \<longleftrightarrow> ms = []"
  by (cases ms) (auto simp: Join_Cons newline_def)

section \<open>Properties\<close>

text \<open>
  C36. The comparison the reconcilers rely on is exact: an existing subject list (whatever
  it holds) is called equal to the subjects built for the members just when the two are
  the same collection, irrespective of order and counting repetitions.
\<close>

theorem SubjectsEqual_exact_for_members:
  "SubjectsEqual existing (Subjects members) \<longleftrightarrow> mset existing = mset (Subjects members)"
proof
  show "SubjectsEqual existing (Subjects members) \<Longrightarrow> mset existing = mset (Subjects members)"
    by (rule SubjectsEqual_sound)
next
  assume eq: "mset existing = mset (Subjects members)"
  then have "inj_on subject_key (set existing)"
    using subject_key_newSubject by (metis mset_eq_setD)
  with eq show "SubjectsEqual existing (Subjects members)"
    by (rule SubjectsEqual_complete[rotated])
qed

text \<open>
  \<open>SubjectsEqual\<close> is documented to compare irrespective of order. The sort key leaves
  out the API group, so on subjects that differ only there the answer depends on their
  order: two lists with the same subjects are called different.
\<close>

theorem SubjectsEqual_order_sensitive:
  "\<exists>a b. mset a = mset b \<and> \<not> SubjectsEqual a b"
proof -
  define x y where
    "x = \<lparr>s_Kind = ''User'', s_APIGroup = GroupName, s_Name = ''u'', s_Namespace = []\<rparr>" and
    "y = \<lparr>s_Kind = ''User'', s_APIGroup = [], s_Name = ''u'', s_Namespace = []\<rparr>"
  have "\<not> SubjectsEqual [x, y] [y, x]"
    by (simp add: SubjectsEqual_def sortedSubjects_def subjectLess_def x_def y_def GroupName_def)
  moreover have "mset [x, y] = mset [y, x]" by simp
  ultimately show ?thesis by blast
qed

text \<open>
  C38. The member count written to the status is the number of members clamped at the
  largest 32-bit integer; it never wraps to a negative number.
\<close>

theorem MemberCount_clamps:
  "sint (MemberCount members) = min (int (length members)) (2 ^ 31 - 1)"
proof (cases "length members > MaxInt32")
  case True
  then show ?thesis by (simp add: MemberCount_def memberCount_def MaxInt32_def)
next
  case False
  then have lt: "length members < 2 ^ 31" by (simp add: MaxInt32_def)
  have "sint (word_of_nat (length members) :: int32) = int (length members)"
    using lt by (simp add: signed_of_nat signed_take_bit_int_eq_self)
  with lt False show ?thesis
    by (simp add: MemberCount_def memberCount_def)
qed

text \<open>
  The preview is a prefix of the members of at most twenty names, is marked truncated
  exactly when it leaves a member out, and is sorted when the members are.
\<close>

theorem PreviewMembers_spec:
  "(\<exists>rest. members = fst (PreviewMembers members) @ rest \<and>
            (snd (PreviewMembers members) \<longleftrightarrow> rest \<noteq> [])) \<and>
   length (fst (PreviewMembers members)) = min (length members) 20 \<and>
   (sorted members \<longrightarrow> sorted (fst (PreviewMembers members)))"
proof (cases "length members \<le> previewCap")
  case True
  then show ?thesis by (auto simp: PreviewMembers_def previewCap_def)
next
  case False
  then have "members = take previewCap members @ drop previewCap members"
    and "drop previewCap members \<noteq> []" by simp_all
  then have "\<exists>rest. members = take previewCap members @ rest \<and> rest \<noteq> []" by blast
  with False show ?thesis
    by (simp add: PreviewMembers_def previewCap_def sorted_wrt_take)
qed

theorem PreviewMembers_spec_witness:
  "sorted [''alice'', ''bob''] \<and> sorted (fst (PreviewMembers [''alice'', ''bob'']))"
proof -
  have "sorted [''alice'', ''bob'']" by simp
  with PreviewMembers_spec[of "[''alice'', ''bob'']"] show ?thesis by simp
qed

text \<open>
  C37. The members hash is 64 lower-case hexadecimal digits and identifies the member list:
  different lists of non-empty names without line breaks are hashed as different byte
  strings, and the hashes are equal just when the SHA-256 digests of these two byte strings
  are. Equal hashes of two such lists are thus a collision of the two hashed texts. The
  condition is needed: a name with a line break is hashed as the two names around it.
\<close>

theorem MembersHash_identifies:
  assumes "\<forall>m \<in> set ms. m \<noteq> [] \<and> CHR 0x0A \<notin> set m"
    and "\<forall>n \<in> set ns. n \<noteq> [] \<and> CHR 0x0A \<notin> set n"
  shows "length (MembersHash ms) = 64 \<and> set (MembersHash ms) \<subseteq> set ''0123456789abcdef'' \<and>
    (ms \<noteq> ns \<longrightarrow> bytes_of (Join ms newline) \<noteq> bytes_of (Join ns newline)) \<and>
    (MembersHash ms = MembersHash ns \<longleftrightarrow>
      Sum256 (bytes_of (Join ms newline)) = Sum256 (bytes_of (Join ns newline))) \<and>
    MembersHash [x @ newline @ y] = MembersHash [x, y]"
proof (intro conjI impI)
  show "MembersHash [x @ newline @ y] = MembersHash [x, y]" by (simp add: MembersHash_def)
  show "length (MembersHash ms) = 64"
    by (simp add: MembersHash_def length_EncodeToString length_Sum256)
  show "set (MembersHash ms) \<subseteq> set ''0123456789abcdef''"
    unfolding MembersHash_def using EncodeToString_digits by (simp only: hexdigits_def)
  show "MembersHash ms = MembersHash ns \<longleftrightarrow>
      Sum256 (bytes_of (Join ms newline)) = Sum256 (bytes_of (Join ns newline))"
    unfolding MembersHash_def using EncodeToString_inject by metis
  have "ms = ns" if eq: "Join ms newline = Join ns newline"
  proof -
    from eq have "ms = [] \<longleftrightarrow> ns = []"
      using assms Join_newline_eq_Nil by (metis (no_types, lifting))
    with eq show ?thesis
      using assms Join_inject[of ms "CHR 0x0A" ns] by (cases "ms = []") (auto simp: newline_def)
  qed
  then show "ms \<noteq> ns \<Longrightarrow> bytes_of (Join ms newline) \<noteq> bytes_of (Join ns newline)"
    using bytes_of_inject by metis
qed

theorem MembersHash_identifies_witness:
  "length (MembersHash [''alice'', ''bob'']) = 64 \<and>
   bytes_of (Join [''alice'', ''bob''] newline) \<noteq> bytes_of (Join [''alicebob''] newline)"
  using MembersHash_identifies[of "[''alice'', ''bob'']" "[''alicebob'']"] by simp

end
