(* ===== verification/Controller_Base.thy ===== *)
theory Controller_Base
  imports Ldap_Guarantees Rbacsync
begin

text \<open>
  What the reconcilers of \<open>internal/controller\<close> share: the result of a reconcile, the
  event helpers of \<open>events.go\<close>, the interfaces through which they reach a directory
  (\<open>GrouperResolver\<close> and \<open>PingerResolver\<close> of \<open>grouperfactory.go\<close>) and the outcome of a
  sync. The context carries a deadline only; \<open>log.WithValues\<close> changes no behaviour.
\<close>

section \<open>Results\<close>

text \<open>\<open>ctrl.Result\<close>: the zero value asks for no requeue.\<close>

record Result =
  RequeueAfter :: duration

definition zeroResult :: Result where "zeroResult = \<lparr>RequeueAfter = 0\<rparr>"

type_synonym 'w reconciliation = "('w op_state, Result \<times> error option) state"

definition IgnoreNotFound :: "'w env \<Rightarrow> error \<Rightarrow> error option" where
  "IgnoreNotFound E err = (if apierrors_IsNotFound E err then None else Some err)"

section \<open>Events (events.go)\<close>

definition eventAction :: string where "eventAction = ''Sync''"

definition recordWarning :: "object \<Rightarrow> string \<Rightarrow> string \<Rightarrow> ('w op_state, unit) state" where
  "recordWarning obj reason message = emit (AEvent obj EventTypeWarning reason eventAction message)"

text \<open>The formatted message is the argument; its callers build it.\<close>

definition recordSuccessf :: "object \<Rightarrow> string \<Rightarrow> string \<Rightarrow> ('w op_state, unit) state" where
  "recordSuccessf obj reason message = emit (AEvent obj EventTypeNormal reason eventAction message)"

text \<open>\<open>meta.SetStatusCondition\<close> on a list of conditions; it may read the clock.\<close>

definition SetStatusCondition ::
  "'w env \<Rightarrow> Condition list \<Rightarrow> Condition \<Rightarrow> ('w op_state, Condition list) state" where
  "SetStatusCondition E cs c = observe (meta_SetStatusCondition E cs c)"

text \<open>A condition that a reader of the list finds, up to its transition time.\<close>

definition has_condition :: "Condition list \<Rightarrow> Condition \<Rightarrow> bool" where
  "has_condition cs c \<longleftrightarrow> (\<exists>d. findCondition cs (c_Type c) = Some d \<and> same_condition d c)"

lemma has_condition_set:
  assumes "SetStatusCondition_ok E"
  shows "has_condition (meta_SetStatusCondition E cs c w) c"
    and "c_Type d \<noteq> c_Type c \<Longrightarrow> has_condition (meta_SetStatusCondition E cs c w) d = has_condition cs d"
  using assms by (simp_all add: SetStatusCondition_ok_def has_condition_def)

section \<open>Reaching a directory\<close>

type_synonym 'w GrouperResolver =
  "Context \<Rightarrow> LDAPProvider \<Rightarrow> ('w op_state, error + 'w Grouper) state"
type_synonym 'w PingerResolver =
  "Context \<Rightarrow> LDAPProvider \<Rightarrow> ('w op_state, error + 'w Pinger) state"

section \<open>Sync outcomes\<close>

datatype syncOutcome = syncUnchanged | syncCreated | syncUpdated | syncRecreated

section \<open>What reads and directory lookups leave alone\<close>

text \<open>
  The actions of resolving a provider and looking up a group: reads of the API server and
  directory traffic. None of them is a write.
\<close>

fun lookup_action :: "action \<Rightarrow> bool" where
  "lookup_action (AGet _ _) = True"
| "lookup_action (AList _ _) = True"
| "lookup_action a = directory_action a"

lemma lookup_action_no_write: "lookup_action a \<Longrightarrow> \<not> api_write a"
  by (cases a) simp_all

lemma directory_lookup: "directory_action a \<Longrightarrow> lookup_action a"
  by (cases a) simp_all

lemma only_mono:
  assumes "only P m" and "\<And>a. P a \<Longrightarrow> Q a"
  shows "only Q m"
  by (rule emits_mono[OF assms(1)]) (auto simp: list_all_iff assms(2))

lemma only_bind_yields:
  assumes "only P m" and "yields Q m" and "\<And>x. Q x \<Longrightarrow> only P (f x)"
  shows "only P (State_Monad.bind m f)"
  unfolding emits_def
proof
  fix s
  obtain x t where m: "run_state m s = (x, t)" by (cases "run_state m s")
  obtain y u where f: "run_state (f x) t = (y, u)" by (cases "run_state (f x) t")
  obtain "as" where "as": "os_trace t = os_trace s @ as" "list_all P as"
    using assms(1) m by (rule emits_run)
  obtain bs where bs: "os_trace u = os_trace t @ bs" "list_all P bs"
    using assms(3)[OF yields_run[OF assms(2) m]] f by (rule emits_run)
  show "\<exists>as. os_trace (snd (run_state (State_Monad.bind m f) s)) = os_trace s @ as \<and> list_all P as"
    using m f "as" bs by (intro exI[of _ "as @ bs"]) simp
qed

text \<open>Steps that leave no or one entry in the trace.\<close>

lemma emits_skip_metric: "emits R m \<Longrightarrow> emits R (do { metric f; m })"
  by (rule emits_bind[OF emits_metric[where R = "\<lambda>_ as. as = []"]]) auto

lemma emits_skip_Now: "(\<And>x. emits R (f x)) \<Longrightarrow> emits R (State_Monad.bind (Now E) f)"
  unfolding Now_def by (rule emits_bind[OF emits_observe[where R = "\<lambda>_ as. as = []"]]) auto

lemma emits_warning:
  "emits (\<lambda>r as. R r (AEvent obj EventTypeWarning reason eventAction msg # as)) m \<Longrightarrow>
   emits R (do { recordWarning obj reason msg; m })"
  unfolding recordWarning_def
  by (rule emits_bind[OF emits_emit[where R = "\<lambda>_ as. as = [AEvent obj EventTypeWarning reason eventAction msg]"]])
    auto

text \<open>
  The contract of a \<open>GrouperResolver\<close>: resolving a provider reads only, and what it hands
  out is a membership source.
\<close>

locale grouper_resolver =
  fixes resolver :: "'w GrouperResolver"
  assumes resolve_lookup: "only lookup_action (resolver ctx p)"
    and resolve_metrics: "keeps os_metrics (resolver ctx p)"
    and resolve_source: "yields (\<lambda>r. case r of Inl _ \<Rightarrow> True | Inr g \<Rightarrow> membership_source g) (resolver ctx p)"
begin

lemma resolved_source:
  "run_state (resolver ctx p) s = (Inr g, t) \<Longrightarrow> membership_source g"
  using resolve_source yields_run by fastforce

lemma resolved_lookup:
  assumes "run_state (resolver ctx p) s = (Inr g, t)"
  shows "only lookup_action (g c dn)"
  by (rule only_mono[OF membership_source.lookup_directory[OF resolved_source[OF assms]] directory_lookup])

lemma resolved_metrics:
  assumes "run_state (resolver ctx p) s = (Inr g, t)"
  shows "keeps os_metrics (g c dn)"
  by (rule membership_source.lookup_metrics[OF resolved_source[OF assms]])

end

end
