(* ===== verification/Managed_Sync.thy ===== *)
theory Managed_Sync
  imports Controller_Base
begin

text \<open>
  The contract that \<open>reconcileRoleBinding\<close> and \<open>reconcileClusterRoleBinding\<close> share, stated
  once for an arbitrary kind of managed object: the code of the two is the same program over
  different types, which the first law of the locale says, and everything else is proved
  from it. The last section gives the sequences of writes such a sync can make.
\<close>

locale managed_object =
  fixes E :: "'w env"
    and K :: "('w, 'o) kclient"
    and kind :: string
    and wrap :: "'o \<Rightarrow> object"
    and meta :: "'o \<Rightarrow> ObjectMeta"
    and subjects :: "'o \<Rightarrow> Subject list"
    and roleRef :: "'o \<Rightarrow> RbacRoleRef"
    and adopt :: "'o \<Rightarrow> 'o \<Rightarrow> 'o"
    and sync :: "'o \<Rightarrow> ('w op_state, error + syncOutcome) state"
  assumes sync_eq: "sync desired = do {
      r \<leftarrow> clientGet kind K (ObjectKeyFromObject (meta desired));
      case r of
        Inl err \<Rightarrow>
          if apierrors_IsNotFound E err
          then do {
            c \<leftarrow> clientCreate wrap K desired;
            case c of Inl err \<Rightarrow> ret (Inl err) | Inr _ \<Rightarrow> ret (Inr syncCreated)
          }
          else ret (Inl err)
      | Inr existing \<Rightarrow>
          if roleRef existing \<noteq> roleRef desired
          then do {
            d \<leftarrow> clientDelete wrap K existing;
            case d of
              Some err \<Rightarrow> ret (Inl err)
            | None \<Rightarrow> do {
                c \<leftarrow> clientCreate wrap K desired;
                case c of Inl err \<Rightarrow> ret (Inl err) | Inr _ \<Rightarrow> ret (Inr syncRecreated)
              }
          }
          else if SubjectsEqual (subjects existing) (subjects desired) \<and>
            equality_DeepEqual E (om_OwnerReferences (meta existing)) (om_OwnerReferences (meta desired))
          then ret (Inr syncUnchanged)
          else do {
            u \<leftarrow> clientUpdate wrap K (adopt existing desired);
            case u of Inl err \<Rightarrow> ret (Inl err) | Inr _ \<Rightarrow> ret (Inr syncUpdated)
          }
    }"
    and adopt_subjects: "subjects (adopt x desired) = subjects desired"
    and adopt_roleRef: "roleRef (adopt x desired) = roleRef x"
    and adopt_meta: "meta (adopt x desired) =
      (meta x)\<lparr>om_OwnerReferences := om_OwnerReferences (meta desired)\<rparr>"
begin

abbreviation key :: "'o \<Rightarrow> ObjectKey" where
  "key x \<equiv> ObjectKeyFromObject (meta x)"

text \<open>What the server must keep of an object it accepts.\<close>

definition agree :: "'o \<Rightarrow> 'o \<Rightarrow> bool" where
  "agree x y \<longleftrightarrow> subjects y = subjects x \<and> roleRef y = roleRef x \<and>
     om_OwnerReferences (meta y) = om_OwnerReferences (meta x) \<and> key y = key x"

text \<open>What the sync is for: the stored object grants exactly what is desired.\<close>

definition synced :: "'o \<Rightarrow> 'o \<Rightarrow> bool" where
  "synced desired x \<longleftrightarrow> roleRef x = roleRef desired \<and> SubjectsEqual (subjects x) (subjects desired) \<and>
     equality_DeepEqual E (om_OwnerReferences (meta x)) (om_OwnerReferences (meta desired))"

text \<open>
  What each result says of the object under the desired key, before (\<open>old\<close>) and after
  (\<open>new\<close>). An error leaves it alone, with one exception: a changed role reference is
  applied by deleting first, and a failing create then leaves nothing.
\<close>

definition outcome_ok :: "'o \<Rightarrow> 'o option \<Rightarrow> 'o option \<Rightarrow> error + syncOutcome \<Rightarrow> bool" where
  "outcome_ok desired old new r = (case r of
     Inr syncUnchanged \<Rightarrow> new = old \<and> (\<exists>x. old = Some x \<and> synced desired x)
   | Inr syncCreated \<Rightarrow> old = None \<and> (\<exists>y. new = Some y \<and> agree desired y)
   | Inr syncUpdated \<Rightarrow> (\<exists>x y. old = Some x \<and> \<not> synced desired x \<and> roleRef x = roleRef desired \<and>
       new = Some y \<and> agree (adopt x desired) y)
   | Inr syncRecreated \<Rightarrow> (\<exists>x y. old = Some x \<and> roleRef x \<noteq> roleRef desired \<and>
       new = Some y \<and> agree desired y)
   | Inl _ \<Rightarrow> new = old \<or> (\<exists>x. old = Some x \<and> roleRef x \<noteq> roleRef desired \<and> new = None))"

lemma adopt_key [simp]: "key (adopt x desired) = key x"
  by (simp add: adopt_meta ObjectKeyFromObject_def)

lemmas sync_calls = sync_eq clientGet_def clientCreate_def clientUpdate_def clientDelete_def

lemma sync_outcome:
  assumes "kclient_ok E K meta agree sto"
  shows "post (sync desired) s (\<lambda>r t.
    outcome_ok desired (sto (os_world s) (key desired)) (sto (os_world t) (key desired)) r)"
  unfolding sync_calls
  by (auto simp: outcome_ok_def synced_def
      dest!: kclient_okD[OF assms] split: prod.splits sum.splits option.splits)

lemma sync_other_keys:
  assumes "kclient_ok E K meta agree sto" and "k \<noteq> key desired"
  shows "post (sync desired) s (\<lambda>r t. sto (os_world t) k = sto (os_world s) k)"
  unfolding sync_calls using assms(2)
  by (auto dest!: kclient_okD[OF assms(1)] split: prod.splits sum.splits option.splits)

lemma agree_synced:
  assumes "\<And>rs. equality_DeepEqual E rs rs" and "agree x y" and "subjects x = subjects desired"
    and "roleRef x = roleRef desired" and "om_OwnerReferences (meta x) = om_OwnerReferences (meta desired)"
  shows "synced desired y"
  using assms by (simp add: agree_def synced_def)

text \<open>Success means that the stored object grants what is desired.\<close>

lemma outcome_synced:
  assumes "\<And>rs. equality_DeepEqual E rs rs" and "outcome_ok desired old new (Inr r)"
  shows "\<exists>x. new = Some x \<and> synced desired x"
  using assms agree_synced[OF assms(1)]
  by (cases r) (auto simp: outcome_ok_def adopt_subjects adopt_roleRef adopt_meta)

lemma sync_converges:
  assumes "kclient_ok E K meta agree sto" and "\<And>rs. equality_DeepEqual E rs rs"
    and "run_state (sync desired) s = (Inr r, t)"
  shows "\<exists>x. sto (os_world t) (key desired) = Some x \<and> synced desired x"
  using outcome_synced[OF assms(2)] postD[OF sync_outcome[OF assms(1)] assms(3)] by blast

text \<open>A second sync of the same object writes nothing.\<close>

lemma sync_repeat:
  assumes ok: "kclient_ok E K meta agree sto" and "\<And>rs. equality_DeepEqual E rs rs"
    and "run_state (sync desired) s = (Inr outcome, t)"
    and again: "run_state (sync desired) t = (r, u)"
  shows "os_trace u = os_trace t @ [AGet kind (key desired)] \<and> sto (os_world u) = sto (os_world t) \<and>
    (case fst (k_Get K (key desired) (os_world t)) of Inl e \<Rightarrow> r = Inl e | Inr _ \<Rightarrow> r = Inr syncUnchanged)"
proof -
  obtain x where x: "sto (os_world t) (key desired) = Some x" "synced desired x"
    using sync_converges[OF assms(1-3)] by blast
  obtain g w where g: "k_Get K (key desired) (os_world t) = (g, w)"
    by (cases "k_Get K (key desired) (os_world t)")
  show ?thesis
  proof (cases g)
    case (Inl e)
    with g have "sto w = sto (os_world t)" "\<not> apierrors_IsNotFound E e"
      using kclient_okD(2)[OF ok, of "key desired" "os_world t" e w] x(1) by auto
    with Inl g again show ?thesis by (auto simp: sync_eq clientGet_def call_def)
  next
    case (Inr y)
    with g have "sto w = sto (os_world t)" "y = x"
      using kclient_okD(1)[OF ok, of "key desired" "os_world t" y w] x(1) by auto
    with Inr g again x(2) show ?thesis by (auto simp: sync_eq clientGet_def call_def synced_def)
  qed
qed

text \<open>The whole contract of a sync.\<close>

lemma sync_contract:
  assumes ok: "kclient_ok E K meta agree sto" and "\<And>rs. equality_DeepEqual E rs rs"
    and run: "run_state (sync desired) s = (r, t)"
  shows "(\<forall>k'. k' \<noteq> key desired \<longrightarrow> sto (os_world t) k' = sto (os_world s) k') \<and>
    (case r of
       Inr _ \<Rightarrow> \<exists>x. sto (os_world t) (key desired) = Some x \<and> synced desired x
     | Inl _ \<Rightarrow> sto (os_world t) (key desired) = sto (os_world s) (key desired) \<or>
         (\<exists>x. sto (os_world s) (key desired) = Some x \<and> roleRef x \<noteq> roleRef desired \<and>
              sto (os_world t) (key desired) = None))"
proof (cases r)
  case (Inl e)
  then show ?thesis
    using postD[OF sync_other_keys[OF ok] run] postD[OF sync_outcome[OF ok] run]
    by (simp add: outcome_ok_def)
next
  case (Inr outcome)
  then show ?thesis
    using postD[OF sync_other_keys[OF ok] run] sync_converges[OF assms(1,2)] run by simp
qed

text \<open>
  The writes of a sync, whatever the server answers: at most a create or an update of an
  object with the desired subjects and owners, and a delete only of an object whose role
  reference differs from the desired one.
\<close>

definition justified :: "'o \<Rightarrow> action \<Rightarrow> bool" where
  "justified desired a \<longleftrightarrow> a = AGet kind (key desired) \<or> (\<exists>ok. a = ACreate (wrap desired) ok) \<or>
     (\<exists>x ok. a = AUpdate (wrap (adopt x desired)) ok \<and> roleRef x = roleRef desired) \<or>
     (\<exists>x ok. a = ADelete (wrap x) ok \<and> roleRef x \<noteq> roleRef desired)"

lemma sync_justified: "only (justified desired) (sync desired)"
  unfolding sync_calls by (auto intro!: only_intro simp: justified_def)

text \<open>
  The one way in which a sync takes a stored object away: its role reference differs, the
  delete is accepted and the create that follows is refused.
\<close>

lemma sync_removes:
  assumes ok: "kclient_ok E K meta agree sto" and old: "sto (os_world s) (key desired) = Some old"
    and run: "run_state (sync desired) s = (r, t)"
  shows "sto (os_world t) (key desired) = None \<longleftrightarrow> roleRef old \<noteq> roleRef desired \<and> (\<exists>e. r = Inl e) \<and>
    os_trace t = os_trace s @ [AGet kind (key desired), ADelete (wrap old) True, ACreate (wrap desired) False]"
  using run old unfolding sync_calls
  by (auto simp: call_def accepted_def dest!: kclient_okD[OF ok] split: prod.splits sum.splits option.splits if_splits)

end

end
