(* ===== verification/Binding_Sync.thy ===== *)
theory Binding_Sync
  imports Managed_Sync
begin

text \<open>
  The contract that the two binding reconcilers share. The two \<open>Reconcile\<close> methods are one
  program over different types: look the membership up, reach a verdict, bring the managed
  object in line when the verdict allows it, report the verdict in the status. The locale
  \<open>binding_reconciler\<close> states that once, and what follows for the trace, the status and the
  result of a reconcile.
\<close>

section \<open>Verdicts and how they are reported\<close>

datatype verdict = VReady "string list" | VDegraded error | VMissing

text \<open>The two status types, which differ in the name of one field, as one type.\<close>

record SyncStatus =
  ss_ObservedGeneration :: int64
  ss_Conditions :: "Condition list"
  ss_LastSyncTime :: "time option"
  ss_MemberCount :: int32
  ss_MembersPreview :: "string list"
  ss_MembersTruncated :: bool
  ss_MembersHash :: string
  ss_Ref :: "string option"

text \<open>The condition literals a verdict sets.\<close>

definition verdict_conditions :: "verdict \<Rightarrow> Condition list" where
  "verdict_conditions v = (case v of
     VReady ms \<Rightarrow>
       [newCondition ConditionReady ConditionTrue ReasonSyncSucceeded
          (''synced '' @ itoa (length ms) @ '' member(s)''),
        newCondition ConditionDegraded ConditionFalse ReasonSyncSucceeded [],
        newCondition ConditionGroupNotFound ConditionFalse ReasonSyncSucceeded []]
   | VDegraded cause \<Rightarrow>
       [newCondition ConditionReady ConditionFalse ReasonLDAPUnreachable (Error cause),
        newCondition ConditionDegraded ConditionTrue ReasonLDAPUnreachable (Error cause),
        newCondition ConditionGroupNotFound ConditionFalse ReasonLDAPUnreachable []]
   | VMissing \<Rightarrow>
       [newCondition ConditionReady ConditionFalse ReasonGroupNotFound ''groupDN not found in directory'',
        newCondition ConditionGroupNotFound ConditionTrue ReasonGroupNotFound [],
        newCondition ConditionDegraded ConditionFalse ReasonGroupNotFound []])"

text \<open>
  What a status update reports: the generation it is about, the verdict's conditions, and
  the membership it is about. A verdict without members leaves the membership fields of
  the previous status alone. The conditions are as
  reliable as \<open>meta.SetStatusCondition\<close>.
\<close>

definition report :: "'w env \<Rightarrow> verdict \<Rightarrow> ObjectMeta \<Rightarrow> SyncStatus \<Rightarrow> SyncStatus \<Rightarrow> bool" where
  "report E v m st st' \<longleftrightarrow>
     ss_ObservedGeneration st' = om_Generation m \<and>
     (SetStatusCondition_ok E \<longrightarrow> list_all (has_condition (ss_Conditions st')) (verdict_conditions v)) \<and>
     (case v of
        VReady ms \<Rightarrow> (\<exists>now. ss_LastSyncTime st' = Some now) \<and> ss_MemberCount st' = MemberCount ms \<and>
          (ss_MembersPreview st', ss_MembersTruncated st') = PreviewMembers ms \<and>
          ss_MembersHash st' = MembersHash ms \<and> ss_Ref st' = Some (om_Name m)
      | _ \<Rightarrow> ss_LastSyncTime st' = ss_LastSyncTime st \<and> ss_MemberCount st' = ss_MemberCount st \<and>
          ss_MembersPreview st' = ss_MembersPreview st \<and> ss_MembersTruncated st' = ss_MembersTruncated st \<and>
          ss_MembersHash st' = ss_MembersHash st \<and> ss_Ref st' = ss_Ref st)"

text \<open>Exactly one of the three conditions a reader looks at is true.\<close>

definition true_conditions :: "Condition list \<Rightarrow> string set" where
  "true_conditions cs = {t \<in> {ConditionReady, ConditionDegraded, ConditionGroupNotFound}.
     \<exists>d. findCondition cs t = Some d \<and> c_Status d = ConditionTrue}"

definition verdict_type :: "verdict \<Rightarrow> string" where
  "verdict_type v = (case v of VReady _ \<Rightarrow> ConditionReady | VDegraded _ \<Rightarrow> ConditionDegraded
     | VMissing \<Rightarrow> ConditionGroupNotFound)"

lemma report_true_condition:
  "report E v m st st' \<Longrightarrow> SetStatusCondition_ok E \<Longrightarrow> true_conditions (ss_Conditions st') = {verdict_type v}"
  by (cases v) (auto simp: report_def true_conditions_def verdict_type_def verdict_conditions_def
      has_condition_def same_condition_def newCondition_def condition_types)

text \<open>Setting three conditions of different types establishes all three.\<close>

lemma three_conditions:
  assumes "SetStatusCondition_ok E" and "distinct [c_Type c1, c_Type c2, c_Type c3]"
  shows "list_all (has_condition (meta_SetStatusCondition E (meta_SetStatusCondition E
    (meta_SetStatusCondition E cs c1 w) c2 w) c3 w)) [c1, c2, c3]"
  using assms(2) by (auto simp: has_condition_set[OF assms(1)])

text \<open>The result of a reconcile that ends in a status update.\<close>

definition result_ok :: "verdict \<Rightarrow> duration \<Rightarrow> bool \<Rightarrow> Result \<times> error option \<Rightarrow> bool" where
  "result_ok v interval ok r =
     (if ok then r = (case v of VDegraded cause \<Rightarrow> (zeroResult, Some cause) | _ \<Rightarrow> (\<lparr>RequeueAfter = interval\<rparr>, None))
      else fst r = zeroResult \<and> snd r \<noteq> None)"

definition verdict_events :: "object \<Rightarrow> verdict \<Rightarrow> action list" where
  "verdict_events obj v = (case v of
     VReady _ \<Rightarrow> []
   | VDegraded cause \<Rightarrow> [AEvent obj EventTypeWarning ''SyncFailed'' eventAction (Error cause)]
   | VMissing \<Rightarrow> [AEvent obj EventTypeWarning ''GroupNotFound'' eventAction ''groupDN not found in directory''])"

text \<open>The common end of the status reports: three conditions, the update, the result.\<close>

lemma mark_tail_emits:
  fixes E :: "'w env" and K :: "('w, 'b) kclient"
  assumes "distinct [c_Type c1, c_Type c2, c_Type c3]"
  shows "emits (\<lambda>r as. \<exists>cs' ok. as = [AStatusUpdate (wrap (upd cs')) ok] \<and>
      (SetStatusCondition_ok E \<longrightarrow> list_all (has_condition cs') [c1, c2, c3]) \<and>
      (if ok then r = good else fst r = zeroResult \<and> snd r \<noteq> None))
    (do {
       cs \<leftarrow> SetStatusCondition E cs0 c1;
       cs \<leftarrow> SetStatusCondition E cs c2;
       cs \<leftarrow> SetStatusCondition E cs c3;
       u \<leftarrow> clientStatusUpdate wrap K (upd cs);
       case u of Inl err \<Rightarrow> ret (zeroResult, Some err) | Inr _ \<Rightarrow> ret good
     })"
  unfolding emits_post
proof
  fix s :: "'w op_state"
  let ?w = "os_world s"
  let ?cs = "meta_SetStatusCondition E (meta_SetStatusCondition E (meta_SetStatusCondition E cs0 c1 ?w) c2 ?w) c3 ?w"
  obtain u w where "k_StatusUpdate K (upd ?cs) ?w = (u, w)" by (cases "k_StatusUpdate K (upd ?cs) ?w")
  then show "post (do {
       cs \<leftarrow> SetStatusCondition E cs0 c1;
       cs \<leftarrow> SetStatusCondition E cs c2;
       cs \<leftarrow> SetStatusCondition E cs c3;
       u \<leftarrow> clientStatusUpdate wrap K (upd cs);
       case u of Inl err \<Rightarrow> ret (zeroResult, Some err) | Inr _ \<Rightarrow> ret good
     }) s (\<lambda>r t. \<exists>as. os_trace t = os_trace s @ as \<and> (\<exists>cs' ok. as = [AStatusUpdate (wrap (upd cs')) ok] \<and>
      (SetStatusCondition_ok E \<longrightarrow> list_all (has_condition cs') [c1, c2, c3]) \<and>
      (if ok then r = good else fst r = zeroResult \<and> snd r \<noteq> None)))"
    using three_conditions[OF _ assms, of E cs0 ?w]
    by (cases u) (auto simp: SetStatusCondition_def clientStatusUpdate_def accepted_def intro!: exI[of _ ?cs])
qed

definition members_of :: "verdict \<Rightarrow> string list option" where
  "members_of v = (case v of VReady ms \<Rightarrow> Some ms | _ \<Rightarrow> None)"

section \<open>Looking the membership up\<close>

text \<open>
  The first half of a reconcile: either it is over, with a result, or there is a binding, a
  verdict on it and the provider's sync interval.
\<close>

definition lookupMembers ::
  "'w env \<Rightarrow> ('w, 'b) kclient \<Rightarrow> string \<Rightarrow> ('b \<Rightarrow> string) \<Rightarrow> ('b \<Rightarrow> string) \<Rightarrow> 'w GrouperResolver \<Rightarrow>
   Context \<Rightarrow> ObjectKey \<Rightarrow> ('w op_state, (Result \<times> error option) + ('b \<times> verdict \<times> duration)) state"
where
  "lookupMembers E K kind providerRef groupDN resolver ctx key = do {
     b \<leftarrow> clientGet kind K key;
     case b of
       Inl err \<Rightarrow> ret (Inl (zeroResult, IgnoreNotFound E err))
     | Inr binding \<Rightarrow> do {
         p \<leftarrow> clientGet ''LDAPProvider'' (lp_client E) \<lparr>key_Namespace = [], key_Name = providerRef binding\<rparr>;
         case p of
           Inl err \<Rightarrow>
             if apierrors_IsNotFound E err
             then ret (Inr (binding, VDegraded (ErrText (''LDAPProvider '' @
                    strconv_Quote E (providerRef binding) @ '' not found'')), 0))
             else ret (Inl (zeroResult, Some err))
         | Inr provider \<Rightarrow> do {
             g \<leftarrow> resolver ctx provider;
             case g of
               Inl err \<Rightarrow> ret (Inr (binding, VDegraded err, lps_SyncInterval (lp_Spec provider)))
             | Inr grouper \<Rightarrow> do {
                 m \<leftarrow> grouper ctx (groupDN binding);
                 ret (Inr (binding, (case m of
                    Inl err \<Rightarrow> if errors_Is err ErrGroupNotFound then VMissing else VDegraded err
                  | Inr members \<Rightarrow> VReady members), lps_SyncInterval (lp_Spec provider)))
               }
           }
       }
   }"

text \<open>The actions of reporting a verdict, with the result that follows from the last one.\<close>

definition marked ::
  "'w env \<Rightarrow> ('b \<Rightarrow> object) \<Rightarrow> ('b \<Rightarrow> ObjectMeta) \<Rightarrow> ('b \<Rightarrow> 's) \<Rightarrow> ('b \<Rightarrow> SyncStatus) \<Rightarrow>
   'b \<Rightarrow> verdict \<Rightarrow> duration \<Rightarrow> Result \<times> error option \<Rightarrow> action list \<Rightarrow> bool" where
  "marked E wrap meta spec view b v interval r as \<longleftrightarrow>
     (\<exists>b' ok. as = verdict_events (wrap b) v @ [AStatusUpdate (wrap b') ok] \<and>
        meta b' = meta b \<and> spec b' = spec b \<and> report E v (meta b) (view b) (view b') \<and>
        result_ok v interval ok r)"

lemma verdict_types_distinct:
  "verdict_conditions v = [c1, c2, c3] \<Longrightarrow> distinct [c_Type c1, c_Type c2, c_Type c3]"
  by (cases v) (auto simp: verdict_conditions_def newCondition_def condition_types)

lemma mark_tail_marked:
  assumes conds: "verdict_conditions v = [c1, c2, c3]"
    and good: "good = (case v of VDegraded c \<Rightarrow> (zeroResult, Some c) | _ \<Rightarrow> (\<lparr>RequeueAfter = i\<rparr>, None))"
    and same: "\<And>cs. meta (upd cs) = meta b" "\<And>cs. spec (upd cs) = spec b"
    and report: "\<And>cs. SetStatusCondition_ok E \<longrightarrow> list_all (has_condition cs) (verdict_conditions v) \<Longrightarrow>
      report E v (meta b) (view b) (view (upd cs))"
  shows "emits (\<lambda>r as. marked E wrap meta spec view b v i r (verdict_events (wrap b) v @ as))
    (do {
       cs \<leftarrow> SetStatusCondition E cs0 c1;
       cs \<leftarrow> SetStatusCondition E cs c2;
       cs \<leftarrow> SetStatusCondition E cs c3;
       u \<leftarrow> clientStatusUpdate wrap K (upd cs);
       case u of Inl err \<Rightarrow> ret (zeroResult, Some err) | Inr _ \<Rightarrow> ret good
     })"
proof (rule emits_mono[OF mark_tail_emits[OF verdict_types_distinct[OF conds]]], elim exE conjE)
  fix r "as" cs' ok
  assume "as": "as = [AStatusUpdate (wrap (upd cs')) ok]"
    and cs': "SetStatusCondition_ok E \<longrightarrow> list_all (has_condition cs') [c1, c2, c3]"
    and r: "if ok then r = good else fst r = zeroResult \<and> snd r \<noteq> None"
  have "report E v (meta b) (view b) (view (upd cs'))" using cs' conds by (intro report) simp
  moreover have "result_ok v i ok r" using r good by (simp add: result_ok_def)
  ultimately show "marked E wrap meta spec view b v i r (verdict_events (wrap b) v @ as)"
    using same "as" unfolding marked_def by (intro exI[of _ "upd cs'"] exI[of _ ok]) simp
qed

text \<open>
  A report makes one call that can move the world, the status update, and records the
  server's answer as the last entry of the trace.
\<close>

definition updates_status :: "('w, 'b) kclient \<Rightarrow> ('b \<Rightarrow> object) \<Rightarrow> ('w op_state, 'r) state \<Rightarrow> bool" where
  "updates_status K wrap m \<longleftrightarrow> (\<forall>s. \<exists>x u.
     k_StatusUpdate K x (os_world s) = (u, os_world (snd (run_state m s))) \<and>
     last (os_trace (snd (run_state m s))) = AStatusUpdate (wrap x) (accepted u))"

lemma updates_status_after:
  assumes "keeps os_world m" and "\<And>x. updates_status K wrap (f x)"
  shows "updates_status K wrap (State_Monad.bind m f)"
  unfolding updates_status_def
proof
  fix s
  obtain x t where m: "run_state m s = (x, t)" by (cases "run_state m s")
  then have "os_world t = os_world s" by (rule keepsD[OF assms(1)])
  with assms(2)[of x] m show "\<exists>y u.
      k_StatusUpdate K y (os_world s) = (u, os_world (snd (run_state (State_Monad.bind m f) s))) \<and>
      last (os_trace (snd (run_state (State_Monad.bind m f) s))) = AStatusUpdate (wrap y) (accepted u)"
    unfolding updates_status_def by (simp split: prod.splits) (metis snd_conv)
qed

lemma updates_status_last:
  "updates_status K wrap (do {
     u \<leftarrow> clientStatusUpdate wrap K x;
     case u of Inl err \<Rightarrow> ret (f err) | Inr y \<Rightarrow> ret (g y)
   })"
  unfolding updates_status_def
  by (intro allI exI[of _ x]) (auto simp: clientStatusUpdate_def call_def split: prod.splits sum.splits)

lemma world_kept [keeps_intro]:
  "keeps os_world (metric f)" "keeps os_world (Now E)" "keeps os_world (SetStatusCondition E cs c)"
  "keeps os_world (recordWarning obj reason msg)" "keeps os_world (Log msg args)"
  by (simp_all add: keeps_def metric_def Now_def SetStatusCondition_def recordWarning_def Log_def
      observe_def emit_def)

lemmas updates_status_intro = updates_status_after updates_status_last world_kept

definition outcome_event :: "object \<Rightarrow> syncOutcome \<Rightarrow> action list \<Rightarrow> bool" where
  "outcome_event obj outcome es =
     (if outcome = syncUnchanged then es = []
      else \<exists>reason msg. es = [AEvent obj EventTypeNormal reason eventAction msg])"

lemma lookupMembers_only:
  assumes "grouper_resolver resolver"
  shows "only lookup_action (lookupMembers E K kind providerRef groupDN resolver ctx key)"
proof -
  have source: "only lookup_action (g ctx dn)" if "membership_source g" for g dn
    by (rule only_mono[OF membership_source.lookup_directory[OF that] directory_lookup])
  show ?thesis
    unfolding lookupMembers_def clientGet_def
    by (auto intro!: only_intro source
        only_bind_yields[OF grouper_resolver.resolve_lookup[OF assms] grouper_resolver.resolve_source[OF assms]]
        split: sum.splits)
qed

text \<open>
  The verdict a reconcile ends with. Members that were found are reported only when the managed
  object could be brought in line: a failed sync degrades the binding with the error of the
  sync. Without an owner reference nothing can be reported, and the error is returned.
\<close>

definition final_verdict ::
  "('b \<Rightarrow> string list \<Rightarrow> error + 'o) \<Rightarrow> ('o \<Rightarrow> ('w op_state, error + syncOutcome) state) \<Rightarrow>
   'b \<Rightarrow> verdict \<Rightarrow> 'w op_state \<Rightarrow> error + verdict" where
  "final_verdict desire sync b v t = (case v of
     VReady ms \<Rightarrow>
       (case desire b ms of
          Inl err \<Rightarrow> Inl err
        | Inr d \<Rightarrow> (case fst (run_state (sync d) t) of Inl err \<Rightarrow> Inr (VDegraded err) | Inr _ \<Rightarrow> Inr v))
   | _ \<Rightarrow> Inr v)"

section \<open>The reconciler contract\<close>

locale binding_reconciler = managed_object E K kind wrap meta subjects roleRef adopt sync
  for E :: "'w env" and K :: "('w, 'o) kclient" and kind wrap meta subjects roleRef adopt sync +
  fixes Kb :: "('w, 'b) kclient"
    and bkind :: string
    and bwrap :: "'b \<Rightarrow> object"
    and bmeta :: "'b \<Rightarrow> ObjectMeta"
    and spec :: "'b \<Rightarrow> 's"
    and view :: "'b \<Rightarrow> SyncStatus"
    and providerRef :: "'b \<Rightarrow> string"
    and groupDN :: "'b \<Rightarrow> string"
    and desire :: "'b \<Rightarrow> string list \<Rightarrow> error + 'o"
    and recordOutcome :: "'b \<Rightarrow> 'o \<Rightarrow> string list \<Rightarrow> syncOutcome \<Rightarrow> ('w op_state, unit) state"
    and markReady :: "'b \<Rightarrow> string list \<Rightarrow> duration \<Rightarrow> 'w reconciliation"
    and markDegraded :: "'b \<Rightarrow> error \<Rightarrow> 'w reconciliation"
    and markGroupNotFound :: "'b \<Rightarrow> duration \<Rightarrow> 'w reconciliation"
    and body :: "'w GrouperResolver \<Rightarrow> Context \<Rightarrow> ObjectKey \<Rightarrow> 'w reconciliation"
  assumes body_eq: "body resolver ctx k = do {
      l \<leftarrow> lookupMembers E Kb bkind providerRef groupDN resolver ctx k;
      case l of
        Inl r \<Rightarrow> ret r
      | Inr (b, v, interval) \<Rightarrow>
          (case v of
             VDegraded err \<Rightarrow> markDegraded b err
           | VMissing \<Rightarrow> do { Log ''group not found in directory'' []; markGroupNotFound b interval }
           | VReady ms \<Rightarrow>
               (case desire b ms of
                  Inl err \<Rightarrow> ret (zeroResult, Some err)
                | Inr d \<Rightarrow> do {
                    r \<leftarrow> sync d;
                    case r of
                      Inl err \<Rightarrow> markDegraded b err
                    | Inr outcome \<Rightarrow> do {
                        recordOutcome b d ms outcome;
                        Log ''synced group membership'' [itoa (length ms)];
                        markReady b ms interval
                      }
                  }))
    }"
    and markReady_emits: "emits (marked E bwrap bmeta spec view b (VReady ms) i) (markReady b ms i)"
    and markDegraded_emits: "emits (marked E bwrap bmeta spec view b (VDegraded e) i) (markDegraded b e)"
    and markGroupNotFound_emits: "emits (marked E bwrap bmeta spec view b VMissing i) (markGroupNotFound b i)"
    and recordOutcome_emits: "emits (\<lambda>_. outcome_event (bwrap b) outcome) (recordOutcome b d ms outcome)"
    and recordOutcome_world: "keeps os_world (recordOutcome b d ms outcome)"
    and markReady_updates: "updates_status Kb bwrap (markReady b ms i)"
    and markDegraded_updates: "updates_status Kb bwrap (markDegraded b e)"
    and markGroupNotFound_updates: "updates_status Kb bwrap (markGroupNotFound b i)"
    and bwrap_inj: "bwrap x = bwrap y \<Longrightarrow> x = y"
begin

abbreviation marks :: "'b \<Rightarrow> verdict \<Rightarrow> duration \<Rightarrow> Result \<times> error option \<Rightarrow> action list \<Rightarrow> bool" where
  "marks \<equiv> marked E bwrap bmeta spec view"

text \<open>Every way the second half of a reconcile can go.\<close>

inductive finish :: "'b \<Rightarrow> verdict \<Rightarrow> duration \<Rightarrow> Result \<times> error option \<Rightarrow> action list \<Rightarrow> bool" where
  degraded: "marks b (VDegraded e) i r as \<Longrightarrow> finish b (VDegraded e) i r as"
| missing: "marks b VMissing i r as \<Longrightarrow> finish b VMissing i r (ALog msg args # as)"
| unowned: "desire b ms = Inl err \<Longrightarrow> finish b (VReady ms) i (zeroResult, Some err) []"
| failed: "desire b ms = Inr d \<Longrightarrow> list_all (justified d) ss \<Longrightarrow> marks b (VDegraded e) i r as \<Longrightarrow>
    finish b (VReady ms) i r (ss @ as)"
| synced: "desire b ms = Inr d \<Longrightarrow> list_all (justified d) ss \<Longrightarrow> outcome_event (bwrap b) outcome es \<Longrightarrow>
    marks b (VReady ms) i r as \<Longrightarrow> finish b (VReady ms) i r (ss @ es @ ALog msg args # as)"

lemma log_emits: "emits R m \<Longrightarrow> emits (\<lambda>r as. \<exists>bs. as = ALog msg args # bs \<and> R r bs) (do { Log msg args; m })"
  unfolding Log_def by (rule emits_bind[OF emits_emit[where R = "\<lambda>_ as. as = [ALog msg args]"]]) auto

text \<open>The second half of a reconcile.\<close>

definition settle :: "'b \<Rightarrow> verdict \<Rightarrow> duration \<Rightarrow> 'w reconciliation" where
  "settle b v interval = (case v of
     VDegraded err \<Rightarrow> markDegraded b err
   | VMissing \<Rightarrow> do { Log ''group not found in directory'' []; markGroupNotFound b interval }
   | VReady ms \<Rightarrow>
       (case desire b ms of
          Inl err \<Rightarrow> ret (zeroResult, Some err)
        | Inr d \<Rightarrow> do {
            r \<leftarrow> sync d;
            case r of
              Inl err \<Rightarrow> markDegraded b err
            | Inr outcome \<Rightarrow> do {
                recordOutcome b d ms outcome;
                Log ''synced group membership'' [itoa (length ms)];
                markReady b ms interval
              }
          }))"

lemma sync_settle_emits:
  assumes "desire b ms = Inr d"
  shows "emits (finish b (VReady ms) i) (settle b (VReady ms) i)"
  unfolding settle_def verdict.case assms sum.case
proof (rule emits_bind[OF sync_justified])
  fix r
  show "emits (\<lambda>x as. case r of
        Inl e \<Rightarrow> marks b (VDegraded e) i x as
      | Inr outcome \<Rightarrow> \<exists>es bs msg args. as = es @ ALog msg args # bs \<and>
          outcome_event (bwrap b) outcome es \<and> marks b (VReady ms) i x bs)
    (case r of Inl err \<Rightarrow> markDegraded b err
     | Inr outcome \<Rightarrow> do { recordOutcome b d ms outcome;
         Log ''synced group membership'' [itoa (length ms)]; markReady b ms i })"
  proof (cases r)
    case (Inl e)
    then show ?thesis by (simp add: markDegraded_emits)
  next
    case (Inr outcome)
    show ?thesis
      unfolding Inr sum.case
      by (rule emits_bind[OF recordOutcome_emits log_emits[OF markReady_emits]]) blast
  qed
next
  fix r ss x bs
  assume "list_all (justified d) ss"
    and "case r of Inl e \<Rightarrow> marks b (VDegraded e) i x bs
      | Inr outcome \<Rightarrow> \<exists>es bs' msg args. bs = es @ ALog msg args # bs' \<and>
          outcome_event (bwrap b) outcome es \<and> marks b (VReady ms) i x bs'"
  then show "finish b (VReady ms) i x (ss @ bs)"
    using assms by (auto intro: finish.intros split: sum.splits)
qed

lemma settle_emits: "emits (finish b v i) (settle b v i)"
proof (cases v)
  case (VReady ms)
  show ?thesis
  proof (cases "desire b ms")
    case (Inl e)
    with VReady show ?thesis by (simp add: settle_def emits_ret finish.unowned)
  next
    case (Inr d)
    with VReady show ?thesis by (simp add: sync_settle_emits)
  qed
next
  case (VDegraded e)
  then show ?thesis
    by (auto simp: settle_def intro: emits_mono[OF markDegraded_emits] finish.degraded)
next
  case VMissing
  show ?thesis
    unfolding VMissing settle_def verdict.case
    by (rule emits_mono[OF log_emits[OF markGroupNotFound_emits]]) (auto intro: finish.missing)
qed

abbreviation lookups :: "'w GrouperResolver \<Rightarrow> Context \<Rightarrow> ObjectKey \<Rightarrow>
    ('w op_state, (Result \<times> error option) + ('b \<times> verdict \<times> duration)) state" where
  "lookups \<equiv> lookupMembers E Kb bkind providerRef groupDN"

lemma body_settle:
  "body resolver ctx k = do {
     l \<leftarrow> lookups resolver ctx k;
     case l of Inl r \<Rightarrow> ret r | Inr (b, v, interval) \<Rightarrow> settle b v interval
   }"
  unfolding body_eq settle_def ..

text \<open>The trace and the result of a reconcile, from what the lookup found.\<close>

lemma body_run:
  assumes "grouper_resolver resolver" and l: "run_state (lookups resolver ctx k) s = (l, t)"
    and u: "run_state (body resolver ctx k) s = (r, u)"
  obtains ls "as" where "os_trace u = os_trace s @ ls @ as" and "list_all lookup_action ls"
    and "case l of Inl r' \<Rightarrow> as = [] \<and> r = r' | Inr (b, v, i) \<Rightarrow> finish b v i r as"
proof -
  obtain ls where ls: "os_trace t = os_trace s @ ls" "list_all lookup_action ls"
    using lookupMembers_only[OF assms(1)] l by (rule emits_run)
  show thesis
  proof (cases l)
    case (Inl r')
    with l u ls that[of ls "[]"] show thesis by (simp add: body_settle)
  next
    case (Inr x)
    obtain b v i where x: "x = (b, v, i)" by (cases x)
    have "run_state (settle b v i) t = (r, u)" using l u Inr x by (simp add: body_settle)
    then obtain "as" where "os_trace u = os_trace t @ as" "finish b v i r as"
      by (rule emits_run[OF settle_emits])
    with ls Inr x that[of ls "as"] show thesis by simp
  qed
qed

text \<open>
  The writes of a reconcile. Without members from the directory there is none but the
  status update of the binding; with them, those of the sync are added.
\<close>

definition status_write :: "action \<Rightarrow> bool" where
  "status_write a \<longleftrightarrow> (\<exists>b ok. a = AStatusUpdate (bwrap b) ok)"

definition permitted :: "'b \<Rightarrow> verdict \<Rightarrow> action \<Rightarrow> bool" where
  "permitted b v a \<longleftrightarrow> api_write a \<longrightarrow> status_write a \<or>
     (\<exists>ms d. v = VReady ms \<and> desire b ms = Inr d \<and> justified d a)"

lemma marked_permitted: "marks b v i r as \<Longrightarrow> list_all (permitted b' v') as"
  by (auto simp: marked_def verdict_events_def permitted_def status_write_def split: verdict.splits)

lemma outcome_event_permitted: "outcome_event obj outcome es \<Longrightarrow> list_all (permitted b' v') es"
  by (auto simp: outcome_event_def permitted_def split: if_splits)

lemma log_permitted: "permitted b v (ALog msg args)"
  by (simp add: permitted_def)

lemma finish_permitted: "finish b v i r as \<Longrightarrow> list_all (permitted b v) as"
proof (induction rule: finish.induct)
  case (failed b ms d ss e i r "as")
  then have "list_all (permitted b (VReady ms)) ss" by (auto simp: permitted_def list_all_iff)
  with failed(3) show ?case by (simp add: marked_permitted)
next
  case (synced b ms d ss outcome es i r "as" msg args)
  then have "list_all (permitted b (VReady ms)) ss" by (auto simp: permitted_def list_all_iff)
  with synced(3,4) show ?case by (simp add: marked_permitted outcome_event_permitted log_permitted)
qed (simp_all add: marked_permitted log_permitted)

lemma body_permitted:
  assumes "grouper_resolver resolver"
  obtains "as" where "os_trace (snd (run_state (body resolver ctx k) s)) = os_trace s @ as"
    and "case fst (run_state (lookups resolver ctx k) s) of
      Inl _ \<Rightarrow> \<not> list_ex api_write as | Inr (b, v, _) \<Rightarrow> list_all (permitted b v) as"
proof -
  obtain l t where l: "run_state (lookups resolver ctx k) s = (l, t)"
    by (cases "run_state (lookups resolver ctx k) s")
  obtain r u where u: "run_state (body resolver ctx k) s = (r, u)"
    by (cases "run_state (body resolver ctx k) s")
  obtain ls "as" where tr: "os_trace u = os_trace s @ ls @ as" and ls: "list_all lookup_action ls"
    and fin: "case l of Inl r' \<Rightarrow> as = [] \<and> r = r' | Inr (b, v, i) \<Rightarrow> finish b v i r as"
    using assms l u by (rule body_run)
  have "\<not> list_ex api_write ls" using ls lookup_action_no_write by (auto simp: list_all_iff list_ex_iff)
  moreover from this have "list_all (permitted b v) ls" for b v
    by (auto simp: permitted_def list_all_iff list_ex_iff)
  moreover have "list_all (permitted b v) as" if "finish b v i r as" for b v i
    using that by (rule finish_permitted)
  ultimately show thesis
    using that[of "ls @ as"] tr fin l u by (auto split: sum.splits)
qed

text \<open>
  The last action of a reconcile with a verdict is one status update, which reports that
  verdict, or Degraded if the sync failed; the result goes with it.
\<close>

definition ends_in_report :: "'b \<Rightarrow> verdict \<Rightarrow> duration \<Rightarrow> Result \<times> error option \<Rightarrow> action list \<Rightarrow> bool" where
  "ends_in_report b v i r as \<longleftrightarrow> (\<exists>bs b' ok. as = bs @ [AStatusUpdate (bwrap b') ok] \<and>
     \<not> list_ex status_write bs \<and> bmeta b' = bmeta b \<and> spec b' = spec b \<and>
     report E v (bmeta b) (view b) (view b') \<and> result_ok v i ok r)"

lemma marked_ends: "marks b v i r as \<Longrightarrow> ends_in_report b v i r as"
  by (auto simp: marked_def ends_in_report_def verdict_events_def status_write_def split: verdict.splits)

lemma ends_prefix:
  assumes "ends_in_report b v i r as" and "\<not> list_ex status_write cs"
  shows "ends_in_report b v i r (cs @ as)"
proof -
  from assms(1) obtain bs b' ok where "as = bs @ [AStatusUpdate (bwrap b') ok]" "\<not> list_ex status_write bs"
    "bmeta b' = bmeta b" "spec b' = spec b" "report E v (bmeta b) (view b) (view b')" "result_ok v i ok r"
    unfolding ends_in_report_def by metis
  with assms(2) show ?thesis
    unfolding ends_in_report_def by (intro exI[of _ "cs @ bs"] exI[of _ b'] exI[of _ ok]) simp
qed

lemma justified_no_status: "list_all (justified d) ss \<Longrightarrow> \<not> list_ex status_write ss"
  by (auto simp: list_all_iff list_ex_iff justified_def status_write_def)

lemma outcome_no_status: "outcome_event obj outcome es \<Longrightarrow> \<not> list_ex status_write es"
  by (auto simp: outcome_event_def status_write_def split: if_splits)

lemma log_no_status: "\<not> list_ex status_write [ALog msg args]"
  by (simp add: status_write_def)

lemma failed_reports:
  assumes "run_state (markDegraded b err) t1 = (r, u)" and "os_trace t1 = os_trace t @ ss" and "list_all (justified d) ss"
  shows "\<exists>as. os_trace u = os_trace t @ as \<and> ends_in_report b (VDegraded err) i r as"
proof -
  obtain "as" where "as": "os_trace u = os_trace t1 @ as" "marks b (VDegraded err) i r as"
    by (rule emits_run[OF markDegraded_emits assms(1)])
  from ends_prefix[OF marked_ends[OF "as"(2)] justified_no_status[OF assms(3)]] "as"(1) assms(2) show ?thesis by simp
qed

lemma synced_reports:
  assumes run: "run_state (do { recordOutcome b d ms outcome; Log msg args; markReady b ms i }) t1 = (r, u)"
    and ss: "os_trace t1 = os_trace t @ ss" "list_all (justified d) ss"
  shows "\<exists>as. os_trace u = os_trace t @ as \<and> ends_in_report b (VReady ms) i r as"
proof -
  obtain t2 where t2: "run_state (recordOutcome b d ms outcome) t1 = ((), t2)"
    by (cases "run_state (recordOutcome b d ms outcome) t1") simp
  obtain es where es: "os_trace t2 = os_trace t1 @ es" "outcome_event (bwrap b) outcome es"
    by (rule emits_run[OF recordOutcome_emits t2])
  have "run_state (do { Log msg args; markReady b ms i }) t2 = (r, u)" using run t2 by simp
  from emits_run[OF log_emits[OF markReady_emits] this]
  obtain bs where bs: "os_trace u = os_trace t2 @ ALog msg args # bs" "marks b (VReady ms) i r bs" by blast
  have "\<not> list_ex status_write (ss @ es @ [ALog msg args])"
    using justified_no_status[OF ss(2)] outcome_no_status[OF es(2)] log_no_status by simp
  from ends_prefix[OF marked_ends[OF bs(2)] this] ss(1) es(1) bs(1) show ?thesis by simp
qed

lemma settle_reports:
  assumes run: "run_state (settle b v i) t = (r, u)"
  shows "case final_verdict desire sync b v t of
      Inl err \<Rightarrow> u = t \<and> r = (zeroResult, Some err)
    | Inr v' \<Rightarrow> \<exists>as. os_trace u = os_trace t @ as \<and> ends_in_report b v' i r as"
proof (cases v)
  case (VReady ms)
  show ?thesis
  proof (cases "desire b ms")
    case (Inl err)
    with VReady run show ?thesis by (simp add: settle_def final_verdict_def)
  next
    case (Inr d)
    obtain o' t1 where o': "run_state (sync d) t = (o', t1)" by (cases "run_state (sync d) t")
    obtain ss where ss: "os_trace t1 = os_trace t @ ss" "list_all (justified d) ss"
      by (rule emits_run[OF sync_justified o'])
    show ?thesis
      using run VReady Inr o' failed_reports[OF _ ss] synced_reports[OF _ ss]
      by (cases o') (simp_all add: settle_def final_verdict_def)
  qed
next
  case (VDegraded e)
  with run have "run_state (markDegraded b e) t = (r, u)" by (simp add: settle_def)
  from failed_reports[OF this, of t "[]"] VDegraded show ?thesis by (simp add: final_verdict_def)
next
  case VMissing
  with run have "run_state (do { Log ''group not found in directory'' []; markGroupNotFound b i }) t = (r, u)"
    by (simp add: settle_def)
  from emits_run[OF log_emits[OF markGroupNotFound_emits] this]
  obtain bs where "os_trace u = os_trace t @ ALog ''group not found in directory'' [] # bs" "marks b VMissing i r bs"
    by blast
  with ends_prefix[OF marked_ends log_no_status] VMissing show ?thesis by (fastforce simp: final_verdict_def)
qed

lemma body_reports:
  assumes "grouper_resolver resolver"
    and l: "run_state (lookups resolver ctx k) s = (Inr (b, v, i), t)"
    and u: "run_state (body resolver ctx k) s = (r, u)"
  shows "case final_verdict desire sync b v t of
      Inl err \<Rightarrow> r = (zeroResult, Some err) \<and> (\<exists>as. os_trace u = os_trace s @ as \<and> \<not> list_ex api_write as)
    | Inr v' \<Rightarrow> \<exists>as b' ok. os_trace u = os_trace s @ as @ [AStatusUpdate (bwrap b') ok] \<and> \<not> list_ex status_write as \<and>
        report E v' (bmeta b) (view b) (view b') \<and> bmeta b' = bmeta b \<and> spec b' = spec b \<and> result_ok v' i ok r"
proof -
  obtain ls where ls: "os_trace t = os_trace s @ ls" "list_all lookup_action ls"
    by (rule emits_run[OF lookupMembers_only[OF assms(1)] l])
  then have reads: "\<not> list_ex api_write ls" using lookup_action_no_write by (auto simp: list_all_iff list_ex_iff)
  then have quiet: "\<not> list_ex status_write ls" by (auto simp: list_ex_iff status_write_def)
  have "run_state (settle b v i) t = (r, u)" using l u by (simp add: body_settle)
  note settled = settle_reports[OF this]
  show ?thesis
  proof (cases "final_verdict desire sync b v t")
    case (Inl err)
    with settled ls(1) reads show ?thesis by simp
  next
    case (Inr v')
    with settled obtain "as" where "os_trace u = os_trace t @ as" "ends_in_report b v' i r as" by auto
    with ends_prefix[OF this(2) quiet] ls(1) Inr show ?thesis by (auto simp: ends_in_report_def)
  qed
qed

text \<open>Without a verdict the result is the lookup's and nothing is written.\<close>

lemma body_stops:
  assumes "grouper_resolver resolver"
    and l: "run_state (lookups resolver ctx k) s = (Inl r', t)"
    and u: "run_state (body resolver ctx k) s = (r, u)"
  shows "r = r'"
  by (rule body_run[OF assms]) simp

lemma markDegraded_errs:
  assumes rt: "run_state (markDegraded b e) s = (r, t)"
  shows "snd r \<noteq> None"
proof -
  obtain "as" where "marks b (VDegraded e) 0 r as" by (rule emits_run[OF markDegraded_emits rt])
  then show ?thesis by (auto simp: marked_def result_ok_def split: if_splits)
qed

text \<open>
  A reconcile that found members and returned no error leaves the desired object in the
  cluster: the status update that comes last is of another kind of object.
\<close>

lemma body_establishes:
  assumes "kclient_ok E K meta agree sto" and "\<And>rs. equality_DeepEqual E rs rs"
    and status: "\<And>x w. sto (snd (k_StatusUpdate Kb x w)) = sto w"
    and l: "run_state (lookups resolver ctx k) s = (Inr (b, VReady ms, i), t)"
    and u: "run_state (body resolver ctx k) s = (r, u)" and "snd r = None"
  shows "\<exists>d x. desire b ms = Inr d \<and> sto (os_world u) (key d) = Some x \<and> synced d x"
proof -
  have settle: "run_state (settle b (VReady ms) i) t = (r, u)"
    using l u by (simp add: body_settle)
  then obtain d where d: "desire b ms = Inr d"
    using assms(6) by (cases "desire b ms") (auto simp: settle_def)
  obtain o' t1 where o': "run_state (sync d) t = (o', t1)" by (cases "run_state (sync d) t")
  then obtain outcome where outcome: "o' = Inr outcome"
    using settle d assms(6) by (cases o') (auto simp: settle_def dest: markDegraded_errs)
  obtain t2 where t2: "run_state (recordOutcome b d ms outcome) t1 = ((), t2)"
    by (cases "run_state (recordOutcome b d ms outcome) t1") simp
  let ?t3 = "t2\<lparr>os_trace := os_trace t2 @ [ALog ''synced group membership'' [itoa (length ms)]]\<rparr>"
  have "run_state (markReady b ms i) ?t3 = (r, u)"
    using settle d o' outcome t2 by (simp add: settle_def Log_def emit_def)
  then obtain x where "os_world u = snd (k_StatusUpdate Kb x (os_world t2))"
    using spec[OF markReady_updates[of b ms i, unfolded updates_status_def], of ?t3] by (auto, metis snd_conv)
  moreover have "os_world t2 = os_world t1" using recordOutcome_world t2 by (rule keepsD)
  ultimately show ?thesis
    using sync_converges[OF assms(1,2) o'[unfolded outcome]] d status by auto
qed

end

end
