(* ===== verification/RBACGroupBinding_Controller.thy ===== *)
theory RBACGroupBinding_Controller
  imports Binding_Sync
begin

text \<open>
  \<open>rbacgroupbinding_controller.go\<close>: the reconciler that keeps a RoleBinding's subjects equal
  to a directory group. The struct's client, scheme and recorder are the environment \<open>E\<close>
  and the trace; its \<open>Grouper\<close> is the parameter \<open>resolver\<close>. A pointer argument that the
  Go code mutates (\<open>binding\<close>) is a value here, rebuilt where the code assigns its fields;
  nothing reads it again after the status update.
\<close>

definition rbacGroupBindingKind :: string where "rbacGroupBindingKind = ''RBACGroupBinding''"

definition reconcileRoleBinding :: "'w env \<Rightarrow> RoleBinding \<Rightarrow> ('w op_state, error + syncOutcome) state" where
  "reconcileRoleBinding E desired = do {
     r \<leftarrow> clientGet ''RoleBinding'' (rb_client E) (ObjectKeyFromObject (rb_meta desired));
     case r of
       Inl err \<Rightarrow>
         if apierrors_IsNotFound E err
         then do {
           c \<leftarrow> clientCreate ORoleBinding (rb_client E) desired;
           case c of Inl err \<Rightarrow> ret (Inl err) | Inr _ \<Rightarrow> ret (Inr syncCreated)
         }
         else ret (Inl err)
     | Inr existing \<Rightarrow>
         if rb_RoleRef existing \<noteq> rb_RoleRef desired
         then do {
           d \<leftarrow> clientDelete ORoleBinding (rb_client E) existing;
           case d of
             Some err \<Rightarrow> ret (Inl err)
           | None \<Rightarrow> do {
               c \<leftarrow> clientCreate ORoleBinding (rb_client E) desired;
               case c of Inl err \<Rightarrow> ret (Inl err) | Inr _ \<Rightarrow> ret (Inr syncRecreated)
             }
         }
         else if SubjectsEqual (rb_Subjects existing) (rb_Subjects desired) \<and>
           equality_DeepEqual E (om_OwnerReferences (rb_meta existing)) (om_OwnerReferences (rb_meta desired))
         then ret (Inr syncUnchanged)
         else do {
           u \<leftarrow> clientUpdate ORoleBinding (rb_client E)
                  (existing\<lparr>rb_Subjects := rb_Subjects desired,
                     rb_meta := (rb_meta existing)\<lparr>om_OwnerReferences := om_OwnerReferences (rb_meta desired)\<rparr>\<rparr>);
           case u of Inl err \<Rightarrow> ret (Inl err) | Inr _ \<Rightarrow> ret (Inr syncUpdated)
         }
   }"

definition RGB_markReady ::
  "'w env \<Rightarrow> RBACGroupBinding \<Rightarrow> string list \<Rightarrow> duration \<Rightarrow> 'w reconciliation" where
  "RGB_markReady E binding members interval = do {
     let (preview, truncated) = PreviewMembers members;
     now \<leftarrow> Now E;
     let status = (rgb_Status binding)\<lparr>
       rgbst_ObservedGeneration := om_Generation (rgb_meta binding),
       rgbst_LastSyncTime := Some now,
       rgbst_MemberCount := MemberCount members,
       rgbst_MembersPreview := preview,
       rgbst_MembersTruncated := truncated,
       rgbst_MembersHash := MembersHash members,
       rgbst_RoleBindingRef := Some (om_Name (rgb_meta binding))\<rparr>;
     metric (SyncTotal_Inc rbacGroupBindingKind ''ready'');
     metric (MembersCount_Set rbacGroupBindingKind (om_Namespace (rgb_meta binding))
       (om_Name (rgb_meta binding)) (length members));
     cs \<leftarrow> SetStatusCondition E (rgbst_Conditions status)
       (newCondition ConditionReady ConditionTrue ReasonSyncSucceeded
         (''synced '' @ itoa (length members) @ '' member(s)''));
     cs \<leftarrow> SetStatusCondition E cs (newCondition ConditionDegraded ConditionFalse ReasonSyncSucceeded []);
     cs \<leftarrow> SetStatusCondition E cs (newCondition ConditionGroupNotFound ConditionFalse ReasonSyncSucceeded []);
     u \<leftarrow> clientStatusUpdate ORBACGroupBinding (rgb_client E)
            (binding\<lparr>rgb_Status := status\<lparr>rgbst_Conditions := cs\<rparr>\<rparr>);
     case u of
       Inl err \<Rightarrow> ret (zeroResult, Some err)
     | Inr _ \<Rightarrow> ret (\<lparr>RequeueAfter = interval\<rparr>, None)
   }"

definition RGB_markDegraded :: "'w env \<Rightarrow> RBACGroupBinding \<Rightarrow> error \<Rightarrow> 'w reconciliation" where
  "RGB_markDegraded E binding cause = do {
     recordWarning (ORBACGroupBinding binding) ''SyncFailed'' (Error cause);
     metric (SyncTotal_Inc rbacGroupBindingKind ''degraded'');
     metric (LDAPErrorsTotal_Inc (rgbs_ProviderRef (rgb_Spec binding)));
     let status = (rgb_Status binding)\<lparr>rgbst_ObservedGeneration := om_Generation (rgb_meta binding)\<rparr>;
     cs \<leftarrow> SetStatusCondition E (rgbst_Conditions status)
       (newCondition ConditionReady ConditionFalse ReasonLDAPUnreachable (Error cause));
     cs \<leftarrow> SetStatusCondition E cs
       (newCondition ConditionDegraded ConditionTrue ReasonLDAPUnreachable (Error cause));
     cs \<leftarrow> SetStatusCondition E cs (newCondition ConditionGroupNotFound ConditionFalse ReasonLDAPUnreachable []);
     u \<leftarrow> clientStatusUpdate ORBACGroupBinding (rgb_client E)
            (binding\<lparr>rgb_Status := status\<lparr>rgbst_Conditions := cs\<rparr>\<rparr>);
     case u of
       Inl err \<Rightarrow> ret (zeroResult, Some err)
     | Inr _ \<Rightarrow> ret (zeroResult, Some cause)
   }"

definition RGB_markGroupNotFound :: "'w env \<Rightarrow> RBACGroupBinding \<Rightarrow> duration \<Rightarrow> 'w reconciliation" where
  "RGB_markGroupNotFound E binding interval = do {
     recordWarning (ORBACGroupBinding binding) ''GroupNotFound'' ''groupDN not found in directory'';
     metric (SyncTotal_Inc rbacGroupBindingKind ''group_not_found'');
     let status = (rgb_Status binding)\<lparr>rgbst_ObservedGeneration := om_Generation (rgb_meta binding)\<rparr>;
     cs \<leftarrow> SetStatusCondition E (rgbst_Conditions status)
       (newCondition ConditionReady ConditionFalse ReasonGroupNotFound ''groupDN not found in directory'');
     cs \<leftarrow> SetStatusCondition E cs (newCondition ConditionGroupNotFound ConditionTrue ReasonGroupNotFound []);
     cs \<leftarrow> SetStatusCondition E cs (newCondition ConditionDegraded ConditionFalse ReasonGroupNotFound []);
     u \<leftarrow> clientStatusUpdate ORBACGroupBinding (rgb_client E)
            (binding\<lparr>rgb_Status := status\<lparr>rgbst_Conditions := cs\<rparr>\<rparr>);
     case u of
       Inl err \<Rightarrow> ret (zeroResult, Some err)
     | Inr _ \<Rightarrow> ret (\<lparr>RequeueAfter = interval\<rparr>, None)
   }"

text \<open>The events of the outcome switch in \<open>Reconcile\<close>.\<close>

definition RGB_recordOutcome ::
  "RBACGroupBinding \<Rightarrow> RoleBinding \<Rightarrow> string list \<Rightarrow> syncOutcome \<Rightarrow> ('w op_state, unit) state" where
  "RGB_recordOutcome binding desired members outcome = (case outcome of
     syncUnchanged \<Rightarrow> ret ()
   | syncCreated \<Rightarrow> recordSuccessf (ORBACGroupBinding binding) ''RoleBindingCreated''
       (''created RoleBinding '' @ om_Name (rb_meta desired) @ '' with '' @ itoa (length members) @ '' member(s)'')
   | syncUpdated \<Rightarrow> recordSuccessf (ORBACGroupBinding binding) ''RoleBindingUpdated''
       (''updated RoleBinding '' @ om_Name (rb_meta desired) @ '' to '' @ itoa (length members) @ '' member(s)'')
   | syncRecreated \<Rightarrow> recordSuccessf (ORBACGroupBinding binding) ''RoleBindingRecreated''
       (''recreated RoleBinding '' @ om_Name (rb_meta desired) @ '' (roleRef changed)''))"

text \<open>\<open>Reconcile\<close> after the deferred observation of its duration is set up.\<close>

definition RGB_reconcileBody ::
  "'w env \<Rightarrow> 'w GrouperResolver \<Rightarrow> Context \<Rightarrow> ObjectKey \<Rightarrow> 'w reconciliation" where
  "RGB_reconcileBody E resolver ctx key = do {
     b \<leftarrow> clientGet rbacGroupBindingKind (rgb_client E) key;
     case b of
       Inl err \<Rightarrow> ret (zeroResult, IgnoreNotFound E err)
     | Inr binding \<Rightarrow> do {
     p \<leftarrow> clientGet ''LDAPProvider'' (lp_client E)
            \<lparr>key_Namespace = [], key_Name = rgbs_ProviderRef (rgb_Spec binding)\<rparr>;
     case p of
       Inl err \<Rightarrow>
         if apierrors_IsNotFound E err
         then RGB_markDegraded E binding
                (ErrText (''LDAPProvider '' @ strconv_Quote E (rgbs_ProviderRef (rgb_Spec binding)) @ '' not found''))
         else ret (zeroResult, Some err)
     | Inr provider \<Rightarrow> do {
     g \<leftarrow> resolver ctx provider;
     case g of
       Inl err \<Rightarrow> RGB_markDegraded E binding err
     | Inr grouper \<Rightarrow> do {
     m \<leftarrow> grouper ctx (rgbs_GroupDN (rgb_Spec binding));
     case m of
       Inl err \<Rightarrow>
         if errors_Is err ErrGroupNotFound
         then do {
           Log ''group not found in directory'' [];
           RGB_markGroupNotFound E binding (lps_SyncInterval (lp_Spec provider))
         }
         else RGB_markDegraded E binding err
     | Inr members \<Rightarrow>
     (let desired = BuildRoleBinding binding members
      in case controllerutil_SetControllerReference E (ORBACGroupBinding binding) (rb_meta desired) of
        Inl err \<Rightarrow> ret (zeroResult, Some err)
      | Inr owned \<Rightarrow> do {
     let desired = desired\<lparr>rb_meta := owned\<rparr>;
     o' \<leftarrow> reconcileRoleBinding E desired;
     case o' of
       Inl err \<Rightarrow> RGB_markDegraded E binding err
     | Inr outcome \<Rightarrow> do {
         RGB_recordOutcome binding desired members outcome;
         Log ''synced group membership'' [itoa (length members)];
         RGB_markReady E binding members (lps_SyncInterval (lp_Spec provider))
       }})}}}}"

definition RGB_Reconcile ::
  "'w env \<Rightarrow> 'w GrouperResolver \<Rightarrow> Context \<Rightarrow> ObjectKey \<Rightarrow> 'w reconciliation" where
  "RGB_Reconcile E resolver ctx key = do {
     start \<leftarrow> Now E;
     r \<leftarrow> RGB_reconcileBody E resolver ctx key;
     stop \<leftarrow> Now E;
     metric (SyncDuration_Observe rbacGroupBindingKind (stop - start));
     ret r
   }"

section \<open>The contract, met\<close>

text \<open>The RoleBinding to establish: built from the binding, owned by it.\<close>

definition RGB_desire :: "'w env \<Rightarrow> RBACGroupBinding \<Rightarrow> string list \<Rightarrow> error + RoleBinding" where
  "RGB_desire E binding members =
     (case controllerutil_SetControllerReference E (ORBACGroupBinding binding)
             (rb_meta (BuildRoleBinding binding members)) of
        Inl err \<Rightarrow> Inl err
      | Inr owned \<Rightarrow> Inr ((BuildRoleBinding binding members)\<lparr>rb_meta := owned\<rparr>))"

definition RGB_view :: "RBACGroupBinding \<Rightarrow> SyncStatus" where
  "RGB_view b = (let st = rgb_Status b in
     \<lparr>ss_ObservedGeneration = rgbst_ObservedGeneration st, ss_Conditions = rgbst_Conditions st,
      ss_LastSyncTime = rgbst_LastSyncTime st, ss_MemberCount = rgbst_MemberCount st,
      ss_MembersPreview = rgbst_MembersPreview st, ss_MembersTruncated = rgbst_MembersTruncated st,
      ss_MembersHash = rgbst_MembersHash st, ss_Ref = rgbst_RoleBindingRef st\<rparr>)"

abbreviation RGB_adopt :: "RoleBinding \<Rightarrow> RoleBinding \<Rightarrow> RoleBinding" where
  "RGB_adopt existing desired \<equiv> existing\<lparr>rb_Subjects := rb_Subjects desired,
     rb_meta := (rb_meta existing)\<lparr>om_OwnerReferences := om_OwnerReferences (rb_meta desired)\<rparr>\<rparr>"

interpretation rolebinding: managed_object E "rb_client E" "''RoleBinding''" ORoleBinding rb_meta rb_Subjects
  rb_RoleRef RGB_adopt "reconcileRoleBinding E" for E
  by unfold_locales (simp_all add: reconcileRoleBinding_def)

abbreviation RGB_lookup :: "'w env \<Rightarrow> 'w GrouperResolver \<Rightarrow> Context \<Rightarrow> ObjectKey \<Rightarrow>
    ('w op_state, (Result \<times> error option) + (RBACGroupBinding \<times> verdict \<times> duration)) state" where
  "RGB_lookup E \<equiv> lookupMembers E (rgb_client E) rbacGroupBindingKind
     (\<lambda>b. rgbs_ProviderRef (rgb_Spec b)) (\<lambda>b. rgbs_GroupDN (rgb_Spec b))"

lemma RGB_body_eq:
  "RGB_reconcileBody E resolver ctx k = do {
      l \<leftarrow> RGB_lookup E resolver ctx k;
      case l of
        Inl r \<Rightarrow> ret r
      | Inr (b, v, interval) \<Rightarrow>
          (case v of
             VDegraded err \<Rightarrow> RGB_markDegraded E b err
           | VMissing \<Rightarrow> do { Log ''group not found in directory'' []; RGB_markGroupNotFound E b interval }
           | VReady ms \<Rightarrow>
               (case RGB_desire E b ms of
                  Inl err \<Rightarrow> ret (zeroResult, Some err)
                | Inr d \<Rightarrow> do {
                    r \<leftarrow> reconcileRoleBinding E d;
                    case r of
                      Inl err \<Rightarrow> RGB_markDegraded E b err
                    | Inr outcome \<Rightarrow> do {
                        RGB_recordOutcome b d ms outcome;
                        Log ''synced group membership'' [itoa (length ms)];
                        RGB_markReady E b ms interval
                      }
                  }))
    }"
  unfolding RGB_reconcileBody_def lookupMembers_def State_Monad.bind_assoc bind_case_sum bind_if
    State_Monad.bind_left_identity sum.case prod.case verdict.case
  by (intro bind_cong_eq case_sum_eq refl if_cong)
    (auto simp: RGB_desire_def Let_def split: sum.splits)

lemmas RGB_report_defs = verdict_events_def report_def verdict_conditions_def RGB_view_def Let_def

lemma RGB_markReady_emits:
  "emits (marked E ORBACGroupBinding rgb_meta rgb_Spec RGB_view b (VReady ms) i) (RGB_markReady E b ms i)"
  unfolding RGB_markReady_def Let_def case_prod_unfold
  by (rule emits_skip_Now, rule emits_skip_metric, rule emits_skip_metric, 
      rule emits_mono[OF mark_tail_marked[where v = "VReady ms" and i = i and b = b and meta = rgb_meta
        and spec = rgb_Spec and view = RGB_view]])
    (simp_all add: RGB_report_defs)

lemma RGB_markDegraded_emits:
  "emits (marked E ORBACGroupBinding rgb_meta rgb_Spec RGB_view b (VDegraded e) i) (RGB_markDegraded E b e)"
  unfolding RGB_markDegraded_def Let_def
  by (rule emits_warning, rule emits_skip_metric, rule emits_skip_metric, 
      rule emits_mono[OF mark_tail_marked[where v = "VDegraded e" and i = i and b = b and meta = rgb_meta
        and spec = rgb_Spec and view = RGB_view]])
    (simp_all add: RGB_report_defs)

lemma RGB_markGroupNotFound_emits:
  "emits (marked E ORBACGroupBinding rgb_meta rgb_Spec RGB_view b VMissing i) (RGB_markGroupNotFound E b i)"
  unfolding RGB_markGroupNotFound_def Let_def
  by (rule emits_warning, rule emits_skip_metric, 
      rule emits_mono[OF mark_tail_marked[where v = "VMissing" and i = i and b = b and meta = rgb_meta
        and spec = rgb_Spec and view = RGB_view]])
    (simp_all add: RGB_report_defs)

lemma RGB_recordOutcome_emits:
  "emits (\<lambda>_. outcome_event (ORBACGroupBinding b) outcome) (RGB_recordOutcome b d ms outcome)"
  by (cases outcome)
    (simp_all add: RGB_recordOutcome_def recordSuccessf_def outcome_event_def emits_ret emits_emit)

lemma RGB_recordOutcome_world: "keeps os_world (RGB_recordOutcome b d ms outcome)"
  by (cases outcome) (simp_all add: RGB_recordOutcome_def recordSuccessf_def keeps_def emit_def)

lemma RGB_marks_update:
  "updates_status (rgb_client E) ORBACGroupBinding (RGB_markReady E b ms i)"
  "updates_status (rgb_client E) ORBACGroupBinding (RGB_markDegraded E b e)"
  "updates_status (rgb_client E) ORBACGroupBinding (RGB_markGroupNotFound E b i)"
  unfolding RGB_markReady_def RGB_markDegraded_def RGB_markGroupNotFound_def Let_def case_prod_unfold
  by (intro updates_status_intro)+

interpretation rgb: binding_reconciler E "rb_client E" "''RoleBinding''" ORoleBinding rb_meta rb_Subjects
  rb_RoleRef RGB_adopt "reconcileRoleBinding E" "rgb_client E" rbacGroupBindingKind ORBACGroupBinding rgb_meta
  rgb_Spec RGB_view "\<lambda>b. rgbs_ProviderRef (rgb_Spec b)" "\<lambda>b. rgbs_GroupDN (rgb_Spec b)" "RGB_desire E"
  RGB_recordOutcome "RGB_markReady E" "RGB_markDegraded E" "RGB_markGroupNotFound E" "RGB_reconcileBody E" for E
  by unfold_locales
    (rule RGB_body_eq RGB_markReady_emits RGB_markDegraded_emits RGB_markGroupNotFound_emits
      RGB_recordOutcome_emits RGB_recordOutcome_world RGB_marks_update object.inject[THEN iffD1])+

end
