(* ===== verification/Grouper_Factory.thy ===== *)
theory Grouper_Factory
  imports Controller_Base
begin

text \<open>
  \<open>GrouperFactory\<close> of \<open>grouperfactory.go\<close>: from an \<open>LDAPProvider\<close> to a directory client,
  with the bind password and the CA bundle read from Secrets of one namespace and the rate
  limiter taken from the shared registry. The registry is a pointer, so the factory holds
  its address in the operator's state, or none.
\<close>

record GrouperFactory =
  gf_SecretNamespace :: string
  gf_Limiters :: "nat option"

definition secretKind :: string where "secretKind = ''Secret''"

definition GrouperFactory_secretValue ::
  "'w env \<Rightarrow> GrouperFactory \<Rightarrow> SecretKeyRef \<Rightarrow> ('w op_state, error + string) state" where
  "GrouperFactory_secretValue E f ref = do {
     r \<leftarrow> clientGet secretKind (secret_client E)
            \<lparr>key_Namespace = gf_SecretNamespace f, key_Name = skr_Name ref\<rparr>;
     case r of
       Inl err \<Rightarrow> ret (Inl err)
     | Inr secret \<Rightarrow>
         (case sec_Data secret (skr_Key ref) of
            None \<Rightarrow> ret (Inl (ErrText (''key '' @ strconv_Quote E (skr_Key ref) @ '' not found in secret '' @
                      gf_SecretNamespace f @ ''/'' @ skr_Name ref)))
          | Some value \<Rightarrow> ret (Inr value))
   }"

text \<open>\<open>x509.NewCertPool\<close> is the empty pool.\<close>

definition GrouperFactory_tlsConfig ::
  "'w env \<Rightarrow> GrouperFactory \<Rightarrow> LDAPProvider \<Rightarrow> ('w op_state, error + tls_Config option) state" where
  "GrouperFactory_tlsConfig E f provider =
     (case Option.bind (lps_TLSConfig (lp_Spec provider)) tcs_CASecretRef of
        None \<Rightarrow> ret (Inr None)
      | Some ref \<Rightarrow> do {
          r \<leftarrow> GrouperFactory_secretValue E f ref;
          case r of
            Inl err \<Rightarrow> ret (Inl (Errorf_w ''ca bundle secret: '' err []))
          | Inr caPEM \<Rightarrow>
              (let (ok, pool) = x509_AppendCertsFromPEM E [] caPEM
               in if \<not> ok
                  then ret (Inl (ErrText (''ca bundle secret '' @ gf_SecretNamespace f @ ''/'' @
                         skr_Name ref @ '': no valid PEM certificates found'')))
                  else ret (Inr (Some (zero_tls_Config\<lparr>tls_RootCAs := Some pool\<rparr>))))
        })"

text \<open>\<open>f.Limiters.Get(name)\<close> through the pointer; a nil registry gives no limiter.\<close>

definition registryGet :: "nat option \<Rightarrow> string \<Rightarrow> ('w op_state, limiter option) state" where
  "registryGet reg name = (case reg of
     None \<Rightarrow> ret None
   | Some a \<Rightarrow> State (\<lambda>s. case Limiters_Get (os_registries s a) name of
       (x, l) \<Rightarrow> (Some x, s\<lparr>os_registries := (os_registries s)(a := l)\<rparr>)))"

definition GrouperFactory_client ::
  "'w env \<Rightarrow> GrouperFactory \<Rightarrow> Context \<Rightarrow> LDAPProvider \<Rightarrow> ('w op_state, error + Config) state" where
  "GrouperFactory_client E f ctx provider = do {
     p \<leftarrow> GrouperFactory_secretValue E f (lps_BindPasswordSecretRef (lp_Spec provider));
     case p of
       Inl err \<Rightarrow> ret (Inl (Errorf_w ''bind password secret: '' err []))
     | Inr password \<Rightarrow> do {
         t \<leftarrow> GrouperFactory_tlsConfig E f provider;
         case t of
           Inl err \<Rightarrow> ret (Inl err)
         | Inr tls \<Rightarrow> do {
             limiter \<leftarrow> registryGet (gf_Limiters f) (om_Name (lp_meta provider));
             ret (Inr \<lparr>cfg_URL = lps_URL (lp_Spec provider), cfg_BindDN = lps_BindDN (lp_Spec provider),
               cfg_BindPassword = password, cfg_InsecureSkipTLS = lps_InsecureSkipTLS (lp_Spec provider),
               cfg_TLSConfig = tls, cfg_UserSearchBase = lps_UserSearchBase (lp_Spec provider),
               cfg_GroupSearchBase = lps_GroupSearchBase (lp_Spec provider),
               cfg_UsernameAttribute = lps_UsernameAttribute (lp_Spec provider),
               cfg_DirectoryType = lps_DirectoryType (lp_Spec provider), cfg_PageSize = 0,
               cfg_Limiter = limiter\<rparr>)
           }
       }
   }"

definition GrouperFactory_Grouper :: "'w env \<Rightarrow> GrouperFactory \<Rightarrow> 'w GrouperResolver" where
  "GrouperFactory_Grouper E f ctx provider = do {
     r \<leftarrow> GrouperFactory_client E f ctx provider;
     ret (case r of Inl err \<Rightarrow> Inl err | Inr cfg \<Rightarrow> Inr (GetGroupMembers E cfg))
   }"

definition GrouperFactory_Pinger :: "'w env \<Rightarrow> GrouperFactory \<Rightarrow> 'w PingerResolver" where
  "GrouperFactory_Pinger E f ctx provider = do {
     r \<leftarrow> GrouperFactory_client E f ctx provider;
     ret (case r of Inl err \<Rightarrow> Inl err | Inr cfg \<Rightarrow> Inr (Ping E cfg))
   }"

section \<open>What building a client does\<close>

lemmas factory_defs = GrouperFactory_client_def GrouperFactory_tlsConfig_def GrouperFactory_secretValue_def
  clientGet_def

lemma registryGet_run:
  "run_state (registryGet reg name) s = (case reg of
     None \<Rightarrow> (None, s)
   | Some a \<Rightarrow> (Some (fst (Limiters_Get (os_registries s a) name)),
       s\<lparr>os_registries := (os_registries s)(a := snd (Limiters_Get (os_registries s a) name))\<rparr>))"
  by (simp add: registryGet_def split: option.splits prod.splits)

lemma registryGet_only [only_intro]: "only P (registryGet reg name)"
  by (simp add: emits_def registryGet_run split: option.splits)

lemma registryGet_metrics [keeps_intro]: "keeps os_metrics (registryGet reg name)"
  by (simp add: keeps_def registryGet_run split: option.splits)

lemma keeps_registries_call [keeps_intro]: "keeps os_registries (call act f)"
  by (simp add: keeps_def call_def split: prod.splits)

lemma factory_client_lookup: "only lookup_action (GrouperFactory_client E f ctx p)"
  unfolding factory_defs Let_def by (auto intro!: only_intro split: prod.splits)

lemma factory_client_metrics: "keeps os_metrics (GrouperFactory_client E f ctx p)"
  unfolding factory_defs Let_def by (auto intro!: keeps_intro split: prod.splits)

lemma factory_tls_registries: "keeps os_registries (GrouperFactory_tlsConfig E f p)"
  unfolding factory_defs Let_def by (auto intro!: keeps_intro split: prod.splits)

lemma factory_secret_registries: "keeps os_registries (GrouperFactory_secretValue E f ref)"
  unfolding factory_defs Let_def by (auto intro!: keeps_intro)

text \<open>The interface the reconcilers are given, met by the factory.\<close>

interpretation factory: grouper_resolver "GrouperFactory_Grouper E f" for E f
proof
  show "only lookup_action (GrouperFactory_Grouper E f ctx p)" for ctx p
    unfolding GrouperFactory_Grouper_def by (auto intro!: only_intro factory_client_lookup)
  show "keeps os_metrics (GrouperFactory_Grouper E f ctx p)" for ctx p
    unfolding GrouperFactory_Grouper_def by (auto intro!: keeps_intro factory_client_metrics)
  show "yields (\<lambda>r. case r of Inl _ \<Rightarrow> True | Inr g \<Rightarrow> membership_source g) (GrouperFactory_Grouper E f ctx p)"
    for ctx p
    unfolding GrouperFactory_Grouper_def
    by (auto intro!: yields_intro client.membership_source_axioms split: sum.splits)
qed

text \<open>What a successfully built configuration holds, field by field.\<close>

definition faithful_config :: "GrouperFactory \<Rightarrow> LDAPProvider \<Rightarrow> Config \<Rightarrow> bool" where
  "faithful_config f p cfg \<longleftrightarrow>
     cfg_URL cfg = lps_URL (lp_Spec p) \<and> cfg_BindDN cfg = lps_BindDN (lp_Spec p) \<and>
     cfg_InsecureSkipTLS cfg = lps_InsecureSkipTLS (lp_Spec p) \<and>
     cfg_UserSearchBase cfg = lps_UserSearchBase (lp_Spec p) \<and>
     cfg_UsernameAttribute cfg = lps_UsernameAttribute (lp_Spec p) \<and>
     cfg_DirectoryType cfg = lps_DirectoryType (lp_Spec p) \<and>
     (cfg_Limiter cfg = None \<longleftrightarrow> gf_Limiters f = None) \<and>
     tls_ServerName (tlsConfig cfg) = [] \<and> \<not> tls_InsecureSkipVerify (tlsConfig cfg)"

lemma tls_config_yields:
  "yields (\<lambda>r. \<forall>t. r = Inr (Some t) \<longrightarrow> tls_ServerName t = [] \<and> \<not> tls_InsecureSkipVerify t)
     (GrouperFactory_tlsConfig E f p)"
  unfolding GrouperFactory_tlsConfig_def Let_def
  by (auto intro!: yields_intro simp: zero_tls_Config_def split: prod.splits option.splits)

lemma registryGet_yields: "yields (\<lambda>r. r = None \<longleftrightarrow> reg = None) (registryGet reg name)"
  by (simp add: yields_def registryGet_run split: option.splits)

lemma factory_client_faithful:
  "yields (\<lambda>r. case r of Inl _ \<Rightarrow> True | Inr cfg \<Rightarrow> faithful_config f p cfg) (GrouperFactory_client E f ctx p)"
  unfolding GrouperFactory_client_def
  by (auto intro!: yields_intro yields_bind[OF tls_config_yields] yields_bind[OF registryGet_yields]
      simp: faithful_config_def tlsConfig_def zero_tls_Config_def split: option.splits)

lemma factory_client_limiter:
  assumes "run_state (GrouperFactory_client E f ctx p) s = (Inr cfg, t)" and "gf_Limiters f = Some a"
  shows "cfg_Limiter cfg = Some (fst (Limiters_Get (os_registries s a) (om_Name (lp_meta p)))) \<and>
    os_registries t a = snd (Limiters_Get (os_registries s a) (om_Name (lp_meta p)))"
  using assms keepsD[OF factory_secret_registries] keepsD[OF factory_tls_registries]
  by (fastforce simp: GrouperFactory_client_def registryGet_run split: prod.splits sum.splits)

lemma factory_hands_out:
  assumes "\<And>cfg. faithful_config f p cfg \<Longrightarrow> Q (GetGroupMembers E cfg)"
  shows "fst (run_state (GrouperFactory_Grouper E f ctx p) s) \<in> range Inl \<union> Inr ` {g. Q g}"
proof (cases "run_state (GrouperFactory_client E f ctx p) s")
  case (Pair r t)
  with yields_run[OF factory_client_faithful Pair] assms show ?thesis
    by (cases r) (auto simp: GrouperFactory_Grouper_def)
qed

section \<open>Guarantees\<close>

text \<open>
  What the factory hands out for a provider that does not ask for plaintext is safe to
  use: its group lookups send credentials over TLS only, and with a registry configured
  each takes its token from a rate limiter first.
\<close>

theorem factory_grouper_secure:
  "fst (run_state (GrouperFactory_Grouper E f ctx p) s) \<in>
     range Inl \<union> Inr ` {g. \<forall>c dn. \<exists>l.
       emits (\<lambda>_ as. (lps_InsecureSkipTLS (lp_Spec p) \<or> binds_secured {} as) \<and>
                      (gf_Limiters f = None \<or> rate_limited_by l as)) (g c dn)}"
proof (rule factory_hands_out, intro allI)
  fix cfg c dn
  assume "faithful_config f p cfg"
  then show "\<exists>l. emits (\<lambda>_ as. (lps_InsecureSkipTLS (lp_Spec p) \<or> binds_secured {} as) \<and>
      (gf_Limiters f = None \<or> rate_limited_by l as)) (GetGroupMembers E cfg c dn)"
    using query_trace_secured[of cfg]
    by (intro exI[of _ "the (cfg_Limiter cfg)"] emits_mono[OF GetGroupMembers_trace[of cfg]])
      (auto simp: faithful_config_def query_trace_rate_limited)
qed

text \<open>
  C35. The health check and every binding draw from one budget: two clients built for
  providers of the same name hold the same limiter, whatever the registry was used for in
  between, as long as the name was not deleted.
\<close>

theorem factory_shares_limiter:
  assumes "run_state (GrouperFactory_client E f ctx p) s = (Inr cfg, t)"
    and "run_state (GrouperFactory_client E f ctx' p') t' = (Inr cfg', t'')"
    and "om_Name (lp_meta p') = om_Name (lp_meta p)" and "gf_Limiters f = Some a"
    and "os_registries t' a = registry_run (os_registries t a) ops"
    and "RDelete (om_Name (lp_meta p)) \<notin> set ops"
  shows "cfg_Limiter cfg' = cfg_Limiter cfg \<and> cfg_Limiter cfg \<noteq> None"
  using factory_client_limiter[OF assms(1,4)] factory_client_limiter[OF assms(2,4)] assms(3,5)
    limiters.get_shared[OF assms(6)]
  by (simp add: registry_run_use)

definition demo_factory :: GrouperFactory where
  "demo_factory = \<lparr>gf_SecretNamespace = ''ops'', gf_Limiters = Some 0\<rparr>"

definition demo_config :: "limiter \<Rightarrow> Config" where
  "demo_config l = \<lparr>cfg_URL = ''ldap://dir'', cfg_BindDN = ''cn=op'', cfg_BindPassword = ''hunter2'',
     cfg_InsecureSkipTLS = False, cfg_TLSConfig = None, cfg_UserSearchBase = ''ou=people'',
     cfg_GroupSearchBase = ''ou=groups'', cfg_UsernameAttribute = ''uid'',
     cfg_DirectoryType = DirectoryTypeOpenLDAP, cfg_PageSize = 0, cfg_Limiter = Some l\<rparr>"

lemma demo_client_run:
  assumes "os_world s = demo_world"
  shows "\<exists>t. run_state (GrouperFactory_client sim_env demo_factory ctx demo_provider) s =
      (Inr (demo_config (fst (Limiters_Get (os_registries s 0) ''corp''))), t) \<and> os_world t = demo_world"
  using assms
  by (simp add: factory_defs call_def registryGet_run sim_env_def sim_kclient_def demo_defs demo_factory_def
      demo_config_def)

theorem factory_shares_limiter_witness:
  "\<exists>cfg t cfg' t'. run_state (GrouperFactory_client sim_env demo_factory \<lparr>ctx_Deadline = None\<rparr> demo_provider)
      (sim_start demo_world) = (Inr cfg, t) \<and>
    run_state (GrouperFactory_client sim_env demo_factory \<lparr>ctx_Deadline = None\<rparr> demo_provider) t = (Inr cfg', t') \<and>
    cfg_Limiter cfg' = cfg_Limiter cfg \<and> cfg_Limiter cfg \<noteq> None"
proof -
  let ?run = "run_state (GrouperFactory_client sim_env demo_factory \<lparr>ctx_Deadline = None\<rparr> demo_provider)"
  obtain cfg t where t: "?run (sim_start demo_world) = (Inr cfg, t)" "os_world t = demo_world"
    using demo_client_run[of "sim_start demo_world" "\<lparr>ctx_Deadline = None\<rparr>"] by (auto simp: sim_start_def)
  obtain cfg' t' where t': "?run t = (Inr cfg', t')"
    using demo_client_run[of t] t(2) by blast
  show ?thesis
    using factory_shares_limiter[OF t(1) t', where a = 0 and ops = "[]"] t t'
    by (simp add: demo_factory_def registry_run_def)
qed

text \<open>
  A TLS handshake started on an existing connection needs a server name to verify unless
  verification is off: \<open>crypto/tls\<close> refuses a client configuration with neither.
\<close>

definition handshake_needs_name :: "'w env \<Rightarrow> bool" where
  "handshake_needs_name E \<longleftrightarrow> (\<forall>c t w. tls_ServerName t = [] \<and> \<not> tls_InsecureSkipVerify t \<longrightarrow>
     fst (ldap_StartTLS E c t w) \<noteq> None)"

lemma StartTLS_without_name_fails:
  assumes "handshake_needs_name E" and "needsStartTLS cfg"
    and "tls_ServerName (tlsConfig cfg) = []" and "\<not> tls_InsecureSkipVerify (tlsConfig cfg)"
  shows "yields (\<lambda>r. \<exists>e. r = Inl e) (GetGroupMembers E cfg ctx dn)"
proof -
  have StartTLS: "fst (ldap_StartTLS E c (tlsConfig cfg) w) \<noteq> None" for c w
    using assms(1,3,4) by (simp add: handshake_needs_name_def)
  have "yields (\<lambda>r. \<exists>e. r = Inl e) (dial E cfg)"
    using assms(2) StartTLS
    by (auto simp: yields_def dial_def call_defs call_def needsStartTLS_def split: prod.splits sum.splits
        option.splits) (metis fst_conv option.distinct(1))
  then have "yields (\<lambda>r. \<exists>e. r = Inl e) (connectAndBind E cfg ctx)"
    unfolding connectAndBind_def by (auto intro!: yields_intro elim!: yields_bind)
  then show ?thesis
    unfolding GetGroupMembers_query by (rule yields_bind) (auto intro!: yields_intro)
qed

text \<open>
  C39. A provider with an \<open>ldap://\<close> URL that relies on StartTLS never yields members: the
  factory builds no TLS configuration with a server name, so the handshake is refused and
  every group lookup fails.
\<close>

theorem factory_StartTLS_never_succeeds:
  assumes "handshake_needs_name E"
    and "\<not> HasPrefix (lps_URL (lp_Spec p)) ''ldaps://''" and "\<not> lps_InsecureSkipTLS (lp_Spec p)"
  shows "fst (run_state (GrouperFactory_Grouper E f ctx p) s) \<in>
     range Inl \<union> Inr ` {g. \<forall>c dn. yields (\<lambda>r. \<exists>e. r = Inl e) (g c dn)}"
proof (rule factory_hands_out, intro allI)
  fix cfg c dn
  assume "faithful_config f p cfg"
  with assms(2,3) show "yields (\<lambda>r. \<exists>e. r = Inl e) (GetGroupMembers E cfg c dn)"
    by (intro StartTLS_without_name_fails[OF assms(1)])
      (auto simp: faithful_config_def needsStartTLS_def isLDAPS_def)
qed

theorem factory_StartTLS_never_succeeds_witness:
  "fst (run_state (GrouperFactory_Grouper (sim_env\<lparr>ldap_StartTLS := \<lambda>c t w. (Some (ErrText ''tls''), w)\<rparr>)
       demo_factory \<lparr>ctx_Deadline = None\<rparr> demo_provider) (sim_start demo_world)) \<in>
     range Inl \<union> Inr ` {g. \<forall>c dn. yields (\<lambda>r. \<exists>e. r = Inl e) (g c dn)}"
  by (rule factory_StartTLS_never_succeeds)
    (simp_all add: handshake_needs_name_def demo_provider_def HasPrefix_def)

section \<open>The resolver of the tests\<close>

text \<open>
  The controller tests inject a resolver that hands out one in-memory \<open>fake.Grouper\<close> for
  every provider. It meets the same contract.
\<close>

definition stubResolver :: "FakeGrouper \<Rightarrow> 'w GrouperResolver" where
  "stubResolver g ctx p = ret (Inr (fake_GetGroupMembers g))"

interpretation stub: grouper_resolver "stubResolver g" for g
  by unfold_locales (auto simp: stubResolver_def intro!: only_intro keeps_intro yields_intro
      fake.membership_source_axioms)

definition demo_groups :: FakeGrouper where
  "demo_groups = \<lparr>fg_Groups = [''cn=g'' \<mapsto> [''alice'', ''bob'']], fg_Errors = Map.empty\<rparr>"

definition demo_ctx :: Context where "demo_ctx = \<lparr>ctx_Deadline = None\<rparr>"

end
