(* ===== verification/RBACGroupBinding_Guarantees.thy ===== *)
theory RBACGroupBinding_Guarantees
  imports RBACGroupBinding_Controller Grouper_Factory
begin

text \<open>
  What the \<open>RBACGroupBinding\<close> reconciler guarantees, over the contracts \<open>managed_object\<close> and
  \<open>binding_reconciler\<close> that its code meets. The theorems about a whole \<open>Reconcile\<close> hold
  for every environment: whatever the API server and the directory answer. Those about
  what the cluster holds afterwards take the API server's contract \<open>kclient_ok\<close> as a
  hypothesis.
\<close>

section \<open>A reconcile is its body and one observation\<close>

lemma RGB_Reconcile_run:
  "run_state (RGB_Reconcile E resolver ctx k) s = (case run_state (RGB_reconcileBody E resolver ctx k) s of
     (r, t) \<Rightarrow> (r, t\<lparr>os_metrics := SyncDuration_Observe rbacGroupBindingKind
       (time_Now E (os_world t) - time_Now E (os_world s)) (os_metrics t)\<rparr>))"
  by (simp add: RGB_Reconcile_def Now_def observe_def metric_def split: prod.splits)

section \<open>Fail-safe\<close>

text \<open>
  The writes that members from the directory justify: a RoleBinding that grants the role
  of the spec to exactly those members, the removal of one that grants another role, and
  the status of the binding. Without members only the last is left.
\<close>

definition specRoleRef :: "RBACGroupBinding \<Rightarrow> RbacRoleRef" where
  "specRoleRef b = rb_RoleRef (BuildRoleBinding b [])"

definition RGB_write_ok :: "RBACGroupBinding \<Rightarrow> string list option \<Rightarrow> action \<Rightarrow> bool" where
  "RGB_write_ok b members a = (case a of
     ACreate x _ \<Rightarrow> \<exists>rb ms. x = ORoleBinding rb \<and> members = Some ms \<and>
       rb_Subjects rb = Subjects ms \<and> rb_RoleRef rb = specRoleRef b
   | AUpdate x _ \<Rightarrow> \<exists>rb ms. x = ORoleBinding rb \<and> members = Some ms \<and>
       rb_Subjects rb = Subjects ms \<and> rb_RoleRef rb = specRoleRef b
   | ADelete x _ \<Rightarrow> \<exists>rb. x = ORoleBinding rb \<and> members \<noteq> None \<and> rb_RoleRef rb \<noteq> specRoleRef b
   | AStatusUpdate x _ \<Rightarrow> \<exists>b'. x = ORBACGroupBinding b'
   | _ \<Rightarrow> True)"

lemma RGB_desire_fields:
  "RGB_desire E b ms = Inr d \<Longrightarrow> rb_Subjects d = Subjects ms \<and> rb_RoleRef d = specRoleRef b"
  by (auto simp: RGB_desire_def specRoleRef_def BuildRoleBinding_def split: sum.splits)

lemma RGB_permitted_ok: "rgb.permitted TYPE(_) E b v a \<Longrightarrow> RGB_write_ok b (members_of v) a"
  by (cases a) (auto simp: rgb.permitted_def rolebinding.justified_def rgb.status_write_def RGB_write_ok_def
      members_of_def dest!: RGB_desire_fields)

text \<open>
  C1. Fail-safe: a reconcile of an \<open>RBACGroupBinding\<close> touches RoleBindings only with
  members that the directory returned. When the binding or the provider cannot be read, the
  directory is unreachable or the group is gone, the only write is the status update of
  the binding. When members were found, every RoleBinding it creates or updates grants the
  role of the spec to exactly those members, and it deletes only one that grants another
  role.
\<close>

theorem RGB_failsafe:
  assumes "grouper_resolver resolver"
  shows "\<exists>as. os_trace (snd (run_state (RGB_Reconcile E resolver ctx k) s)) = os_trace s @ as \<and>
    (case fst (run_state (RGB_lookup E resolver ctx k) s) of
       Inl _ \<Rightarrow> \<not> list_ex api_write as
     | Inr (b, v, _) \<Rightarrow> list_all (RGB_write_ok b (members_of v)) as)"
proof -
  obtain "as" where tr: "os_trace (snd (run_state (RGB_reconcileBody E resolver ctx k) s)) = os_trace s @ as"
    and ok: "case fst (run_state (RGB_lookup E resolver ctx k) s) of
      Inl _ \<Rightarrow> \<not> list_ex api_write as | Inr (b, v, _) \<Rightarrow> list_all (rgb.permitted TYPE(_) E b v) as"
    using assms by (rule rgb.body_permitted)
  have "list_all (RGB_write_ok b (members_of v)) as" if "list_all (rgb.permitted TYPE(_) E b v) as" for b v
    by (rule list.pred_mono_strong[OF that RGB_permitted_ok])
  with tr ok show ?thesis
    by (intro exI[of _ "as"]) (auto simp: RGB_Reconcile_run split: prod.splits sum.splits)
qed

theorem RGB_failsafe_witness:
  "\<exists>as. os_trace (snd (run_state (RGB_Reconcile sim_env (GrouperFactory_Grouper sim_env demo_factory)
      \<lparr>ctx_Deadline = None\<rparr> \<lparr>key_Namespace = ''team'', key_Name = ''devs''\<rparr>) (sim_start demo_world))) = as \<and>
    (case fst (run_state (RGB_lookup sim_env (GrouperFactory_Grouper sim_env demo_factory)
      \<lparr>ctx_Deadline = None\<rparr> \<lparr>key_Namespace = ''team'', key_Name = ''devs''\<rparr>) (sim_start demo_world)) of
       Inl _ \<Rightarrow> \<not> list_ex api_write as
     | Inr (b, v, _) \<Rightarrow> list_all (RGB_write_ok b (members_of v)) as)"
  using RGB_failsafe[OF factory.grouper_resolver_axioms[of sim_env demo_factory], of sim_env
      "\<lparr>ctx_Deadline = None\<rparr>" "\<lparr>key_Namespace = ''team'', key_Name = ''devs''\<rparr>" "sim_start demo_world"]
  by (simp add: sim_start_def)

section \<open>What a reconcile reports\<close>

text \<open>
  C5. What a reconcile that looked the group up reports is what happened. If the directory's
  answer is that the group is missing or that it failed, that is the verdict. If it gave
  members, the verdict is Ready exactly when bringing the RoleBinding in line succeeded, and
  Degraded with the error of that sync otherwise. The last call of the reconcile is its one
  status update, and of the conditions Ready, Degraded and GroupNotFound the one of the verdict
  and no other is true in it. The observed generation is the one that was read, spec and
  metadata are left alone, a Ready status carries the count, preview, hash and reference of
  the members found, and any other status keeps those fields from before. There is one way
  to end without a report: when no owner reference can be set on the RoleBinding, that error is
  returned and nothing at all is written.
\<close>

theorem RGB_status_reports:
  assumes "grouper_resolver resolver" and "SetStatusCondition_ok E"
    and "run_state (RGB_lookup E resolver ctx k) s = (Inr (b, v, i), t)"
    and "run_state (RGB_Reconcile E resolver ctx k) s = (r, u)"
  shows "case final_verdict (RGB_desire E) (reconcileRoleBinding E) b v t of
      Inl err \<Rightarrow> r = (zeroResult, Some err) \<and> (\<exists>as. os_trace u = os_trace s @ as \<and> \<not> list_ex api_write as)
    | Inr v' \<Rightarrow> \<exists>as b' ok. os_trace u = os_trace s @ as @ [AStatusUpdate (ORBACGroupBinding b') ok] \<and>
        (\<forall>x ok'. AStatusUpdate (ORBACGroupBinding x) ok' \<notin> set as) \<and>
        true_conditions (rgbst_Conditions (rgb_Status b')) = {verdict_type v'} \<and>
        report E v' (rgb_meta b) (RGB_view b) (RGB_view b') \<and>
        rgb_meta b' = rgb_meta b \<and> rgb_Spec b' = rgb_Spec b"
proof -
  obtain u' where u': "run_state (RGB_reconcileBody E resolver ctx k) s = (r, u')" "os_trace u = os_trace u'"
    using assms(4) by (auto simp: RGB_Reconcile_run split: prod.splits)
  have "true_conditions (rgbst_Conditions (rgb_Status b')) = {verdict_type v'}"
    if "report E v' (rgb_meta b) (RGB_view b) (RGB_view b')" for b' v'
    using report_true_condition[OF that assms(2)] by (simp add: RGB_view_def Let_def)
  with rgb.body_reports[OF assms(1,3) u'(1)] u'(2) show ?thesis
    by (auto simp: list_ex_iff rgb.status_write_def split: sum.splits) blast
qed

abbreviation devs_key :: ObjectKey where
  "devs_key \<equiv> \<lparr>key_Namespace = ''team'', key_Name = ''devs''\<rparr>"

lemma demo_lookup:
  "\<exists>t. run_state (RGB_lookup sim_env (stubResolver demo_groups) demo_ctx devs_key) (sim_start demo_world) =
     (Inr (demo_binding, VReady [''alice'', ''bob''], 300), t)"
  by (simp add: lookupMembers_def clientGet_def call_def sim_env_def sim_kclient_def demo_defs sim_start_def
      stubResolver_def fake_GetGroupMembers_def demo_groups_def)

lemma demo_synced:
  "\<exists>d outcome. RGB_desire sim_env demo_binding [''alice'', ''bob''] = Inr d \<and>
    fst (run_state (reconcileRoleBinding sim_env d) t) = Inr outcome"
  if "run_state (RGB_lookup sim_env (stubResolver demo_groups) demo_ctx devs_key) (sim_start demo_world) =
     (Inr (demo_binding, VReady [''alice'', ''bob''], 300), t)"
  using that
  by (auto simp: reconcileRoleBinding_def call_defs lookupMembers_def clientGet_def call_def sim_env_def sim_kclient_def demo_defs
      sim_start_def stubResolver_def fake_GetGroupMembers_def demo_groups_def RGB_desire_def BuildRoleBinding_def
      notFound_def)

theorem RGB_status_reports_witness:
  "\<exists>as b' ok. os_trace (snd (run_state (RGB_Reconcile sim_env (stubResolver demo_groups) demo_ctx devs_key)
      (sim_start demo_world))) = as @ [AStatusUpdate (ORBACGroupBinding b') ok] \<and>
    true_conditions (rgbst_Conditions (rgb_Status b')) = {ConditionReady}"
proof -
  obtain t where t: "run_state (RGB_lookup sim_env (stubResolver demo_groups) demo_ctx devs_key)
      (sim_start demo_world) = (Inr (demo_binding, VReady [''alice'', ''bob''], 300), t)"
    using demo_lookup by blast
  obtain r u where u: "run_state (RGB_Reconcile sim_env (stubResolver demo_groups) demo_ctx devs_key)
      (sim_start demo_world) = (r, u)"
    by (cases "run_state (RGB_Reconcile sim_env (stubResolver demo_groups) demo_ctx devs_key) (sim_start demo_world)")
  have "final_verdict (RGB_desire sim_env) (reconcileRoleBinding sim_env) demo_binding (VReady [''alice'', ''bob'']) t =
      Inr (VReady [''alice'', ''bob''])"
    using demo_synced[OF t] by (auto simp: final_verdict_def)
  with RGB_status_reports[OF stub.grouper_resolver_axioms sim_SetStatusCondition_ok t u] u show ?thesis
    by (auto simp: sim_start_def verdict_type_def)
qed

section \<open>Results\<close>

text \<open>
  C7. What a reconcile returns. A binding that is gone ends quietly and is not requeued, and
  another error of reading it is returned; so is an error of reading the provider, unless the
  provider does not exist, which is a verdict. With a verdict, an accepted status update means
  that a directory failure and a failed sync are returned as errors, with no delay of their own, and
  that a synced binding and a missing group are requeued after the sync interval of the provider
  that was read, without an error. A refused status update is returned as an error in
  every case, and so is an owner reference that cannot be set.
\<close>

theorem RGB_result_contract:
  assumes "grouper_resolver resolver"
    and "run_state (RGB_lookup E resolver ctx k) s = (l, t)"
    and "run_state (RGB_Reconcile E resolver ctx k) s = (r, u)"
  shows "(case k_Get (rgb_client E) k (os_world s) of
      (Inl err, _) \<Rightarrow> r = (zeroResult, if apierrors_IsNotFound E err then None else Some err)
    | (Inr b, w) \<Rightarrow>
        (case fst (k_Get (lp_client E) \<lparr>key_Namespace = [], key_Name = rgbs_ProviderRef (rgb_Spec b)\<rparr> w) of
           Inl err \<Rightarrow> if apierrors_IsNotFound E err then (\<exists>e. l = Inr (b, VDegraded e, 0)) else r = (zeroResult, Some err)
         | Inr p \<Rightarrow> (\<exists>v. l = Inr (b, v, lps_SyncInterval (lp_Spec p))))) \<and>
    (case l of Inl _ \<Rightarrow> True | Inr (b, v, i) \<Rightarrow>
      (case final_verdict (RGB_desire E) (reconcileRoleBinding E) b v t of
         Inl err \<Rightarrow> r = (zeroResult, Some err)
       | Inr v' \<Rightarrow> \<exists>b' ok. last (os_trace u) = AStatusUpdate (ORBACGroupBinding b') ok \<and>
           result_ok v' i ok r))"
proof
  obtain u' where u': "run_state (RGB_reconcileBody E resolver ctx k) s = (r, u')" "os_trace u = os_trace u'"
    using assms(3) by (auto simp: RGB_Reconcile_run split: prod.splits)
  have stop: "l = Inl r' \<Longrightarrow> r = r'" for r' using rgb.body_stops[OF assms(1) _ u'(1)] assms(2) by blast
  show "case k_Get (rgb_client E) k (os_world s) of
      (Inl err, _) \<Rightarrow> r = (zeroResult, if apierrors_IsNotFound E err then None else Some err)
    | (Inr b, w) \<Rightarrow>
        (case fst (k_Get (lp_client E) \<lparr>key_Namespace = [], key_Name = rgbs_ProviderRef (rgb_Spec b)\<rparr> w) of
           Inl err \<Rightarrow> if apierrors_IsNotFound E err then (\<exists>e. l = Inr (b, VDegraded e, 0)) else r = (zeroResult, Some err)
         | Inr p \<Rightarrow> (\<exists>v. l = Inr (b, v, lps_SyncInterval (lp_Spec p))))"
    using assms(2) stop
    by (auto simp: lookupMembers_def clientGet_def call_def IgnoreNotFound_def split: prod.splits sum.splits if_splits)
  show "case l of Inl _ \<Rightarrow> True | Inr (b, v, i) \<Rightarrow>
      (case final_verdict (RGB_desire E) (reconcileRoleBinding E) b v t of
         Inl err \<Rightarrow> r = (zeroResult, Some err)
       | Inr v' \<Rightarrow> \<exists>b' ok. last (os_trace u) = AStatusUpdate (ORBACGroupBinding b') ok \<and>
           result_ok v' i ok r)"
  proof (cases l)
    case (Inr x)
    obtain b v i where x: "x = (b, v, i)" by (cases x)
    from rgb.body_reports[OF assms(1) _ u'(1)] assms(2) Inr x u'(2) show ?thesis
      by (auto split: sum.splits)
  qed simp
qed

lemma demo_reconciles:
  "\<exists>u. run_state (RGB_Reconcile sim_env (stubResolver demo_groups) demo_ctx devs_key) (sim_start demo_world) =
     ((\<lparr>RequeueAfter = 300\<rparr>, None), u)"
  by (simp add: RGB_Reconcile_def RGB_reconcileBody_def reconcileRoleBinding_def RGB_recordOutcome_def
      RGB_markReady_def SetStatusCondition_def call_defs recordSuccessf_def Log_def Now_def call_def emit_def
      observe_def metric_def sim_env_def sim_kclient_def demo_defs sim_start_def stubResolver_def
      fake_GetGroupMembers_def demo_groups_def BuildRoleBinding_def notFound_def PreviewMembers_def previewCap_def
      put_def drop_key_def Let_def)

theorem RGB_result_contract_witness:
  "\<exists>b' ok r u. run_state (RGB_Reconcile sim_env (stubResolver demo_groups) demo_ctx devs_key) (sim_start demo_world) =
      (r, u) \<and> last (os_trace u) = AStatusUpdate (ORBACGroupBinding b') ok \<and>
    result_ok (VReady [''alice'', ''bob'']) 300 ok r"
proof -
  obtain t where t: "run_state (RGB_lookup sim_env (stubResolver demo_groups) demo_ctx devs_key)
      (sim_start demo_world) = (Inr (demo_binding, VReady [''alice'', ''bob''], 300), t)"
    using demo_lookup by blast
  obtain r u where u: "run_state (RGB_Reconcile sim_env (stubResolver demo_groups) demo_ctx devs_key)
      (sim_start demo_world) = (r, u)"
    using demo_reconciles by blast
  have "final_verdict (RGB_desire sim_env) (reconcileRoleBinding sim_env) demo_binding (VReady [''alice'', ''bob'']) t =
      Inr (VReady [''alice'', ''bob''])"
    using demo_synced[OF t] by (auto simp: final_verdict_def)
  with conjunct2[OF RGB_result_contract[OF stub.grouper_resolver_axioms t u]] u show ?thesis by auto
qed

section \<open>What the cluster holds afterwards\<close>

text \<open>An accepted RoleBinding keeps what the operator set.\<close>

definition rb_agree :: "RoleBinding \<Rightarrow> RoleBinding \<Rightarrow> bool" where
  "rb_agree x y \<longleftrightarrow> rb_Subjects y = rb_Subjects x \<and> rb_RoleRef y = rb_RoleRef x \<and>
     om_OwnerReferences (rb_meta y) = om_OwnerReferences (rb_meta x) \<and>
     ObjectKeyFromObject (rb_meta y) = ObjectKeyFromObject (rb_meta x)"

lemma rb_agree_eq: "rb_agree = rolebinding.agree"
  by (simp add: fun_eq_iff rb_agree_def rolebinding.agree_def)

text \<open>
  The RoleBinding \<open>x\<close> grants the role of \<open>desired\<close> to exactly its subjects, under its
  owners.
\<close>

definition rb_grants :: "'w env \<Rightarrow> RoleBinding \<Rightarrow> RoleBinding \<Rightarrow> bool" where
  "rb_grants E desired x \<longleftrightarrow> rb_RoleRef x = rb_RoleRef desired \<and> mset (rb_Subjects x) = mset (rb_Subjects desired) \<and>
     equality_DeepEqual E (om_OwnerReferences (rb_meta x)) (om_OwnerReferences (rb_meta desired))"

lemma synced_grants: "rolebinding.synced TYPE(_) E desired x \<Longrightarrow> rb_grants E desired x"
  by (simp add: rolebinding.synced_def rb_grants_def SubjectsEqual_sound)

text \<open>
  \<open>reconcileRoleBinding\<close> converges: when it reports success, the cluster holds a
  RoleBinding under the desired name that grants the desired role to exactly the desired
  subjects, under the desired owners, and no other RoleBinding has changed. When it fails,
  the RoleBinding is as it was, with one exception: one that granted a different role may be
  gone.
\<close>

theorem reconcileRoleBinding_converges:
  assumes "kclient_ok E (rb_client E) rb_meta rb_agree sto" and "\<forall>rs. equality_DeepEqual E rs rs"
    and "run_state (reconcileRoleBinding E desired) s = (r, t)"
  defines "k \<equiv> ObjectKeyFromObject (rb_meta desired)"
  shows "(\<forall>k'. k' \<noteq> k \<longrightarrow> sto (os_world t) k' = sto (os_world s) k') \<and>
    (case r of
       Inr _ \<Rightarrow> \<exists>x. sto (os_world t) k = Some x \<and> rb_grants E desired x
     | Inl _ \<Rightarrow> sto (os_world t) k = sto (os_world s) k \<or>
         (\<exists>x. sto (os_world s) k = Some x \<and> rb_RoleRef x \<noteq> rb_RoleRef desired \<and> sto (os_world t) k = None))"
proof -
  have "(\<forall>k'. k' \<noteq> k \<longrightarrow> sto (os_world t) k' = sto (os_world s) k') \<and>
    (case r of
       Inr _ \<Rightarrow> \<exists>x. sto (os_world t) k = Some x \<and> rolebinding.synced TYPE(_) E desired x
     | Inl _ \<Rightarrow> sto (os_world t) k = sto (os_world s) k \<or>
         (\<exists>x. sto (os_world s) k = Some x \<and> rb_RoleRef x \<noteq> rb_RoleRef desired \<and> sto (os_world t) k = None))"
    unfolding k_def using rolebinding.sync_contract[OF assms(1)[unfolded rb_agree_eq] _ assms(3)] assms(2) by simp
  then show ?thesis by (auto split: sum.splits intro: synced_grants)
qed

text \<open>
  Idempotence: after a successful sync, syncing the same RoleBinding again writes
  nothing. It reads the object and reports that nothing changed, unless the read itself
  fails.
\<close>

theorem reconcileRoleBinding_idempotent:
  assumes "kclient_ok E (rb_client E) rb_meta rb_agree sto" and "\<forall>rs. equality_DeepEqual E rs rs"
    and "run_state (reconcileRoleBinding E desired) s = (Inr outcome, t)"
    and "run_state (reconcileRoleBinding E desired) t = (r, u)"
  defines "k \<equiv> ObjectKeyFromObject (rb_meta desired)"
  shows "os_trace u = os_trace t @ [AGet ''RoleBinding'' k] \<and> sto (os_world u) = sto (os_world t) \<and>
    (case fst (k_Get (rb_client E) k (os_world t)) of Inl e \<Rightarrow> r = Inl e | Inr _ \<Rightarrow> r = Inr syncUnchanged)"
  unfolding k_def using assms(2) by (intro rolebinding.sync_repeat[OF assms(1)[unfolded rb_agree_eq] _ assms(3,4)]) simp

lemma sim_rb_agree: "kclient_ok sim_env (rb_client sim_env) rb_meta rb_agree (\<lambda>w. stored rb_meta (sim_rbs w))"
  by (rule kclient_ok_mono[OF sim_rb_client_ok]) (simp add: rb_agree_def)

definition demo_rolebinding :: RoleBinding where
  "demo_rolebinding = BuildRoleBinding demo_binding [''alice'', ''bob'']"

lemmas reconcileRoleBinding_run = reconcileRoleBinding_def call_defs call_def sim_env_def sim_kclient_def
  demo_defs sim_start_def demo_rolebinding_def BuildRoleBinding_def notFound_def put_def drop_key_def

lemma demo_create:
  "\<exists>t. run_state (reconcileRoleBinding sim_env demo_rolebinding) (sim_start demo_world) = (Inr syncCreated, t)"
  by (simp add: reconcileRoleBinding_run)

theorem reconcileRoleBinding_converges_witness:
  "\<exists>t x. run_state (reconcileRoleBinding sim_env demo_rolebinding) (sim_start demo_world) = (Inr syncCreated, t) \<and>
    stored rb_meta (sim_rbs (os_world t)) devs_key = Some x \<and> rb_grants sim_env demo_rolebinding x"
proof -
  obtain t where t: "run_state (reconcileRoleBinding sim_env demo_rolebinding) (sim_start demo_world) =
      (Inr syncCreated, t)"
    using demo_create by blast
  have "ObjectKeyFromObject (rb_meta demo_rolebinding) = devs_key"
    by (simp add: demo_rolebinding_def BuildRoleBinding_def demo_defs)
  with reconcileRoleBinding_converges[OF sim_rb_agree sim_DeepEqual t] t show ?thesis by auto
qed

theorem reconcileRoleBinding_idempotent_witness:
  "\<exists>t r u. run_state (reconcileRoleBinding sim_env demo_rolebinding) (sim_start demo_world) = (Inr syncCreated, t) \<and>
    run_state (reconcileRoleBinding sim_env demo_rolebinding) t = (r, u) \<and>
    os_trace u = os_trace t @ [AGet ''RoleBinding'' devs_key]"
proof -
  obtain t where t: "run_state (reconcileRoleBinding sim_env demo_rolebinding) (sim_start demo_world) =
      (Inr syncCreated, t)"
    using demo_create by blast
  obtain r u where u: "run_state (reconcileRoleBinding sim_env demo_rolebinding) t = (r, u)"
    by (cases "run_state (reconcileRoleBinding sim_env demo_rolebinding) t")
  have "ObjectKeyFromObject (rb_meta demo_rolebinding) = devs_key"
    by (simp add: demo_rolebinding_def BuildRoleBinding_def demo_defs)
  with reconcileRoleBinding_idempotent[OF sim_rb_agree sim_DeepEqual t u] t u show ?thesis by simp
qed

text \<open>
  C3. End to end: a reconcile of an \<open>RBACGroupBinding\<close> that found the group's members and
  returned no error leaves, in the binding's namespace and under its name, a RoleBinding
  that grants the role of the spec to exactly the members the directory returned. The
  status update that follows is of another kind of object and leaves it alone; the owner
  reference helper keeps the object's name and namespace.
\<close>

theorem RGB_Reconcile_establishes:
  assumes "kclient_ok E (rb_client E) rb_meta rb_agree sto" and "\<forall>rs. equality_DeepEqual E rs rs"
    and "\<forall>x w. sto (snd (k_StatusUpdate (rgb_client E) x w)) = sto w"
    and "\<forall>x m m'. controllerutil_SetControllerReference E x m = Inr m' \<longrightarrow>
      ObjectKeyFromObject m' = ObjectKeyFromObject m"
    and "run_state (RGB_lookup E resolver ctx k) s = (Inr (b, VReady ms, i), t)"
    and "run_state (RGB_Reconcile E resolver ctx k) s = ((res, None), u)"
  shows "\<exists>x. sto (os_world u) (ObjectKeyFromObject (rgb_meta b)) = Some x \<and>
    mset (rb_Subjects x) = mset (Subjects ms) \<and> rb_RoleRef x = specRoleRef b"
proof -
  obtain u' where u': "run_state (RGB_reconcileBody E resolver ctx k) s = ((res, None), u')"
    "os_world u = os_world u'"
    using assms(6) by (auto simp: RGB_Reconcile_run split: prod.splits)
  obtain d x where d: "RGB_desire E b ms = Inr d"
    and x: "sto (os_world u') (ObjectKeyFromObject (rb_meta d)) = Some x" "rolebinding.synced TYPE(_) E d x"
    using rgb.body_establishes[OF assms(1)[unfolded rb_agree_eq] _ _ assms(5) u'(1)] assms(2,3) by auto
  have "ObjectKeyFromObject (rb_meta d) = ObjectKeyFromObject (rgb_meta b)"
    using d assms(4) by (auto simp: RGB_desire_def BuildRoleBinding_def ObjectKeyFromObject_def newObjectMeta_def
        split: sum.splits)
  with x u'(2) RGB_desire_fields[OF d] synced_grants[OF x(2)] show ?thesis by (auto simp: rb_grants_def)
qed

theorem RGB_Reconcile_establishes_witness:
  "\<exists>u x. run_state (RGB_Reconcile sim_env (stubResolver demo_groups) demo_ctx devs_key) (sim_start demo_world) =
      ((\<lparr>RequeueAfter = 300\<rparr>, None), u) \<and>
    stored rb_meta (sim_rbs (os_world u)) devs_key = Some x \<and>
    mset (rb_Subjects x) = mset (Subjects [''alice'', ''bob''])"
proof -
  obtain t where t: "run_state (RGB_lookup sim_env (stubResolver demo_groups) demo_ctx devs_key)
      (sim_start demo_world) = (Inr (demo_binding, VReady [''alice'', ''bob''], 300), t)"
    using demo_lookup by blast
  obtain u where u: "run_state (RGB_Reconcile sim_env (stubResolver demo_groups) demo_ctx devs_key)
      (sim_start demo_world) = ((\<lparr>RequeueAfter = 300\<rparr>, None), u)"
    using demo_reconciles by blast
  have "ObjectKeyFromObject (rgb_meta demo_binding) = devs_key" by (simp add: demo_defs)
  moreover have "\<forall>x w. stored rb_meta (sim_rbs (snd (k_StatusUpdate (rgb_client sim_env) x w))) =
      stored rb_meta (sim_rbs w)"
    by (simp add: sim_env_def sim_kclient_def)
  moreover have "\<forall>x m m'. controllerutil_SetControllerReference sim_env x m = Inr m' \<longrightarrow>
      ObjectKeyFromObject m' = ObjectKeyFromObject m"
    by (auto simp: sim_env_def ObjectKeyFromObject_def)
  ultimately show ?thesis
    using RGB_Reconcile_establishes[OF sim_rb_agree sim_DeepEqual _ _ t u] u by auto
qed

text \<open>
  C40. The one way in which a sync takes existing access away. Let a RoleBinding be stored under
  the desired name. After a sync there is none under that name exactly when the stored one
  gives another role, the API server accepted its deletion and refused the create that the
  code sends only then; the sync fails. With an unchanged role reference no failure of any call
  removes the RoleBinding.
\<close>

theorem roleRef_change_can_remove_access:
  assumes "kclient_ok E (rb_client E) rb_meta rb_agree sto"
    and "sto (os_world s) (ObjectKeyFromObject (rb_meta desired)) = Some old"
    and "run_state (reconcileRoleBinding E desired) s = (r, t)"
  shows "sto (os_world t) (ObjectKeyFromObject (rb_meta desired)) = None \<longleftrightarrow>
    rb_RoleRef old \<noteq> rb_RoleRef desired \<and> (\<exists>e. r = Inl e) \<and>
    os_trace t = os_trace s @ [AGet ''RoleBinding'' (ObjectKeyFromObject (rb_meta desired)),
      ADelete (ORoleBinding old) True, ACreate (ORoleBinding desired) False]"
  by (rule rolebinding.sync_removes[OF assms(1)[unfolded rb_agree_eq] assms(2,3)])

text \<open>It happens: a server that lets the operator delete and not create.\<close>

definition viewer_rolebinding :: RoleBinding where
  "viewer_rolebinding = demo_rolebinding\<lparr>rb_RoleRef := \<lparr>rr_APIGroup = GroupName, rr_Kind = ''Role'', rr_Name = ''view''\<rparr>\<rparr>"

abbreviation create_denied :: sim where
  "create_denied \<equiv> demo_world\<lparr>sim_rbs := [viewer_rolebinding], sim_denied := [''create'']\<rparr>"

theorem roleRef_change_can_remove_access_witness:
  "\<exists>e t. run_state (reconcileRoleBinding sim_env demo_rolebinding) (sim_start create_denied) = (Inl e, t) \<and>
     rb_Subjects viewer_rolebinding = rb_Subjects demo_rolebinding \<and>
     stored rb_meta (sim_rbs (os_world (sim_start create_denied))) devs_key = Some viewer_rolebinding \<and>
     stored rb_meta (sim_rbs (os_world t)) devs_key = None"
proof -
  have k: "ObjectKeyFromObject (rb_meta demo_rolebinding) = devs_key"
    by (simp add: demo_rolebinding_def BuildRoleBinding_def demo_defs)
  have old: "stored rb_meta (sim_rbs (os_world (sim_start create_denied))) devs_key = Some viewer_rolebinding"
    by (simp add: viewer_rolebinding_def reconcileRoleBinding_run)
  obtain e t where t: "run_state (reconcileRoleBinding sim_env demo_rolebinding) (sim_start create_denied) = (Inl e, t)"
    and tr: "os_trace t = os_trace (sim_start create_denied) @ [AGet ''RoleBinding'' devs_key,
      ADelete (ORoleBinding viewer_rolebinding) True, ACreate (ORoleBinding demo_rolebinding) False]"
    by (simp add: viewer_rolebinding_def reconcileRoleBinding_run accepted_def)
  have "rb_RoleRef viewer_rolebinding \<noteq> rb_RoleRef demo_rolebinding"
    by (simp add: viewer_rolebinding_def reconcileRoleBinding_run)
  with roleRef_change_can_remove_access[OF sim_rb_agree _ t, unfolded k, OF old] tr
  have "stored rb_meta (sim_rbs (os_world t)) devs_key = None" by blast
  with t old show ?thesis by (simp add: viewer_rolebinding_def)
qed

end
