(* ===== verification/ClusterRBACGroupBinding_Controller.thy ===== *)
theory ClusterRBACGroupBinding_Controller
  imports Binding_Sync
begin

text \<open>
  \<open>clusterrbacgroupbinding_controller.go\<close>: the reconciler that keeps a ClusterRoleBinding's subjects equal
  to a directory group. The struct's client, scheme and recorder are the environment \<open>E\<close>
  and the trace; its \<open>Grouper\<close> is the parameter \<open>resolver\<close>. A pointer argument that the
  Go code mutates (\<open>binding\<close>) is a value here, rebuilt where the code assigns its fields;
  nothing reads it again after the status update.
\<close>

definition clusterRBACGroupBindingKind :: string where "clusterRBACGroupBindingKind = ''ClusterRBACGroupBinding''"

definition reconcileClusterRoleBinding :: "'w env \<Rightarrow> ClusterRoleBinding \<Rightarrow> ('w op_state, error + syncOutcome) state" where
  "reconcileClusterRoleBinding E desired = do {
     r \<leftarrow> clientGet ''ClusterRoleBinding'' (crb_client E) (ObjectKeyFromObject (crb_meta desired));
     case r of
       Inl err \<Rightarrow>
         if apierrors_IsNotFound E err
         then do {
           c \<leftarrow> clientCreate OClusterRoleBinding (crb_client E) desired;
           case c of Inl err \<Rightarrow> ret (Inl err) | Inr _ \<Rightarrow> ret (Inr syncCreated)
         }
         else ret (Inl err)
     | Inr existing \<Rightarrow>
         if crb_RoleRef existing \<noteq> crb_RoleRef desired
         then do {
           d \<leftarrow> clientDelete OClusterRoleBinding (crb_client E) existing;
           case d of
             Some err \<Rightarrow> ret (Inl err)
           | None \<Rightarrow> do {
               c \<leftarrow> clientCreate OClusterRoleBinding (crb_client E) desired;
               case c of Inl err \<Rightarrow> ret (Inl err) | Inr _ \<Rightarrow> ret (Inr syncRecreated)
             }
         }
         else if SubjectsEqual (crb_Subjects existing) (crb_Subjects desired) \<and>
           equality_DeepEqual E (om_OwnerReferences (crb_meta existing)) (om_OwnerReferences (crb_meta desired))
         then ret (Inr syncUnchanged)
         else do {
           u \<leftarrow> clientUpdate OClusterRoleBinding (crb_client E)
                  (existing\<lparr>crb_Subjects := crb_Subjects desired,
                     crb_meta := (crb_meta existing)\<lparr>om_OwnerReferences := om_OwnerReferences (crb_meta desired)\<rparr>\<rparr>);
           case u of Inl err \<Rightarrow> ret (Inl err) | Inr _ \<Rightarrow> ret (Inr syncUpdated)
         }
   }"

definition CRGB_markReady ::
  "'w env \<Rightarrow> ClusterRBACGroupBinding \<Rightarrow> string list \<Rightarrow> duration \<Rightarrow> 'w reconciliation" where
  "CRGB_markReady E binding members interval = do {
     let (preview, truncated) = PreviewMembers members;
     now \<leftarrow> Now E;
     let status = (crgb_Status binding)\<lparr>
       crgbst_ObservedGeneration := om_Generation (crgb_meta binding),
       crgbst_LastSyncTime := Some now,
       crgbst_MemberCount := MemberCount members,
       crgbst_MembersPreview := preview,
       crgbst_MembersTruncated := truncated,
       crgbst_MembersHash := MembersHash members,
       crgbst_ClusterRoleBindingRef := Some (om_Name (crgb_meta binding))\<rparr>;
     metric (SyncTotal_Inc clusterRBACGroupBindingKind ''ready'');
     metric (MembersCount_Set clusterRBACGroupBindingKind []
       (om_Name (crgb_meta binding)) (length members));
     cs \<leftarrow> SetStatusCondition E (crgbst_Conditions status)
       (newCondition ConditionReady ConditionTrue ReasonSyncSucceeded
         (''synced '' @ itoa (length members) @ '' member(s)''));
     cs \<leftarrow> SetStatusCondition E cs (newCondition ConditionDegraded ConditionFalse ReasonSyncSucceeded []);
     cs \<leftarrow> SetStatusCondition E cs (newCondition ConditionGroupNotFound ConditionFalse ReasonSyncSucceeded []);
     u \<leftarrow> clientStatusUpdate OClusterRBACGroupBinding (crgb_client E)
            (binding\<lparr>crgb_Status := status\<lparr>crgbst_Conditions := cs\<rparr>\<rparr>);
     case u of
       Inl err \<Rightarrow> ret (zeroResult, Some err)
     | Inr _ \<Rightarrow> ret (\<lparr>RequeueAfter = interval\<rparr>, None)
   }"

definition CRGB_markDegraded :: "'w env \<Rightarrow> ClusterRBACGroupBinding \<Rightarrow> error \<Rightarrow> 'w reconciliation" where
  "CRGB_markDegraded E binding cause = do {
     recordWarning (OClusterRBACGroupBinding binding) ''SyncFailed'' (Error cause);
     metric (SyncTotal_Inc clusterRBACGroupBindingKind ''degraded'');
     metric (LDAPErrorsTotal_Inc (crgbs_ProviderRef (crgb_Spec binding)));
     let status = (crgb_Status binding)\<lparr>crgbst_ObservedGeneration := om_Generation (crgb_meta binding)\<rparr>;
     cs \<leftarrow> SetStatusCondition E (crgbst_Conditions status)
       (newCondition ConditionReady ConditionFalse ReasonLDAPUnreachable (Error cause));
     cs \<leftarrow> SetStatusCondition E cs
       (newCondition ConditionDegraded ConditionTrue ReasonLDAPUnreachable (Error cause));
     cs \<leftarrow> SetStatusCondition E cs (newCondition ConditionGroupNotFound ConditionFalse ReasonLDAPUnreachable []);
     u \<leftarrow> clientStatusUpdate OClusterRBACGroupBinding (crgb_client E)
            (binding\<lparr>crgb_Status := status\<lparr>crgbst_Conditions := cs\<rparr>\<rparr>);
     case u of
       Inl err \<Rightarrow> ret (zeroResult, Some err)
     | Inr _ \<Rightarrow> ret (zeroResult, Some cause)
   }"

definition CRGB_markGroupNotFound :: "'w env \<Rightarrow> ClusterRBACGroupBinding \<Rightarrow> duration \<Rightarrow> 'w reconciliation" where
  "CRGB_markGroupNotFound E binding interval = do {
     recordWarning (OClusterRBACGroupBinding binding) ''GroupNotFound'' ''groupDN not found in directory'';
     metric (SyncTotal_Inc clusterRBACGroupBindingKind ''group_not_found'');
     let status = (crgb_Status binding)\<lparr>crgbst_ObservedGeneration := om_Generation (crgb_meta binding)\<rparr>;
     cs \<leftarrow> SetStatusCondition E (crgbst_Conditions status)
       (newCondition ConditionReady ConditionFalse ReasonGroupNotFound ''groupDN not found in directory'');
     cs \<leftarrow> SetStatusCondition E cs (newCondition ConditionGroupNotFound ConditionTrue ReasonGroupNotFound []);
     cs \<leftarrow> SetStatusCondition E cs (newCondition ConditionDegraded ConditionFalse ReasonGroupNotFound []);
     u \<leftarrow> clientStatusUpdate OClusterRBACGroupBinding (crgb_client E)
            (binding\<lparr>crgb_Status := status\<lparr>crgbst_Conditions := cs\<rparr>\<rparr>);
     case u of
       Inl err \<Rightarrow> ret (zeroResult, Some err)
     | Inr _ \<Rightarrow> ret (\<lparr>RequeueAfter = interval\<rparr>, None)
   }"

text \<open>The events of the outcome switch in \<open>Reconcile\<close>.\<close>

definition CRGB_recordOutcome ::
  "ClusterRBACGroupBinding \<Rightarrow> ClusterRoleBinding \<Rightarrow> string list \<Rightarrow> syncOutcome \<Rightarrow> ('w op_state, unit) state" where
  "CRGB_recordOutcome binding desired members outcome = (case outcome of
     syncUnchanged \<Rightarrow> ret ()
   | syncCreated \<Rightarrow> recordSuccessf (OClusterRBACGroupBinding binding) ''ClusterRoleBindingCreated''
       (''created ClusterRoleBinding '' @ om_Name (crb_meta desired) @ '' with '' @ itoa (length members) @ '' member(s)'')
   | syncUpdated \<Rightarrow> recordSuccessf (OClusterRBACGroupBinding binding) ''ClusterRoleBindingUpdated''
       (''updated ClusterRoleBinding '' @ om_Name (crb_meta desired) @ '' to '' @ itoa (length members) @ '' member(s)'')
   | syncRecreated \<Rightarrow> recordSuccessf (OClusterRBACGroupBinding binding) ''ClusterRoleBindingRecreated''
       (''recreated ClusterRoleBinding '' @ om_Name (crb_meta desired) @ '' (clusterRoleRef changed)''))"

text \<open>\<open>Reconcile\<close> after the deferred observation of its duration is set up.\<close>

definition CRGB_reconcileBody ::
  "'w env \<Rightarrow> 'w GrouperResolver \<Rightarrow> Context \<Rightarrow> ObjectKey \<Rightarrow> 'w reconciliation" where
  "CRGB_reconcileBody E resolver ctx key = do {
     b \<leftarrow> clientGet clusterRBACGroupBindingKind (crgb_client E) key;
     case b of
       Inl err \<Rightarrow> ret (zeroResult, IgnoreNotFound E err)
     | Inr binding \<Rightarrow> do {
     p \<leftarrow> clientGet ''LDAPProvider'' (lp_client E)
            \<lparr>key_Namespace = [], key_Name = crgbs_ProviderRef (crgb_Spec binding)\<rparr>;
     case p of
       Inl err \<Rightarrow>
         if apierrors_IsNotFound E err
         then CRGB_markDegraded E binding
                (ErrText (''LDAPProvider '' @ strconv_Quote E (crgbs_ProviderRef (crgb_Spec binding)) @ '' not found''))
         else ret (zeroResult, Some err)
     | Inr provider \<Rightarrow> do {
     g \<leftarrow> resolver ctx provider;
     case g of
       Inl err \<Rightarrow> CRGB_markDegraded E binding err
     | Inr grouper \<Rightarrow> do {
     m \<leftarrow> grouper ctx (crgbs_GroupDN (crgb_Spec binding));
     case m of
       Inl err \<Rightarrow>
         if errors_Is err ErrGroupNotFound
         then do {
           Log ''group not found in directory'' [];
           CRGB_markGroupNotFound E binding (lps_SyncInterval (lp_Spec provider))
         }
         else CRGB_markDegraded E binding err
     | Inr members \<Rightarrow>
     (let desired = BuildClusterRoleBinding binding members
      in case controllerutil_SetControllerReference E (OClusterRBACGroupBinding binding) (crb_meta desired) of
        Inl err \<Rightarrow> ret (zeroResult, Some err)
      | Inr owned \<Rightarrow> do {
     let desired = desired\<lparr>crb_meta := owned\<rparr>;
     o' \<leftarrow> reconcileClusterRoleBinding E desired;
     case o' of
       Inl err \<Rightarrow> CRGB_markDegraded E binding err
     | Inr outcome \<Rightarrow> do {
         CRGB_recordOutcome binding desired members outcome;
         Log ''synced group membership'' [itoa (length members)];
         CRGB_markReady E binding members (lps_SyncInterval (lp_Spec provider))
       }})}}}}"

definition CRGB_Reconcile ::
  "'w env \<Rightarrow> 'w GrouperResolver \<Rightarrow> Context \<Rightarrow> ObjectKey \<Rightarrow> 'w reconciliation" where
  "CRGB_Reconcile E resolver ctx key = do {
     start \<leftarrow> Now E;
     r \<leftarrow> CRGB_reconcileBody E resolver ctx key;
     stop \<leftarrow> Now E;
     metric (SyncDuration_Observe clusterRBACGroupBindingKind (stop - start));
     ret r
   }"

section \<open>The contract, met\<close>

text \<open>The ClusterRoleBinding to establish: built from the binding, owned by it.\<close>

definition CRGB_desire :: "'w env \<Rightarrow> ClusterRBACGroupBinding \<Rightarrow> string list \<Rightarrow> error + ClusterRoleBinding" where
  "CRGB_desire E binding members =
     (case controllerutil_SetControllerReference E (OClusterRBACGroupBinding binding)
             (crb_meta (BuildClusterRoleBinding binding members)) of
        Inl err \<Rightarrow> Inl err
      | Inr owned \<Rightarrow> Inr ((BuildClusterRoleBinding binding members)\<lparr>crb_meta := owned\<rparr>))"

definition CRGB_view :: "ClusterRBACGroupBinding \<Rightarrow> SyncStatus" where
  "CRGB_view b = (let st = crgb_Status b in
     \<lparr>ss_ObservedGeneration = crgbst_ObservedGeneration st, ss_Conditions = crgbst_Conditions st,
      ss_LastSyncTime = crgbst_LastSyncTime st, ss_MemberCount = crgbst_MemberCount st,
      ss_MembersPreview = crgbst_MembersPreview st, ss_MembersTruncated = crgbst_MembersTruncated st,
      ss_MembersHash = crgbst_MembersHash st, ss_Ref = crgbst_ClusterRoleBindingRef st\<rparr>)"

abbreviation CRGB_adopt :: "ClusterRoleBinding \<Rightarrow> ClusterRoleBinding \<Rightarrow> ClusterRoleBinding" where
  "CRGB_adopt existing desired \<equiv> existing\<lparr>crb_Subjects := crb_Subjects desired,
     crb_meta := (crb_meta existing)\<lparr>om_OwnerReferences := om_OwnerReferences (crb_meta desired)\<rparr>\<rparr>"

interpretation clusterrolebinding: managed_object E "crb_client E" "''ClusterRoleBinding''" OClusterRoleBinding crb_meta crb_Subjects
  crb_RoleRef CRGB_adopt "reconcileClusterRoleBinding E" for E
  by unfold_locales (simp_all add: reconcileClusterRoleBinding_def)

abbreviation CRGB_lookup :: "'w env \<Rightarrow> 'w GrouperResolver \<Rightarrow> Context \<Rightarrow> ObjectKey \<Rightarrow>
    ('w op_state, (Result \<times> error option) + (ClusterRBACGroupBinding \<times> verdict \<times> duration)) state" where
  "CRGB_lookup E \<equiv> lookupMembers E (crgb_client E) clusterRBACGroupBindingKind
     (\<lambda>b. crgbs_ProviderRef (crgb_Spec b)) (\<lambda>b. crgbs_GroupDN (crgb_Spec b))"

lemma CRGB_body_eq:
  "CRGB_reconcileBody E resolver ctx k = do {
      l \<leftarrow> CRGB_lookup E resolver ctx k;
      case l of
        Inl r \<Rightarrow> ret r
      | Inr (b, v, interval) \<Rightarrow>
          (case v of
             VDegraded err \<Rightarrow> CRGB_markDegraded E b err
           | VMissing \<Rightarrow> do { Log ''group not found in directory'' []; CRGB_markGroupNotFound E b interval }
           | VReady ms \<Rightarrow>
               (case CRGB_desire E b ms of
                  Inl err \<Rightarrow> ret (zeroResult, Some err)
                | Inr d \<Rightarrow> do {
                    r \<leftarrow> reconcileClusterRoleBinding E d;
                    case r of
                      Inl err \<Rightarrow> CRGB_markDegraded E b err
                    | Inr outcome \<Rightarrow> do {
                        CRGB_recordOutcome b d ms outcome;
                        Log ''synced group membership'' [itoa (length ms)];
                        CRGB_markReady E b ms interval
                      }
                  }))
    }"
  unfolding CRGB_reconcileBody_def lookupMembers_def State_Monad.bind_assoc bind_case_sum bind_if
    State_Monad.bind_left_identity sum.case prod.case verdict.case
  by (intro bind_cong_eq case_sum_eq refl if_cong)
    (auto simp: CRGB_desire_def Let_def split: sum.splits)

lemmas CRGB_report_defs = verdict_events_def report_def verdict_conditions_def CRGB_view_def Let_def

lemma CRGB_markReady_emits:
  "emits (marked E OClusterRBACGroupBinding crgb_meta crgb_Spec CRGB_view b (VReady ms) i) (CRGB_markReady E b ms i)"
  unfolding CRGB_markReady_def Let_def case_prod_unfold
  by (rule emits_skip_Now, rule emits_skip_metric, rule emits_skip_metric, 
      rule emits_mono[OF mark_tail_marked[where v = "VReady ms" and i = i and b = b and meta = crgb_meta
        and spec = crgb_Spec and view = CRGB_view]])
    (simp_all add: CRGB_report_defs)

lemma CRGB_markDegraded_emits:
  "emits (marked E OClusterRBACGroupBinding crgb_meta crgb_Spec CRGB_view b (VDegraded e) i) (CRGB_markDegraded E b e)"
  unfolding CRGB_markDegraded_def Let_def
  by (rule emits_warning, rule emits_skip_metric, rule emits_skip_metric, 
      rule emits_mono[OF mark_tail_marked[where v = "VDegraded e" and i = i and b = b and meta = crgb_meta
        and spec = crgb_Spec and view = CRGB_view]])
    (simp_all add: CRGB_report_defs)

lemma CRGB_markGroupNotFound_emits:
  "emits (marked E OClusterRBACGroupBinding crgb_meta crgb_Spec CRGB_view b VMissing i) (CRGB_markGroupNotFound E b i)"
  unfolding CRGB_markGroupNotFound_def Let_def
  by (rule emits_warning, rule emits_skip_metric, 
      rule emits_mono[OF mark_tail_marked[where v = "VMissing" and i = i and b = b and meta = crgb_meta
        and spec = crgb_Spec and view = CRGB_view]])
    (simp_all add: CRGB_report_defs)

lemma CRGB_recordOutcome_emits:
  "emits (\<lambda>_. outcome_event (OClusterRBACGroupBinding b) outcome) (CRGB_recordOutcome b d ms outcome)"
  by (cases outcome)
    (simp_all add: CRGB_recordOutcome_def recordSuccessf_def outcome_event_def emits_ret emits_emit)

lemma CRGB_recordOutcome_world: "keeps os_world (CRGB_recordOutcome b d ms outcome)"
  by (cases outcome) (simp_all add: CRGB_recordOutcome_def recordSuccessf_def keeps_def emit_def)

lemma CRGB_marks_update:
  "updates_status (crgb_client E) OClusterRBACGroupBinding (CRGB_markReady E b ms i)"
  "updates_status (crgb_client E) OClusterRBACGroupBinding (CRGB_markDegraded E b e)"
  "updates_status (crgb_client E) OClusterRBACGroupBinding (CRGB_markGroupNotFound E b i)"
  unfolding CRGB_markReady_def CRGB_markDegraded_def CRGB_markGroupNotFound_def Let_def case_prod_unfold
  by (intro updates_status_intro)+

interpretation crgb: binding_reconciler E "crb_client E" "''ClusterRoleBinding''" OClusterRoleBinding crb_meta crb_Subjects
  crb_RoleRef CRGB_adopt "reconcileClusterRoleBinding E" "crgb_client E" clusterRBACGroupBindingKind OClusterRBACGroupBinding crgb_meta
  crgb_Spec CRGB_view "\<lambda>b. crgbs_ProviderRef (crgb_Spec b)" "\<lambda>b. crgbs_GroupDN (crgb_Spec b)" "CRGB_desire E"
  CRGB_recordOutcome "CRGB_markReady E" "CRGB_markDegraded E" "CRGB_markGroupNotFound E" "CRGB_reconcileBody E" for E
  by unfold_locales
    (rule CRGB_body_eq CRGB_markReady_emits CRGB_markDegraded_emits CRGB_markGroupNotFound_emits
      CRGB_recordOutcome_emits CRGB_recordOutcome_world CRGB_marks_update object.inject[THEN iffD1])+

end
