(* ===== verification/ClusterRBACGroupBinding_Guarantees.thy ===== *)
theory ClusterRBACGroupBinding_Guarantees
  imports ClusterRBACGroupBinding_Controller Grouper_Factory
begin

text \<open>
  What the \<open>ClusterRBACGroupBinding\<close> reconciler guarantees, over the contracts \<open>managed_object\<close> and
  \<open>binding_reconciler\<close> that its code meets. The theorems about a whole \<open>Reconcile\<close> hold
  for every environment: whatever the API server and the directory answer. Those about
  what the cluster holds afterwards take the API server's contract \<open>kclient_ok\<close> as a
  hypothesis.
\<close>

section \<open>A reconcile is its body and one observation\<close>

lemma CRGB_Reconcile_run:
  "run_state (CRGB_Reconcile E resolver ctx k) s = (case run_state (CRGB_reconcileBody E resolver ctx k) s of
     (r, t) \<Rightarrow> (r, t\<lparr>os_metrics := SyncDuration_Observe clusterRBACGroupBindingKind
       (time_Now E (os_world t) - time_Now E (os_world s)) (os_metrics t)\<rparr>))"
  by (simp add: CRGB_Reconcile_def Now_def observe_def metric_def split: prod.splits)

section \<open>Fail-safe\<close>

text \<open>
  The writes that members from the directory justify: a ClusterRoleBinding that grants the role
  of the spec to exactly those members, the removal of one that grants another role, and
  the status of the binding. Without members only the last is left.
\<close>

definition specClusterRoleRef :: "ClusterRBACGroupBinding \<Rightarrow> RbacRoleRef" where
  "specClusterRoleRef b = crb_RoleRef (BuildClusterRoleBinding b [])"

definition CRGB_write_ok :: "ClusterRBACGroupBinding \<Rightarrow> string list option \<Rightarrow> action \<Rightarrow> bool" where
  "CRGB_write_ok b members a = (case a of
     ACreate x _ \<Rightarrow> \<exists>rb ms. x = OClusterRoleBinding rb \<and> members = Some ms \<and>
       crb_Subjects rb = Subjects ms \<and> crb_RoleRef rb = specClusterRoleRef b
   | AUpdate x _ \<Rightarrow> \<exists>rb ms. x = OClusterRoleBinding rb \<and> members = Some ms \<and>
       crb_Subjects rb = Subjects ms \<and> crb_RoleRef rb = specClusterRoleRef b
   | ADelete x _ \<Rightarrow> \<exists>rb. x = OClusterRoleBinding rb \<and> members \<noteq> None \<and> crb_RoleRef rb \<noteq> specClusterRoleRef b
   | AStatusUpdate x _ \<Rightarrow> \<exists>b'. x = OClusterRBACGroupBinding b'
   | _ \<Rightarrow> True)"

lemma CRGB_desire_fields:
  "CRGB_desire E b ms = Inr d \<Longrightarrow> crb_Subjects d = Subjects ms \<and> crb_RoleRef d = specClusterRoleRef b"
  by (auto simp: CRGB_desire_def specClusterRoleRef_def BuildClusterRoleBinding_def split: sum.splits)

lemma CRGB_permitted_ok: "crgb.permitted TYPE(_) E b v a \<Longrightarrow> CRGB_write_ok b (members_of v) a"
  by (cases a) (auto simp: crgb.permitted_def clusterrolebinding.justified_def crgb.status_write_def CRGB_write_ok_def
      members_of_def dest!: CRGB_desire_fields)

text \<open>
  C2. Fail-safe: a reconcile of a \<open>ClusterRBACGroupBinding\<close> touches ClusterRoleBindings only with
  members that the directory returned. When the binding or the provider cannot be read, the
  directory is unreachable or the group is gone, the only write is the status update of
  the binding. When members were found, every ClusterRoleBinding it creates or updates grants the
  role of the spec to exactly those members, and it deletes only one that grants another
  role.
\<close>

theorem CRGB_failsafe:
  assumes "grouper_resolver resolver"
  shows "\<exists>as. os_trace (snd (run_state (CRGB_Reconcile E resolver ctx k) s)) = os_trace s @ as \<and>
    (case fst (run_state (CRGB_lookup E resolver ctx k) s) of
       Inl _ \<Rightarrow> \<not> list_ex api_write as
     | Inr (b, v, _) \<Rightarrow> list_all (CRGB_write_ok b (members_of v)) as)"
proof -
  obtain "as" where tr: "os_trace (snd (run_state (CRGB_reconcileBody E resolver ctx k) s)) = os_trace s @ as"
    and ok: "case fst (run_state (CRGB_lookup E resolver ctx k) s) of
      Inl _ \<Rightarrow> \<not> list_ex api_write as | Inr (b, v, _) \<Rightarrow> list_all (crgb.permitted TYPE(_) E b v) as"
    using assms by (rule crgb.body_permitted)
  have "list_all (CRGB_write_ok b (members_of v)) as" if "list_all (crgb.permitted TYPE(_) E b v) as" for b v
    by (rule list.pred_mono_strong[OF that CRGB_permitted_ok])
  with tr ok show ?thesis
    by (intro exI[of _ "as"]) (auto simp: CRGB_Reconcile_run split: prod.splits sum.splits)
qed

theorem CRGB_failsafe_witness:
  "\<exists>as. os_trace (snd (run_state (CRGB_Reconcile sim_env (GrouperFactory_Grouper sim_env demo_factory)
      \<lparr>ctx_Deadline = None\<rparr> \<lparr>key_Namespace = [], key_Name = ''admins''\<rparr>) (sim_start demo_world))) = as \<and>
    (case fst (run_state (CRGB_lookup sim_env (GrouperFactory_Grouper sim_env demo_factory)
      \<lparr>ctx_Deadline = None\<rparr> \<lparr>key_Namespace = [], key_Name = ''admins''\<rparr>) (sim_start demo_world)) of
       Inl _ \<Rightarrow> \<not> list_ex api_write as
     | Inr (b, v, _) \<Rightarrow> list_all (CRGB_write_ok b (members_of v)) as)"
  using CRGB_failsafe[OF factory.grouper_resolver_axioms[of sim_env demo_factory], of sim_env
      "\<lparr>ctx_Deadline = None\<rparr>" "\<lparr>key_Namespace = [], key_Name = ''admins''\<rparr>" "sim_start demo_world"]
  by (simp add: sim_start_def)

section \<open>What a reconcile reports\<close>

text \<open>
  C6. What a reconcile that looked the group up reports is what happened. If the directory's
  answer is that the group is missing or that it failed, that is the verdict. If it gave
  members, the verdict is Ready exactly when bringing the ClusterRoleBinding in line succeeded, and
  Degraded with the error of that sync otherwise. The last call of the reconcile is its one
  status update, and of the conditions Ready, Degraded and GroupNotFound the one of the verdict
  and no other is true in it. The observed generation is the one that was read, spec and
  metadata are left alone, a Ready status carries the count, preview, hash and reference of
  the members found, and any other status keeps those fields from before. There is one way
  to end without a report: when no owner reference can be set on the ClusterRoleBinding, that error is
  returned and nothing at all is written.
\<close>

theorem CRGB_status_reports:
  assumes "grouper_resolver resolver" and "SetStatusCondition_ok E"
    and "run_state (CRGB_lookup E resolver ctx k) s = (Inr (b, v, i), t)"
    and "run_state (CRGB_Reconcile E resolver ctx k) s = (r, u)"
  shows "case final_verdict (CRGB_desire E) (reconcileClusterRoleBinding E) b v t of
      Inl err \<Rightarrow> r = (zeroResult, Some err) \<and> (\<exists>as. os_trace u = os_trace s @ as \<and> \<not> list_ex api_write as)
    | Inr v' \<Rightarrow> \<exists>as b' ok. os_trace u = os_trace s @ as @ [AStatusUpdate (OClusterRBACGroupBinding b') ok] \<and>
        (\<forall>x ok'. AStatusUpdate (OClusterRBACGroupBinding x) ok' \<notin> set as) \<and>
        true_conditions (crgbst_Conditions (crgb_Status b')) = {verdict_type v'} \<and>
        report E v' (crgb_meta b) (CRGB_view b) (CRGB_view b') \<and>
        crgb_meta b' = crgb_meta b \<and> crgb_Spec b' = crgb_Spec b"
proof -
  obtain u' where u': "run_state (CRGB_reconcileBody E resolver ctx k) s = (r, u')" "os_trace u = os_trace u'"
    using assms(4) by (auto simp: CRGB_Reconcile_run split: prod.splits)
  have "true_conditions (crgbst_Conditions (crgb_Status b')) = {verdict_type v'}"
    if "report E v' (crgb_meta b) (CRGB_view b) (CRGB_view b')" for b' v'
    using report_true_condition[OF that assms(2)] by (simp add: CRGB_view_def Let_def)
  with crgb.body_reports[OF assms(1,3) u'(1)] u'(2) show ?thesis
    by (auto simp: list_ex_iff crgb.status_write_def split: sum.splits) blast
qed

abbreviation admins_key :: ObjectKey where
  "admins_key \<equiv> \<lparr>key_Namespace = [], key_Name = ''admins''\<rparr>"

lemma demo_cluster_lookup:
  "\<exists>t. run_state (CRGB_lookup sim_env (stubResolver demo_groups) demo_ctx admins_key) (sim_start demo_world) =
     (Inr (demo_cluster_binding, VReady [''alice'', ''bob''], 300), t)"
  by (simp add: lookupMembers_def clientGet_def call_def sim_env_def sim_kclient_def demo_defs sim_start_def
      stubResolver_def fake_GetGroupMembers_def demo_groups_def)

lemma demo_cluster_synced:
  "\<exists>d outcome. CRGB_desire sim_env demo_cluster_binding [''alice'', ''bob''] = Inr d \<and>
    fst (run_state (reconcileClusterRoleBinding sim_env d) t) = Inr outcome"
  if "run_state (CRGB_lookup sim_env (stubResolver demo_groups) demo_ctx admins_key) (sim_start demo_world) =
     (Inr (demo_cluster_binding, VReady [''alice'', ''bob''], 300), t)"
  using that
  by (auto simp: reconcileClusterRoleBinding_def call_defs lookupMembers_def clientGet_def call_def sim_env_def sim_kclient_def demo_defs
      sim_start_def stubResolver_def fake_GetGroupMembers_def demo_groups_def CRGB_desire_def BuildClusterRoleBinding_def
      notFound_def)

theorem CRGB_status_reports_witness:
  "\<exists>as b' ok. os_trace (snd (run_state (CRGB_Reconcile sim_env (stubResolver demo_groups) demo_ctx admins_key)
      (sim_start demo_world))) = as @ [AStatusUpdate (OClusterRBACGroupBinding b') ok] \<and>
    true_conditions (crgbst_Conditions (crgb_Status b')) = {ConditionReady}"
proof -
  obtain t where t: "run_state (CRGB_lookup sim_env (stubResolver demo_groups) demo_ctx admins_key)
      (sim_start demo_world) = (Inr (demo_cluster_binding, VReady [''alice'', ''bob''], 300), t)"
    using demo_cluster_lookup by blast
  obtain r u where u: "run_state (CRGB_Reconcile sim_env (stubResolver demo_groups) demo_ctx admins_key)
      (sim_start demo_world) = (r, u)"
    by (cases "run_state (CRGB_Reconcile sim_env (stubResolver demo_groups) demo_ctx admins_key) (sim_start demo_world)")
  have "final_verdict (CRGB_desire sim_env) (reconcileClusterRoleBinding sim_env) demo_cluster_binding (VReady [''alice'', ''bob'']) t =
      Inr (VReady [''alice'', ''bob''])"
    using demo_cluster_synced[OF t] by (auto simp: final_verdict_def)
  with CRGB_status_reports[OF stub.grouper_resolver_axioms sim_SetStatusCondition_ok t u] u show ?thesis
    by (auto simp: sim_start_def verdict_type_def)
qed

lemma demo_cluster_reconciles:
  "\<exists>u. run_state (CRGB_Reconcile sim_env (stubResolver demo_groups) demo_ctx admins_key) (sim_start demo_world) =
     ((\<lparr>RequeueAfter = 300\<rparr>, None), u)"
  by (simp add: CRGB_Reconcile_def CRGB_reconcileBody_def reconcileClusterRoleBinding_def CRGB_recordOutcome_def
      CRGB_markReady_def SetStatusCondition_def call_defs recordSuccessf_def Log_def Now_def call_def emit_def
      observe_def metric_def sim_env_def sim_kclient_def demo_defs sim_start_def stubResolver_def
      fake_GetGroupMembers_def demo_groups_def BuildClusterRoleBinding_def notFound_def PreviewMembers_def previewCap_def
      put_def drop_key_def Let_def)

section \<open>What the cluster holds afterwards\<close>

text \<open>An accepted ClusterRoleBinding keeps what the operator set.\<close>

definition crb_agree :: "ClusterRoleBinding \<Rightarrow> ClusterRoleBinding \<Rightarrow> bool" where
  "crb_agree x y \<longleftrightarrow> crb_Subjects y = crb_Subjects x \<and> crb_RoleRef y = crb_RoleRef x \<and>
     om_OwnerReferences (crb_meta y) = om_OwnerReferences (crb_meta x) \<and>
     ObjectKeyFromObject (crb_meta y) = ObjectKeyFromObject (crb_meta x)"

lemma crb_agree_eq: "crb_agree = clusterrolebinding.agree"
  by (simp add: fun_eq_iff crb_agree_def clusterrolebinding.agree_def)

text \<open>
  The ClusterRoleBinding \<open>x\<close> grants the role of \<open>desired\<close> to exactly its subjects, under its
  owners.
\<close>

definition crb_grants :: "'w env \<Rightarrow> ClusterRoleBinding \<Rightarrow> ClusterRoleBinding \<Rightarrow> bool" where
  "crb_grants E desired x \<longleftrightarrow> crb_RoleRef x = crb_RoleRef desired \<and> mset (crb_Subjects x) = mset (crb_Subjects desired) \<and>
     equality_DeepEqual E (om_OwnerReferences (crb_meta x)) (om_OwnerReferences (crb_meta desired))"

lemma crb_synced_grants: "clusterrolebinding.synced TYPE(_) E desired x \<Longrightarrow> crb_grants E desired x"
  by (simp add: clusterrolebinding.synced_def crb_grants_def SubjectsEqual_sound)

text \<open>
  \<open>reconcileClusterRoleBinding\<close> converges: when it reports success, the cluster holds a
  ClusterRoleBinding under the desired name that grants the desired role to exactly the desired
  subjects, under the desired owners, and no other ClusterRoleBinding has changed. When it fails,
  the ClusterRoleBinding is as it was, with one exception: one that granted a different role may be
  gone.
\<close>

theorem reconcileClusterRoleBinding_converges:
  assumes "kclient_ok E (crb_client E) crb_meta crb_agree sto" and "\<forall>rs. equality_DeepEqual E rs rs"
    and "run_state (reconcileClusterRoleBinding E desired) s = (r, t)"
  defines "k \<equiv> ObjectKeyFromObject (crb_meta desired)"
  shows "(\<forall>k'. k' \<noteq> k \<longrightarrow> sto (os_world t) k' = sto (os_world s) k') \<and>
    (case r of
       Inr _ \<Rightarrow> \<exists>x. sto (os_world t) k = Some x \<and> crb_grants E desired x
     | Inl _ \<Rightarrow> sto (os_world t) k = sto (os_world s) k \<or>
         (\<exists>x. sto (os_world s) k = Some x \<and> crb_RoleRef x \<noteq> crb_RoleRef desired \<and> sto (os_world t) k = None))"
proof -
  have "(\<forall>k'. k' \<noteq> k \<longrightarrow> sto (os_world t) k' = sto (os_world s) k') \<and>
    (case r of
       Inr _ \<Rightarrow> \<exists>x. sto (os_world t) k = Some x \<and> clusterrolebinding.synced TYPE(_) E desired x
     | Inl _ \<Rightarrow> sto (os_world t) k = sto (os_world s) k \<or>
         (\<exists>x. sto (os_world s) k = Some x \<and> crb_RoleRef x \<noteq> crb_RoleRef desired \<and> sto (os_world t) k = None))"
    unfolding k_def using clusterrolebinding.sync_contract[OF assms(1)[unfolded crb_agree_eq] _ assms(3)] assms(2) by simp
  then show ?thesis by (auto split: sum.splits intro: crb_synced_grants)
qed

lemma sim_crb_agree: "kclient_ok sim_env (crb_client sim_env) crb_meta crb_agree (\<lambda>w. stored crb_meta (sim_crbs w))"
  by (rule kclient_ok_mono[OF sim_crb_client_ok]) (simp add: crb_agree_def)

definition demo_clusterrolebinding :: ClusterRoleBinding where
  "demo_clusterrolebinding = BuildClusterRoleBinding demo_cluster_binding [''alice'', ''bob'']"

lemmas reconcileClusterRoleBinding_run = reconcileClusterRoleBinding_def call_defs call_def sim_env_def sim_kclient_def
  demo_defs sim_start_def demo_clusterrolebinding_def BuildClusterRoleBinding_def notFound_def put_def drop_key_def

lemma demo_cluster_create:
  "\<exists>t. run_state (reconcileClusterRoleBinding sim_env demo_clusterrolebinding) (sim_start demo_world) = (Inr syncCreated, t)"
  by (simp add: reconcileClusterRoleBinding_run)

theorem reconcileClusterRoleBinding_converges_witness:
  "\<exists>t x. run_state (reconcileClusterRoleBinding sim_env demo_clusterrolebinding) (sim_start demo_world) = (Inr syncCreated, t) \<and>
    stored crb_meta (sim_crbs (os_world t)) admins_key = Some x \<and> crb_grants sim_env demo_clusterrolebinding x"
proof -
  obtain t where t: "run_state (reconcileClusterRoleBinding sim_env demo_clusterrolebinding) (sim_start demo_world) =
      (Inr syncCreated, t)"
    using demo_cluster_create by blast
  have "ObjectKeyFromObject (crb_meta demo_clusterrolebinding) = admins_key"
    by (simp add: demo_clusterrolebinding_def BuildClusterRoleBinding_def demo_defs)
  with reconcileClusterRoleBinding_converges[OF sim_crb_agree sim_DeepEqual t] t show ?thesis by auto
qed

text \<open>
  C4. End to end: a reconcile of a \<open>ClusterRBACGroupBinding\<close> that found the group's members and
  returned no error leaves, under the binding's name, a ClusterRoleBinding
  that grants the role of the spec to exactly the members the directory returned. The
  status update that follows is of another kind of object and leaves it alone; the owner
  reference helper keeps the object's name.
\<close>

theorem CRGB_Reconcile_establishes:
  assumes "kclient_ok E (crb_client E) crb_meta crb_agree sto" and "\<forall>rs. equality_DeepEqual E rs rs"
    and "\<forall>x w. sto (snd (k_StatusUpdate (crgb_client E) x w)) = sto w"
    and "\<forall>x m m'. controllerutil_SetControllerReference E x m = Inr m' \<longrightarrow>
      ObjectKeyFromObject m' = ObjectKeyFromObject m"
    and "run_state (CRGB_lookup E resolver ctx k) s = (Inr (b, VReady ms, i), t)"
    and "run_state (CRGB_Reconcile E resolver ctx k) s = ((res, None), u)"
  shows "\<exists>x. sto (os_world u) \<lparr>key_Namespace = [], key_Name = om_Name (crgb_meta b)\<rparr> = Some x \<and>
    mset (crb_Subjects x) = mset (Subjects ms) \<and> crb_RoleRef x = specClusterRoleRef b"
proof -
  obtain u' where u': "run_state (CRGB_reconcileBody E resolver ctx k) s = ((res, None), u')"
    "os_world u = os_world u'"
    using assms(6) by (auto simp: CRGB_Reconcile_run split: prod.splits)
  obtain d x where d: "CRGB_desire E b ms = Inr d"
    and x: "sto (os_world u') (ObjectKeyFromObject (crb_meta d)) = Some x" "clusterrolebinding.synced TYPE(_) E d x"
    using crgb.body_establishes[OF assms(1)[unfolded crb_agree_eq] _ _ assms(5) u'(1)] assms(2,3) by auto
  have "ObjectKeyFromObject (crb_meta d) = \<lparr>key_Namespace = [], key_Name = om_Name (crgb_meta b)\<rparr>"
    using d assms(4) by (auto simp: CRGB_desire_def BuildClusterRoleBinding_def ObjectKeyFromObject_def newObjectMeta_def
        split: sum.splits)
  with x u'(2) CRGB_desire_fields[OF d] crb_synced_grants[OF x(2)] show ?thesis by (auto simp: crb_grants_def)
qed

theorem CRGB_Reconcile_establishes_witness:
  "\<exists>u x. run_state (CRGB_Reconcile sim_env (stubResolver demo_groups) demo_ctx admins_key) (sim_start demo_world) =
      ((\<lparr>RequeueAfter = 300\<rparr>, None), u) \<and>
    stored crb_meta (sim_crbs (os_world u)) admins_key = Some x \<and>
    mset (crb_Subjects x) = mset (Subjects [''alice'', ''bob''])"
proof -
  obtain t where t: "run_state (CRGB_lookup sim_env (stubResolver demo_groups) demo_ctx admins_key)
      (sim_start demo_world) = (Inr (demo_cluster_binding, VReady [''alice'', ''bob''], 300), t)"
    using demo_cluster_lookup by blast
  obtain u where u: "run_state (CRGB_Reconcile sim_env (stubResolver demo_groups) demo_ctx admins_key)
      (sim_start demo_world) = ((\<lparr>RequeueAfter = 300\<rparr>, None), u)"
    using demo_cluster_reconciles by blast
  have "om_Name (crgb_meta demo_cluster_binding) = ''admins''" by (simp add: demo_defs)
  moreover have "\<forall>x w. stored crb_meta (sim_crbs (snd (k_StatusUpdate (crgb_client sim_env) x w))) =
      stored crb_meta (sim_crbs w)"
    by (simp add: sim_env_def sim_kclient_def)
  moreover have "\<forall>x m m'. controllerutil_SetControllerReference sim_env x m = Inr m' \<longrightarrow>
      ObjectKeyFromObject m' = ObjectKeyFromObject m"
    by (auto simp: sim_env_def ObjectKeyFromObject_def)
  ultimately show ?thesis
    using CRGB_Reconcile_establishes[OF sim_crb_agree sim_DeepEqual _ _ t u] u by auto
qed

end
