(* ===== verification/Cluster_Spec.thy ===== *)
theory Cluster_Spec
  imports RBACGroupBinding_Guarantees ClusterRBACGroupBinding_Guarantees
begin

text \<open>
  The specification that a whole reconcile is measured against. A \<open>cluster\<close> is what the API
  server stores, a \<open>directory\<close> is what an LDAP server answers, and \<open>group_access\<close> says which users
  a binding stands for. Nothing here mentions the code. The predicates \<open>reads_served\<close>,
  \<open>writes_served\<close>, \<open>status_served\<close> and \<open>directories_up\<close> say that the surroundings work: the API
  server answers and accepts well-formed requests, and the directories can be reached. They are
  stated of the worlds for which an abstraction function \<open>cl\<close> gives a cluster, so that they
  say nothing of an outage. The second half proves the parts of a reconcile against them.
\<close>

section \<open>What is stored\<close>

text \<open>Objects by kind and key, of all kinds in one map.\<close>

type_synonym cluster = "string \<times> ObjectKey \<rightharpoonup> object"

text \<open>A read returns what is stored, or a NotFound error, and changes nothing.\<close>

definition reads_served ::
  "'w env \<Rightarrow> ('w \<Rightarrow> cluster option) \<Rightarrow> ('w, 'o) kclient \<Rightarrow> string \<Rightarrow> ('o \<Rightarrow> object) \<Rightarrow> ('o \<Rightarrow> ObjectMeta) \<Rightarrow> bool"
where
  "reads_served E cl K kind wrap meta \<longleftrightarrow> (\<forall>k w. cl (snd (k_Get K k w)) = cl w \<and>
     (\<forall>c. cl w = Some c \<longrightarrow> (case c (kind, k) of
        None \<Rightarrow> \<exists>e. fst (k_Get K k w) = Inl e \<and> apierrors_IsNotFound E e
      | Some obj \<Rightarrow> \<exists>x. obj = wrap x \<and> ObjectKeyFromObject (meta x) = k \<and> fst (k_Get K k w) = Inr x)))"

text \<open>
  A create is accepted when the key is free, an update when it is based on the stored resource
  version, a delete when there is something to delete. What is stored then agrees with what
  was sent.
\<close>

definition writes_served ::
  "('w \<Rightarrow> cluster option) \<Rightarrow> ('w, 'o) kclient \<Rightarrow> string \<Rightarrow> ('o \<Rightarrow> object) \<Rightarrow> ('o \<Rightarrow> ObjectMeta) \<Rightarrow>
   ('o \<Rightarrow> 'o \<Rightarrow> bool) \<Rightarrow> bool"
where
  "writes_served cl K kind wrap meta agree \<longleftrightarrow> (\<forall>x w c. cl w = Some c \<longrightarrow>
     (let k = (kind, ObjectKeyFromObject (meta x)) in
      (c k = None \<longrightarrow>
         (\<exists>y w'. k_Create K x w = (Inr y, w') \<and> agree x y \<and> cl w' = Some (c(k \<mapsto> wrap y)))) \<and>
      (\<forall>old. c k = Some (wrap old) \<and> om_ResourceVersion (meta x) = om_ResourceVersion (meta old) \<longrightarrow>
         (\<exists>y w'. k_Update K x w = (Inr y, w') \<and> agree x y \<and> cl w' = Some (c(k \<mapsto> wrap y)))) \<and>
      (c k \<noteq> None \<longrightarrow> (\<exists>w'. k_Delete K x w = (None, w') \<and> cl w' = Some (c(k := None))))))"

text \<open>
  A status update based on the stored resource version is accepted. \<open>persists old x y\<close> relates
  the object before, the one sent and the one stored afterwards.
\<close>

definition status_served ::
  "('w \<Rightarrow> cluster option) \<Rightarrow> ('w, 'o) kclient \<Rightarrow> string \<Rightarrow> ('o \<Rightarrow> object) \<Rightarrow> ('o \<Rightarrow> ObjectMeta) \<Rightarrow>
   ('o \<Rightarrow> 'o \<Rightarrow> 'o \<Rightarrow> bool) \<Rightarrow> bool"
where
  "status_served cl K kind wrap meta persists \<longleftrightarrow> (\<forall>x w c old.
     (let k = (kind, ObjectKeyFromObject (meta x)) in
      cl w = Some c \<and> c k = Some (wrap old) \<and> om_ResourceVersion (meta x) = om_ResourceVersion (meta old) \<longrightarrow>
        (\<exists>y w'. k_StatusUpdate K x w = (Inr y, w') \<and> persists old x y \<and> cl w' = Some (c(k \<mapsto> wrap y)))))"

text \<open>The same object in a later version.\<close>

definition same_object :: "ObjectMeta \<Rightarrow> ObjectMeta \<Rightarrow> bool" where
  "same_object m m' \<longleftrightarrow> m'\<lparr>om_ResourceVersion := om_ResourceVersion m\<rparr> = m"

lemma same_object_fields:
  assumes "same_object m m'"
  shows "om_Name m' = om_Name m" "om_Namespace m' = om_Namespace m" "om_UID m' = om_UID m"
    "om_Generation m' = om_Generation m" "ObjectKeyFromObject m' = ObjectKeyFromObject m"
proof -
  from assms have m: "m = m'\<lparr>om_ResourceVersion := om_ResourceVersion m\<rparr>" by (simp add: same_object_def)
  show "om_Name m' = om_Name m" "om_Namespace m' = om_Namespace m" "om_UID m' = om_UID m"
    "om_Generation m' = om_Generation m" "ObjectKeyFromObject m' = ObjectKeyFromObject m"
    by (subst m, simp add: ObjectKeyFromObject_def)+
qed

lemma same_object_trans: "same_object m m' \<Longrightarrow> same_object m' m'' \<Longrightarrow> same_object m m''"
  by (cases m; cases m'; cases m'') (simp add: same_object_def)

lemma same_object_refl [simp]: "same_object m m"
  by (simp add: same_object_def)

lemma reads_servedD:
  assumes "reads_served E cl K kind wrap meta" and "k_Get K k w = (r, w')"
  shows "cl w' = cl w"
    and "cl w = Some c \<Longrightarrow> c (kind, k) = None \<Longrightarrow> \<exists>e. r = Inl e \<and> apierrors_IsNotFound E e"
    and "cl w = Some c \<Longrightarrow> c (kind, k) = Some obj \<Longrightarrow>
      \<exists>x. obj = wrap x \<and> ObjectKeyFromObject (meta x) = k \<and> r = Inr x"
  using assms(1)[unfolded reads_served_def, THEN spec[of _ k], THEN spec[of _ w]] assms(2)
  by auto

lemma writes_servedD:
  assumes "writes_served cl K kind wrap meta agree" and "cl w = Some c" and "k = ObjectKeyFromObject (meta x)"
  shows "c (kind, k) = None \<Longrightarrow>
      \<exists>y w'. k_Create K x w = (Inr y, w') \<and> agree x y \<and> cl w' = Some (c((kind, k) \<mapsto> wrap y))"
    and "c (kind, k) = Some (wrap old) \<Longrightarrow> om_ResourceVersion (meta x) = om_ResourceVersion (meta old) \<Longrightarrow>
      \<exists>y w'. k_Update K x w = (Inr y, w') \<and> agree x y \<and> cl w' = Some (c((kind, k) \<mapsto> wrap y))"
    and "c (kind, k) \<noteq> None \<Longrightarrow> \<exists>w'. k_Delete K x w = (None, w') \<and> cl w' = Some (c((kind, k) := None))"
proof -
  note served = assms(1)[unfolded writes_served_def Let_def, THEN spec[of _ x], THEN spec[of _ w],
      THEN spec[of _ c], THEN mp, OF assms(2), folded assms(3)]
  from served show "c (kind, k) = None \<Longrightarrow>
      \<exists>y w'. k_Create K x w = (Inr y, w') \<and> agree x y \<and> cl w' = Some (c((kind, k) \<mapsto> wrap y))"
    and "c (kind, k) = Some (wrap old) \<Longrightarrow> om_ResourceVersion (meta x) = om_ResourceVersion (meta old) \<Longrightarrow>
      \<exists>y w'. k_Update K x w = (Inr y, w') \<and> agree x y \<and> cl w' = Some (c((kind, k) \<mapsto> wrap y))"
    and "c (kind, k) \<noteq> None \<Longrightarrow> \<exists>w'. k_Delete K x w = (None, w') \<and> cl w' = Some (c((kind, k) := None))"
    by (simp_all only: simp_thms)
qed

lemma status_servedD:
  assumes "status_served cl K kind wrap meta persists" and "cl w = Some c"
    and "c (kind, ObjectKeyFromObject (meta x)) = Some (wrap old)"
    and "om_ResourceVersion (meta x) = om_ResourceVersion (meta old)"
  shows "\<exists>y w'. k_StatusUpdate K x w = (Inr y, w') \<and> persists old x y \<and>
    cl w' = Some (c((kind, ObjectKeyFromObject (meta x)) \<mapsto> wrap y))"
  using assms(1)[unfolded status_served_def Let_def, rule_format, of w c x old] assms(2-4) by blast

section \<open>Bringing one object in line\<close>

context managed_object begin

lemma synced_desired: "(\<And>rs. equality_DeepEqual E rs rs) \<Longrightarrow> agree d y \<Longrightarrow> synced d y"
  by (rule agree_synced) auto

lemma synced_adopted:
  assumes "\<And>rs. equality_DeepEqual E rs rs" and "agree (adopt x d) y" and "roleRef x = roleRef d"
  shows "synced d y"
  using assms by (intro agree_synced[OF assms(1,2)]) (simp_all add: adopt_subjects adopt_roleRef adopt_meta)

text \<open>
  Against a server that works, a sync succeeds, and only the object under the desired key
  has changed: it is in line. Nothing is written when it was in line before.
\<close>

text \<open>An object that gives the desired role is kept if it is in line and updated otherwise.\<close>

lemma sync_served_same_role:
  assumes writes: "writes_served cl K kind wrap meta agree" and deep: "\<And>rs. equality_DeepEqual E rs rs"
    and g: "k_Get K (key d) (os_world s) = (Inr x, w)" and w: "cl w = Some c"
    and x: "c (kind, key d) = Some (wrap x)" "key x = key d" "roleRef x = roleRef d"
    and run: "run_state (sync d) s = (r, t)"
  obtains y outcome where "r = Inr outcome" and "cl (os_world t) = Some (c((kind, key d) \<mapsto> wrap y))"
    and "synced d y"
proof (cases "synced d x")
  case True
  then have "r = Inr syncUnchanged" "os_world t = w"
    using run g x(3) by (auto simp: sync_calls call_def synced_def)
  moreover have "c((kind, key d) \<mapsto> wrap x) = c" using x(1) by auto
  ultimately show thesis using that[of syncUnchanged x] w True by simp
next
  case False
  obtain y w' where y: "k_Update K (adopt x d) w = (Inr y, w')" "agree (adopt x d) y"
    "cl w' = Some (c((kind, key d) \<mapsto> wrap y))"
    using writes_servedD(2)[OF writes w, of "key d" "adopt x d" x] x(1,2)
    by (auto simp: adopt_meta ObjectKeyFromObject_def)
  then show thesis
    using that[of syncUpdated y] run g x(3) False synced_adopted[OF deep y(2) x(3)]
    by (auto simp: sync_calls call_def synced_def)
qed

lemma sync_served:
  assumes reads: "reads_served E cl K kind wrap meta" and writes: "writes_served cl K kind wrap meta agree"
    and deep: "\<And>rs. equality_DeepEqual E rs rs"
    and c: "cl (os_world s) = Some c" and run: "run_state (sync d) s = (r, t)"
  obtains x outcome where "r = Inr outcome" and "cl (os_world t) = Some (c((kind, key d) \<mapsto> wrap x))"
    and "synced d x"
proof -
  obtain g w where g: "k_Get K (key d) (os_world s) = (g, w)" by (cases "k_Get K (key d) (os_world s)")
  have w: "cl w = Some c" using reads_servedD(1)[OF reads g] c by simp
  show thesis
  proof (cases "c (kind, key d)")
    case None
    obtain e where "g = Inl e" "apierrors_IsNotFound E e" using reads_servedD(2)[OF reads g c None] by blast
    moreover obtain y w' where y: "k_Create K d w = (Inr y, w')" "agree d y"
      "cl w' = Some (c((kind, key d) \<mapsto> wrap y))"
      using writes_servedD(1)[OF writes w _ None] by blast
    ultimately show thesis
      using that[of syncCreated y] run g synced_desired[OF deep y(2)]
      by (auto simp: sync_calls call_def)
  next
    case (Some obj)
    obtain x where x: "obj = wrap x" "key x = key d" "g = Inr x" using reads_servedD(3)[OF reads g c Some] by blast
    show thesis
    proof (cases "roleRef x = roleRef d")
      case False
      obtain w1 where w1: "k_Delete K x w = (None, w1)" "cl w1 = Some (c((kind, key d) := None))"
        using writes_servedD(3)[OF writes w x(2)[symmetric]] Some by blast
      obtain y w' where y: "k_Create K d w1 = (Inr y, w')" "agree d y"
        "cl w' = Some (c((kind, key d) := None, (kind, key d) \<mapsto> wrap y))"
        using writes_servedD(1)[OF writes w1(2) refl, of d] fun_upd_same[of c "(kind, key d)" None] by blast
      then show thesis
        using that[of syncRecreated y] run g w1 x False synced_desired[OF deep y(2)]
        by (auto simp: sync_calls call_def)
    next
      case True
      from sync_served_same_role[OF writes deep g[unfolded x(3)] w Some[unfolded x(1)] x(2) True run] that
      show thesis by blast
    qed
  qed
qed

lemma sync_quiet:
  assumes reads: "reads_served E cl K kind wrap meta" and "\<And>x y. wrap x = wrap y \<Longrightarrow> x = y"
    and c: "cl (os_world s) = Some c" and x: "c (kind, key d) = Some (wrap x)" "synced d x"
  shows "\<exists>t. run_state (sync d) s = (Inr syncUnchanged, t) \<and> cl (os_world t) = Some c \<and>
    os_trace t = os_trace s @ [AGet kind (key d)]"
proof -
  obtain g w where g: "k_Get K (key d) (os_world s) = (g, w)" by (cases "k_Get K (key d) (os_world s)")
  moreover obtain y where "wrap x = wrap y" "g = Inr y" using reads_servedD(3)[OF reads g c x(1)] by blast
  moreover have "cl w = Some c" using reads_servedD(1)[OF reads g] c by simp
  moreover have "y = x" using calculation(2) assms(2) by simp
  ultimately show ?thesis using x(2) by (simp add: sync_calls call_def synced_def)
qed

end

section \<open>Directories\<close>

text \<open>What the directory at a URL answers, and the credentials it accepts.\<close>

record directory =
  dir_search :: "SearchRequest \<Rightarrow> error + SearchResult"
  dir_paged :: "SearchRequest \<Rightarrow> error + SearchResult"
  dir_accepts :: "string \<Rightarrow> string \<Rightarrow> bool"

text \<open>
  The directories are up: rate limiting delays but does not refuse, a dial reaches the
  directory at the URL (\<open>home\<close> is the URL at the other end of a connection), a bind succeeds with
  the right credentials and only with them, searches are answered, and none of this touches the
  cluster. A handshake without a server name fails, as \<open>handshake_needs_name\<close> says.
\<close>

definition directories_up ::
  "'w env \<Rightarrow> ('w \<Rightarrow> cluster option) \<Rightarrow> (conn \<Rightarrow> string) \<Rightarrow> (string \<Rightarrow> directory) \<Rightarrow> bool" where
  "directories_up E cl home dirs \<longleftrightarrow>
     (\<forall>l ctx w. cl (snd (limiter_Wait E l ctx w)) = cl w) \<and>
     (\<forall>url opts w. cl (snd (ldap_DialURL E url opts w)) = cl w) \<and>
     (\<forall>c dn pw w. cl (snd (ldap_Bind E c dn pw w)) = cl w) \<and>
     (\<forall>c t w. cl (snd (ldap_StartTLS E c t w)) = cl w) \<and>
     (\<forall>c d w. cl (snd (ldap_SetTimeout E c d w)) = cl w) \<and>
     (\<forall>c req w. cl (snd (ldap_Search E c req w)) = cl w) \<and>
     (\<forall>c req n w. cl (snd (ldap_SearchWithPaging E c req n w)) = cl w) \<and>
     (\<forall>c w. cl (snd (ldap_Close E c w)) = cl w) \<and>
     (\<forall>l ctx w. cl w \<noteq> None \<longrightarrow> fst (limiter_Wait E l ctx w) = None) \<and>
     (\<forall>url opts w. cl w \<noteq> None \<longrightarrow> (\<exists>c. fst (ldap_DialURL E url opts w) = Inr c \<and> home c = url)) \<and>
     (\<forall>c dn pw w. cl w \<noteq> None \<longrightarrow> (fst (ldap_Bind E c dn pw w) = None \<longleftrightarrow> dir_accepts (dirs (home c)) dn pw)) \<and>
     (\<forall>c. snapshot E c (dir_search (dirs (home c))) (dir_paged (dirs (home c))))"

lemma directories_upD:
  assumes "directories_up E cl home dirs"
  shows "cl (snd (limiter_Wait E l ctx w)) = cl w" "cl (snd (ldap_DialURL E url opts w)) = cl w"
    "cl (snd (ldap_Bind E c dn pw w)) = cl w" "cl (snd (ldap_StartTLS E c t w)) = cl w"
    "cl (snd (ldap_SetTimeout E c d w)) = cl w" "cl (snd (ldap_Search E c req w)) = cl w"
    "cl (snd (ldap_SearchWithPaging E c req n w)) = cl w" "cl (snd (ldap_Close E c w)) = cl w"
    and "cl w \<noteq> None \<Longrightarrow> fst (limiter_Wait E l ctx w) = None"
    and "cl w \<noteq> None \<Longrightarrow> \<exists>c. fst (ldap_DialURL E url opts w) = Inr c \<and> home c = url"
    and "cl w \<noteq> None \<Longrightarrow> fst (ldap_Bind E c dn pw w) = None \<longleftrightarrow> dir_accepts (dirs (home c)) dn pw"
    and "snapshot E c (dir_search (dirs (home c))) (dir_paged (dirs (home c)))"
  using assms unfolding directories_up_def by simp_all

text \<open>
  Connecting with a configuration that names no server and verifies certificates: it
  works exactly when no StartTLS is needed and the credentials are right.
\<close>

definition admits :: "(string \<Rightarrow> directory) \<Rightarrow> Config \<Rightarrow> bool" where
  "admits dirs cfg \<longleftrightarrow> \<not> needsStartTLS cfg \<and>
     dir_accepts (dirs (cfg_URL cfg)) (cfg_BindDN cfg) (cfg_BindPassword cfg)"

section \<open>Which users a binding stands for\<close>

text \<open>What can be said of a group: its members, that there is no such group, or nothing.\<close>

datatype access = Granted "string multiset" | NoGroup | Withheld

definition secret_value :: "cluster \<Rightarrow> string \<Rightarrow> SecretKeyRef \<Rightarrow> string option" where
  "secret_value c ns ref = (case c (secretKind, \<lparr>key_Namespace = ns, key_Name = skr_Name ref\<rparr>) of
     Some (OSecret sec) \<Rightarrow> sec_Data sec (skr_Key ref)
   | _ \<Rightarrow> None)"

definition ca_usable :: "'w env \<Rightarrow> GrouperFactory \<Rightarrow> cluster \<Rightarrow> LDAPProvider \<Rightarrow> bool" where
  "ca_usable E f c p \<longleftrightarrow> (case Option.bind (lps_TLSConfig (lp_Spec p)) tcs_CASecretRef of
     None \<Rightarrow> True
   | Some ref \<Rightarrow> (case secret_value c (gf_SecretNamespace f) ref of
       None \<Rightarrow> False | Some pem \<Rightarrow> fst (x509_AppendCertsFromPEM E [] pem)))"

text \<open>The bind password, unless a secret is missing or the CA bundle is no certificate.\<close>

definition provider_password :: "'w env \<Rightarrow> GrouperFactory \<Rightarrow> cluster \<Rightarrow> LDAPProvider \<Rightarrow> string option" where
  "provider_password E f c p =
     (if ca_usable E f c p
      then secret_value c (gf_SecretNamespace f) (lps_BindPasswordSecretRef (lp_Spec p)) else None)"

definition provider_config :: "LDAPProvider \<Rightarrow> string \<Rightarrow> Config" where
  "provider_config p pw =
     \<lparr>cfg_URL = lps_URL (lp_Spec p), cfg_BindDN = lps_BindDN (lp_Spec p), cfg_BindPassword = pw,
      cfg_InsecureSkipTLS = lps_InsecureSkipTLS (lp_Spec p), cfg_TLSConfig = None,
      cfg_UserSearchBase = lps_UserSearchBase (lp_Spec p), cfg_GroupSearchBase = lps_GroupSearchBase (lp_Spec p),
      cfg_UsernameAttribute = lps_UsernameAttribute (lp_Spec p),
      cfg_DirectoryType = lps_DirectoryType (lp_Spec p), cfg_PageSize = 0, cfg_Limiter = None\<rparr>"

definition directory_access ::
  "'w env \<Rightarrow> (string \<Rightarrow> directory) \<Rightarrow> Config \<Rightarrow> string \<Rightarrow> access" where
  "directory_access E dirs cfg dn =
     (if admits dirs cfg
      then (case directory_members E cfg (dir_search (dirs (cfg_URL cfg))) (dir_paged (dirs (cfg_URL cfg))) dn of
              Members M \<Rightarrow> Granted M | NoSuchGroup \<Rightarrow> NoGroup | Unavailable \<Rightarrow> Withheld)
      else Withheld)"

definition group_access ::
  "'w env \<Rightarrow> GrouperFactory \<Rightarrow> (string \<Rightarrow> directory) \<Rightarrow> cluster \<Rightarrow> string \<Rightarrow> string \<Rightarrow> access" where
  "group_access E f dirs c provider dn =
     (case c (''LDAPProvider'', \<lparr>key_Namespace = [], key_Name = provider\<rparr>) of
        Some (OLDAPProvider p) \<Rightarrow>
          (case provider_password E f c p of
             None \<Rightarrow> Withheld | Some pw \<Rightarrow> directory_access E dirs (provider_config p pw) dn)
      | _ \<Rightarrow> Withheld)"

text \<open>It depends on the providers and the secrets that are stored, and on nothing else.\<close>

lemma group_access_cong:
  assumes "\<And>k. c' (''LDAPProvider'', k) = c (''LDAPProvider'', k)" and "\<And>k. c' (secretKind, k) = c (secretKind, k)"
  shows "group_access E f dirs c' = group_access E f dirs c"
proof -
  have secrets: "secret_value c' = secret_value c" using assms(2) by (simp add: fun_eq_iff secret_value_def)
  have password: "provider_password E f c' = provider_password E f c"
    by (rule ext) (unfold provider_password_def ca_usable_def secrets, rule refl)
  show ?thesis by (intro ext) (unfold group_access_def password assms(1), rule refl)
qed

definition lookup_data :: "cluster \<Rightarrow> cluster \<Rightarrow> bool" where
  "lookup_data c c' \<longleftrightarrow> (\<forall>p. fst p \<in> {''LDAPProvider'', secretKind} \<longrightarrow> c' p = c p)"

lemma lookup_data_access: "lookup_data c c' \<Longrightarrow> group_access E f dirs c' = group_access E f dirs c"
  by (rule group_access_cong) (simp_all add: lookup_data_def)

definition access_of :: "verdict \<Rightarrow> access" where
  "access_of v = (case v of VReady ms \<Rightarrow> Granted (mset ms) | VMissing \<Rightarrow> NoGroup | VDegraded _ \<Rightarrow> Withheld)"

definition same_queries :: "Config \<Rightarrow> Config \<Rightarrow> bool" where
  "same_queries cfg cfg' \<longleftrightarrow> cfg_URL cfg' = cfg_URL cfg \<and> cfg_BindDN cfg' = cfg_BindDN cfg \<and>
     cfg_BindPassword cfg' = cfg_BindPassword cfg \<and> cfg_InsecureSkipTLS cfg' = cfg_InsecureSkipTLS cfg \<and>
     cfg_UserSearchBase cfg' = cfg_UserSearchBase cfg \<and> cfg_UsernameAttribute cfg' = cfg_UsernameAttribute cfg \<and>
     cfg_DirectoryType cfg' = cfg_DirectoryType cfg"

lemma directory_access_cong:
  assumes "same_queries cfg cfg'"
  shows "directory_access E dirs cfg' dn = directory_access E dirs cfg dn"
proof -
  from assms have same: "memberRequest E cfg' dn = memberRequest E cfg dn" "userRequest cfg' = userRequest cfg"
    "admits dirs cfg' = admits dirs cfg" "cfg_URL cfg' = cfg_URL cfg"
    "cfg_UsernameAttribute cfg' = cfg_UsernameAttribute cfg"
    by (simp_all add: same_queries_def memberRequest_def userRequest_def membershipFilter_def admits_def
        needsStartTLS_def isLDAPS_def fun_eq_iff)
  have names: "member_name E cfg' = member_name E cfg"
    by (intro ext) (unfold member_name_def same, rule refl)
  show ?thesis unfolding directory_access_def directory_members_def resolved_members_def same names ..
qed

end
