(* ===== verification/Lookup_Served.thy ===== *)
theory Lookup_Served
  imports Cluster_Spec
begin

text \<open>
  The first half of a reconcile against the specification: with a server and directories that
  work, connecting, building a client from a provider's secrets and asking for a group's members
  come to \<open>group_access\<close> and leave the cluster as it was.
\<close>

section \<open>Connecting\<close>

abbreviation cluster_of :: "('w \<Rightarrow> cluster option) \<Rightarrow> 'w op_state \<Rightarrow> cluster option" where
  "cluster_of cl \<equiv> \<lambda>s. cl (os_world s)"

lemma keeps_cluster_call: "(\<And>w. cl (snd (f w)) = cl w) \<Longrightarrow> keeps (cluster_of cl) (call act f)"
  by (simp add: keeps_def call_def split: prod.splits) (metis snd_conv)

lemma keeps_world: "keeps os_world m \<Longrightarrow> keeps (cluster_of cl) m"
  by (simp add: keeps_def)

lemma query_keeps_cluster:
  assumes "directories_up E cl home dirs"
  shows "keeps (cluster_of cl) (GetGroupMembers E cfg ctx dn)"
    and "keeps (cluster_of cl) (connectAndBind E cfg ctx)"
proof -
  note call = keeps_cluster_call[of cl, OF directories_upD(1)[OF assms]]
    keeps_cluster_call[of cl, OF directories_upD(2)[OF assms]] keeps_cluster_call[of cl, OF directories_upD(3)[OF assms]]
    keeps_cluster_call[of cl, OF directories_upD(4)[OF assms]] keeps_cluster_call[of cl, OF directories_upD(5)[OF assms]]
    keeps_cluster_call[of cl, OF directories_upD(6)[OF assms]] keeps_cluster_call[of cl, OF directories_upD(7)[OF assms]]
    keeps_cluster_call[of cl, OF directories_upD(8)[OF assms]]
  note logs = keeps_world[of "Log msg args" for msg args, OF world_kept(5)] keeps_world[OF world_kept(2)]
  show connect: "keeps (cluster_of cl) (connectAndBind E cfg ctx)"
    unfolding connectAndBind_def dial_def bindConn_def call_defs by (intro keeps_intro call logs)
  have username: "keeps (cluster_of cl) (lookupUsername E cfg c dn)" for c dn
    unfolding lookupUsername_def call_defs logReferrals_def logReferralChasingSkipped_def
    by (intro keeps_intro call logs)
  have members: "keeps (cluster_of cl) (resolveMemberDNs E cfg c dns ms)" for c dns ms
    by (induction dns arbitrary: ms) (auto intro!: keeps_intro username)
  show "keeps (cluster_of cl) (GetGroupMembers E cfg ctx dn)"
    unfolding GetGroupMembers_def lookupGroup_def resolveMembers_def call_defs logReferrals_def
      logReferralChasingSkipped_def Let_def
    by (intro keeps_intro call logs members connect)
qed

lemma dial_served:
  assumes up: "directories_up E cl home dirs" and tls: "handshake_needs_name E"
    and cfg: "tls_ServerName (tlsConfig cfg) = []" "\<not> tls_InsecureSkipVerify (tlsConfig cfg)"
    and s: "cl (os_world s) \<noteq> None"
  shows "post (dial E cfg) s (\<lambda>r t. cl (os_world t) = cl (os_world s) \<and>
    (if needsStartTLS cfg then \<exists>e. r = Inl e else \<exists>c. r = Inr c \<and> home c = cfg_URL cfg))"
proof -
  obtain r w where r: "ldap_DialURL E (cfg_URL cfg) (dialOpts cfg) (os_world s) = (r, w)"
    by (cases "ldap_DialURL E (cfg_URL cfg) (dialOpts cfg) (os_world s)")
  obtain c where c: "r = Inr c" "home c = cfg_URL cfg"
    using directories_upD(10)[OF up s, of "cfg_URL cfg" "dialOpts cfg"] r by auto
  have w: "cl w = cl (os_world s)" using directories_upD(2)[OF up, of "cfg_URL cfg" "dialOpts cfg" "os_world s"] r by simp
  show ?thesis
  proof (cases "needsStartTLS cfg")
    case True
    obtain u w' where u: "ldap_StartTLS E c (tlsConfig cfg) w = (u, w')" by (cases "ldap_StartTLS E c (tlsConfig cfg) w")
    obtain e where "u = Some e"
      using tls cfg u unfolding handshake_needs_name_def by (metis fst_conv option.exhaust)
    moreover have "cl w' = cl w" using directories_upD(4)[OF up, of c "tlsConfig cfg" w] u by simp
    moreover have "cl (snd (ldap_Close E c w')) = cl w'" by (rule directories_upD(8)[OF up])
    ultimately show ?thesis
      using True r c w u by (auto simp: dial_def call_defs needsStartTLS_def split: prod.splits)
  next
    case False
    then show ?thesis using r c w by (auto simp: dial_def call_defs needsStartTLS_def)
  qed
qed

lemma bindConn_served:
  assumes up: "directories_up E cl home dirs" and s: "cl (os_world s) \<noteq> None"
  shows "post (bindConn E cfg ctx c) s (\<lambda>r t.
    if dir_accepts (dirs (home c)) (cfg_BindDN cfg) (cfg_BindPassword cfg) then r = Inr c else \<exists>e. r = Inl e)"
proof -
  have bind: "fst (ldap_Bind E c dn pw w) = None \<longleftrightarrow> dir_accepts (dirs (home c)) dn pw"
    if "cl w = cl (os_world s)" for dn pw w
    by (rule directories_upD(11)[OF up]) (simp add: that s)
  have timeout: "cl (snd (ldap_SetTimeout E c d (os_world s))) = cl (os_world s)" for d
    by (rule directories_upD(5)[OF up])
  have result: "post (do {
        b \<leftarrow> connBind E c (cfg_BindDN cfg) (cfg_BindPassword cfg);
        case b of
          Some err \<Rightarrow> do { _ \<leftarrow> connClose E c; ret (Inl (Errorf_w ''ldapclient: bind: '' err [])) }
        | None \<Rightarrow> ret (Inr c) }) t (\<lambda>r t.
      if dir_accepts (dirs (home c)) (cfg_BindDN cfg) (cfg_BindPassword cfg) then r = Inr c else \<exists>e. r = Inl e)"
    if "cl (os_world t) = cl (os_world s)" for t
    using bind[OF that, of "cfg_BindDN cfg" "cfg_BindPassword cfg"]
    by (auto simp: call_defs split: prod.splits option.splits)
  show ?thesis
  proof (cases "ctx_Deadline ctx")
    case None
    then show ?thesis using result[of s] by (simp add: bindConn_def)
  next
    case (Some deadline)
    obtain u w where "ldap_SetTimeout E c (deadline - time_Now E (os_world s)) (os_world s) = (u, w)"
      by (cases "ldap_SetTimeout E c (deadline - time_Now E (os_world s)) (os_world s)")
    with timeout[of "deadline - time_Now E (os_world s)"] Some
      result[of "s\<lparr>os_world := w, os_trace := os_trace s @ [ASetTimeout c (deadline - time_Now E (os_world s))]\<rparr>"]
    show ?thesis by (simp add: bindConn_def Now_def connSetTimeout_def)
  qed
qed

lemma connect_served:
  assumes up: "directories_up E cl home dirs" and tls: "handshake_needs_name E"
    and cfg: "tls_ServerName (tlsConfig cfg) = []" "\<not> tls_InsecureSkipVerify (tlsConfig cfg)"
    and s: "cl (os_world s) \<noteq> None"
  shows "case fst (run_state (connectAndBind E cfg ctx) (s :: 'a op_state)) of
    Inl _ \<Rightarrow> \<not> admits dirs cfg | Inr c \<Rightarrow> admits dirs cfg \<and> home c = cfg_URL cfg"
proof -
  let ?Q = "\<lambda>r t. case r of Inl _ \<Rightarrow> \<not> admits dirs cfg | Inr c \<Rightarrow> admits dirs cfg \<and> home c = cfg_URL cfg"
  let ?rest = "do {
      d \<leftarrow> dial E cfg;
      case d of Inl err \<Rightarrow> ret (Inl (Errorf_w ''ldapclient: dial: '' err [])) | Inr conn \<Rightarrow> bindConn E cfg ctx conn }"
  have rest: "post ?rest t ?Q" if t: "cl (os_world t) = cl (os_world s)" for t
    unfolding post_bind
  proof (rule post_mono[OF dial_served[OF up tls cfg]])
    show "cl (os_world t) \<noteq> None" using s t by simp
    fix d :: "error + conn" and t' :: "'a op_state"
    assume d: "cl (os_world t') = cl (os_world t) \<and>
      (if needsStartTLS cfg then \<exists>e. d = Inl e else \<exists>c. d = Inr c \<and> home c = cfg_URL cfg)"
    then have t': "cl (os_world t') \<noteq> None" using s t by simp
    show "post (case d of Inl err \<Rightarrow> ret (Inl (Errorf_w ''ldapclient: dial: '' err []))
        | Inr conn \<Rightarrow> bindConn E cfg ctx conn) t' ?Q"
    proof (cases d)
      case (Inl e)
      then show ?thesis using d by (auto simp: admits_def split: if_splits)
    next
      case (Inr c)
      then have "home c = cfg_URL cfg" "\<not> needsStartTLS cfg" using d by (auto split: if_splits)
      then show ?thesis
        unfolding Inr sum.case
        by (intro post_mono[OF bindConn_served[OF up t']]) (auto simp: admits_def split: if_splits)
    qed
  qed
  have "post (connectAndBind E cfg ctx) s ?Q"
  proof (cases "cfg_Limiter cfg")
    case None
    then show ?thesis using rest[of s] by (simp add: connectAndBind_def)
  next
    case (Some l)
    obtain x w where x: "limiter_Wait E l ctx (os_world s) = (x, w)" by (cases "limiter_Wait E l ctx (os_world s)")
    then have "x = None" "cl w = cl (os_world s)"
      using directories_upD(9)[OF up s, of l ctx] directories_upD(1)[OF up, of l ctx "os_world s"] by simp_all
    with x Some rest[of "s\<lparr>os_world := w, os_trace := os_trace s @ [AWait l True]\<rparr>"] show ?thesis
      by (simp add: connectAndBind_def limiterWait_def)
  qed
  then show ?thesis by (simp add: post_run)
qed

section \<open>Looking the members up\<close>

lemma secretValue_served:
  assumes reads: "reads_served E cl (secret_client E) secretKind OSecret sec_meta" and c: "cl (os_world s) = Some c"
  shows "post (GrouperFactory_secretValue E f ref) s (\<lambda>r t. cl (os_world t) = Some c \<and>
    (case secret_value c (gf_SecretNamespace f) ref of None \<Rightarrow> \<exists>e. r = Inl e | Some v \<Rightarrow> r = Inr v))"
proof -
  let ?k = "\<lparr>key_Namespace = gf_SecretNamespace f, key_Name = skr_Name ref\<rparr>"
  obtain g w where g: "k_Get (secret_client E) ?k (os_world s) = (g, w)"
    by (cases "k_Get (secret_client E) ?k (os_world s)")
  have w: "cl w = Some c" using reads_servedD(1)[OF reads g] c by simp
  show ?thesis
  proof (cases "c (secretKind, ?k)")
    case None
    with reads_servedD(2)[OF reads g c] g w show ?thesis
      by (auto simp: GrouperFactory_secretValue_def clientGet_def secret_value_def)
  next
    case (Some obj)
    with reads_servedD(3)[OF reads g c] g w show ?thesis
      by (auto simp: GrouperFactory_secretValue_def clientGet_def secret_value_def split: option.splits)
  qed
qed

lemma tlsConfig_served:
  assumes reads: "reads_served E cl (secret_client E) secretKind OSecret sec_meta" and c: "cl (os_world s) = Some c"
  shows "post (GrouperFactory_tlsConfig E f p) s (\<lambda>r t. cl (os_world t) = Some c \<and>
    (if ca_usable E f c p then \<exists>x. r = Inr x else \<exists>e. r = Inl e))"
proof (cases "Option.bind (lps_TLSConfig (lp_Spec p)) tcs_CASecretRef")
  case None
  then show ?thesis using c by (simp add: GrouperFactory_tlsConfig_def ca_usable_def)
next
  case (Some ref)
  show ?thesis
    unfolding GrouperFactory_tlsConfig_def Some option.case post_bind
    by (rule post_mono[OF secretValue_served[OF reads c]])
      (auto simp: ca_usable_def Some split: option.splits sum.splits prod.splits)
qed

text \<open>The factory builds a client for a provider just when the secrets allow it.\<close>

lemma factory_served:
  fixes E :: "'w env"
  assumes reads: "reads_served E cl (secret_client E) secretKind OSecret sec_meta" and c: "cl (os_world s) = Some c"
  shows "post (GrouperFactory_client E f ctx p) s (\<lambda>r t. cl (os_world t) = Some c \<and>
    (case provider_password E f c p of
       None \<Rightarrow> \<exists>e. r = Inl e | Some pw \<Rightarrow> \<exists>cfg. r = Inr cfg \<and> same_queries (provider_config p pw) cfg))"
  unfolding GrouperFactory_client_def post_bind
proof (rule post_mono[OF secretValue_served[OF reads c]])
  fix r :: "error + string" and t :: "'w op_state"
  assume r: "cl (os_world t) = Some c \<and>
    (case secret_value c (gf_SecretNamespace f) (lps_BindPasswordSecretRef (lp_Spec p)) of
       None \<Rightarrow> \<exists>e. r = Inl e | Some v \<Rightarrow> r = Inr v)"
  show "post (case r of
      Inl err \<Rightarrow> ret (Inl (Errorf_w ''bind password secret: '' err []))
    | Inr password \<Rightarrow> do {
        t \<leftarrow> GrouperFactory_tlsConfig E f p;
        case t of
          Inl err \<Rightarrow> ret (Inl err)
        | Inr tls \<Rightarrow> do {
            limiter \<leftarrow> registryGet (gf_Limiters f) (om_Name (lp_meta p));
            ret (Inr \<lparr>cfg_URL = lps_URL (lp_Spec p), cfg_BindDN = lps_BindDN (lp_Spec p),
              cfg_BindPassword = password, cfg_InsecureSkipTLS = lps_InsecureSkipTLS (lp_Spec p),
              cfg_TLSConfig = tls, cfg_UserSearchBase = lps_UserSearchBase (lp_Spec p),
              cfg_GroupSearchBase = lps_GroupSearchBase (lp_Spec p),
              cfg_UsernameAttribute = lps_UsernameAttribute (lp_Spec p),
              cfg_DirectoryType = lps_DirectoryType (lp_Spec p), cfg_PageSize = 0,
              cfg_Limiter = limiter\<rparr>) } }) t
    (\<lambda>r t. cl (os_world t) = Some c \<and>
      (case provider_password E f c p of
         None \<Rightarrow> \<exists>e. r = Inl e | Some pw \<Rightarrow> \<exists>cfg. r = Inr cfg \<and> same_queries (provider_config p pw) cfg))"
  proof (cases r)
    case (Inl e)
    then show ?thesis using r by (auto simp: provider_password_def split: option.splits)
  next
    case (Inr pw)
    with r have pw: "secret_value c (gf_SecretNamespace f) (lps_BindPasswordSecretRef (lp_Spec p)) = Some pw"
      by (auto split: option.splits)
    show ?thesis
      unfolding Inr sum.case post_bind
      by (rule post_mono[OF tlsConfig_served[OF reads conjunct1[OF r]]])
        (auto simp: provider_password_def pw same_queries_def provider_config_def post_run registryGet_run
          split: option.splits sum.splits if_splits)
  qed
qed

text \<open>The verdict on what a grouper returned, as the reconcilers read it.\<close>

definition verdict_on :: "error + string list \<Rightarrow> verdict" where
  "verdict_on m = (case m of
     Inl err \<Rightarrow> if errors_Is err ErrGroupNotFound then VMissing else VDegraded err
   | Inr members \<Rightarrow> VReady members)"

lemma verdict_on_access:
  "access_of (verdict_on m) =
     (case membership_of m of Members M \<Rightarrow> Granted M | NoSuchGroup \<Rightarrow> NoGroup | Unavailable \<Rightarrow> Withheld)"
  by (simp add: verdict_on_def access_of_def membership_of_def split: sum.splits)

text \<open>A group lookup gives the members that the directory has.\<close>

lemma members_served:
  assumes up: "directories_up E cl home dirs" and errs: "directory_errors_ok E" and tls: "handshake_needs_name E"
    and cfg: "tls_ServerName (tlsConfig cfg) = []" "\<not> tls_InsecureSkipVerify (tlsConfig cfg)"
    and s: "cl (os_world s) = Some c"
  shows "post (GetGroupMembers E cfg ctx dn) s (\<lambda>m t. cl (os_world t) = Some c \<and>
    access_of (verdict_on m) = directory_access E dirs cfg dn \<and> (\<forall>ms. m = Inr ms \<longrightarrow> sorted ms))"
proof -
  have "cl (os_world s) \<noteq> None" using s by simp
  note connect = connect_served[OF up tls cfg this, of ctx]
  have members: "membership_of (fst (run_state (GetGroupMembers E cfg ctx dn) s)) =
    (case fst (run_state (connectAndBind E cfg ctx) s) of
       Inl _ \<Rightarrow> Unavailable
     | Inr c \<Rightarrow> directory_members E cfg (dir_search (dirs (home c))) (dir_paged (dirs (home c))) dn)"
    by (rule GetGroupMembers_membership[OF directories_upD(12)[OF up] errs])
  have "access_of (verdict_on (fst (run_state (GetGroupMembers E cfg ctx dn) s))) = directory_access E dirs cfg dn"
    unfolding verdict_on_access members directory_access_def
    using connect by (auto split: sum.splits)
  moreover have "cl (os_world (snd (run_state (GetGroupMembers E cfg ctx dn) s))) = Some c"
    using query_keeps_cluster(1)[OF up, of cfg ctx dn] s by (simp add: keeps_def)
  moreover have "\<forall>ms. fst (run_state (GetGroupMembers E cfg ctx dn) s) = Inr ms \<longrightarrow> sorted ms"
    using members_found_sorted[of E cfg ctx dn s] by auto
  ultimately show ?thesis by (simp add: post_run)
qed

section \<open>The first half of a reconcile\<close>

text \<open>What the lookup of a binding's members needs of its surroundings.\<close>

definition lookups_served ::
  "'w env \<Rightarrow> ('w \<Rightarrow> cluster option) \<Rightarrow> (conn \<Rightarrow> string) \<Rightarrow> (string \<Rightarrow> directory) \<Rightarrow> bool" where
  "lookups_served E cl home dirs \<longleftrightarrow>
     reads_served E cl (lp_client E) ''LDAPProvider'' OLDAPProvider lp_meta \<and>
     reads_served E cl (secret_client E) secretKind OSecret sec_meta \<and>
     directories_up E cl home dirs \<and> directory_errors_ok E \<and> handshake_needs_name E"

lemma lookups_servedD:
  assumes "lookups_served E cl home dirs"
  shows "reads_served E cl (lp_client E) ''LDAPProvider'' OLDAPProvider lp_meta"
    "reads_served E cl (secret_client E) secretKind OSecret sec_meta"
    "directories_up E cl home dirs" "directory_errors_ok E" "handshake_needs_name E"
  using assms by (simp_all add: lookups_served_def)

definition provider_interval :: "cluster \<Rightarrow> string \<Rightarrow> duration" where
  "provider_interval c provider = (case c (''LDAPProvider'', \<lparr>key_Namespace = [], key_Name = provider\<rparr>) of
     Some (OLDAPProvider p) \<Rightarrow> lps_SyncInterval (lp_Spec p) | _ \<Rightarrow> 0)"

text \<open>The part of \<open>lookupMembers\<close> after the provider was read.\<close>

definition askProvider ::
  "'w GrouperResolver \<Rightarrow> Context \<Rightarrow> LDAPProvider \<Rightarrow> string \<Rightarrow> ('w op_state, verdict) state" where
  "askProvider resolver ctx p dn = do {
     g \<leftarrow> resolver ctx p;
     case g of
       Inl err \<Rightarrow> ret (VDegraded err)
     | Inr grouper \<Rightarrow> do { m \<leftarrow> grouper ctx dn; ret (verdict_on m) }
   }"

lemma lookupMembers_ask:
  "lookupMembers E K kind providerRef groupDN resolver ctx k = do {
     b \<leftarrow> clientGet kind K k;
     case b of
       Inl err \<Rightarrow> ret (Inl (zeroResult, IgnoreNotFound E err))
     | Inr binding \<Rightarrow> do {
         p \<leftarrow> clientGet ''LDAPProvider'' (lp_client E) \<lparr>key_Namespace = [], key_Name = providerRef binding\<rparr>;
         case p of
           Inl err \<Rightarrow>
             if apierrors_IsNotFound E err
             then ret (Inr (binding, VDegraded (ErrText (''LDAPProvider '' @
                    strconv_Quote E (providerRef binding) @ '' not found'')), 0))
             else ret (Inl (zeroResult, Some err))
         | Inr provider \<Rightarrow> do {
             v \<leftarrow> askProvider resolver ctx provider (groupDN binding);
             ret (Inr (binding, v, lps_SyncInterval (lp_Spec provider)))
           }
       }
   }"
  unfolding lookupMembers_def askProvider_def verdict_on_def State_Monad.bind_assoc bind_case_sum
    State_Monad.bind_left_identity ..

lemma askProvider_served:
  assumes served: "lookups_served E cl home dirs" and c: "cl (os_world s) = Some c"
  shows "post (askProvider (GrouperFactory_Grouper E f) ctx p dn) s (\<lambda>v t. cl (os_world t) = Some c \<and>
    access_of v = (case provider_password E f c p of
      None \<Rightarrow> Withheld | Some pw \<Rightarrow> directory_access E dirs (provider_config p pw) dn) \<and>
    (\<forall>ms. v = VReady ms \<longrightarrow> sorted ms))"
proof -
  note up = lookups_servedD(3)[OF served] and errs = lookups_servedD(4)[OF served]
    and tls = lookups_servedD(5)[OF served]
  obtain r t where run: "run_state (GrouperFactory_client E f ctx p) s = (r, t)"
    by (cases "run_state (GrouperFactory_client E f ctx p) s")
  have t: "cl (os_world t) = Some c"
    and r: "case provider_password E f c p of
      None \<Rightarrow> \<exists>e. r = Inl e | Some pw \<Rightarrow> \<exists>cfg. r = Inr cfg \<and> same_queries (provider_config p pw) cfg"
    using postD[OF factory_served[OF lookups_servedD(2)[OF served] c] run] by auto
  show ?thesis
  proof (cases r)
    case (Inl e)
    with r t run show ?thesis
      by (auto simp: askProvider_def GrouperFactory_Grouper_def post_def access_of_def split: option.splits)
  next
    case (Inr cfg)
    then obtain pw where pw: "provider_password E f c p = Some pw" "same_queries (provider_config p pw) cfg"
      using r by (auto split: option.splits)
    have "faithful_config f p cfg" using yields_run[OF factory_client_faithful run] Inr by simp
    then have "tls_ServerName (tlsConfig cfg) = []" "\<not> tls_InsecureSkipVerify (tlsConfig cfg)"
      by (simp_all add: faithful_config_def)
    from members_served[OF up errs tls this t, of ctx dn]
    have "post (GetGroupMembers E cfg ctx dn) t (\<lambda>m u. cl (os_world u) = Some c \<and>
        access_of (verdict_on m) = directory_access E dirs (provider_config p pw) dn \<and>
        (\<forall>ms. m = Inr ms \<longrightarrow> sorted ms))"
      unfolding directory_access_cong[OF pw(2)] .
    with run Inr pw(1) show ?thesis
      by (auto simp: askProvider_def GrouperFactory_Grouper_def post_def verdict_on_def
          split: prod.splits sum.splits if_splits)
  qed
qed

lemma lookup_served:
  assumes served: "lookups_served E cl home dirs" and reads: "reads_served E cl K kind wrap meta"
    and wrap_inj: "\<And>x y. wrap x = wrap y \<Longrightarrow> x = y"
    and c: "cl (os_world s) = Some c" and b: "c (kind, k) = Some (wrap b)"
  shows "post (lookupMembers E K kind providerRef groupDN (GrouperFactory_Grouper E f) ctx k) s (\<lambda>l t.
    cl (os_world t) = Some c \<and> (\<exists>v. l = Inr (b, v, provider_interval c (providerRef b)) \<and>
      access_of v = group_access E f dirs c (providerRef b) (groupDN b) \<and> (\<forall>ms. v = VReady ms \<longrightarrow> sorted ms)))"
proof -
  let ?p = "\<lparr>key_Namespace = [], key_Name = providerRef b\<rparr>"
  note providers = lookups_servedD(1)[OF served]
  obtain g w where g: "k_Get K k (os_world s) = (g, w)" by (cases "k_Get K k (os_world s)")
  obtain x where x: "wrap b = wrap x" "g = Inr x" using reads_servedD(3)[OF reads g c b] by blast
  then have "g = Inr b" using wrap_inj by simp
  have w: "cl w = Some c" using reads_servedD(1)[OF reads g] c by simp
  obtain q w' where q: "k_Get (lp_client E) ?p w = (q, w')" by (cases "k_Get (lp_client E) ?p w")
  have w': "cl w' = Some c" using reads_servedD(1)[OF providers q] w by simp
  show ?thesis
  proof (cases "c (''LDAPProvider'', ?p)")
    case None
    then obtain e where "q = Inl e" "apierrors_IsNotFound E e" using reads_servedD(2)[OF providers q w] by blast
    with g \<open>g = Inr b\<close> q w' None show ?thesis
      by (simp add: lookupMembers_ask clientGet_def provider_interval_def access_of_def group_access_def)
  next
    case (Some obj)
    then obtain p where p: "obj = OLDAPProvider p" "q = Inr p" using reads_servedD(3)[OF providers q w] by blast
    let ?t = "s\<lparr>os_world := w', os_trace := os_trace s @ [AGet kind k, AGet ''LDAPProvider'' ?p]\<rparr>"
    have "cl (os_world ?t) = Some c" using w' by simp
    from askProvider_served[OF served this, of f ctx p "groupDN b"] show ?thesis
      using g \<open>g = Inr b\<close> q p Some
      by (simp add: lookupMembers_ask clientGet_def provider_interval_def group_access_def)
  qed
qed

end

