(* ===== verification/Convergence.thy ===== *)
theory Convergence
  imports Lookup_Served
begin

text \<open>
  Whole reconciles against the specification of \<open>Cluster_Spec\<close>: with a server and directories
  that work, a reconcile of either kind of binding takes the cluster where the specification
  says, in any order with others, and then leaves it there.
\<close>

section \<open>Reporting\<close>

context binding_reconciler begin

text \<open>What the server keeps of a status update.\<close>

definition persists :: "'b \<Rightarrow> 'b \<Rightarrow> 'b \<Rightarrow> bool" where
  "persists old x y \<longleftrightarrow> spec y = spec old \<and> view y = view x \<and> same_object (bmeta old) (bmeta y)"

definition reported :: "verdict \<Rightarrow> 'b \<Rightarrow> 'b \<Rightarrow> bool" where
  "reported v b b' \<longleftrightarrow> spec b' = spec b \<and> same_object (bmeta b) (bmeta b') \<and>
     report E v (bmeta b) (view b) (view b')"

text \<open>A report that the server accepts is stored, and is all that the report changes.\<close>

lemma mark_served:
  assumes updates: "updates_status Kb bwrap m" and marks: "emits (marks b v i) m"
    and served: "status_served cl Kb bkind bwrap bmeta persists"
    and c: "cl (os_world s) = Some c" and b: "c (bkind, ObjectKeyFromObject (bmeta b)) = Some (bwrap b)"
    and run: "run_state m s = (r, t)"
  obtains b' b1 where "cl (os_world t) = Some (c((bkind, ObjectKeyFromObject (bmeta b)) \<mapsto> bwrap b'))"
    and "reported v b b'" and "result_ok v i True r"
    and "os_trace t = os_trace s @ verdict_events (bwrap b) v @ [AStatusUpdate (bwrap b1) True]" and "spec b1 = spec b"
proof -
  obtain x u where x: "k_StatusUpdate Kb x (os_world s) = (u, os_world t)"
    "last (os_trace t) = AStatusUpdate (bwrap x) (accepted u)"
    using updates run unfolding updates_status_def by (metis snd_conv)
  obtain "as" b1 ok where tr: "os_trace t = os_trace s @ as" "as = verdict_events (bwrap b) v @ [AStatusUpdate (bwrap b1) ok]"
    and b1: "bmeta b1 = bmeta b" "spec b1 = spec b" "report E v (bmeta b) (view b) (view b1)" "result_ok v i ok r"
    using marks run by (rule emits_run) (auto simp: marked_def)
  then have x1: "x = b1" "ok = accepted u" using x(2) bwrap_inj by auto
  obtain y w' where y: "k_StatusUpdate Kb b1 (os_world s) = (Inr y, w')" "persists b b1 y"
    "cl w' = Some (c((bkind, ObjectKeyFromObject (bmeta b1)) \<mapsto> bwrap y))"
    using status_servedD[OF served c, of b1 b] b b1(1) by auto
  show thesis
  proof (rule that)
    show "cl (os_world t) = Some (c((bkind, ObjectKeyFromObject (bmeta b)) \<mapsto> bwrap y))"
      using x(1) x1 y(1,3) b1(1) by simp
    show "reported v b y" using y(2) b1 by (simp add: persists_def reported_def)
    have "ok" using x(1) x1 y(1) by (auto simp: accepted_def)
    with b1 tr show "result_ok v i True r" "spec b1 = spec b"
      "os_trace t = os_trace s @ verdict_events (bwrap b) v @ [AStatusUpdate (bwrap b1) True]"
      by simp_all
  qed
qed

section \<open>One reconcile\<close>

text \<open>What a reconcile needs of its surroundings.\<close>

definition served :: "('w \<Rightarrow> cluster option) \<Rightarrow> (conn \<Rightarrow> string) \<Rightarrow> (string \<Rightarrow> directory) \<Rightarrow> bool" where
  "served cl home dirs \<longleftrightarrow> lookups_served E cl home dirs \<and>
     reads_served E cl Kb bkind bwrap bmeta \<and> status_served cl Kb bkind bwrap bmeta persists \<and>
     reads_served E cl K kind wrap meta \<and> writes_served cl K kind wrap meta agree \<and>
     (\<forall>rs. equality_DeepEqual E rs rs)"

lemma servedD:
  assumes "served cl home dirs"
  shows "lookups_served E cl home dirs" "reads_served E cl Kb bkind bwrap bmeta"
    "status_served cl Kb bkind bwrap bmeta persists" "reads_served E cl K kind wrap meta"
    "writes_served cl K kind wrap meta agree" "equality_DeepEqual E rs rs"
  using assms by (simp_all add: served_def)

text \<open>
  What the rest of this theory needs of the kinds and of the desired object: it is stored under
  the binding's own key and does not depend on the version or the status of the binding.
\<close>

definition kinds_apart :: bool where
  "kinds_apart \<longleftrightarrow> distinct [kind, bkind, ''LDAPProvider'', secretKind] \<and> (\<forall>x y. wrap x = wrap y \<longrightarrow> x = y)"

definition desire_ok :: bool where
  "desire_ok \<longleftrightarrow>
     (\<forall>b b'. spec b' = spec b \<longrightarrow> providerRef b' = providerRef b \<and> groupDN b' = groupDN b \<and>
        (same_object (bmeta b) (bmeta b') \<longrightarrow> desire b' = desire b))"

definition keyed :: "'b \<Rightarrow> bool" where
  "keyed b \<longleftrightarrow> (\<forall>ms. \<exists>d. desire b ms = Inr d \<and> key d = ObjectKeyFromObject (bmeta b))"

lemma keyedD:
  assumes "keyed b"
  shows "desire b ms \<noteq> Inl err" and "desire b ms = Inr d \<Longrightarrow> key d = ObjectKeyFromObject (bmeta b)"
  using assms unfolding keyed_def by (metis sum.distinct(1), metis sum.inject(2))

lemma stored_key:
  assumes "served cl home dirs" and "cl (os_world s) = Some c" and "c (bkind, k) = Some (bwrap b)"
  shows "ObjectKeyFromObject (bmeta b) = k"
proof -
  obtain x w where "k_Get Kb k (os_world s) = (x, w)" by (cases "k_Get Kb k (os_world s)")
  then show ?thesis using reads_servedD(3)[OF servedD(2)[OF assms(1)] _ assms(2,3)] bwrap_inj by metis
qed

lemma stored_typed:
  assumes "served cl home dirs" and "cl (os_world s) = Some c"
  shows "c (bkind, k) = None \<or> (\<exists>b. c (bkind, k) = Some (bwrap b))"
proof -
  obtain x w where "k_Get Kb k (os_world s) = (x, w)" by (cases "k_Get Kb k (os_world s)")
  then show ?thesis using reads_servedD(3)[OF servedD(2)[OF assms(1)] _ assms(2)] by (cases "c (bkind, k)") blast+
qed

text \<open>The cluster, the status and the result that go with what can be said of the group.\<close>

definition arrives ::
  "access \<Rightarrow> duration \<Rightarrow> cluster \<Rightarrow> 'b \<Rightarrow> Result \<times> error option \<Rightarrow> cluster \<Rightarrow> bool" where
  "arrives a i c b r c' \<longleftrightarrow> (\<exists>b' v. reported v b b' \<and> access_of v = a \<and> result_ok v i True r \<and>
     (case v of
        VReady ms \<Rightarrow> sorted ms \<and> (\<exists>d x. desire b ms = Inr d \<and> synced d x \<and>
          c' = c((kind, key d) \<mapsto> wrap x, (bkind, ObjectKeyFromObject (bmeta b)) \<mapsto> bwrap b'))
      | _ \<Rightarrow> c' = c((bkind, ObjectKeyFromObject (bmeta b)) \<mapsto> bwrap b')))"

lemma arrives_quiet:
  assumes "reported v b b'" and "result_ok v i True r" and "\<And>ms. v \<noteq> VReady ms"
  shows "arrives (access_of v) i c b r (c((bkind, ObjectKeyFromObject (bmeta b)) \<mapsto> bwrap b'))"
  unfolding arrives_def using assms by (intro exI[of _ b'] exI[of _ v]) (auto split: verdict.splits)

lemma arrives_ready:
  assumes "reported (VReady ms) b b'" and "result_ok (VReady ms) i True r" and "sorted ms"
    and "desire b ms = Inr d" and "synced d x"
  shows "arrives (access_of (VReady ms)) i c b r
    (c((kind, key d) \<mapsto> wrap x, (bkind, ObjectKeyFromObject (bmeta b)) \<mapsto> bwrap b'))"
  unfolding arrives_def using assms by (intro exI[of _ b'] exI[of _ "VReady ms"]) auto

lemma settle_served:
  assumes served: "served cl home dirs" and kinds: "kind \<noteq> bkind"
    and owned: "\<And>ms err. desire b ms \<noteq> Inl err"
    and c: "cl (os_world s) = Some c" and b: "c (bkind, ObjectKeyFromObject (bmeta b)) = Some (bwrap b)"
    and sorted: "\<forall>ms. v = VReady ms \<longrightarrow> sorted ms"
    and run: "run_state (settle b v i) s = (r, u)"
  shows "\<exists>c'. cl (os_world u) = Some c' \<and> arrives (access_of v) i c b r c'"
proof (cases v)
  case (VDegraded e)
  then have "run_state (markDegraded b e) s = (r, u)" using run by (simp add: settle_def)
  from mark_served[OF markDegraded_updates markDegraded_emits servedD(3)[OF served] c b this]
  obtain b' where "cl (os_world u) = Some (c((bkind, ObjectKeyFromObject (bmeta b)) \<mapsto> bwrap b'))"
    "reported v b b'" "result_ok v i True r"
    unfolding VDegraded by metis
  then show ?thesis using VDegraded by (auto intro: arrives_quiet)
next
  case VMissing
  let ?s = "s\<lparr>os_trace := os_trace s @ [ALog ''group not found in directory'' []]\<rparr>"
  have "run_state (markGroupNotFound b i) ?s = (r, u)" "cl (os_world ?s) = Some c"
    using run c VMissing by (simp_all add: settle_def Log_def emit_def)
  from mark_served[OF markGroupNotFound_updates markGroupNotFound_emits servedD(3)[OF served] this(2) b this(1)]
  obtain b' where "cl (os_world u) = Some (c((bkind, ObjectKeyFromObject (bmeta b)) \<mapsto> bwrap b'))"
    "reported v b b'" "result_ok v i True r"
    unfolding VMissing by metis
  then show ?thesis using VMissing by (auto intro: arrives_quiet)
next
  case (VReady ms)
  obtain d where d: "desire b ms = Inr d" using owned[of ms] by (cases "desire b ms") auto
  obtain o' t1 where o': "run_state (sync d) s = (o', t1)" by (cases "run_state (sync d) s")
  obtain x oc where x: "o' = Inr oc" "cl (os_world t1) = Some (c((kind, key d) \<mapsto> wrap x))" "synced d x"
    by (rule sync_served[OF servedD(4,5,6)[OF served] c o'])
  obtain t2 where t2: "run_state (recordOutcome b d ms oc) t1 = ((), t2)"
    by (cases "run_state (recordOutcome b d ms oc) t1") simp
  let ?t3 = "t2\<lparr>os_trace := os_trace t2 @ [ALog ''synced group membership'' [itoa (length ms)]]\<rparr>"
  have ready: "run_state (markReady b ms i) ?t3 = (r, u)"
    using run d o' x(1) t2 VReady by (simp add: settle_def Log_def emit_def)
  have c3: "cl (os_world ?t3) = Some (c((kind, key d) \<mapsto> wrap x))"
    using keepsD[OF recordOutcome_world t2] x(2) by simp
  have "(c((kind, key d) \<mapsto> wrap x)) (bkind, ObjectKeyFromObject (bmeta b)) = Some (bwrap b)" using b kinds by simp
  from mark_served[OF markReady_updates markReady_emits servedD(3)[OF served] c3 this ready]
  obtain b' where "cl (os_world u) = Some (c((kind, key d) \<mapsto> wrap x, (bkind, ObjectKeyFromObject (bmeta b)) \<mapsto> bwrap b'))"
    "reported v b b'" "result_ok v i True r"
    unfolding VReady by metis
  then show ?thesis using VReady sorted d x(3) by (auto intro: arrives_ready)
qed

lemma body_served:
  assumes served: "served cl home dirs" and kinds: "kind \<noteq> bkind"
    and owned: "\<And>ms err. desire b ms \<noteq> Inl err"
    and c: "cl (os_world s) = Some c" and b: "c (bkind, k) = Some (bwrap b)"
    and run: "run_state (body (GrouperFactory_Grouper E f) ctx k) s = (r, u)"
  shows "\<exists>c'. cl (os_world u) = Some c' \<and>
    arrives (group_access E f dirs c (providerRef b) (groupDN b)) (provider_interval c (providerRef b)) c b r c'"
proof -
  obtain l t where l: "run_state (lookups (GrouperFactory_Grouper E f) ctx k) s = (l, t)"
    by (cases "run_state (lookups (GrouperFactory_Grouper E f) ctx k) s")
  from postD[OF lookup_served[OF servedD(1,2)[OF served] bwrap_inj c b] l]
  obtain v where t: "cl (os_world t) = Some c" and v: "l = Inr (b, v, provider_interval c (providerRef b))"
    "access_of v = group_access E f dirs c (providerRef b) (groupDN b)" "\<forall>ms. v = VReady ms \<longrightarrow> sorted ms"
    by blast
  note k = stored_key[OF served c b]
  have "run_state (settle b v (provider_interval c (providerRef b))) t = (r, u)"
    using l run v(1) by (simp add: body_settle)
  from settle_served[OF served kinds owned t _ v(3) this] b k v(2) show ?thesis by simp
qed

text \<open>The same, with the status and the result spelled out for each answer of the directory.\<close>

lemma report_shows:
  assumes "report E v m st st'" and "SetStatusCondition_ok E"
  shows "ss_ObservedGeneration st' = om_Generation m" "true_conditions (ss_Conditions st') = {verdict_type v}"
  using report_true_condition[OF assms] assms(1) by (simp_all add: report_def)

lemma arrives_cases:
  assumes "arrives a i c b r c'" and cond: "SetStatusCondition_ok E"
    and keyed: "keyed b"
  shows "\<exists>b' c1. c' = c1((bkind, ObjectKeyFromObject (bmeta b)) \<mapsto> bwrap b') \<and> spec b' = spec b \<and>
    same_object (bmeta b) (bmeta b') \<and> ss_ObservedGeneration (view b') = om_Generation (bmeta b) \<and>
    (case a of
       Granted M \<Rightarrow> (\<exists>ms d x. mset ms = M \<and> desire b ms = Inr d \<and> synced d x \<and>
           c1 = c((kind, ObjectKeyFromObject (bmeta b)) \<mapsto> wrap x)) \<and>
         true_conditions (ss_Conditions (view b')) = {ConditionReady} \<and> r = (\<lparr>RequeueAfter = i\<rparr>, None)
     | NoGroup \<Rightarrow> c1 = c \<and>
         true_conditions (ss_Conditions (view b')) = {ConditionGroupNotFound} \<and> r = (\<lparr>RequeueAfter = i\<rparr>, None)
     | Withheld \<Rightarrow> c1 = c \<and>
         true_conditions (ss_Conditions (view b')) = {ConditionDegraded} \<and> (\<exists>e. r = (zeroResult, Some e)))"
proof -
  let ?k = "(bkind, ObjectKeyFromObject (bmeta b))"
  obtain b' v where b': "reported v b b'" and a: "access_of v = a" and r: "result_ok v i True r"
    and c': "case v of
        VReady ms \<Rightarrow> sorted ms \<and> (\<exists>d x. desire b ms = Inr d \<and> synced d x \<and>
          c' = c((kind, key d) \<mapsto> wrap x, ?k \<mapsto> bwrap b'))
      | _ \<Rightarrow> c' = c(?k \<mapsto> bwrap b')"
    using assms(1) unfolding arrives_def by (elim exE conjE) (rule that)
  note told = report_shows[OF _ cond, of v "bmeta b" "view b" "view b'"]
  have same: "spec b' = spec b" "same_object (bmeta b) (bmeta b')" "ss_ObservedGeneration (view b') = om_Generation (bmeta b)"
    "true_conditions (ss_Conditions (view b')) = {verdict_type v}"
    using b' told by (simp_all add: reported_def)
  show ?thesis
  proof (cases v)
    case (VReady ms)
    then obtain d x where d: "desire b ms = Inr d" "synced d x" "c' = c((kind, key d) \<mapsto> wrap x, ?k \<mapsto> bwrap b')"
      using c' by auto
    have "\<exists>ms' d' x'. mset ms' = mset ms \<and> desire b ms' = Inr d' \<and> synced d' x' \<and>
        c((kind, key d) \<mapsto> wrap x) = c((kind, ObjectKeyFromObject (bmeta b)) \<mapsto> wrap x')"
      by (intro exI[of _ ms] exI[of _ d] exI[of _ x]) (simp add: d keyedD(2)[OF keyed d(1)])
    moreover have "a = Granted (mset ms)" "r = (\<lparr>RequeueAfter = i\<rparr>, None)" "verdict_type v = ConditionReady"
      using a r VReady by (simp_all add: access_of_def result_ok_def verdict_type_def)
    ultimately show ?thesis
      using same d(3) by (intro exI[of _ b'] exI[of _ "c((kind, key d) \<mapsto> wrap x)"]) simp
  next
    case (VDegraded e)
    with c' same r a show ?thesis
      by (intro exI[of _ b'] exI[of _ c]) (auto simp: access_of_def verdict_type_def result_ok_def)
  next
    case VMissing
    with c' same r a show ?thesis
      by (intro exI[of _ b'] exI[of _ c]) (auto simp: access_of_def verdict_type_def result_ok_def)
  qed
qed

lemma body_refines:
  assumes up: "served cl home dirs" "kinds_apart" and cond: "SetStatusCondition_ok E" and keyed: "keyed b"
    and c: "cl (os_world s) = Some c" and b: "c (bkind, k) = Some (bwrap b)"
    and run: "run_state (body (GrouperFactory_Grouper E f) ctx k) s = (r, u)"
  obtains b' c1 where "cl (os_world u) = Some (c1((bkind, k) \<mapsto> bwrap b'))" and "spec b' = spec b"
    and "same_object (bmeta b) (bmeta b')" and "ss_ObservedGeneration (view b') = om_Generation (bmeta b)"
    and "case group_access E f dirs c (providerRef b) (groupDN b) of
       Granted M \<Rightarrow> (\<exists>ms d x. mset ms = M \<and> desire b ms = Inr d \<and> synced d x \<and> c1 = c((kind, k) \<mapsto> wrap x)) \<and>
         true_conditions (ss_Conditions (view b')) = {ConditionReady} \<and>
         r = (\<lparr>RequeueAfter = provider_interval c (providerRef b)\<rparr>, None)
     | NoGroup \<Rightarrow> c1 = c \<and>
         true_conditions (ss_Conditions (view b')) = {ConditionGroupNotFound} \<and>
         r = (\<lparr>RequeueAfter = provider_interval c (providerRef b)\<rparr>, None)
     | Withheld \<Rightarrow> c1 = c \<and>
         true_conditions (ss_Conditions (view b')) = {ConditionDegraded} \<and> (\<exists>e. r = (zeroResult, Some e))"
proof -
  have "kind \<noteq> bkind" using up(2) by (simp add: kinds_apart_def)
  from body_served[OF up(1) this keyedD(1)[OF keyed] c b run] obtain c' where c': "cl (os_world u) = Some c'"
    "arrives (group_access E f dirs c (providerRef b) (groupDN b)) (provider_interval c (providerRef b)) c b r c'"
    by blast
  from arrives_cases[OF c'(2) cond keyed, unfolded stored_key[OF up(1) c b]] show thesis
    by (elim exE conjE) (rule that, simp_all only: c'(1))
qed

text \<open>A binding that is gone.\<close>

lemma body_gone:
  assumes served: "served cl home dirs" and c: "cl (os_world s) = Some c" and b: "c (bkind, k) = None"
    and run: "run_state (body resolver ctx k) s = (r, u)"
  shows "cl (os_world u) = Some c \<and> r = (zeroResult, None) \<and> os_trace u = os_trace s @ [AGet bkind k]"
proof -
  obtain g w where g: "k_Get Kb k (os_world s) = (g, w)" by (cases "k_Get Kb k (os_world s)")
  obtain e where "g = Inl e" "apierrors_IsNotFound E e"
    using reads_servedD(2)[OF servedD(2)[OF served] g c b] by blast
  moreover have "cl w = Some c" using reads_servedD(1)[OF servedD(2)[OF served] g] c by simp
  ultimately show ?thesis
    using run g by (auto simp: body_settle lookupMembers_def clientGet_def call_def IgnoreNotFound_def)
qed

section \<open>What a reconcile settles\<close>

text \<open>
  From cluster \<open>c\<close> to cluster \<open>c'\<close> the binding under a key is settled: if there is none, nothing
  was done; otherwise it is still there with its specification, and the managed object grants
  what the directory says in \<open>c\<close>, or is as it was when the directory cannot tell.
\<close>

definition settled :: "GrouperFactory \<Rightarrow> (string \<Rightarrow> directory) \<Rightarrow> cluster \<Rightarrow> cluster \<Rightarrow> ObjectKey \<Rightarrow> bool" where
  "settled f dirs c c' k \<longleftrightarrow>
     (c (bkind, k) = None \<longrightarrow> c' (bkind, k) = None \<and> c' (kind, k) = c (kind, k)) \<and>
     (\<forall>b. c (bkind, k) = Some (bwrap b) \<longrightarrow>
        (\<exists>b'. c' (bkind, k) = Some (bwrap b') \<and> spec b' = spec b \<and> same_object (bmeta b) (bmeta b')) \<and>
        (case group_access E f dirs c (providerRef b) (groupDN b) of
           Granted M \<Rightarrow> \<exists>d x. desire b (sorted_list_of_multiset M) = Inr d \<and> c' (kind, k) = Some (wrap x) \<and> synced d x
         | _ \<Rightarrow> c' (kind, k) = c (kind, k)))"

lemma arrives_settled:
  assumes "kinds_apart" and "keyed b" and b: "c (bkind, k) = Some (bwrap b)" "ObjectKeyFromObject (bmeta b) = k"
    and arr: "arrives (group_access E f dirs c (providerRef b) (groupDN b)) i c b r c'"
  shows "settled f dirs c c' k" and "\<And>p. p \<noteq> (bkind, k) \<Longrightarrow> p \<noteq> (kind, k) \<Longrightarrow> c' p = c p"
proof -
  let ?a = "group_access E f dirs c (providerRef b) (groupDN b)"
  have key: "key d = k" if "desire b ms = Inr d" for ms d using keyedD(2)[OF assms(2) that] b(2) by simp
  obtain b' v where b': "reported v b b'" and a: "access_of v = ?a"
    and "case v of
        VReady ms \<Rightarrow> sorted ms \<and> (\<exists>d x. desire b ms = Inr d \<and> synced d x \<and>
          c' = c((kind, key d) \<mapsto> wrap x, (bkind, k) \<mapsto> bwrap b'))
      | _ \<Rightarrow> c' = c((bkind, k) \<mapsto> bwrap b')"
    using arr unfolding arrives_def b(2) by (elim exE conjE) (rule that)
  then have c': "case v of
        VReady ms \<Rightarrow> sorted ms \<and> (\<exists>d x. desire b ms = Inr d \<and> synced d x \<and>
          c' = c((kind, k) \<mapsto> wrap x, (bkind, k) \<mapsto> bwrap b'))
      | _ \<Rightarrow> c' = c((bkind, k) \<mapsto> bwrap b')"
    using key by (cases v) (simp_all, blast)
  have kb: "kind \<noteq> bkind" using assms(1) by (simp add: kinds_apart_def)
  have new: "c' (bkind, k) = Some (bwrap b')" using c' by (auto split: verdict.splits)
  have managed: "case ?a of
      Granted M \<Rightarrow> \<exists>d x. desire b (sorted_list_of_multiset M) = Inr d \<and> c' (kind, k) = Some (wrap x) \<and> synced d x
    | _ \<Rightarrow> c' (kind, k) = c (kind, k)"
  proof (cases v)
    case (VReady ms)
    then have "?a = Granted (mset ms)" using a by (simp add: access_of_def)
    with VReady c' kb show ?thesis by (auto simp: sorted_sort_id)
  qed (use a c' kb in \<open>auto simp: access_of_def split: access.splits\<close>)
  show "settled f dirs c c' k"
    unfolding settled_def
  proof (intro conjI impI allI)
    fix y
    assume "c (bkind, k) = Some (bwrap y)"
    then have y: "y = b" using b(1) bwrap_inj by simp
    show "\<exists>b'. c' (bkind, k) = Some (bwrap b') \<and> spec b' = spec y \<and> same_object (bmeta y) (bmeta b')"
      using new b' y by (auto simp: reported_def)
    show "case group_access E f dirs c (providerRef y) (groupDN y) of
        Granted M \<Rightarrow> \<exists>d x. desire y (sorted_list_of_multiset M) = Inr d \<and> c' (kind, k) = Some (wrap x) \<and> synced d x
      | _ \<Rightarrow> c' (kind, k) = c (kind, k)"
      unfolding y by (rule managed)
  qed (use b(1) in simp_all)
  show "c' p = c p" if "p \<noteq> (bkind, k)" "p \<noteq> (kind, k)" for p
    using c' that by (auto split: verdict.splits)
qed

text \<open>A whole reconcile, whether the binding exists or not, settles it and touches nothing else.\<close>

lemma body_settles:
  assumes up: "served cl home dirs" "kinds_apart" and keys: "\<And>b. c (bkind, k) = Some (bwrap b) \<Longrightarrow> keyed b"
    and c: "cl (os_world s) = Some c"
    and run: "run_state (body (GrouperFactory_Grouper E f) ctx k) s = (r, u)"
  shows "\<exists>c'. cl (os_world u) = Some c' \<and> settled f dirs c c' k \<and>
    (\<forall>p. p \<noteq> (bkind, k) \<longrightarrow> p \<noteq> (kind, k) \<longrightarrow> c' p = c p)"
proof -
  obtain g w where g: "k_Get Kb k (os_world s) = (g, w)" by (cases "k_Get Kb k (os_world s)")
  show ?thesis
  proof (cases "c (bkind, k)")
    case None
    then have "cl (os_world u) = Some c" using body_gone[OF up(1) c _ run] by simp
    moreover have "settled f dirs c c k" using None by (simp add: settled_def)
    ultimately show ?thesis by blast
  next
    case (Some obj)
    then obtain b where b: "obj = bwrap b" "ObjectKeyFromObject (bmeta b) = k"
      using reads_servedD(3)[OF servedD(2)[OF up(1)] g c] by blast
    have keyed: "keyed b" using keys Some b(1) by simp
    have "kind \<noteq> bkind" using up(2) by (simp add: kinds_apart_def)
    from body_served[OF up(1) this keyedD(1)[OF keyed] c Some[unfolded b(1)] run]
    obtain c' where c': "cl (os_world u) = Some c'"
      "arrives (group_access E f dirs c (providerRef b) (groupDN b)) (provider_interval c (providerRef b)) c b r c'"
      by blast
    show ?thesis
      using arrives_settled[OF up(2) keyed Some[unfolded b(1)] b(2) c'(2)] c'(1) by blast
  qed
qed

text \<open>Settling composes, with later reconciles of the same binding and with anything else.\<close>

lemma settled_kept:
  assumes "settled f dirs c1 c' k" and "c1 (bkind, k) = c (bkind, k)" and "c1 (kind, k) = c (kind, k)"
    and "lookup_data c c1"
  shows "settled f dirs c c' k"
  using assms(1) unfolding settled_def assms(2,3) lookup_data_access[OF assms(4), of E] .

lemma settled_then_kept:
  assumes "settled f dirs c c1 k" and "c' (bkind, k) = c1 (bkind, k)" and "c' (kind, k) = c1 (kind, k)"
  shows "settled f dirs c c' k"
  using assms(1) unfolding settled_def assms(2,3) .

lemma settled_trans:
  assumes ok: desire_ok and data: "lookup_data c c1"
    and first: "settled f dirs c c1 k" and second: "settled f dirs c1 c' k"
  shows "settled f dirs c c' k"
  unfolding settled_def
proof (intro conjI impI allI)
  fix b
  assume b: "c (bkind, k) = Some (bwrap b)"
  let ?managed = "\<lambda>b c c'. case group_access E f dirs c (providerRef b) (groupDN b) of
      Granted M \<Rightarrow> \<exists>d x. desire b (sorted_list_of_multiset M) = Inr d \<and> c' (kind, k) = Some (wrap x) \<and> synced d x
    | _ \<Rightarrow> c' (kind, k) = c (kind, k)"
  obtain b1 where b1: "c1 (bkind, k) = Some (bwrap b1)" "spec b1 = spec b" "same_object (bmeta b) (bmeta b1)"
    and m1: "?managed b c c1"
    using first[unfolded settled_def] b by blast
  obtain b2 where b2: "c' (bkind, k) = Some (bwrap b2)" "spec b2 = spec b1" "same_object (bmeta b1) (bmeta b2)"
    and m2: "?managed b1 c1 c'"
    using second[unfolded settled_def] b1(1) by blast
  have "same_object (bmeta b) (bmeta b2)" using b1(3) b2(3) by (rule same_object_trans)
  with b1 b2 show "\<exists>b'. c' (bkind, k) = Some (bwrap b') \<and> spec b' = spec b \<and> same_object (bmeta b) (bmeta b')"
    by (intro exI[of _ b2]) simp
  have "desire b1 = desire b" "providerRef b1 = providerRef b" "groupDN b1 = groupDN b"
    using ok b1(2,3) unfolding desire_ok_def by blast+
  with m1 m2 lookup_data_access[OF data, of E] show "?managed b c c'" by (simp split: access.splits)
qed (use first second in \<open>auto simp: settled_def\<close>)

section \<open>Steady state\<close>

text \<open>
  With the managed object in line, a reconcile reads, asks the directory, and writes one
  thing: the status.
\<close>

lemma body_quiet:
  assumes up: "served cl home dirs" "kinds_apart"
    and c: "cl (os_world s) = Some c" and b: "c (bkind, k) = Some (bwrap b)"
    and a: "group_access E f dirs c (providerRef b) (groupDN b) = Granted M"
    and d: "desire b (sorted_list_of_multiset M) = Inr d" "c (kind, key d) = Some (wrap x)" "synced d x"
    and run: "run_state (body (GrouperFactory_Grouper E f) ctx k) s = (r, u)"
  shows "\<exists>as b' b2. os_trace u = os_trace s @ as \<and> filter api_write as = [AStatusUpdate (bwrap b') True] \<and>
    cl (os_world u) = Some (c((bkind, k) \<mapsto> bwrap b2))"
proof -
  obtain l t where l: "run_state (lookups (GrouperFactory_Grouper E f) ctx k) s = (l, t)"
    by (cases "run_state (lookups (GrouperFactory_Grouper E f) ctx k) s")
  from postD[OF lookup_served[OF servedD(1,2)[OF up(1)] bwrap_inj c b] l]
  obtain v where t: "cl (os_world t) = Some c" and v: "l = Inr (b, v, provider_interval c (providerRef b))"
    "access_of v = Granted M" "\<forall>ms. v = VReady ms \<longrightarrow> sorted ms"
    unfolding a by blast
  obtain ms where ms: "v = VReady ms" "sorted ms" "mset ms = M" using v(2,3) by (cases v) (auto simp: access_of_def)
  then have d': "desire b ms = Inr d" using d(1) by (auto simp: sorted_sort_id)
  have inj_wrap: "wrap x = wrap y \<Longrightarrow> x = y" for x y using up(2) by (simp add: kinds_apart_def)
  obtain t1 where t1: "run_state (sync d) t = (Inr syncUnchanged, t1)" "cl (os_world t1) = Some c"
    "os_trace t1 = os_trace t @ [AGet kind (key d)]"
    using sync_quiet[OF servedD(4)[OF up(1)] inj_wrap t d(2,3)] by blast
  obtain t2 where t2: "run_state (recordOutcome b d ms syncUnchanged) t1 = ((), t2)"
    by (cases "run_state (recordOutcome b d ms syncUnchanged) t1") simp
  have tr2: "os_trace t2 = os_trace t1"
    using recordOutcome_emits t2 by (rule emits_run) (simp add: outcome_event_def)
  let ?t3 = "t2\<lparr>os_trace := os_trace t2 @ [ALog ''synced group membership'' [itoa (length ms)]]\<rparr>"
  have ready: "run_state (markReady b ms (provider_interval c (providerRef b))) ?t3 = (r, u)"
    using run l v(1) ms(1) d' t1 t2 by (simp add: body_settle settle_def Log_def emit_def)
  have t3: "cl (os_world ?t3) = Some c" using keepsD[OF recordOutcome_world t2] t1(2) by simp
  obtain b1 b2 where b1: "os_trace u = os_trace ?t3 @ [AStatusUpdate (bwrap b1) True]"
    "cl (os_world u) = Some (c((bkind, k) \<mapsto> bwrap b2))"
    by (rule mark_served[OF markReady_updates markReady_emits servedD(3)[OF up(1)] t3 _ ready])
      (simp_all add: b stored_key[OF up(1) c b] verdict_events_def)
  obtain ls where ls: "os_trace t = os_trace s @ ls" "list_all lookup_action ls"
    using lookupMembers_only[OF factory.grouper_resolver_axioms] l by (rule emits_run)
  have "filter api_write ls = []" using ls(2) lookup_action_no_write by (auto simp: filter_empty_conv list_all_iff)
  with ls(1) t1(3) tr2 b1 show ?thesis by (intro exI[of _ "ls @ [AGet kind (key d), ALog ''synced group membership''
      [itoa (length ms)], AStatusUpdate (bwrap b1) True]"] exI[of _ b1] exI[of _ b2]) simp
qed

text \<open>
  The managed object under a key is in line: it grants what the directory says, if the
  directory says anything.
\<close>

definition in_line :: "GrouperFactory \<Rightarrow> (string \<Rightarrow> directory) \<Rightarrow> cluster \<Rightarrow> ObjectKey \<Rightarrow> bool" where
  "in_line f dirs c k \<longleftrightarrow> (\<forall>b M. c (bkind, k) = Some (bwrap b) \<longrightarrow>
     group_access E f dirs c (providerRef b) (groupDN b) = Granted M \<longrightarrow>
     (\<exists>d x. desire b (sorted_list_of_multiset M) = Inr d \<and> c (kind, k) = Some (wrap x) \<and> synced d x))"

lemma settled_in_line:
  assumes ok: desire_ok and data: "lookup_data c c'" and settled: "settled f dirs c c' k"
    and typed: "c (bkind, k) = None \<or> (\<exists>b. c (bkind, k) = Some (bwrap b))"
  shows "in_line f dirs c' k"
  unfolding in_line_def
proof (intro allI impI)
  fix b' M
  assume b': "c' (bkind, k) = Some (bwrap b')" and a: "group_access E f dirs c' (providerRef b') (groupDN b') = Granted M"
  from typed b' settled obtain b where b: "c (bkind, k) = Some (bwrap b)" unfolding settled_def by auto
  with settled obtain y where "c' (bkind, k) = Some (bwrap y)" and y: "spec y = spec b" "same_object (bmeta b) (bmeta y)"
    and m: "case group_access E f dirs c (providerRef b) (groupDN b) of
        Granted M \<Rightarrow> \<exists>d x. desire b (sorted_list_of_multiset M) = Inr d \<and> c' (kind, k) = Some (wrap x) \<and> synced d x
      | _ \<Rightarrow> c' (kind, k) = c (kind, k)"
    unfolding settled_def by blast
  then have "y = b'" using b' bwrap_inj by simp
  with y ok have "desire b' = desire b" "providerRef b' = providerRef b" "groupDN b' = groupDN b"
    unfolding desire_ok_def by blast+
  with a m lookup_data_access[OF data, of E] show
    "\<exists>d x. desire b' (sorted_list_of_multiset M) = Inr d \<and> c' (kind, k) = Some (wrap x) \<and> synced d x"
    by simp
qed

lemma in_line_kept:
  assumes "in_line f dirs c k" and "c' (bkind, k) = c (bkind, k)" and "c' (kind, k) = c (kind, k)"
    and "lookup_data c c'"
  shows "in_line f dirs c' k"
  using assms(1) unfolding in_line_def assms(2,3) lookup_data_access[OF assms(4), of E] .

lemma settled_ungranted:
  assumes settled: "settled f dirs c c' k"
    and typed: "c (bkind, k) = None \<or> (\<exists>b. c (bkind, k) = Some (bwrap b))"
    and none: "\<And>b M. c (bkind, k) = Some (bwrap b) \<Longrightarrow> group_access E f dirs c (providerRef b) (groupDN b) \<noteq> Granted M"
  shows "c' (kind, k) = c (kind, k)"
proof (cases "c (bkind, k)")
  case None
  with settled show ?thesis by (simp add: settled_def)
next
  case (Some obj)
  then obtain b where b: "c (bkind, k) = Some (bwrap b)" using typed by auto
  with settled have "case group_access E f dirs c (providerRef b) (groupDN b) of
      Granted M \<Rightarrow> \<exists>d x. desire b (sorted_list_of_multiset M) = Inr d \<and> c' (kind, k) = Some (wrap x) \<and> synced d x
    | _ \<Rightarrow> c' (kind, k) = c (kind, k)"
    unfolding settled_def by blast
  with none[OF b] show ?thesis by (cases "group_access E f dirs c (providerRef b) (groupDN b)") auto
qed

text \<open>A reconcile of a binding in line, or one that the directory knows nothing of.\<close>

text \<open>Where nothing is granted, a reconcile writes a status at most.\<close>

lemma body_ungranted:
  assumes up: "served cl home dirs" and c: "cl (os_world s) = Some c"
    and none: "\<And>b M. c (bkind, k) = Some (bwrap b) \<Longrightarrow>
      group_access E f dirs c (providerRef b) (groupDN b) \<noteq> Granted M"
    and run: "run_state (body (GrouperFactory_Grouper E f) ctx k) s = (r, u)"
  obtains "as" where "os_trace u = os_trace s @ as" and "list_all (\<lambda>a. api_write a \<longrightarrow> status_write a) as"
proof -
  obtain l t where l: "run_state (lookups (GrouperFactory_Grouper E f) ctx k) s = (l, t)"
    by (cases "run_state (lookups (GrouperFactory_Grouper E f) ctx k) s")
  obtain "as" where "as": "os_trace (snd (run_state (body (GrouperFactory_Grouper E f) ctx k) s)) = os_trace s @ as"
    "case fst (run_state (lookups (GrouperFactory_Grouper E f) ctx k) s) of
       Inl _ \<Rightarrow> \<not> list_ex api_write as | Inr (b, v, _) \<Rightarrow> list_all (permitted b v) as"
    by (rule body_permitted[OF factory.grouper_resolver_axioms])
  note "as" = "as"[unfolded run l fst_conv snd_conv]
  have "list_all (\<lambda>a. api_write a \<longrightarrow> status_write a) as"
  proof (cases "c (bkind, k)")
    case None
    with body_gone[OF up c _ run] "as"(1) show ?thesis by simp
  next
    case (Some obj)
    then obtain b where b: "c (bkind, k) = Some (bwrap b)" using stored_typed[OF up c, of k] by auto
    from postD[OF lookup_served[OF servedD(1,2)[OF up] bwrap_inj c b] l]
    obtain v where v: "l = Inr (b, v, provider_interval c (providerRef b))"
      "access_of v = group_access E f dirs c (providerRef b) (groupDN b)" by blast
    have "v \<noteq> VReady ms" for ms using v(2) none[OF b, of "mset ms"] by (auto simp: access_of_def)
    with "as"(2) v(1) show ?thesis by (auto simp: permitted_def list_all_iff)
  qed
  with "as"(1) show thesis by (rule that)
qed

lemma body_calm:
  assumes up: "served cl home dirs" "kinds_apart" and keys: "\<And>b. c (bkind, k) = Some (bwrap b) \<Longrightarrow> keyed b"
    and c: "cl (os_world s) = Some c" and calm: "in_line f dirs c k"
    and run: "run_state (body (GrouperFactory_Grouper E f) ctx k) s = (r, u)"
  shows "(\<exists>as. os_trace u = os_trace s @ as \<and> list_all (\<lambda>a. api_write a \<longrightarrow> status_write a) as) \<and>
    (\<exists>c'. cl (os_world u) = Some c' \<and> c' (kind, k) = c (kind, k))"
proof (cases "\<exists>b M. c (bkind, k) = Some (bwrap b) \<and> group_access E f dirs c (providerRef b) (groupDN b) = Granted M")
  case True
  then obtain b M d x where b: "c (bkind, k) = Some (bwrap b)"
    "group_access E f dirs c (providerRef b) (groupDN b) = Granted M"
    and d: "desire b (sorted_list_of_multiset M) = Inr d" "c (kind, k) = Some (wrap x)" "synced d x"
    using calm unfolding in_line_def by blast
  have "key d = k" using keyedD(2)[OF keys[OF b(1)] d(1)] stored_key[OF up(1) c b(1)] by simp
  then obtain "as" b' b2 where "as": "os_trace u = os_trace s @ as" "filter api_write as = [AStatusUpdate (bwrap b') True]"
    and u: "cl (os_world u) = Some (c((bkind, k) \<mapsto> bwrap b2))"
    using body_quiet[OF up c b d(1) _ d(3) run] d(2) by auto
  have "a = AStatusUpdate (bwrap b') True" if "a \<in> set as" "api_write a" for a
    using arg_cong[OF "as"(2), of set] that by auto
  then have "list_all (\<lambda>a. api_write a \<longrightarrow> status_write a) as"
    unfolding list_all_iff status_write_def by blast
  with "as"(1) u up(2) show ?thesis by (auto simp: kinds_apart_def)
next
  case False
  obtain "as" where "as": "os_trace u = os_trace s @ as" "list_all (\<lambda>a. api_write a \<longrightarrow> status_write a) as"
    by (rule body_ungranted[OF up(1) c _ run]) (use False in blast)
  moreover obtain c' where c': "cl (os_world u) = Some c'" "settled f dirs c c' k"
    using body_settles[OF up keys c run] by blast
  moreover have "c' (kind, k) = c (kind, k)"
    using settled_ungranted[OF c'(2) stored_typed[OF up(1) c]] False by blast
  ultimately show ?thesis by blast
qed

end

end
