(* ===== verification/Surroundings.thy ===== *)
theory Surroundings
  imports Convergence
begin

text \<open>
  What the two binding reconcilers need of the API server, the directories and the helpers of
  controller-runtime to do their work, as one predicate \<open>cluster_up\<close>, and that it gives the
  contracts of \<open>Convergence\<close> for both.
\<close>

lemmas kind_names = rbacGroupBindingKind_def clusterRBACGroupBindingKind_def secretKind_def

section \<open>The surroundings\<close>

text \<open>A status update changes the status and the version of the stored object, nothing else.\<close>

definition rgb_persists :: "RBACGroupBinding \<Rightarrow> RBACGroupBinding \<Rightarrow> RBACGroupBinding \<Rightarrow> bool" where
  "rgb_persists old x y \<longleftrightarrow> rgb_Spec y = rgb_Spec old \<and> rgb_Status y = rgb_Status x \<and>
     same_object (rgb_meta old) (rgb_meta y)"

definition crgb_persists ::
  "ClusterRBACGroupBinding \<Rightarrow> ClusterRBACGroupBinding \<Rightarrow> ClusterRBACGroupBinding \<Rightarrow> bool" where
  "crgb_persists old x y \<longleftrightarrow> crgb_Spec y = crgb_Spec old \<and> crgb_Status y = crgb_Status x \<and>
     same_object (crgb_meta old) (crgb_meta y)"

text \<open>
  \<open>controllerutil.SetControllerReference\<close>: it succeeds for an object without an owner in the
  owner's scope, leaves its name and namespace alone, and reads only the metadata of the owner,
  of which the version does not matter.
\<close>

definition owner_references_ok :: "'w env \<Rightarrow> bool" where
  "owner_references_ok E \<longleftrightarrow>
     (\<forall>x m. om_OwnerReferences m = [] \<and> om_Namespace (object_meta x) \<in> {[], om_Namespace m} \<longrightarrow>
        (\<exists>m'. controllerutil_SetControllerReference E x m = Inr m' \<and>
           ObjectKeyFromObject m' = ObjectKeyFromObject m)) \<and>
     (\<forall>b b' m. same_object (rgb_meta b) (rgb_meta b') \<longrightarrow>
        controllerutil_SetControllerReference E (ORBACGroupBinding b') m =
        controllerutil_SetControllerReference E (ORBACGroupBinding b) m) \<and>
     (\<forall>b b' m. same_object (crgb_meta b) (crgb_meta b') \<longrightarrow>
        controllerutil_SetControllerReference E (OClusterRBACGroupBinding b') m =
        controllerutil_SetControllerReference E (OClusterRBACGroupBinding b) m)"

lemma owner_references_okD:
  "owner_references_ok E \<Longrightarrow> om_OwnerReferences m = [] \<Longrightarrow> om_Namespace (object_meta x) \<in> {[], om_Namespace m} \<Longrightarrow>
   \<exists>m'. controllerutil_SetControllerReference E x m = Inr m' \<and> ObjectKeyFromObject m' = ObjectKeyFromObject m"
  by (simp add: owner_references_ok_def)

text \<open>Everything works, in the worlds for which \<open>cl\<close> gives a cluster.\<close>

definition cluster_up ::
  "'w env \<Rightarrow> ('w \<Rightarrow> cluster option) \<Rightarrow> (conn \<Rightarrow> string) \<Rightarrow> (string \<Rightarrow> directory) \<Rightarrow> bool" where
  "cluster_up E cl home dirs \<longleftrightarrow> lookups_served E cl home dirs \<and>
     reads_served E cl (rgb_client E) rbacGroupBindingKind ORBACGroupBinding rgb_meta \<and>
     status_served cl (rgb_client E) rbacGroupBindingKind ORBACGroupBinding rgb_meta rgb_persists \<and>
     reads_served E cl (rb_client E) ''RoleBinding'' ORoleBinding rb_meta \<and>
     writes_served cl (rb_client E) ''RoleBinding'' ORoleBinding rb_meta rb_agree \<and>
     reads_served E cl (crgb_client E) clusterRBACGroupBindingKind OClusterRBACGroupBinding crgb_meta \<and>
     status_served cl (crgb_client E) clusterRBACGroupBindingKind OClusterRBACGroupBinding crgb_meta crgb_persists \<and>
     reads_served E cl (crb_client E) ''ClusterRoleBinding'' OClusterRoleBinding crb_meta \<and>
     writes_served cl (crb_client E) ''ClusterRoleBinding'' OClusterRoleBinding crb_meta crb_agree \<and>
     (\<forall>rs. equality_DeepEqual E rs rs) \<and> SetStatusCondition_ok E \<and> owner_references_ok E"

lemma status_served_mono:
  assumes "status_served cl K kind wrap meta persists" and "\<And>old x y. persists old x y \<Longrightarrow> persists' old x y"
  shows "status_served cl K kind wrap meta persists'"
  using assms unfolding status_served_def Let_def by blast

lemma RGB_desire_stable:
  assumes "owner_references_ok E" and "rgb_Spec b' = rgb_Spec b" and "same_object (rgb_meta b) (rgb_meta b')"
  shows "RGB_desire E b' = RGB_desire E b"
proof -
  have build: "BuildRoleBinding b' ms = BuildRoleBinding b ms" for ms
    using assms(2) same_object_fields[OF assms(3)] by (simp add: BuildRoleBinding_def)
  have ref: "controllerutil_SetControllerReference E (ORBACGroupBinding b') m =
      controllerutil_SetControllerReference E (ORBACGroupBinding b) m" for m
    using assms(1,3) by (simp add: owner_references_ok_def)
  show ?thesis by (rule ext) (unfold RGB_desire_def build ref, rule refl)
qed

lemma rgb_up:
  fixes E :: "'w env"
  assumes "cluster_up E cl home dirs"
  shows "rgb.served E cl home dirs" "rgb.kinds_apart" "rgb.desire_ok TYPE('w) E"
proof -
  note up = assms[unfolded cluster_up_def]
  have "status_served cl (rgb_client E) rbacGroupBindingKind ORBACGroupBinding rgb_meta rgb.persists"
    using up by (auto elim!: status_served_mono simp: rgb_persists_def rgb.persists_def RGB_view_def Let_def)
  then show "rgb.served E cl home dirs" using up by (simp add: rgb.served_def rb_agree_eq)
  show "rgb.kinds_apart"
    unfolding rgb.kinds_apart_def by (simp add: rbacGroupBindingKind_def secretKind_def)
  show "rgb.desire_ok TYPE('w) E"
    unfolding rgb.desire_ok_def using up by (intro allI impI conjI RGB_desire_stable) simp_all
qed

lemma rgb_keyed:
  fixes E :: "'w env"
  assumes "owner_references_ok E"
  shows "rgb.keyed TYPE('w) E b"
  unfolding rgb.keyed_def
proof
  fix ms
  obtain m' where "controllerutil_SetControllerReference E (ORBACGroupBinding b) (rb_meta (BuildRoleBinding b ms)) = Inr m'"
    "ObjectKeyFromObject m' = ObjectKeyFromObject (rb_meta (BuildRoleBinding b ms))"
    using owner_references_okD[OF assms, of "rb_meta (BuildRoleBinding b ms)" "ORBACGroupBinding b"]
    by (auto simp: BuildRoleBinding_def newObjectMeta_def)
  then show "\<exists>d. RGB_desire E b ms = Inr d \<and> ObjectKeyFromObject (rb_meta d) = ObjectKeyFromObject (rgb_meta b)"
    by (simp add: RGB_desire_def BuildRoleBinding_def newObjectMeta_def ObjectKeyFromObject_def)
qed

lemma CRGB_desire_stable:
  assumes "owner_references_ok E" and "crgb_Spec b' = crgb_Spec b" and "same_object (crgb_meta b) (crgb_meta b')"
  shows "CRGB_desire E b' = CRGB_desire E b"
proof -
  have build: "BuildClusterRoleBinding b' ms = BuildClusterRoleBinding b ms" for ms
    using assms(2) same_object_fields[OF assms(3)] by (simp add: BuildClusterRoleBinding_def)
  have ref: "controllerutil_SetControllerReference E (OClusterRBACGroupBinding b') m =
      controllerutil_SetControllerReference E (OClusterRBACGroupBinding b) m" for m
    using assms(1,3) by (simp add: owner_references_ok_def)
  show ?thesis by (rule ext) (unfold CRGB_desire_def build ref, rule refl)
qed

lemma crgb_up:
  fixes E :: "'w env"
  assumes "cluster_up E cl home dirs"
  shows "crgb.served E cl home dirs" "crgb.kinds_apart" "crgb.desire_ok TYPE('w) E"
proof -
  note up = assms[unfolded cluster_up_def]
  have "status_served cl (crgb_client E) clusterRBACGroupBindingKind OClusterRBACGroupBinding crgb_meta crgb.persists"
    using up by (auto elim!: status_served_mono simp: crgb_persists_def crgb.persists_def CRGB_view_def Let_def)
  then show "crgb.served E cl home dirs" using up by (simp add: crgb.served_def crb_agree_eq)
  show "crgb.kinds_apart"
    unfolding crgb.kinds_apart_def by (simp add: clusterRBACGroupBindingKind_def secretKind_def)
  show "crgb.desire_ok TYPE('w) E"
    unfolding crgb.desire_ok_def using up by (intro allI impI conjI CRGB_desire_stable) simp_all
qed

text \<open>A cluster-scoped binding has no namespace.\<close>

lemma crgb_keyed:
  fixes E :: "'w env"
  assumes "owner_references_ok E" and "om_Namespace (crgb_meta b) = []"
  shows "crgb.keyed TYPE('w) E b"
  unfolding crgb.keyed_def
proof
  fix ms
  obtain m' where "controllerutil_SetControllerReference E (OClusterRBACGroupBinding b) (crb_meta (BuildClusterRoleBinding b ms)) = Inr m'"
    "ObjectKeyFromObject m' = ObjectKeyFromObject (crb_meta (BuildClusterRoleBinding b ms))"
    using owner_references_okD[OF assms(1), of "crb_meta (BuildClusterRoleBinding b ms)" "OClusterRBACGroupBinding b"]
      assms(2)
    by (auto simp: BuildClusterRoleBinding_def newObjectMeta_def)
  then show "\<exists>d. CRGB_desire E b ms = Inr d \<and> ObjectKeyFromObject (crb_meta d) = ObjectKeyFromObject (crgb_meta b)"
    using assms(2) by (simp add: CRGB_desire_def BuildClusterRoleBinding_def newObjectMeta_def ObjectKeyFromObject_def)
qed

end
