(* ===== verification/Fair_World.thy ===== *)
theory Fair_World
  imports Surroundings "HOL-Library.Countable"
begin

text \<open>
  A concrete environment in which everything works, for the witnesses: the API server of
  \<open>Sim_World\<close>, whose status updates keep the stored specification, and the small directory of
  \<open>Ldap_Guarantees\<close> behind every URL.
\<close>

definition sim_cluster :: "sim \<Rightarrow> cluster" where
  "sim_cluster w = (\<lambda>(kind, k).
     if kind = rbacGroupBindingKind then map_option ORBACGroupBinding (stored rgb_meta (sim_rgbs w) k)
     else if kind = clusterRBACGroupBindingKind then map_option OClusterRBACGroupBinding (stored crgb_meta (sim_crgbs w) k)
     else if kind = ''LDAPProvider'' then map_option OLDAPProvider (stored lp_meta (sim_lps w) k)
     else if kind = ''RoleBinding'' then map_option ORoleBinding (stored rb_meta (sim_rbs w) k)
     else if kind = ''ClusterRoleBinding'' then map_option OClusterRoleBinding (stored crb_meta (sim_crbs w) k)
     else if kind = secretKind then map_option OSecret (stored sec_meta (sim_secrets w) k)
     else None)"

definition sim_view :: "sim \<Rightarrow> cluster option" where
  "sim_view w = (if sim_denied w = [] then Some (sim_cluster w) else None)"

text \<open>A status update that leaves the rest of the stored object alone.\<close>

definition merging ::
  "('o \<Rightarrow> 'o \<Rightarrow> 'o) \<Rightarrow> (sim \<Rightarrow> 'o table) \<Rightarrow> (('o table \<Rightarrow> 'o table) \<Rightarrow> sim \<Rightarrow> sim) \<Rightarrow> ('o \<Rightarrow> ObjectMeta) \<Rightarrow>
   (sim, 'o) kclient \<Rightarrow> (sim, 'o) kclient" where
  "merging merge tab upd meta K = K\<lparr>k_StatusUpdate := \<lambda>x w.
     (case stored meta (tab w) (ObjectKeyFromObject (meta x)) of
        None \<Rightarrow> (Inl notFound, w)
      | Some old \<Rightarrow> (Inr (merge old x), upd (put meta (merge old x)) w))\<rparr>"

definition fair_env :: "sim env" where
  "fair_env = small_env\<lparr>ldap_DialURL := \<lambda>url opts w. (Inr (to_nat url), w),
     ldap_StartTLS := \<lambda>c t w. (Some (ErrText ''tls: no server name''), w),
     rgb_client := merging (\<lambda>old x. old\<lparr>rgb_Status := rgb_Status x\<rparr>) sim_rgbs sim_rgbs_update rgb_meta (rgb_client small_env),
     crgb_client := merging (\<lambda>old x. old\<lparr>crgb_Status := crgb_Status x\<rparr>) sim_crgbs sim_crgbs_update crgb_meta
       (crgb_client small_env)\<rparr>"

definition fair_directory :: directory where
  "fair_directory = \<lparr>dir_search = small_search, dir_paged = (\<lambda>_. Inr \<lparr>res_Entries = [], res_Referrals = []\<rparr>),
     dir_accepts = (\<lambda>dn pw. True)\<rparr>"

definition fair_provider :: LDAPProvider where
  "fair_provider = demo_provider\<lparr>lp_Spec := (lp_Spec demo_provider)\<lparr>lps_URL := ''ldaps://dir''\<rparr>\<rparr>"

definition fair_world :: sim where
  "fair_world = demo_world\<lparr>sim_lps := [fair_provider]\<rparr>"

lemmas fair_defs = fair_env_def small_env_def sim_env_def sim_kclient_def merging_def

lemma sim_view_Some: "sim_view w = Some c \<longleftrightarrow> sim_denied w = [] \<and> c = sim_cluster w"
  by (auto simp: sim_view_def)

lemma fair_lookups: "lookups_served fair_env sim_view from_nat (\<lambda>_. fair_directory)"
  unfolding lookups_served_def
proof (intro conjI)
  show "reads_served fair_env sim_view (lp_client fair_env) ''LDAPProvider'' OLDAPProvider lp_meta"
    by (auto simp: reads_served_def fair_defs sim_view_Some sim_cluster_def kind_names dest: table_key
        split: option.splits)
  show "reads_served fair_env sim_view (secret_client fair_env) secretKind OSecret sec_meta"
    by (auto simp: reads_served_def fair_defs sim_view_Some sim_cluster_def kind_names dest: table_key
        split: option.splits)
  show "directories_up fair_env sim_view from_nat (\<lambda>_. fair_directory)"
    by (simp add: directories_up_def fair_defs fair_directory_def snapshot_def)
  show "directory_errors_ok fair_env"
    using small_env_errors_ok by (auto simp: directory_errors_ok_def fair_defs)
  show "handshake_needs_name fair_env" by (simp add: handshake_needs_name_def fair_defs)
qed

text \<open>Reads and writes of the simulated tables, as seen in the cluster.\<close>

lemma fair_reads:
  "reads_served fair_env sim_view (rgb_client fair_env) rbacGroupBindingKind ORBACGroupBinding rgb_meta"
  "reads_served fair_env sim_view (crgb_client fair_env) clusterRBACGroupBindingKind OClusterRBACGroupBinding crgb_meta"
  "reads_served fair_env sim_view (rb_client fair_env) ''RoleBinding'' ORoleBinding rb_meta"
  "reads_served fair_env sim_view (crb_client fair_env) ''ClusterRoleBinding'' OClusterRoleBinding crb_meta"
  by (auto simp: reads_served_def fair_defs sim_view_Some sim_cluster_def kind_names dest: table_key
      split: option.splits)

lemma sim_cluster_put:
  "sim_cluster (sim_rgbs_update (put rgb_meta b) w) =
     (sim_cluster w)((rbacGroupBindingKind, ObjectKeyFromObject (rgb_meta b)) \<mapsto> ORBACGroupBinding b)"
  "sim_cluster (sim_crgbs_update (put crgb_meta cb) w) =
     (sim_cluster w)((clusterRBACGroupBindingKind, ObjectKeyFromObject (crgb_meta cb)) \<mapsto> OClusterRBACGroupBinding cb)"
  "sim_cluster (sim_rbs_update (put rb_meta x) w) =
     (sim_cluster w)((''RoleBinding'', ObjectKeyFromObject (rb_meta x)) \<mapsto> ORoleBinding x)"
  "sim_cluster (sim_crbs_update (put crb_meta y) w) =
     (sim_cluster w)((''ClusterRoleBinding'', ObjectKeyFromObject (crb_meta y)) \<mapsto> OClusterRoleBinding y)"
  by (auto simp: fun_eq_iff sim_cluster_def stored_put kind_names)

lemma sim_cluster_drop:
  "sim_cluster (sim_rbs_update (drop_key rb_meta k) w) = (sim_cluster w)((''RoleBinding'', k) := None)"
  "sim_cluster (sim_crbs_update (drop_key crb_meta k) w) = (sim_cluster w)((''ClusterRoleBinding'', k) := None)"
  by (auto simp: fun_eq_iff sim_cluster_def stored_drop_key kind_names)

lemma fair_writes:
  "writes_served sim_view (rb_client fair_env) ''RoleBinding'' ORoleBinding rb_meta rb_agree"
  "writes_served sim_view (crb_client fair_env) ''ClusterRoleBinding'' OClusterRoleBinding crb_meta crb_agree"
  by (auto simp: writes_served_def Let_def fair_defs sim_view_Some sim_cluster_put sim_cluster_drop rb_agree_def
      crb_agree_def)

lemma fair_status:
  "status_served sim_view (rgb_client fair_env) rbacGroupBindingKind ORBACGroupBinding rgb_meta rgb_persists"
  "status_served sim_view (crgb_client fair_env) clusterRBACGroupBindingKind OClusterRBACGroupBinding crgb_meta crgb_persists"
proof -
  have rgb: "sim_cluster w (rbacGroupBindingKind, k) = map_option ORBACGroupBinding (stored rgb_meta (sim_rgbs w) k)"
    and crgb: "sim_cluster w (clusterRBACGroupBindingKind, k) =
      map_option OClusterRBACGroupBinding (stored crgb_meta (sim_crgbs w) k)" for w k
    by (simp_all add: sim_cluster_def kind_names)
  show "status_served sim_view (rgb_client fair_env) rbacGroupBindingKind ORBACGroupBinding rgb_meta rgb_persists"
    by (auto simp: status_served_def Let_def fair_defs sim_view_Some sim_cluster_put rgb rgb_persists_def dest: table_key)
  show "status_served sim_view (crgb_client fair_env) clusterRBACGroupBindingKind OClusterRBACGroupBinding crgb_meta crgb_persists"
    by (auto simp: status_served_def Let_def fair_defs sim_view_Some sim_cluster_put crgb crgb_persists_def dest: table_key)
qed

lemma fair_owners: "owner_references_ok fair_env"
  by (auto simp: owner_references_ok_def fair_defs sim_ownerRef_def ObjectKeyFromObject_def same_object_fields)

lemma fair_up: "cluster_up fair_env sim_view from_nat (\<lambda>_. fair_directory)"
  unfolding cluster_up_def
  using fair_lookups fair_reads fair_writes fair_status fair_owners sim_SetStatusCondition_ok
  by (simp add: SetStatusCondition_ok_def fair_defs)

lemma fair_start: "sim_view (os_world (sim_start fair_world)) = Some (sim_cluster fair_world)"
  by (simp add: sim_view_def sim_start_def fair_world_def demo_world_def empty_sim_def)

lemmas fair_world_defs = fair_world_def fair_provider_def demo_defs

lemma fair_stored:
  "sim_cluster fair_world (rbacGroupBindingKind, devs_key) = Some (ORBACGroupBinding demo_binding)"
  "sim_cluster fair_world (clusterRBACGroupBindingKind, \<lparr>key_Namespace = [], key_Name = ''admins''\<rparr>) =
     Some (OClusterRBACGroupBinding demo_cluster_binding)"
  by (simp_all add: sim_cluster_def kind_names fair_world_defs)

lemma fair_access:
  "group_access fair_env demo_factory (\<lambda>_. fair_directory) (sim_cluster fair_world) ''corp'' ''cn=g'' =
     Granted {#''alice'', ''bob''#}"
proof -
  have "sim_cluster fair_world (''LDAPProvider'', \<lparr>key_Namespace = [], key_Name = ''corp''\<rparr>) =
      Some (OLDAPProvider fair_provider)"
    by (simp add: sim_cluster_def kind_names fair_world_defs)
  moreover have "provider_password fair_env demo_factory (sim_cluster fair_world) fair_provider = Some ''hunter2''"
    by (simp add: provider_password_def ca_usable_def secret_value_def sim_cluster_def kind_names fair_world_defs
        demo_factory_def)
  moreover have "admits (\<lambda>_. fair_directory) (provider_config fair_provider ''hunter2'')"
    by (simp add: admits_def fair_directory_def provider_config_def needsStartTLS_def isLDAPS_def HasPrefix_def
        fair_world_defs)
  moreover have "directory_members fair_env (provider_config fair_provider ''hunter2'') small_search
      (\<lambda>_. Inr \<lparr>res_Entries = [], res_Referrals = []\<rparr>) ''cn=g'' = Members {#''alice'', ''bob''#}"
    by (simp add: directory_members_def group_missing_def resolved_members_def member_DNs_def
        member_name_def userRequest_def groupRequest_def NewSearchRequest_def small_search_def user_entry_def
        named_def fair_defs provider_config_def fair_world_defs LDAPResultReferral_def LDAPResultNoSuchObject_def)
  ultimately show ?thesis
    by (simp add: group_access_def directory_access_def) (simp add: fair_directory_def)
qed

end
