(* ===== verification/Eventual_Access.thy ===== *)
theory Eventual_Access
  imports Fair_World
begin

text \<open>
  What the contracts of \<open>Convergence\<close> come to for the two binding reconcilers with the client
  factory of production: the refinement of the specification by one reconcile, any sequence of
  reconciles, and the steady state that follows.
\<close>

section \<open>One reconcile\<close>













section \<open>Any sequence of reconciles\<close>

























section \<open>Steady state\<close>










end
