(* ===== verification/LDAPProvider_Controller.thy ===== *)
theory LDAPProvider_Controller
  imports Controller_Base Indexers
begin

text \<open>
  \<open>ldapprovider_controller.go\<close>: the reconciler that checks a provider's specification, tries
  its directory with a bind, and keeps a provider that bindings still refer to from being
  deleted. Its pinger resolver and its limiter registry (an address, or none) are
  parameters. An update writes the server's answer back into the object, which is the one
  the code goes on with.
\<close>

definition ldapProviderKind :: string where "ldapProviderKind = ''LDAPProvider''"
definition inUseProtectionFinalizer :: string where
  "inUseProtectionFinalizer = ''ldaprbac.io/in-use-protection''"

text \<open>Durations are in nanoseconds, as Go's are.\<close>

definition inUseRecheckInterval :: duration where "inUseRecheckInterval = 30 * 1000000000"

definition validateTLSConfig :: "LDAPProviderSpec \<Rightarrow> error option" where
  "validateTLSConfig spec =
     (if HasPrefix (lps_URL spec) ''ldaps://'' then None
      else if lps_InsecureSkipTLS spec then None
      else if Option.bind (lps_TLSConfig spec) tcs_CASecretRef \<noteq> None then None
      else Some (ErrText ''ldap:// requires either tlsConfig.caSecretRef (for StartTLS) or insecureSkipTLS: true''))"

definition hasDependents :: "'w env \<Rightarrow> LDAPProvider \<Rightarrow> ('w op_state, error + bool) state" where
  "hasDependents E provider = do {
     b \<leftarrow> clientList ''RBACGroupBinding'' (rgb_client E)
            [MatchingFields providerRefIndexField (om_Name (lp_meta provider)), Limit 1];
     case b of
       Inl err \<Rightarrow> ret (Inl err)
     | Inr bindings \<Rightarrow>
         if length bindings > 0 then ret (Inr True)
         else do {
           c \<leftarrow> clientList ''ClusterRBACGroupBinding'' (crgb_client E)
                  [MatchingFields providerRefIndexField (om_Name (lp_meta provider)), Limit 1];
           case c of
             Inl err \<Rightarrow> ret (Inl err)
           | Inr clusterBindings \<Rightarrow> ret (Inr (length clusterBindings > 0))
         }
   }"

text \<open>\<open>r.Limiters.Delete(name)\<close> through the pointer, or nothing.\<close>

definition registryDelete :: "nat option \<Rightarrow> string \<Rightarrow> ('w op_state, unit) state" where
  "registryDelete reg name = (case reg of
     None \<Rightarrow> ret ()
   | Some a \<Rightarrow> State (\<lambda>s. ((), s\<lparr>os_registries := (os_registries s)(a := Limiters_Delete (os_registries s a) name)\<rparr>)))"

definition finalize :: "'w env \<Rightarrow> nat option \<Rightarrow> LDAPProvider \<Rightarrow> 'w reconciliation" where
  "finalize E limiters provider =
     (if \<not> controllerutil_ContainsFinalizer E (lp_meta provider) inUseProtectionFinalizer
      then ret (zeroResult, None)
      else do {
        d \<leftarrow> hasDependents E provider;
        case d of
          Inl err \<Rightarrow> ret (zeroResult, Some err)
        | Inr inUse \<Rightarrow>
            if inUse
            then do {
              Log ''deletion blocked: bindings still reference this provider'' [];
              recordWarning (OLDAPProvider provider) ''DeletionBlocked'' ''bindings still reference this provider'';
              ret (\<lparr>RequeueAfter = inUseRecheckInterval\<rparr>, None)
            }
            else do {
              registryDelete limiters (om_Name (lp_meta provider));
              u \<leftarrow> clientUpdate OLDAPProvider (lp_client E)
                     (provider\<lparr>lp_meta :=
                        controllerutil_RemoveFinalizer E (lp_meta provider) inUseProtectionFinalizer\<rparr>);
              ret (zeroResult, case u of Inl err \<Rightarrow> Some err | Inr _ \<Rightarrow> None)
            }
      })"

definition LP_markReady :: "'w env \<Rightarrow> LDAPProvider \<Rightarrow> 'w reconciliation" where
  "LP_markReady E provider = do {
     metric (SyncTotal_Inc ldapProviderKind ''ready'');
     now \<leftarrow> Now E;
     let status = (lp_Status provider)\<lparr>lpst_ObservedGeneration := om_Generation (lp_meta provider),
       lpst_LastVerifiedTime := Some now\<rparr>;
     cs \<leftarrow> SetStatusCondition E (lpst_Conditions status)
       (newCondition ConditionReady ConditionTrue ReasonSyncSucceeded ''bind succeeded'');
     cs \<leftarrow> SetStatusCondition E cs (newCondition ConditionDegraded ConditionFalse ReasonSyncSucceeded []);
     u \<leftarrow> clientStatusUpdate OLDAPProvider (lp_client E)
            (provider\<lparr>lp_Status := status\<lparr>lpst_Conditions := cs\<rparr>\<rparr>);
     case u of
       Inl err \<Rightarrow> ret (zeroResult, Some err)
     | Inr answer \<Rightarrow> ret (\<lparr>RequeueAfter = lps_SyncInterval (lp_Spec answer)\<rparr>, None)
   }"

definition LP_markDegraded :: "'w env \<Rightarrow> LDAPProvider \<Rightarrow> error \<Rightarrow> 'w reconciliation" where
  "LP_markDegraded E provider cause = do {
     recordWarning (OLDAPProvider provider) ''BindFailed'' (Error cause);
     metric (SyncTotal_Inc ldapProviderKind ''degraded'');
     metric (LDAPErrorsTotal_Inc (om_Name (lp_meta provider)));
     let status = (lp_Status provider)\<lparr>lpst_ObservedGeneration := om_Generation (lp_meta provider)\<rparr>;
     cs \<leftarrow> SetStatusCondition E (lpst_Conditions status)
       (newCondition ConditionReady ConditionFalse ReasonLDAPUnreachable (Error cause));
     cs \<leftarrow> SetStatusCondition E cs
       (newCondition ConditionDegraded ConditionTrue ReasonLDAPUnreachable (Error cause));
     u \<leftarrow> clientStatusUpdate OLDAPProvider (lp_client E)
            (provider\<lparr>lp_Status := status\<lparr>lpst_Conditions := cs\<rparr>\<rparr>);
     case u of
       Inl err \<Rightarrow> ret (zeroResult, Some err)
     | Inr _ \<Rightarrow> ret (zeroResult, Some cause)
   }"

definition LP_markInvalidSpec :: "'w env \<Rightarrow> LDAPProvider \<Rightarrow> error \<Rightarrow> 'w reconciliation" where
  "LP_markInvalidSpec E provider cause = do {
     recordWarning (OLDAPProvider provider) ''InvalidSpec'' (Error cause);
     metric (SyncTotal_Inc ldapProviderKind ''invalid_spec'');
     let status = (lp_Status provider)\<lparr>lpst_ObservedGeneration := om_Generation (lp_meta provider)\<rparr>;
     cs \<leftarrow> SetStatusCondition E (lpst_Conditions status)
       (newCondition ConditionReady ConditionFalse ReasonInvalidSpec (Error cause));
     u \<leftarrow> clientStatusUpdate OLDAPProvider (lp_client E)
            (provider\<lparr>lp_Status := status\<lparr>lpst_Conditions := cs\<rparr>\<rparr>);
     ret (zeroResult, case u of Inl err \<Rightarrow> Some err | Inr _ \<Rightarrow> None)
   }"

text \<open>The health check of a provider that is not being deleted and has its finalizer.\<close>

definition healthCheck :: "'w env \<Rightarrow> 'w PingerResolver \<Rightarrow> Context \<Rightarrow> LDAPProvider \<Rightarrow> 'w reconciliation" where
  "healthCheck E resolver ctx provider = do {
     (if lps_InsecureSkipTLS (lp_Spec provider)
      then Log ''provider allows insecureSkipTLS: binding in plaintext, no transport security is applied'' []
      else ret ());
     case validateTLSConfig (lp_Spec provider) of
       Some err \<Rightarrow> LP_markInvalidSpec E provider err
     | None \<Rightarrow> do {
         p \<leftarrow> resolver ctx provider;
         case p of
           Inl err \<Rightarrow> LP_markDegraded E provider err
         | Inr pinger \<Rightarrow> do {
             e \<leftarrow> pinger ctx;
             case e of
               Some err \<Rightarrow> LP_markDegraded E provider err
             | None \<Rightarrow> LP_markReady E provider
           }
       }
   }"

definition LP_reconcileBody ::
  "'w env \<Rightarrow> 'w PingerResolver \<Rightarrow> nat option \<Rightarrow> Context \<Rightarrow> ObjectKey \<Rightarrow> 'w reconciliation" where
  "LP_reconcileBody E resolver limiters ctx key = do {
     p \<leftarrow> clientGet ldapProviderKind (lp_client E) key;
     case p of
       Inl err \<Rightarrow> ret (zeroResult, IgnoreNotFound E err)
     | Inr provider \<Rightarrow>
         if om_DeletionTimestamp (lp_meta provider) \<noteq> None
         then finalize E limiters provider
         else if \<not> controllerutil_ContainsFinalizer E (lp_meta provider) inUseProtectionFinalizer
         then do {
           u \<leftarrow> clientUpdate OLDAPProvider (lp_client E)
                  (provider\<lparr>lp_meta := controllerutil_AddFinalizer E (lp_meta provider) inUseProtectionFinalizer\<rparr>);
           case u of
             Inl err \<Rightarrow> ret (zeroResult, Some err)
           | Inr answer \<Rightarrow> healthCheck E resolver ctx answer
         }
         else healthCheck E resolver ctx provider
   }"

definition LP_Reconcile ::
  "'w env \<Rightarrow> 'w PingerResolver \<Rightarrow> nat option \<Rightarrow> Context \<Rightarrow> ObjectKey \<Rightarrow> 'w reconciliation" where
  "LP_Reconcile E resolver limiters ctx key = do {
     start \<leftarrow> Now E;
     r \<leftarrow> LP_reconcileBody E resolver limiters ctx key;
     stop \<leftarrow> Now E;
     metric (SyncDuration_Observe ldapProviderKind (stop - start));
     ret r
   }"

end
