(* ===== verification/Ldap_Cost.thy ===== *)
theory Ldap_Cost
  imports Ldap_Client_Correct
begin

text \<open>
  How much a directory query asks of the directory. A lookup ends after a number of requests
  that its configuration and the size of the group's own member attribute bound, whatever the
  directory answers: nested groups are not followed by the client, and no answer makes it ask
  again. A request is a token of the limiter, a dial, an upgrade, a bind, a search or a close;
  log lines and local settings are not counted. go-ldap sends one request for each page of a paged
  search: their number is the parameter \<open>pages\<close>.
\<close>

fun weight :: "nat \<Rightarrow> action \<Rightarrow> nat" where
  "weight pages (ALog _ _) = 0"
| "weight pages (ASetTimeout _ _) = 0"
| "weight pages (ASearchPaged _ _ _) = pages"
| "weight pages _ = 1"

definition requests :: "nat \<Rightarrow> action list \<Rightarrow> nat" where
  "requests pages as = sum_list (map (weight pages) as)"

lemma requests_simps [simp]:
  "requests p [] = 0" "requests p (a # as) = weight p a + requests p as"
  "requests p (as @ bs) = requests p as + requests p bs"
  by (simp_all add: requests_def)

section \<open>Adding up\<close>

abbreviation costs :: "nat \<Rightarrow> nat \<Rightarrow> ('w op_state, 'a) state \<Rightarrow> bool" where
  "costs p n m \<equiv> emits (\<lambda>_ as. requests p as \<le> n) m"

lemma costs_mono: "costs p n m \<Longrightarrow> n \<le> k \<Longrightarrow> costs p k m"
  by (erule emits_mono) simp

lemma costs_bind: "costs p n m \<Longrightarrow> (\<And>x. costs p k (f x)) \<Longrightarrow> n + k \<le> l \<Longrightarrow> costs p l (State_Monad.bind m f)"
  by (erule emits_bind[where S = "\<lambda>_ _ as. requests p as \<le> k"]) auto

lemma costs_ret: "costs p n (ret x)"
  by (simp add: emits_ret)

lemma costs_log: "costs p n (Log msg args)" "costs p n (logReferrals op dn refs)" "costs p n (logReferralChasingSkipped op dn)"
  by (simp_all add: Log_def logReferrals_def logReferralChasingSkipped_def emits_emit emits_ret)

lemma costs_search: "costs p 1 (connSearch E c req)" "costs p p (connSearchWithPaging E c req n)"
  by (simp_all add: connSearch_def connSearchWithPaging_def emits_call)

lemma costs_sum:
  "(\<And>e. costs p n (g e)) \<Longrightarrow> (\<And>y. costs p n (h y)) \<Longrightarrow> costs p n (case x of Inl e \<Rightarrow> g e | Inr y \<Rightarrow> h y)"
  by (cases x) simp_all

lemma costs_list:
  "costs p n m \<Longrightarrow> (\<And>y ys. costs p n (h y ys)) \<Longrightarrow> costs p n (case x of [] \<Rightarrow> m | y # ys \<Rightarrow> h y ys)"
  by (cases x) simp_all

lemma costs_if: "costs p n m \<Longrightarrow> costs p n m' \<Longrightarrow> costs p n (if b then m else m')"
  by simp

lemma costs_free: "costs p 0 m \<Longrightarrow> (\<And>x. costs p n (f x)) \<Longrightarrow> costs p n (State_Monad.bind m f)"
  by (erule costs_bind) auto

lemmas costs_intros = costs_ret costs_log costs_sum costs_list costs_if

section \<open>The searches\<close>

lemma lookupGroup_costs: "costs p 1 (lookupGroup E c dn)"
  unfolding lookupGroup_def
  by (rule costs_bind[OF costs_search(1), where k = 0], intro costs_intros costs_free) simp

lemma lookupUsername_costs: "costs p 1 (lookupUsername E cfg c dn)"
  unfolding lookupUsername_def
  by (rule costs_bind[OF costs_search(1), where k = 0], intro costs_intros costs_free) simp

lemma resolveMemberDNs_costs: "costs p (length dns) (resolveMemberDNs E cfg c dns ms)"
proof (induction dns arbitrary: ms)
  case Nil
  show ?case unfolding resolveMemberDNs.simps by (rule costs_ret)
next
  case (Cons dn dns)
  show ?case
    unfolding resolveMemberDNs.simps
    by (rule costs_bind[OF lookupUsername_costs, where k = "length dns"]) (auto intro!: costs_intros Cons.IH)
qed

text \<open>The members that a group entry lists itself.\<close>

definition member_values :: "'w env \<Rightarrow> Entry \<Rightarrow> string list" where
  "member_values E g = (let ms = ldap_GetAttributeValues E g ''member'' in
     if ms = [] then ldap_GetAttributeValues E g ''uniqueMember'' else ms)"

lemma resolveMembers_costs: "costs p (p + length (member_values E g)) (resolveMembers E cfg c dn g)"
  unfolding resolveMembers_def
proof (rule costs_bind[OF costs_search(2), where k = "length (member_values E g)"])
  show "costs p (length (member_values E g)) (case r of
       Inl err \<Rightarrow> do {
         (if ldap_IsErrorWithCode E err LDAPResultReferral
          then logReferralChasingSkipped ''reverse membership query'' dn else ret ());
         ret (Inl (Errorf_w ''query members via memberOf: '' err []))
       }
     | Inr result \<Rightarrow> do {
         logReferrals ''reverse membership query'' dn (res_Referrals result);
         if res_Entries result \<noteq> []
         then ret (Inr (usernames E (res_Entries result) (cfg_UsernameAttribute cfg)))
         else do {
           let memberDNs = ldap_GetAttributeValues E g ''member'';
           let memberDNs = (if memberDNs = [] then ldap_GetAttributeValues E g ''uniqueMember'' else memberDNs);
           resolveMemberDNs E cfg c memberDNs []
         }
       })" for r
    using resolveMemberDNs_costs[of p "member_values E g" E cfg c "[]"] unfolding member_values_def Let_def
    by (intro costs_sum costs_free costs_if costs_log costs_ret)
qed simp

text \<open>How many members the entry lists that the group lookup finds from a state on.\<close>

definition listed :: "'w env \<Rightarrow> conn \<Rightarrow> string \<Rightarrow> 'w op_state \<Rightarrow> nat" where
  "listed E c dn t = (case fst (run_state (lookupGroup E c dn) t) of Inl _ \<Rightarrow> 0 | Inr g \<Rightarrow> length (member_values E g))"

lemma queryMembers_costs:
  assumes run: "run_state (queryMembers E cfg c dn) s = (r, u)"
  obtains "as" where "os_trace u = os_trace s @ as" and "requests p as \<le> 1 + p + listed E c dn s"
proof -
  obtain g t where g: "run_state (lookupGroup E c dn) s = (g, t)" by (cases "run_state (lookupGroup E c dn) s")
  obtain ls where ls: "os_trace t = os_trace s @ ls" "requests p ls \<le> 1" by (rule emits_run[OF lookupGroup_costs g])
  show thesis
  proof (cases g)
    case (Inl err)
    with run g have "u = t" by (simp add: queryMembers_def)
    with ls that[of ls] show thesis by simp
  next
    case (Inr e)
    have "costs p (p + length (member_values E e)) (do {
        m \<leftarrow> resolveMembers E cfg c dn e;
        case m of
          Inl err \<Rightarrow> ret (Inl (Errorf_w (''ldapclient: resolve members for '' @ dn @ '': '') err []))
        | Inr members \<Rightarrow> ret (Inr (sort members)) })" (is "costs _ _ ?m")
      by (rule costs_bind[OF resolveMembers_costs, where k = 0], intro costs_sum costs_ret) simp
    moreover have "run_state ?m t = (r, u)"
      using run unfolding queryMembers_def by (simp only: run_state_bind g Inr prod.case sum.case)
    ultimately obtain ms where "os_trace u = os_trace t @ ms" "requests p ms \<le> p + length (member_values E e)"
      by (rule emits_run)
    with ls g Inr that[of "ls @ ms"] show thesis by (simp add: listed_def)
  qed
qed

section \<open>The connection\<close>

lemma connect_requests:
  "connect_trace cfg r as \<Longrightarrow> requests p as \<le> (case r of Inl _ \<Rightarrow> 5 | Inr _ \<Rightarrow> 4)"
proof -
  have wait: "wait_trace cfg w ws \<Longrightarrow> requests p ws \<le> 1" for w ws by (auto elim: wait_trace.cases)
  have dial: "dial_trace cfg (Inl e) ds \<Longrightarrow> requests p ds \<le> 3" for e ds by (auto elim: dial_trace.cases)
  have upgrade: "requests p (upgrade cfg c) \<le> 1" for c by (simp add: upgrade_def)
  have timeouts: "list_all (\<lambda>a. \<exists>d. a = ASetTimeout c d) ts \<Longrightarrow> requests p ts = 0" for c ts
    by (induction ts) auto
  show "connect_trace cfg r as \<Longrightarrow> requests p as \<le> (case r of Inl _ \<Rightarrow> 5 | Inr _ \<Rightarrow> 4)"
  proof (induction rule: connect_trace.induct)
    case (rate_limited err ws err')
    then show ?case using wait by fastforce
  next
    case (dial_failed ws err ds err')
    then show ?case using wait[of None ws] dial[of err ds] by simp
  next
    case (bind_failed ws c ts err)
    then show ?case using wait[of None ws] upgrade[of c] timeouts[of c ts] by simp
  next
    case (connected ws c ts)
    then show ?case using wait[of None ws] upgrade[of c] timeouts[of c ts] by simp
  qed
qed

section \<open>Guarantees\<close>

text \<open>
  C29. A lookup always ends. If its one paged search takes \<open>p\<close> pages, it makes at most \<open>6 + p\<close> requests
  and one more for each member that the group entry it found lists in its \<open>member\<close> attribute
  (in \<open>uniqueMember\<close> where that is empty), whatever the directory answers; without a connection
  it makes at most five, and so does a ping. Neither an error nor a referral nor a nested group
  makes the client ask more.
\<close>

theorem directory_calls_bounded:
  "(\<exists>as. os_trace (snd (run_state (GetGroupMembers E cfg ctx dn) s)) = os_trace s @ as \<and>
      (case run_state (connectAndBind E cfg ctx) s of
         (Inl _, _) \<Rightarrow> requests p as \<le> 5
       | (Inr c, t) \<Rightarrow> requests p as \<le> 6 + p + listed E c dn t)) \<and>
   emits (\<lambda>_ as. requests p as \<le> 5) (Ping E cfg ctx)"
proof
  obtain r t where r: "run_state (connectAndBind E cfg ctx) s = (r, t)" by (cases "run_state (connectAndBind E cfg ctx) s")
  obtain cs where cs: "os_trace t = os_trace s @ cs" "connect_trace cfg r cs" by (rule emits_run[OF connect_emits r])
  show "\<exists>as. os_trace (snd (run_state (GetGroupMembers E cfg ctx dn) s)) = os_trace s @ as \<and>
      (case run_state (connectAndBind E cfg ctx) s of
         (Inl _, _) \<Rightarrow> requests p as \<le> 5
       | (Inr c, t) \<Rightarrow> requests p as \<le> 6 + p + listed E c dn t)"
  proof (cases r)
    case (Inl err)
    with r cs connect_requests[OF cs(2), of p] show ?thesis by (simp add: GetGroupMembers_query)
  next
    case (Inr c)
    obtain q t' where q: "run_state (queryMembers E cfg c dn) t = (q, t')" by (cases "run_state (queryMembers E cfg c dn) t")
    obtain qs where qs: "os_trace t' = os_trace t @ qs" "requests p qs \<le> 1 + p + listed E c dn t"
      by (rule queryMembers_costs[OF q])
    have "os_trace (snd (run_state (GetGroupMembers E cfg ctx dn) s)) = os_trace s @ cs @ qs @ [AClose c]"
      using r Inr q qs(1) cs(1) by (simp add: GetGroupMembers_query connClose_def call_def split: prod.splits)
    with r Inr connect_requests[OF cs(2), of p] qs(2) show ?thesis by (intro exI[of _ "cs @ qs @ [AClose c]"]) simp
  qed
  show "emits (\<lambda>_ as. requests p as \<le> 5) (Ping E cfg ctx)"
    unfolding Ping_def
  proof (rule emits_bind[OF connect_emits])
    fix r
    show "emits (\<lambda>_ bs. requests p bs \<le> (case r of Inl _ \<Rightarrow> 0 | Inr _ \<Rightarrow> 1))
        (case r of Inl err \<Rightarrow> ret (Some err) | Inr conn \<Rightarrow> do { _ \<leftarrow> connClose E conn; ret None })"
      by (cases r) (auto simp: emits_ret intro: emits_mono[OF close_emits])
  qed (auto dest!: connect_requests[where p = p] split: sum.splits)
qed

end
