(* ===== verification/Readiness.thy ===== *)
theory Readiness
  imports LDAPProvider_Guarantees
begin

text \<open>
  \<open>readiness.go\<close>: the readiness endpoint, which reports from the cached status of the
  providers and never dials a directory. The timeout bounds the list call only, which is a
  parameter, so it is kept as data.
\<close>

record LDAPProviderReadiness =
  rd_timeout :: duration

definition readinessCacheTimeout :: duration where "readinessCacheTimeout = 1000000000"

definition NewLDAPProviderReadiness :: LDAPProviderReadiness where
  "NewLDAPProviderReadiness = \<lparr>rd_timeout = readinessCacheTimeout\<rparr>"

text \<open>The loop over the providers: the first one that is not ready decides.\<close>

fun checkProviders :: "'w env \<Rightarrow> LDAPProvider list \<Rightarrow> error option" where
  "checkProviders E [] = None"
| "checkProviders E (provider # ps) =
     (case findCondition (lpst_Conditions (lp_Status provider)) ConditionReady of
        None \<Rightarrow> Some (ErrText (''LDAPProvider '' @ strconv_Quote E (om_Name (lp_meta provider)) @
                  '' has not completed a readiness check''))
      | Some condition \<Rightarrow>
          if c_Status condition \<noteq> ConditionTrue
          then Some (ErrText (''LDAPProvider '' @ strconv_Quote E (om_Name (lp_meta provider)) @
                 '' is not ready: '' @ c_Reason condition))
          else checkProviders E ps)"

definition Check :: "'w env \<Rightarrow> LDAPProviderReadiness \<Rightarrow> ('w op_state, error option) state" where
  "Check E r = do {
     l \<leftarrow> clientList ''LDAPProvider'' (lp_client E) [];
     case l of
       Inl err \<Rightarrow> ret (Some (Errorf_w ''list LDAPProviders from cache: '' err []))
     | Inr items \<Rightarrow> ret (checkProviders E items)
   }"

section \<open>Guarantees\<close>

definition provider_ready :: "LDAPProvider \<Rightarrow> bool" where
  "provider_ready p \<longleftrightarrow> (case findCondition (lpst_Conditions (lp_Status p)) ConditionReady of
     None \<Rightarrow> False | Some c \<Rightarrow> c_Status c = ConditionTrue)"

lemma checkProviders_None: "checkProviders E ps = None \<longleftrightarrow> list_all provider_ready ps"
  by (induction ps) (auto simp: provider_ready_def split: option.splits)

text \<open>The provider named in a refusal is one that is not ready, the first of the list.\<close>

lemma checkProviders_Some:
  "checkProviders E ps = Some err \<Longrightarrow> \<exists>qs p rs. ps = qs @ p # rs \<and> list_all provider_ready qs \<and>
     \<not> provider_ready p \<and> (\<exists>rest. Error err = ''LDAPProvider '' @ strconv_Quote E (om_Name (lp_meta p)) @ rest)"
proof (induction ps)
  case Nil
  then show ?case by simp
next
  case (Cons p ps)
  show ?case
  proof (cases "provider_ready p")
    case True
    with Cons.prems have "checkProviders E ps = Some err"
      by (auto simp: provider_ready_def split: option.splits)
    from Cons.IH[OF this] obtain qs q rs where "ps = qs @ q # rs" "list_all provider_ready qs" "\<not> provider_ready q"
      "\<exists>rest. Error err = ''LDAPProvider '' @ strconv_Quote E (om_Name (lp_meta q)) @ rest" by blast
    with True show ?thesis by (intro exI[of _ "p # qs"] exI[of _ q] exI[of _ rs]) simp
  next
    case False
    with Cons.prems show ?thesis
      by (intro exI[of _ "[]"] exI[of _ p] exI[of _ ps])
        (auto simp: provider_ready_def split: option.splits if_splits)
  qed
qed

text \<open>
  C20. The readiness endpoint says yes exactly when the cache answers and every cached
  provider has a Ready condition that is true; a refusal that is not a failed list names a
  provider that is not ready. Asking costs one list call and never reaches a directory.
\<close>

theorem readiness_exact:
  assumes "klist_ok (lp_client E) lp_meta lp_index P" and "run_state (Check E rd) s = (r, u)"
  shows "(r = None \<longleftrightarrow> (\<exists>xs w. k_List (lp_client E) [] (os_world s) = (Inr xs, w)) \<and>
       (\<forall>p \<in> P (os_world s). provider_ready p)) \<and>
    (\<forall>err. r = Some err \<and> (\<exists>xs w. k_List (lp_client E) [] (os_world s) = (Inr xs, w)) \<longrightarrow>
       (\<exists>p \<in> P (os_world s). \<not> provider_ready p \<and>
          (\<exists>rest. Error err = ''LDAPProvider '' @ strconv_Quote E (om_Name (lp_meta p)) @ rest))) \<and>
    os_trace u = os_trace s @ [AList ''LDAPProvider'' []]"
proof (cases "k_List (lp_client E) [] (os_world s)")
  case (Pair l w)
  then have u: "os_trace u = os_trace s @ [AList ''LDAPProvider'' []]"
    using assms(2) by (auto simp: Check_def clientList_def call_def split: sum.splits)
  show ?thesis
  proof (cases l)
    case (Inl e)
    with Pair assms(2) u show ?thesis by (auto simp: Check_def clientList_def call_def)
  next
    case (Inr xs)
    have "set xs = P (os_world s)"
      using klist_okD(1)[OF assms(1), of "[]"] Pair Inr by (simp add: selected_def)
    moreover have "r = checkProviders E xs"
      using Pair Inr assms(2) by (auto simp: Check_def clientList_def call_def)
    moreover have named: "\<exists>p \<in> set xs. \<not> provider_ready p \<and>
        (\<exists>rest. Error err = ''LDAPProvider '' @ strconv_Quote E (om_Name (lp_meta p)) @ rest)"
      if "checkProviders E xs = Some err" for err
      using checkProviders_Some[OF that] by auto
    ultimately show ?thesis
      using Pair Inr u named by (auto simp: checkProviders_None list_all_iff)
  qed
qed

theorem readiness_exact_witness:
  "fst (run_state (Check sim_env NewLDAPProviderReadiness) (sim_start demo_world)) \<noteq> None"
proof -
  let ?run = "run_state (Check sim_env NewLDAPProviderReadiness) (sim_start demo_world)"
  have "demo_provider \<in> set (sim_lps (os_world (sim_start demo_world)))" "\<not> provider_ready demo_provider"
    by (simp_all add: sim_start_def demo_defs provider_ready_def)
  then show ?thesis
    using readiness_exact[OF sim_list_ok(3) prod.collapse[of ?run, symmetric]] by blast
qed

text \<open>
  Readiness follows the health check: in the status that a check writes at its end, the
  provider counts as ready for the endpoint exactly if the check found it healthy.
\<close>

theorem readiness_follows_health:
  assumes "SetStatusCondition_ok E" and "run_state (diagnose resolver ctx p) s = (h, t)"
    and "run_state (healthCheck E resolver ctx p) s = (r, u)"
  shows "\<exists>p' ok. last (os_trace u) = AStatusUpdate (OLDAPProvider p') ok \<and> lp_meta p' = lp_meta p \<and>
    (provider_ready p' \<longleftrightarrow> h = Healthy)"
proof -
  have "run_state (LP_mark E p h) t = (r, u)" using assms(2,3) by (simp add: healthCheck_diagnose)
  from postD[OF LP_mark_reports[OF assms(1)] this]
  obtain es p' ok where p': "os_trace u = os_trace t @ es @ [AStatusUpdate (OLDAPProvider p') ok]" "lp_meta p' = lp_meta p"
    and conds: "list_all (has_condition (lpst_Conditions (lp_Status p'))) (health_conditions h)"
    unfolding reports_health_def by blast
  have "provider_ready p' \<longleftrightarrow> h = Healthy"
    using conds by (cases h) (auto simp: health_conditions_def has_condition_def same_condition_def
        newCondition_def provider_ready_def)
  with p' show ?thesis by (intro exI[of _ p'] exI[of _ ok]) simp
qed

theorem readiness_follows_health_witness:
  "\<exists>p' ok. last (os_trace (snd (run_state (healthCheck sim_env reachable demo_ctx plain_provider)
      (sim_start demo_world)))) = AStatusUpdate (OLDAPProvider p') ok \<and> provider_ready p'"
proof -
  let ?run = "run_state (healthCheck sim_env reachable demo_ctx plain_provider) (sim_start demo_world)"
  obtain t where "run_state (diagnose reachable demo_ctx plain_provider) (sim_start demo_world) = (Healthy, t)"
    using plain_diagnosis by blast
  from readiness_follows_health[OF sim_SetStatusCondition_ok this prod.collapse[of ?run, symmetric]]
  show ?thesis by auto
qed

end
