(* ===== verification/Mappers.thy ===== *)
theory Mappers
  imports Grouper_Factory
begin

text \<open>
  \<open>mappers.go\<close>: which bindings are reconciled again when a provider or a secret changes.
  A mapper lists through the field indexes and returns the keys of what it finds; a list
  that fails yields nothing. The two kinds of binding have the same mappers, so what is
  proved about them is proved once, in a locale that both instantiate.
\<close>

section \<open>The mappers\<close>

definition mapProviderToRBACGroupBindings :: "'w env \<Rightarrow> object \<Rightarrow> ('w op_state, ObjectKey list) state" where
  "mapProviderToRBACGroupBindings E obj = (case obj of
     OLDAPProvider provider \<Rightarrow> do {
       r \<leftarrow> clientList ''RBACGroupBinding'' (rgb_client E)
              [MatchingFields providerRefIndexField (om_Name (lp_meta provider))];
       case r of
         Inl err \<Rightarrow> ret []
       | Inr items \<Rightarrow> ret (map (\<lambda>item. ObjectKeyFromObject (rgb_meta item)) items)
     }
   | _ \<Rightarrow> ret [])"

definition mapProviderToClusterRBACGroupBindings :: "'w env \<Rightarrow> object \<Rightarrow> ('w op_state, ObjectKey list) state" where
  "mapProviderToClusterRBACGroupBindings E obj = (case obj of
     OLDAPProvider provider \<Rightarrow> do {
       r \<leftarrow> clientList ''ClusterRBACGroupBinding'' (crgb_client E)
              [MatchingFields providerRefIndexField (om_Name (lp_meta provider))];
       case r of
         Inl err \<Rightarrow> ret []
       | Inr items \<Rightarrow> ret (map (\<lambda>item. ObjectKeyFromObject (crgb_meta item)) items)
     }
   | _ \<Rightarrow> ret [])"

definition providersReferencingSecret :: "'w env \<Rightarrow> string \<Rightarrow> ('w op_state, LDAPProvider list) state" where
  "providersReferencingSecret E secretName = do {
     r \<leftarrow> clientList ''LDAPProvider'' (lp_client E) [MatchingFields secretRefIndexField secretName];
     case r of Inl err \<Rightarrow> ret [] | Inr items \<Rightarrow> ret items
   }"

text \<open>The loops over the providers, with the requests gathered so far.\<close>

fun secretRequestsRBAC :: "'w env \<Rightarrow> LDAPProvider list \<Rightarrow> ObjectKey list \<Rightarrow> ('w op_state, ObjectKey list) state" where
  "secretRequestsRBAC E [] requests = ret requests"
| "secretRequestsRBAC E (provider # ps) requests = do {
     r \<leftarrow> clientList ''RBACGroupBinding'' (rgb_client E)
            [MatchingFields providerRefIndexField (om_Name (lp_meta provider))];
     case r of
       Inl err \<Rightarrow> secretRequestsRBAC E ps requests
     | Inr items \<Rightarrow> secretRequestsRBAC E ps (requests @ map (\<lambda>item. ObjectKeyFromObject (rgb_meta item)) items)
   }"

definition mapSecretToRBACGroupBindings :: "'w env \<Rightarrow> object \<Rightarrow> ('w op_state, ObjectKey list) state" where
  "mapSecretToRBACGroupBindings E obj = do {
     ps \<leftarrow> providersReferencingSecret E (om_Name (object_meta obj));
     secretRequestsRBAC E ps []
   }"

fun secretRequestsCluster :: "'w env \<Rightarrow> LDAPProvider list \<Rightarrow> ObjectKey list \<Rightarrow> ('w op_state, ObjectKey list) state" where
  "secretRequestsCluster E [] requests = ret requests"
| "secretRequestsCluster E (provider # ps) requests = do {
     r \<leftarrow> clientList ''ClusterRBACGroupBinding'' (crgb_client E)
            [MatchingFields providerRefIndexField (om_Name (lp_meta provider))];
     case r of
       Inl err \<Rightarrow> secretRequestsCluster E ps requests
     | Inr items \<Rightarrow> secretRequestsCluster E ps (requests @ map (\<lambda>item. ObjectKeyFromObject (crgb_meta item)) items)
   }"

definition mapSecretToClusterRBACGroupBindings :: "'w env \<Rightarrow> object \<Rightarrow> ('w op_state, ObjectKey list) state" where
  "mapSecretToClusterRBACGroupBindings E obj = do {
     ps \<leftarrow> providersReferencingSecret E (om_Name (object_meta obj));
     secretRequestsCluster E ps []
   }"

section \<open>The watches of a controller\<close>

text \<open>
  What a \<open>SetupWithManager\<close> tells the controller builder: the kind reconciled, the kinds
  owned, and for each further kind a map function with the predicate its objects pass.
\<close>

record 'w watch =
  w_kind :: string
  w_map :: "object \<Rightarrow> ('w op_state, ObjectKey list) state"
  w_pred :: "object \<Rightarrow> bool"

record 'w controller =
  ctl_For :: string
  ctl_Owns :: "string list"
  ctl_Watches :: "'w watch list"
  ctl_Reconciler :: "Context \<Rightarrow> ObjectKey \<Rightarrow> 'w reconciliation"

primrec object_kind :: "object \<Rightarrow> string" where
  "object_kind (ORBACGroupBinding b) = ''RBACGroupBinding''"
| "object_kind (OClusterRBACGroupBinding b) = ''ClusterRBACGroupBinding''"
| "object_kind (OLDAPProvider p) = ''LDAPProvider''"
| "object_kind (ORoleBinding b) = ''RoleBinding''"
| "object_kind (OClusterRoleBinding b) = ''ClusterRoleBinding''"
| "object_kind (OSecret x) = ''Secret''"

definition RGB_SetupWithManager ::
  "'w env \<Rightarrow> string \<Rightarrow> (Context \<Rightarrow> ObjectKey \<Rightarrow> 'w reconciliation) \<Rightarrow> 'w controller" where
  "RGB_SetupWithManager E secretNamespace r = \<lparr>
     ctl_For = ''RBACGroupBinding'',
     ctl_Owns = [''RoleBinding''],
     ctl_Watches =
       [\<lparr>w_kind = ''LDAPProvider'', w_map = mapProviderToRBACGroupBindings E, w_pred = (\<lambda>_. True)\<rparr>,
        \<lparr>w_kind = ''Secret'', w_map = mapSecretToRBACGroupBindings E,
         w_pred = (\<lambda>obj. om_Namespace (object_meta obj) = secretNamespace)\<rparr>],
     ctl_Reconciler = r\<rparr>"

definition CRGB_SetupWithManager ::
  "'w env \<Rightarrow> string \<Rightarrow> (Context \<Rightarrow> ObjectKey \<Rightarrow> 'w reconciliation) \<Rightarrow> 'w controller" where
  "CRGB_SetupWithManager E secretNamespace r = \<lparr>
     ctl_For = ''ClusterRBACGroupBinding'',
     ctl_Owns = [''ClusterRoleBinding''],
     ctl_Watches =
       [\<lparr>w_kind = ''LDAPProvider'', w_map = mapProviderToClusterRBACGroupBindings E, w_pred = (\<lambda>_. True)\<rparr>,
        \<lparr>w_kind = ''Secret'', w_map = mapSecretToClusterRBACGroupBindings E,
         w_pred = (\<lambda>obj. om_Namespace (object_meta obj) = secretNamespace)\<rparr>],
     ctl_Reconciler = r\<rparr>"

definition LP_SetupWithManager :: "(Context \<Rightarrow> ObjectKey \<Rightarrow> 'w reconciliation) \<Rightarrow> 'w controller" where
  "LP_SetupWithManager r = \<lparr>ctl_For = ''LDAPProvider'', ctl_Owns = [], ctl_Watches = [], ctl_Reconciler = r\<rparr>"

text \<open>
  The requests that the builder's watches produce for a changed object: those of every watch
  on its kind whose predicate it passes.
\<close>

fun watchRequests :: "'w watch list \<Rightarrow> object \<Rightarrow> ('w op_state, ObjectKey list) state" where
  "watchRequests [] obj = ret []"
| "watchRequests (w # ws) obj = do {
     xs \<leftarrow> (if w_kind w = object_kind obj \<and> w_pred w obj then w_map w obj else ret []);
     ys \<leftarrow> watchRequests ws obj;
     ret (xs @ ys)
   }"

section \<open>What the mappers return\<close>

text \<open>
  A list call in a cache at rest: it is answered, and it changes no cache. \<open>P\<close> and \<open>B\<close> are
  the cached providers and bindings.
\<close>

definition lists_steadily :: "('w, 'o) kclient \<Rightarrow> ('w \<Rightarrow> 'a) \<Rightarrow> bool" where
  "lists_steadily K obs \<longleftrightarrow> (\<forall>opts w. \<exists>xs w'. k_List K opts w = (Inr xs, w') \<and> obs w' = obs w)"

locale watch_mapper =
  fixes E :: "'w env" and K :: "('w, 'b) kclient" and kind :: string
    and meta :: "'b \<Rightarrow> ObjectMeta" and idx :: "'b \<Rightarrow> string \<Rightarrow> string list" and ref :: "'b \<Rightarrow> string"
    and mapProvider mapSecret :: "object \<Rightarrow> ('w op_state, ObjectKey list) state"
    and loop :: "LDAPProvider list \<Rightarrow> ObjectKey list \<Rightarrow> ('w op_state, ObjectKey list) state"
  assumes index_ref: "idx b providerRefIndexField = [ref b]"
    and provider_map: "mapProvider (OLDAPProvider p) = do {
      r \<leftarrow> clientList kind K [MatchingFields providerRefIndexField (om_Name (lp_meta p))];
      case r of Inl err \<Rightarrow> ret [] | Inr items \<Rightarrow> ret (map (\<lambda>x. ObjectKeyFromObject (meta x)) items) }"
    and secret_map: "mapSecret obj = do {
      ps \<leftarrow> providersReferencingSecret E (om_Name (object_meta obj)); loop ps [] }"
    and loop_Nil: "loop [] reqs = ret reqs"
    and loop_Cons: "loop (p # ps) reqs = do {
      r \<leftarrow> clientList kind K [MatchingFields providerRefIndexField (om_Name (lp_meta p))];
      case r of Inl err \<Rightarrow> loop ps reqs
      | Inr items \<Rightarrow> loop ps (reqs @ map (\<lambda>x. ObjectKeyFromObject (meta x)) items) }"
begin

definition keys_of :: "'b set \<Rightarrow> string set \<Rightarrow> ObjectKey set" where
  "keys_of S names = (\<lambda>x. ObjectKeyFromObject (meta x)) ` {b \<in> S. ref b \<in> names}"

lemma keys_of_Un: "keys_of S (insert n names) = keys_of S {n} \<union> keys_of S names"
  by (auto simp: keys_of_def)

lemma list_by_ref:
  assumes "klist_ok K meta idx B" and "k_List K [MatchingFields providerRefIndexField name] w = (Inr xs, w')"
  shows "(\<lambda>x. ObjectKeyFromObject (meta x)) ` set xs = keys_of (B w) {name}"
  using klist_okD(1)[OF assms] by (auto simp: selected_def index_ref keys_of_def)

lemma provider_requests:
  assumes "klist_ok K meta idx B"
  shows "set (fst (run_state (mapProvider (OLDAPProvider p)) s)) =
    (case fst (k_List K [MatchingFields providerRefIndexField (om_Name (lp_meta p))] (os_world s)) of
       Inl _ \<Rightarrow> {} | Inr _ \<Rightarrow> keys_of (B (os_world s)) {om_Name (lp_meta p)})"
  by (auto simp: provider_map clientList_def call_def list_by_ref[OF assms] split: sum.splits prod.splits)

lemma loop_requests:
  assumes "klist_ok K meta idx B" and "lists_steadily K B" and "B (os_world s) = S"
  shows "set (fst (run_state (loop ps reqs) s)) = set reqs \<union> keys_of S ((\<lambda>p. om_Name (lp_meta p)) ` set ps)"
  using assms(3)
proof (induction ps arbitrary: reqs s)
  case Nil
  then show ?case by (simp add: loop_Nil keys_of_def)
next
  case (Cons p ps)
  obtain xs w' where l: "k_List K [MatchingFields providerRefIndexField (om_Name (lp_meta p))] (os_world s) = (Inr xs, w')"
    "B w' = B (os_world s)"
    using assms(2) unfolding lists_steadily_def by blast
  define t where "t = s\<lparr>os_world := w', os_trace := os_trace s @
    [AList kind [MatchingFields providerRefIndexField (om_Name (lp_meta p))]]\<rparr>"
  have "B (os_world t) = S" using l(2) Cons.prems by (simp add: t_def)
  note IH = Cons.IH[OF this, of "reqs @ map (\<lambda>x. ObjectKeyFromObject (meta x)) xs"]
  have "run_state (loop (p # ps) reqs) s = run_state (loop ps (reqs @ map (\<lambda>x. ObjectKeyFromObject (meta x)) xs)) t"
    using l by (simp add: loop_Cons clientList_def call_def t_def)
  with IH show ?case
    using list_by_ref[OF assms(1) l(1)] Cons.prems
      keys_of_Un[of S "om_Name (lp_meta p)" "(\<lambda>p. om_Name (lp_meta p)) ` set ps"]
    by (simp only: list.set(2) image_insert set_append set_map) blast
qed

lemma secret_requests:
  assumes "klist_ok K meta idx B" and "lists_steadily K B"
    and "klist_ok (lp_client E) lp_meta lp_index P" and "lists_steadily (lp_client E) B"
  shows "set (fst (run_state (mapSecret obj) s)) =
    keys_of (B (os_world s)) {om_Name (lp_meta p) |p.
      p \<in> P (os_world s) \<and> om_Name (object_meta obj) \<in> set (indexLDAPProvider p)}"
proof -
  let ?opts = "[MatchingFields secretRefIndexField (om_Name (object_meta obj))]"
  obtain ps w' where l: "k_List (lp_client E) ?opts (os_world s) = (Inr ps, w')" "B w' = B (os_world s)"
    using assms(4) unfolding lists_steadily_def by blast
  have ps: "(\<lambda>p. om_Name (lp_meta p)) ` set ps = {om_Name (lp_meta p) |p.
      p \<in> P (os_world s) \<and> om_Name (object_meta obj) \<in> set (indexLDAPProvider p)}"
    using klist_okD(1)[OF assms(3) l(1)] by (auto simp: selected_def)
  define t where "t = s\<lparr>os_world := w', os_trace := os_trace s @ [AList ''LDAPProvider'' ?opts]\<rparr>"
  have "run_state (mapSecret obj) s = run_state (loop ps []) t"
    using l(1) by (simp add: secret_map providersReferencingSecret_def clientList_def call_def t_def)
  then show ?thesis
    using loop_requests[OF assms(1,2), of t "B (os_world s)" ps "[]"] l(2) ps by (simp add: t_def)
qed

end

interpretation rgb_mapper: watch_mapper E "rgb_client E" "''RBACGroupBinding''" rgb_meta rgb_index
  "\<lambda>b. rgbs_ProviderRef (rgb_Spec b)" "mapProviderToRBACGroupBindings E" "mapSecretToRBACGroupBindings E"
  "secretRequestsRBAC E" for E
  by unfold_locales (simp_all add: mapProviderToRBACGroupBindings_def mapSecretToRBACGroupBindings_def)

interpretation crgb_mapper: watch_mapper E "crgb_client E" "''ClusterRBACGroupBinding''" crgb_meta crgb_index
  "\<lambda>b. crgbs_ProviderRef (crgb_Spec b)" "mapProviderToClusterRBACGroupBindings E"
  "mapSecretToClusterRBACGroupBindings E" "secretRequestsCluster E" for E
  by unfold_locales
    (simp_all add: mapProviderToClusterRBACGroupBindings_def mapSecretToClusterRBACGroupBindings_def)

section \<open>Guarantees\<close>

text \<open>The watches of the two binding controllers, by the kind of the changed object.\<close>

lemma binding_watches:
  "watchRequests (ctl_Watches (RGB_SetupWithManager E ns r)) (OLDAPProvider p) =
     mapProviderToRBACGroupBindings E (OLDAPProvider p)"
  "watchRequests (ctl_Watches (RGB_SetupWithManager E ns r)) (OSecret x) =
     (if om_Namespace (sec_meta x) = ns then mapSecretToRBACGroupBindings E (OSecret x) else ret [])"
  "watchRequests (ctl_Watches (CRGB_SetupWithManager E ns r)) (OLDAPProvider p) =
     mapProviderToClusterRBACGroupBindings E (OLDAPProvider p)"
  "watchRequests (ctl_Watches (CRGB_SetupWithManager E ns r)) (OSecret x) =
     (if om_Namespace (sec_meta x) = ns then mapSecretToClusterRBACGroupBindings E (OSecret x) else ret [])"
  by (simp_all add: RGB_SetupWithManager_def CRGB_SetupWithManager_def)

text \<open>
  C17. A changed provider reaches its bindings: the watches of the two controllers enqueue
  exactly the keys of the cached bindings that refer to it by name, when the list call is
  answered, and nothing when it fails.
\<close>

theorem provider_change_resyncs:
  assumes "klist_ok (rgb_client E) rgb_meta rgb_index R" and "klist_ok (crgb_client E) crgb_meta crgb_index C"
  shows "set (fst (run_state (watchRequests (ctl_Watches (RGB_SetupWithManager E ns r)) (OLDAPProvider p)) s)) =
      (case fst (k_List (rgb_client E) [MatchingFields providerRefIndexField (om_Name (lp_meta p))] (os_world s)) of
         Inl _ \<Rightarrow> {}
       | Inr _ \<Rightarrow> (\<lambda>b. ObjectKeyFromObject (rgb_meta b)) `
           {b \<in> R (os_world s). rgbs_ProviderRef (rgb_Spec b) = om_Name (lp_meta p)}) \<and>
    set (fst (run_state (watchRequests (ctl_Watches (CRGB_SetupWithManager E ns r)) (OLDAPProvider p)) s)) =
      (case fst (k_List (crgb_client E) [MatchingFields providerRefIndexField (om_Name (lp_meta p))] (os_world s)) of
         Inl _ \<Rightarrow> {}
       | Inr _ \<Rightarrow> (\<lambda>b. ObjectKeyFromObject (crgb_meta b)) `
           {b \<in> C (os_world s). crgbs_ProviderRef (crgb_Spec b) = om_Name (lp_meta p)})"
  unfolding binding_watches rgb_mapper.provider_requests[OF assms(1)] crgb_mapper.provider_requests[OF assms(2)]
    rgb_mapper.keys_of_def crgb_mapper.keys_of_def singleton_iff
  by (intro conjI refl)

theorem provider_change_resyncs_witness:
  "set (fst (run_state (watchRequests (ctl_Watches (RGB_SetupWithManager sim_env ''ops''
     (\<lambda>_ _. ret (zeroResult, None)))) (OLDAPProvider demo_provider)) (sim_start demo_world))) = {\<lparr>key_Namespace = ''team'', key_Name = ''devs''\<rparr>}"
proof -
  have world: "os_world (sim_start demo_world) = demo_world" by (simp add: sim_start_def)
  have list: "fst (k_List (rgb_client sim_env) [MatchingFields providerRefIndexField (om_Name (lp_meta demo_provider))]
      demo_world) = Inr [demo_binding]"
    by (simp add: sim_env_def sim_kclient_def demo_defs)
  have "(\<lambda>b. ObjectKeyFromObject (rgb_meta b)) `
      {b \<in> set (sim_rgbs demo_world). rgbs_ProviderRef (rgb_Spec b) = om_Name (lp_meta demo_provider)} =
    {\<lparr>key_Namespace = ''team'', key_Name = ''devs''\<rparr>}"
    by (auto simp: demo_defs)
  then show ?thesis
    using provider_change_resyncs[OF sim_list_ok(1,2), of "''ops''" "\<lambda>_ _. ret (zeroResult, None)" demo_provider
        "sim_start demo_world"]
    unfolding world list by simp
qed









end
