(* ===== verification/Webhook.thy ===== *)
theory Webhook
  imports Sim_World
begin

text \<open>
  \<open>internal/webhook\<close>: the admission validators that refuse a binding whose group and role are
  already mapped by another binding in the same scope. A validator lists the siblings and
  returns warnings (it never has any) and an error that refuses the request.
\<close>

section \<open>RBACGroupBinding\<close>

text \<open>The loop of \<open>rejectDuplicate\<close> over the listed bindings.\<close>

fun RGB_duplicate :: "'w env \<Rightarrow> RBACGroupBinding \<Rightarrow> RBACGroupBinding list \<Rightarrow> error option" where
  "RGB_duplicate E binding [] = None"
| "RGB_duplicate E binding (existing # items) =
     (if om_Name (rgb_meta existing) = om_Name (rgb_meta binding) then RGB_duplicate E binding items
      else if rgbs_GroupDN (rgb_Spec existing) = rgbs_GroupDN (rgb_Spec binding) \<and>
              rgbs_RoleRef (rgb_Spec existing) = rgbs_RoleRef (rgb_Spec binding)
      then Some (ErrText (''groupDN '' @ strconv_Quote E (rgbs_GroupDN (rgb_Spec binding)) @
             '' is already mapped to roleRef '' @ role_Kind (rgbs_RoleRef (rgb_Spec existing)) @ ''/'' @
             role_Name (rgbs_RoleRef (rgb_Spec existing)) @ '' by RBACGroupBinding '' @
             strconv_Quote E (om_Name (rgb_meta existing)) @ '' in namespace '' @
             strconv_Quote E (om_Namespace (rgb_meta binding))))
      else RGB_duplicate E binding items)"

definition RGB_rejectDuplicate :: "'w env \<Rightarrow> RBACGroupBinding \<Rightarrow> ('w op_state, error option) state" where
  "RGB_rejectDuplicate E binding = do {
     r \<leftarrow> clientList ''RBACGroupBinding'' (rgb_client E) [InNamespace (om_Namespace (rgb_meta binding))];
     case r of
       Inl err \<Rightarrow> ret (Some (Errorf_w (''list existing RBACGroupBindings in namespace '' @
                    strconv_Quote E (om_Namespace (rgb_meta binding)) @ '': '') err []))
     | Inr items \<Rightarrow> ret (RGB_duplicate E binding items)
   }"

type_synonym 'w validation = "('w op_state, string list \<times> error option) state"

definition RGB_ValidateCreate :: "'w env \<Rightarrow> RBACGroupBinding \<Rightarrow> 'w validation" where
  "RGB_ValidateCreate E obj = do { e \<leftarrow> RGB_rejectDuplicate E obj; ret ([], e) }"

definition RGB_ValidateUpdate :: "'w env \<Rightarrow> RBACGroupBinding \<Rightarrow> RBACGroupBinding \<Rightarrow> 'w validation" where
  "RGB_ValidateUpdate E oldObj newObj = do { e \<leftarrow> RGB_rejectDuplicate E newObj; ret ([], e) }"

definition RGB_ValidateDelete :: "RBACGroupBinding \<Rightarrow> 'w validation" where
  "RGB_ValidateDelete obj = ret ([], None)"

section \<open>ClusterRBACGroupBinding\<close>

fun CRGB_duplicate ::
  "'w env \<Rightarrow> ClusterRBACGroupBinding \<Rightarrow> ClusterRBACGroupBinding list \<Rightarrow> error option" where
  "CRGB_duplicate E binding [] = None"
| "CRGB_duplicate E binding (existing # items) =
     (if om_Name (crgb_meta existing) = om_Name (crgb_meta binding) then CRGB_duplicate E binding items
      else if crgbs_GroupDN (crgb_Spec existing) = crgbs_GroupDN (crgb_Spec binding) \<and>
              crgbs_ClusterRoleRef (crgb_Spec existing) = crgbs_ClusterRoleRef (crgb_Spec binding)
      then Some (ErrText (''groupDN '' @ strconv_Quote E (crgbs_GroupDN (crgb_Spec binding)) @
             '' is already mapped to clusterRoleRef '' @
             strconv_Quote E (crgbs_ClusterRoleRef (crgb_Spec existing)) @ '' by ClusterRBACGroupBinding '' @
             strconv_Quote E (om_Name (crgb_meta existing))))
      else CRGB_duplicate E binding items)"

definition CRGB_rejectDuplicate :: "'w env \<Rightarrow> ClusterRBACGroupBinding \<Rightarrow> ('w op_state, error option) state" where
  "CRGB_rejectDuplicate E binding = do {
     r \<leftarrow> clientList ''ClusterRBACGroupBinding'' (crgb_client E) [];
     case r of
       Inl err \<Rightarrow> ret (Some (Errorf_w ''list existing ClusterRBACGroupBindings: '' err []))
     | Inr items \<Rightarrow> ret (CRGB_duplicate E binding items)
   }"

definition CRGB_ValidateCreate :: "'w env \<Rightarrow> ClusterRBACGroupBinding \<Rightarrow> 'w validation" where
  "CRGB_ValidateCreate E obj = do { e \<leftarrow> CRGB_rejectDuplicate E obj; ret ([], e) }"

definition CRGB_ValidateUpdate ::
  "'w env \<Rightarrow> ClusterRBACGroupBinding \<Rightarrow> ClusterRBACGroupBinding \<Rightarrow> 'w validation" where
  "CRGB_ValidateUpdate E oldObj newObj = do { e \<leftarrow> CRGB_rejectDuplicate E newObj; ret ([], e) }"

definition CRGB_ValidateDelete :: "ClusterRBACGroupBinding \<Rightarrow> 'w validation" where
  "CRGB_ValidateDelete obj = ret ([], None)"

section \<open>Admission of a sequence of requests\<close>

text \<open>
  The objects of one kind behind a validating webhook with failure policy \<open>fail\<close>: a request
  takes effect only if the validator returns no error. The validator lists from a cache that
  follows the store with a delay, so at the time of a decision it holds any set of objects. Beside the
  stored objects the relation keeps the pairs of keys of which the first was decided on while the
  cache did not hold what was stored under the second. A new decision on a key, and a deletion, end
  what was known of it. \<open>wf\<close> is what the API server itself demands of an object.
\<close>

definition unseen :: "ObjectKey \<Rightarrow> (ObjectKey \<Rightarrow> 'b option) \<Rightarrow> 'b set \<Rightarrow> (ObjectKey \<times> ObjectKey) set" where
  "unseen k S C = {(k, k') | k' x. k' \<noteq> k \<and> S k' = Some x \<and> x \<notin> C}"

definition pairs_without :: "ObjectKey \<Rightarrow> (ObjectKey \<times> ObjectKey) set \<Rightarrow> (ObjectKey \<times> ObjectKey) set" where
  "pairs_without k M = {p \<in> M. fst p \<noteq> k \<and> snd p \<noteq> k}"

inductive admitted ::
  "('b \<Rightarrow> 'w validation) \<Rightarrow> ('b \<Rightarrow> 'b \<Rightarrow> 'w validation) \<Rightarrow> ('b \<Rightarrow> 'w validation) \<Rightarrow> ('w \<Rightarrow> 'b set) \<Rightarrow>
   ('b \<Rightarrow> ObjectMeta) \<Rightarrow> ('b \<Rightarrow> bool) \<Rightarrow> (ObjectKey \<Rightarrow> 'b option) \<Rightarrow> (ObjectKey \<times> ObjectKey) set \<Rightarrow> bool"
  for create update remove cache meta wf where
  start: "admitted create update remove cache meta wf Map.empty {}"
| created: "admitted create update remove cache meta wf S M \<Longrightarrow> wf b \<Longrightarrow> k = ObjectKeyFromObject (meta b) \<Longrightarrow>
    S k = None \<Longrightarrow> snd (fst (run_state (create b) s)) = None \<Longrightarrow>
    admitted create update remove cache meta wf (S(k \<mapsto> b)) (pairs_without k M \<union> unseen k S (cache (os_world s)))"
| updated: "admitted create update remove cache meta wf S M \<Longrightarrow> wf b \<Longrightarrow> k = ObjectKeyFromObject (meta b) \<Longrightarrow>
    S k = Some old \<Longrightarrow> snd (fst (run_state (update old b) s)) = None \<Longrightarrow>
    admitted create update remove cache meta wf (S(k \<mapsto> b)) (pairs_without k M \<union> unseen k S (cache (os_world s)))"
| deleted: "admitted create update remove cache meta wf S M \<Longrightarrow> S k = Some old \<Longrightarrow>
    snd (fst (run_state (remove old) s)) = None \<Longrightarrow>
    admitted create update remove cache meta wf (S(k := None)) (pairs_without k M)"

section \<open>Both validators\<close>

text \<open>
  What the two validators have in common: creation and update are decided by one check that
  reads, \<open>clash\<close> says that two objects map the same group to the same role, and \<open>opts\<close> selects
  the scope in which that matters.
\<close>

locale duplicate_validator =
  fixes K :: "('w, 'b) kclient" and kind :: string and meta :: "'b \<Rightarrow> ObjectMeta"
    and idx :: "'b \<Rightarrow> string \<Rightarrow> string list" and opts :: "'b \<Rightarrow> ListOption list"
    and clash :: "'b \<Rightarrow> 'b \<Rightarrow> bool" and dup :: "'b \<Rightarrow> 'b list \<Rightarrow> error option"
    and fail :: "'b \<Rightarrow> error \<Rightarrow> error"
    and create remove :: "'b \<Rightarrow> 'w validation" and update :: "'b \<Rightarrow> 'b \<Rightarrow> 'w validation"
    and wf :: "'b \<Rightarrow> bool"
  assumes create_check: "create b = do {
      r \<leftarrow> clientList kind K (opts b);
      ret ([], case r of Inl err \<Rightarrow> Some (fail b err) | Inr items \<Rightarrow> dup b items) }"
    and update_check: "update old b = create b"
    and dup_None: "dup b xs = None \<longleftrightarrow> (\<forall>x \<in> set xs. om_Name (meta x) = om_Name (meta b) \<or> \<not> clash x b)"
    and scope: "wf x \<Longrightarrow> wf b \<Longrightarrow>
      list_all (selects meta idx x) (opts b) \<longleftrightarrow> om_Namespace (meta x) = om_Namespace (meta b)"
    and no_limit: "\<not> list_ex is_limit (opts b)"
    and clash_sym: "clash x y \<Longrightarrow> clash y x"
begin

lemma create_decides:
  assumes "klist_ok K meta idx cache"
  shows "snd (fst (run_state (create b) s)) = None \<longleftrightarrow>
    (\<exists>xs w. k_List K (opts b) (os_world s) = (Inr xs, w)) \<and>
    (\<forall>x \<in> selected meta idx (opts b) (cache (os_world s)). om_Name (meta x) = om_Name (meta b) \<or> \<not> clash x b)"
proof (cases "k_List K (opts b) (os_world s)")
  case (Pair r w)
  with klist_okD(1)[OF assms] no_limit show ?thesis
    by (cases r) (auto simp: create_check clientList_def call_def dup_None)
qed

text \<open>Two stored objects clash only if one of them was decided on without a sight of the other.\<close>

definition accounted :: "(ObjectKey \<Rightarrow> 'b option) \<Rightarrow> (ObjectKey \<times> ObjectKey) set \<Rightarrow> bool" where
  "accounted S M \<longleftrightarrow> (\<forall>k x. S k = Some x \<longrightarrow> wf x \<and> ObjectKeyFromObject (meta x) = k) \<and>
     (\<forall>k k' x y. S k = Some x \<longrightarrow> S k' = Some y \<longrightarrow> k \<noteq> k' \<longrightarrow>
        om_Namespace (meta x) = om_Namespace (meta y) \<longrightarrow> clash x y \<longrightarrow> (k, k') \<in> M \<or> (k', k) \<in> M)"

lemma accountedD:
  assumes "accounted S M"
  shows "S k = Some x \<Longrightarrow> wf x \<and> ObjectKeyFromObject (meta x) = k"
    and "S k = Some x \<Longrightarrow> S k' = Some y \<Longrightarrow> k \<noteq> k' \<Longrightarrow>
      om_Namespace (meta x) = om_Namespace (meta y) \<Longrightarrow> clash x y \<Longrightarrow> (k, k') \<in> M \<or> (k', k) \<in> M"
  using assms unfolding accounted_def by blast+

lemma accounted_put:
  assumes "accounted S M" and "klist_ok K meta idx cache" and "wf b"
    and "snd (fst (run_state (create b) s)) = None" and k: "k = ObjectKeyFromObject (meta b)"
  shows "accounted (S(k \<mapsto> b)) (pairs_without k M \<union> unseen k S (cache (os_world s)))"
proof -
  note sto = accountedD(1)[OF assms(1)] and pairs = accountedD(2)[OF assms(1)]
  have new: "(k, k') \<in> unseen k S (cache (os_world s))"
    if "S k' = Some x" "k' \<noteq> k" "om_Namespace (meta x) = om_Namespace (meta b)" "clash x b" for k' x
  proof -
    have "om_Name (meta x) \<noteq> om_Name (meta b)"
      using sto[OF that(1)] that(2,3) k by (auto simp: ObjectKeyFromObject_def)
    then have "x \<notin> selected meta idx (opts b) (cache (os_world s))"
      using assms(4) that(4) unfolding create_decides[OF assms(2)] by blast
    then have "x \<notin> cache (os_world s)"
      using that(3) sto[OF that(1)] scope[OF _ assms(3)] by (auto simp: selected_def)
    with that(1,2) show ?thesis by (auto simp: unseen_def)
  qed
  have old: "(k1, k2) \<in> pairs_without k M \<or> (k2, k1) \<in> pairs_without k M"
    if "S k1 = Some x" "S k2 = Some y" "k1 \<noteq> k2" "om_Namespace (meta x) = om_Namespace (meta y)" "clash x y"
      "k1 \<noteq> k" "k2 \<noteq> k" for k1 k2 x y
    using pairs[OF that(1-5)] that(6,7) by (auto simp: pairs_without_def)
  show ?thesis
    unfolding accounted_def
  proof (intro conjI allI impI)
    fix k1 k2 x y
    assume "(S(k \<mapsto> b)) k1 = Some x" "(S(k \<mapsto> b)) k2 = Some y" "k1 \<noteq> k2"
      "om_Namespace (meta x) = om_Namespace (meta y)" "clash x y"
    then show "(k1, k2) \<in> pairs_without k M \<union> unseen k S (cache (os_world s)) \<or>
        (k2, k1) \<in> pairs_without k M \<union> unseen k S (cache (os_world s))"
      using new[of k2 y] new[of k1 x] old[of k1 x k2 y] clash_sym[of x y] by (auto split: if_splits)
  qed (use sto assms(3) k in \<open>auto split: if_splits\<close>)
qed

lemma accounted_drop: "accounted S M \<Longrightarrow> accounted (S(k := None)) (pairs_without k M)"
  unfolding accounted_def pairs_without_def by auto

lemma admitted_accounted:
  assumes "klist_ok K meta idx cache" and "admitted create update remove cache meta wf S M"
  shows "accounted S M"
  using assms(2)
proof (induction rule: admitted.induct)
  case start
  show ?case by (simp add: accounted_def)
next
  case (created S M b k s)
  then show ?case by (intro accounted_put[OF _ assms(1)])
next
  case (updated S M b k old s)
  then show ?case by (intro accounted_put[OF _ assms(1)]) (simp_all add: update_check)
next
  case (deleted S M k old s)
  then show ?case by (intro accounted_drop)
qed

end

lemma RGB_duplicate_None:
  "RGB_duplicate E b xs = None \<longleftrightarrow> (\<forall>x \<in> set xs. om_Name (rgb_meta x) = om_Name (rgb_meta b) \<or>
     \<not> (rgbs_GroupDN (rgb_Spec x) = rgbs_GroupDN (rgb_Spec b) \<and> rgbs_RoleRef (rgb_Spec x) = rgbs_RoleRef (rgb_Spec b)))"
  by (induction xs) auto

lemma CRGB_duplicate_None:
  "CRGB_duplicate E b xs = None \<longleftrightarrow> (\<forall>x \<in> set xs. om_Name (crgb_meta x) = om_Name (crgb_meta b) \<or>
     \<not> (crgbs_GroupDN (crgb_Spec x) = crgbs_GroupDN (crgb_Spec b) \<and>
        crgbs_ClusterRoleRef (crgb_Spec x) = crgbs_ClusterRoleRef (crgb_Spec b)))"
  by (induction xs) auto

interpretation rgb_webhook: duplicate_validator "rgb_client E" "''RBACGroupBinding''" rgb_meta rgb_index
  "\<lambda>b. [InNamespace (om_Namespace (rgb_meta b))]"
  "\<lambda>x b. rgbs_GroupDN (rgb_Spec x) = rgbs_GroupDN (rgb_Spec b) \<and> rgbs_RoleRef (rgb_Spec x) = rgbs_RoleRef (rgb_Spec b)"
  "RGB_duplicate E"
  "\<lambda>b err. Errorf_w (''list existing RBACGroupBindings in namespace '' @
     strconv_Quote E (om_Namespace (rgb_meta b)) @ '': '') err []"
  "RGB_ValidateCreate E" RGB_ValidateDelete "RGB_ValidateUpdate E" "\<lambda>_. True" for E
  by unfold_locales (auto simp: RGB_ValidateCreate_def RGB_ValidateUpdate_def RGB_rejectDuplicate_def bind_case_ret
      RGB_duplicate_None)

interpretation crgb_webhook: duplicate_validator "crgb_client E" "''ClusterRBACGroupBinding''" crgb_meta crgb_index
  "\<lambda>b. []"
  "\<lambda>x b. crgbs_GroupDN (crgb_Spec x) = crgbs_GroupDN (crgb_Spec b) \<and>
     crgbs_ClusterRoleRef (crgb_Spec x) = crgbs_ClusterRoleRef (crgb_Spec b)"
  "CRGB_duplicate E"
  "\<lambda>b err. Errorf_w ''list existing ClusterRBACGroupBindings: '' err []"
  "CRGB_ValidateCreate E" CRGB_ValidateDelete "CRGB_ValidateUpdate E" "\<lambda>b. om_Namespace (crgb_meta b) = []" for E
  by unfold_locales (auto simp: CRGB_ValidateCreate_def CRGB_ValidateUpdate_def CRGB_rejectDuplicate_def bind_case_ret
      CRGB_duplicate_None)

section \<open>Guarantees\<close>

text \<open>
  C19. The validators are exact. An \<open>RBACGroupBinding\<close> is admitted exactly when the list of its
  namespace is answered and holds no binding of another name that maps the same group to the
  same role; a \<open>ClusterRBACGroupBinding\<close> likewise, over the whole cluster. An update is judged
  by its new object as a creation is, a deletion is always admitted, and no validation does
  anything but that one list.
\<close>

theorem webhook_exact:
  assumes "klist_ok (rgb_client E) rgb_meta rgb_index R" and "klist_ok (crgb_client E) crgb_meta crgb_index C"
  shows "(snd (fst (run_state (RGB_ValidateCreate E b) s)) = None \<longleftrightarrow>
      (\<exists>xs w. k_List (rgb_client E) [InNamespace (om_Namespace (rgb_meta b))] (os_world s) = (Inr xs, w)) \<and>
      (\<forall>x \<in> R (os_world s). om_Namespace (rgb_meta x) = om_Namespace (rgb_meta b) \<longrightarrow>
         om_Name (rgb_meta x) = om_Name (rgb_meta b) \<or>
         \<not> (rgbs_GroupDN (rgb_Spec x) = rgbs_GroupDN (rgb_Spec b) \<and>
            rgbs_RoleRef (rgb_Spec x) = rgbs_RoleRef (rgb_Spec b)))) \<and>
    (snd (fst (run_state (CRGB_ValidateCreate E c) s)) = None \<longleftrightarrow>
      (\<exists>xs w. k_List (crgb_client E) [] (os_world s) = (Inr xs, w)) \<and>
      (\<forall>x \<in> C (os_world s). om_Name (crgb_meta x) = om_Name (crgb_meta c) \<or>
         \<not> (crgbs_GroupDN (crgb_Spec x) = crgbs_GroupDN (crgb_Spec c) \<and>
            crgbs_ClusterRoleRef (crgb_Spec x) = crgbs_ClusterRoleRef (crgb_Spec c)))) \<and>
    RGB_ValidateUpdate E old b = RGB_ValidateCreate E b \<and> CRGB_ValidateUpdate E old' c = CRGB_ValidateCreate E c \<and>
    run_state (RGB_ValidateDelete b) s = (([], None), s) \<and> run_state (CRGB_ValidateDelete c) s = (([], None), s) \<and>
    emits (\<lambda>_ as. as = [AList ''RBACGroupBinding'' [InNamespace (om_Namespace (rgb_meta b))]]) (RGB_ValidateCreate E b) \<and>
    emits (\<lambda>_ as. as = [AList ''ClusterRBACGroupBinding'' []]) (CRGB_ValidateCreate E c)"
proof (intro conjI)
  show "emits (\<lambda>_ as. as = [AList ''RBACGroupBinding'' [InNamespace (om_Namespace (rgb_meta b))]]) (RGB_ValidateCreate E b)"
    "emits (\<lambda>_ as. as = [AList ''ClusterRBACGroupBinding'' []]) (CRGB_ValidateCreate E c)"
    by (auto simp: emits_def rgb_webhook.create_check crgb_webhook.create_check clientList_def call_def
        split: prod.splits)
qed (use rgb_webhook.create_decides[OF assms(1), of b s] crgb_webhook.create_decides[OF assms(2), of c s] in
  \<open>auto simp: selected_def rgb_webhook.update_check crgb_webhook.update_check RGB_ValidateDelete_def
     CRGB_ValidateDelete_def\<close>)

definition twin_binding :: RBACGroupBinding where
  "twin_binding = demo_binding\<lparr>rgb_meta := demo_meta ''twin'' ''team'',
     rgb_Spec := (rgb_Spec demo_binding)\<lparr>rgbs_ProviderRef := ''other''\<rparr>\<rparr>"

text \<open>The provider plays no part: a binding to another directory's group of that name is refused.\<close>

theorem webhook_exact_witness:
  "snd (fst (run_state (RGB_ValidateCreate sim_env twin_binding) (sim_start demo_world))) \<noteq> None"
proof -
  have "demo_binding \<in> set (sim_rgbs (os_world (sim_start demo_world)))" by (simp add: sim_start_def demo_defs)
  moreover have "om_Namespace (rgb_meta demo_binding) = om_Namespace (rgb_meta twin_binding)"
    "om_Name (rgb_meta demo_binding) \<noteq> om_Name (rgb_meta twin_binding)"
    "rgbs_GroupDN (rgb_Spec demo_binding) = rgbs_GroupDN (rgb_Spec twin_binding)"
    "rgbs_RoleRef (rgb_Spec demo_binding) = rgbs_RoleRef (rgb_Spec twin_binding)"
    by (simp_all add: twin_binding_def demo_defs)
  ultimately show ?thesis
    using webhook_exact[OF sim_list_ok(1,2), of twin_binding "sim_start demo_world"] by blast
qed

text \<open>
  C18. With the webhook in force, two stored bindings of one scope map the same group to the same
  role only if one of them was last admitted while the validator's cache did not hold the
  other as it was stored. This holds of every sequence of admitted creations, updates and
  deletions and of a cache that lags behind at will: for two \<open>RBACGroupBinding\<close>s of one namespace
  and for any two \<open>ClusterRBACGroupBinding\<close>s. Where every decision saw what was stored, no
  two bindings clash.
\<close>

theorem admitted_mappings_unique:
  assumes "klist_ok (rgb_client E) rgb_meta rgb_index R" and "klist_ok (crgb_client E) crgb_meta crgb_index C"
    and "admitted (RGB_ValidateCreate E) (RGB_ValidateUpdate E) RGB_ValidateDelete R rgb_meta (\<lambda>_. True) S M"
    and "admitted (CRGB_ValidateCreate E) (CRGB_ValidateUpdate E) CRGB_ValidateDelete C crgb_meta
      (\<lambda>b. om_Namespace (crgb_meta b) = []) T N"
  shows "(\<forall>k k' x y. S k = Some x \<and> S k' = Some y \<and> k \<noteq> k' \<and>
      om_Namespace (rgb_meta x) = om_Namespace (rgb_meta y) \<and>
      rgbs_GroupDN (rgb_Spec x) = rgbs_GroupDN (rgb_Spec y) \<and>
      rgbs_RoleRef (rgb_Spec x) = rgbs_RoleRef (rgb_Spec y) \<longrightarrow> (k, k') \<in> M \<or> (k', k) \<in> M) \<and>
    (\<forall>k k' x y. T k = Some x \<and> T k' = Some y \<and> k \<noteq> k' \<and>
      crgbs_GroupDN (crgb_Spec x) = crgbs_GroupDN (crgb_Spec y) \<and>
      crgbs_ClusterRoleRef (crgb_Spec x) = crgbs_ClusterRoleRef (crgb_Spec y) \<longrightarrow> (k, k') \<in> N \<or> (k', k) \<in> N)"
proof (intro conjI allI impI; elim conjE)
  note rgb = rgb_webhook.admitted_accounted[OF assms(1,3)] and crgb = crgb_webhook.admitted_accounted[OF assms(2,4)]
  show "(k, k') \<in> M \<or> (k', k) \<in> M"
    if "S k = Some x" "S k' = Some y" "k \<noteq> k'" "om_Namespace (rgb_meta x) = om_Namespace (rgb_meta y)"
      "rgbs_GroupDN (rgb_Spec x) = rgbs_GroupDN (rgb_Spec y)" "rgbs_RoleRef (rgb_Spec x) = rgbs_RoleRef (rgb_Spec y)"
    for k k' x y
    by (rule rgb_webhook.accountedD(2)[OF rgb that(1-4)]) (use that(5,6) in simp)
  show "(k, k') \<in> N \<or> (k', k) \<in> N"
    if "T k = Some x" "T k' = Some y" "k \<noteq> k'" "crgbs_GroupDN (crgb_Spec x) = crgbs_GroupDN (crgb_Spec y)"
      "crgbs_ClusterRoleRef (crgb_Spec x) = crgbs_ClusterRoleRef (crgb_Spec y)" for k k' x y
    using crgb_webhook.accountedD(2)[OF crgb that(1-3)] crgb_webhook.accountedD(1)[OF crgb that(1)]
      crgb_webhook.accountedD(1)[OF crgb that(2)] that(4,5) by auto
qed

definition viewer_binding :: RBACGroupBinding where
  "viewer_binding = demo_binding\<lparr>rgb_meta := demo_meta ''viewers'' ''team'',
     rgb_Spec := (rgb_Spec demo_binding)\<lparr>rgbs_RoleRef := \<lparr>role_Kind = ''Role'', role_Name = ''view''\<rparr>\<rparr>\<rparr>"

lemmas validation_run = RGB_ValidateCreate_def RGB_rejectDuplicate_def clientList_def call_def sim_env_def
  sim_kclient_def sim_start_def viewer_binding_def twin_binding_def demo_defs empty_sim_def unseen_def pairs_without_def

abbreviation rgb_admitted :: "(ObjectKey \<Rightarrow> RBACGroupBinding option) \<Rightarrow> (ObjectKey \<times> ObjectKey) set \<Rightarrow> bool" where
  "rgb_admitted \<equiv> admitted (RGB_ValidateCreate sim_env) (RGB_ValidateUpdate sim_env) RGB_ValidateDelete
     (\<lambda>w. set (sim_rgbs w)) rgb_meta (\<lambda>_. True)"

abbreviation viewers_key :: ObjectKey where
  "viewers_key \<equiv> \<lparr>key_Namespace = ''team'', key_Name = ''viewers''\<rparr>"

abbreviation twin_key :: ObjectKey where
  "twin_key \<equiv> \<lparr>key_Namespace = ''team'', key_Name = ''twin''\<rparr>"

abbreviation first_key :: ObjectKey where
  "first_key \<equiv> \<lparr>key_Namespace = ''team'', key_Name = ''devs''\<rparr>"

lemma rgb_created:
  "rgb_admitted S M \<Longrightarrow> k = ObjectKeyFromObject (rgb_meta b) \<Longrightarrow> S k = None \<Longrightarrow>
   snd (fst (run_state (RGB_ValidateCreate sim_env b) (sim_start w))) = None \<Longrightarrow>
   M' = pairs_without k M \<union> unseen k S (set (sim_rgbs w)) \<Longrightarrow> rgb_admitted (S(k \<mapsto> b)) M'"
  using admitted.created[of "RGB_ValidateCreate sim_env" "RGB_ValidateUpdate sim_env" RGB_ValidateDelete
      "\<lambda>w. set (sim_rgbs w)" rgb_meta "\<lambda>_. True" S M b k "sim_start w"]
  by (simp add: sim_start_def)

lemma first_admitted: "rgb_admitted [first_key \<mapsto> demo_binding] {}"
  by (rule rgb_created[OF admitted.start, where w = empty_sim]) (simp_all add: validation_run)

text \<open>A second request that comes before the cache has the first object is admitted although it clashes.\<close>

lemma twins_admitted: "rgb_admitted [first_key \<mapsto> demo_binding, twin_key \<mapsto> twin_binding] {(twin_key, first_key)}"
  by (rule rgb_created[OF first_admitted, where w = empty_sim]) (auto simp: validation_run split: if_splits)

lemma sample_admitted: "rgb_admitted [first_key \<mapsto> demo_binding, viewers_key \<mapsto> viewer_binding] {}"
  by (rule rgb_created[OF first_admitted, where w = "empty_sim\<lparr>sim_rgbs := [demo_binding]\<rparr>"])
    (auto simp: validation_run split: if_splits)

theorem admitted_mappings_unique_witness:
  "\<not> (rgbs_GroupDN (rgb_Spec demo_binding) = rgbs_GroupDN (rgb_Spec viewer_binding) \<and>
      rgbs_RoleRef (rgb_Spec demo_binding) = rgbs_RoleRef (rgb_Spec viewer_binding))"
proof -
  have "om_Namespace (rgb_meta demo_binding) = om_Namespace (rgb_meta viewer_binding)"
    by (simp add: viewer_binding_def demo_defs)
  then show ?thesis
    using admitted_mappings_unique[OF sim_list_ok(1,2) sample_admitted admitted.start, THEN conjunct1,
        THEN spec[of _ first_key], THEN spec[of _ viewers_key], THEN spec[of _ demo_binding], THEN spec[of _ viewer_binding]]
    by simp
qed

text \<open>
  The race that is left: two clashing bindings can both be stored when the second is decided on
  before the cache has the first.
\<close>

theorem lagging_cache_admits_duplicates:
  "\<exists>S M. rgb_admitted S M \<and> (\<exists>k k' x y. S k = Some x \<and> S k' = Some y \<and> k \<noteq> k' \<and>
      om_Namespace (rgb_meta x) = om_Namespace (rgb_meta y) \<and>
      rgbs_GroupDN (rgb_Spec x) = rgbs_GroupDN (rgb_Spec y) \<and> rgbs_RoleRef (rgb_Spec x) = rgbs_RoleRef (rgb_Spec y))"
  by (intro exI[of _ "[first_key \<mapsto> demo_binding, twin_key \<mapsto> twin_binding]"] exI[of _ "{(twin_key, first_key)}"]
      exI[of _ twin_key] exI[of _ first_key] exI[of _ twin_binding] exI[of _ demo_binding] conjI twins_admitted)
    (simp_all add: twin_binding_def demo_defs)

end
