(* ===== verification/Operator_Main.thy ===== *)
theory Operator_Main
  imports RBACGroupBinding_Controller ClusterRBACGroupBinding_Controller Readiness Mappers Webhook
begin

text \<open>
  \<open>main.go\<close>: how the parts are wired together and started. Every step of the setup is a
  request to controller-runtime that may fail; what it answers is a parameter. A failed step
  is logged and ends the process with status 1.
\<close>

section \<open>Flags\<close>

record flags =
  fl_metricsAddr :: string
  fl_probeAddr :: string
  fl_enableLeaderElection :: bool
  fl_secretNamespace :: string
  fl_enableValidatingWebhook :: bool

definition defaultFlags :: flags where
  "defaultFlags = \<lparr>fl_metricsAddr = '':8080'', fl_probeAddr = '':8081'', fl_enableLeaderElection = False,
     fl_secretNamespace = ''directory-rbac-operator-system'', fl_enableValidatingWebhook = False\<rparr>"

section \<open>The steps of the setup\<close>

text \<open>
  \<open>limiters := &ldapclient.Limiters{}\<close> is allocated once; its address is shared by the factory
  and by the provider reconciler.
\<close>

definition limitersAddr :: nat where "limitersAddr = 0"

definition grouperFactory :: "flags \<Rightarrow> GrouperFactory" where
  "grouperFactory fl = \<lparr>gf_SecretNamespace = fl_secretNamespace fl, gf_Limiters = Some limitersAddr\<rparr>"

definition RGB_controller :: "'w env \<Rightarrow> flags \<Rightarrow> 'w controller" where
  "RGB_controller E fl = RGB_SetupWithManager E (fl_secretNamespace fl)
     (RGB_Reconcile E (GrouperFactory_Grouper E (grouperFactory fl)))"

definition CRGB_controller :: "'w env \<Rightarrow> flags \<Rightarrow> 'w controller" where
  "CRGB_controller E fl = CRGB_SetupWithManager E (fl_secretNamespace fl)
     (CRGB_Reconcile E (GrouperFactory_Grouper E (grouperFactory fl)))"

definition LP_controller :: "'w env \<Rightarrow> flags \<Rightarrow> 'w controller" where
  "LP_controller E fl = LP_SetupWithManager
     (LP_Reconcile E (GrouperFactory_Pinger E (grouperFactory fl)) (Some limitersAddr))"

datatype 'w setup_step =
    NewManager string string bool string
  | IndexField string IndexerFunc
  | AddController "'w controller"
  | AddWebhook string
  | AddHealthzCheck string
  | AddReadyzCheck string "('w op_state, error option) state"
  | Start

text \<open>
  The process while it starts: what lies outside, the steps taken with whether each
  succeeded, and the errors logged.
\<close>

record ('x, 'w) boot =
  bt_ext :: 'x
  bt_steps :: "('w setup_step \<times> bool) list"
  bt_errors :: "(string \<times> error) list"

datatype exit = Exit1 | Returned

definition attempt ::
  "('w setup_step \<Rightarrow> 'x \<Rightarrow> error option \<times> 'x) \<Rightarrow> 'w setup_step \<Rightarrow> (('x, 'w) boot, error option) state" where
  "attempt perform st = State (\<lambda>b. case perform st (bt_ext b) of
     (e, x) \<Rightarrow> (e, b\<lparr>bt_ext := x, bt_steps := bt_steps b @ [(st, e = None)]\<rparr>))"

definition logError :: "string \<Rightarrow> error \<Rightarrow> (('x, 'w) boot, unit) state" where
  "logError msg err = State (\<lambda>b. ((), b\<lparr>bt_errors := bt_errors b @ [(msg, err)]\<rparr>))"

text \<open>\<open>if err := m; err != nil { setupLog.Error(err, msg); os.Exit(1) }\<close>, then the rest.\<close>

definition orExit ::
  "(('x, 'w) boot, error option) state \<Rightarrow> string \<Rightarrow> (('x, 'w) boot, exit) state \<Rightarrow> (('x, 'w) boot, exit) state" where
  "orExit m msg rest = do {
     e \<leftarrow> m;
     case e of
       Some err \<Rightarrow> do { logError msg err; ret Exit1 }
     | None \<Rightarrow> rest
   }"

text \<open>\<open>SetupWebhookWithManager\<close> of the two validators.\<close>

definition RGB_SetupWebhookWithManager ::
  "('w setup_step \<Rightarrow> 'x \<Rightarrow> error option \<times> 'x) \<Rightarrow> (('x, 'w) boot, error option) state" where
  "RGB_SetupWebhookWithManager perform = attempt perform (AddWebhook ''RBACGroupBinding'')"

definition CRGB_SetupWebhookWithManager ::
  "('w setup_step \<Rightarrow> 'x \<Rightarrow> error option \<times> 'x) \<Rightarrow> (('x, 'w) boot, error option) state" where
  "CRGB_SetupWebhookWithManager perform = attempt perform (AddWebhook ''ClusterRBACGroupBinding'')"

definition setupWebhooks ::
  "('w setup_step \<Rightarrow> 'x \<Rightarrow> error option \<times> 'x) \<Rightarrow> (('x, 'w) boot, exit) state \<Rightarrow> (('x, 'w) boot, exit) state" where
  "setupWebhooks perform rest =
     orExit (RGB_SetupWebhookWithManager perform) ''unable to create webhook''
     (orExit (CRGB_SetupWebhookWithManager perform) ''unable to create webhook''
     rest)"

lemmas webhook_setup_defs = setupWebhooks_def RGB_SetupWebhookWithManager_def CRGB_SetupWebhookWithManager_def

definition operator_main ::
  "'w env \<Rightarrow> ('w setup_step \<Rightarrow> 'x \<Rightarrow> error option \<times> 'x) \<Rightarrow> flags \<Rightarrow> (('x, 'w) boot, exit) state" where
  "operator_main E perform fl =
     orExit (attempt perform (NewManager (fl_metricsAddr fl) (fl_probeAddr fl) (fl_enableLeaderElection fl)
         ''directory-rbac-operator.ldaprbac.io'')) ''unable to start manager''
     (orExit (SetupIndexers (\<lambda>f g. attempt perform (IndexField f g))) ''unable to set up field indexers''
     (orExit (attempt perform (AddController (RGB_controller E fl))) ''unable to create controller''
     (orExit (attempt perform (AddController (CRGB_controller E fl))) ''unable to create controller''
     (orExit (attempt perform (AddController (LP_controller E fl))) ''unable to create controller''
     ((if fl_enableValidatingWebhook fl then setupWebhooks perform else id)
     (orExit (attempt perform (AddHealthzCheck ''healthz'')) ''unable to set up health check''
     (orExit (attempt perform (AddReadyzCheck ''readyz'' (Check E NewLDAPProviderReadiness))) ''unable to set up ready check''
     (orExit (attempt perform Start) ''problem running manager''
     (ret Returned)))))))))"

section \<open>The plan it carries out\<close>

definition boot_plan :: "'w env \<Rightarrow> flags \<Rightarrow> 'w setup_step list" where
  "boot_plan E fl =
     [NewManager (fl_metricsAddr fl) (fl_probeAddr fl) (fl_enableLeaderElection fl)
        ''directory-rbac-operator.ldaprbac.io'',
      IndexField providerRefIndexField (IndexRBACGroupBinding indexRBACGroupBinding),
      IndexField providerRefIndexField (IndexClusterRBACGroupBinding indexClusterRBACGroupBinding),
      IndexField secretRefIndexField (IndexLDAPProvider indexLDAPProvider),
      AddController (RGB_controller E fl), AddController (CRGB_controller E fl),
      AddController (LP_controller E fl)] @
     (if fl_enableValidatingWebhook fl
      then [AddWebhook ''RBACGroupBinding'', AddWebhook ''ClusterRBACGroupBinding''] else []) @
     [AddHealthzCheck ''healthz'', AddReadyzCheck ''readyz'' (Check E NewLDAPProviderReadiness), Start]"

text \<open>
  A run that takes the steps of a plan one by one and stops at the first that fails.
  \<open>follows perform plan b r b'\<close>: from \<open>b\<close>, with the result \<open>r\<close> and the state \<open>b'\<close> at the end.
\<close>

definition took :: "'w setup_step \<Rightarrow> bool \<Rightarrow> 'x \<Rightarrow> ('x, 'w) boot \<Rightarrow> ('x, 'w) boot" where
  "took st ok x b = b\<lparr>bt_ext := x, bt_steps := bt_steps b @ [(st, ok)]\<rparr>"

inductive follows ::
  "('w setup_step \<Rightarrow> 'x \<Rightarrow> error option \<times> 'x) \<Rightarrow> 'w setup_step list \<Rightarrow> ('x, 'w) boot \<Rightarrow> exit \<Rightarrow>
   ('x, 'w) boot \<Rightarrow> bool"
  for perform where
  finished: "follows perform [] b Returned b"
| failed: "perform st (bt_ext b) = (Some err, x) \<Longrightarrow>
    follows perform (st # plan) b Exit1 ((took st False x b)\<lparr>bt_errors := bt_errors b @ [(msg, err)]\<rparr>)"
| stepped: "perform st (bt_ext b) = (None, x) \<Longrightarrow> follows perform plan (took st True x b) r b'' \<Longrightarrow>
    follows perform (st # plan) b r b''"

lemma attempt_follows:
  assumes "\<And>b. follows perform plan b (fst (run_state rest b)) (snd (run_state rest b))"
  shows "follows perform (st # plan) b (fst (run_state (orExit (attempt perform st) msg rest) b))
    (snd (run_state (orExit (attempt perform st) msg rest) b))"
proof (cases "perform st (bt_ext b)")
  case (Pair e x)
  show ?thesis
  proof (cases e)
    case None
    with Pair follows.stepped[OF _ assms] show ?thesis by (simp add: orExit_def attempt_def took_def)
  next
    case (Some err)
    with Pair follows.failed[of perform st b err x plan msg] show ?thesis
      by (simp add: orExit_def attempt_def logError_def took_def)
  qed
qed

text \<open>Setting up the indexes is three attempts whose error the caller logs.\<close>

lemma indexers_exits:
  "orExit (SetupIndexers (\<lambda>f g. attempt perform (IndexField f g))) msg rest =
   orExit (attempt perform (IndexField providerRefIndexField (IndexRBACGroupBinding indexRBACGroupBinding))) msg
   (orExit (attempt perform (IndexField providerRefIndexField (IndexClusterRBACGroupBinding indexClusterRBACGroupBinding))) msg
   (orExit (attempt perform (IndexField secretRefIndexField (IndexLDAPProvider indexLDAPProvider))) msg rest))"
  unfolding orExit_def SetupIndexers_def State_Monad.bind_assoc bind_case_option State_Monad.bind_left_identity
  by (intro bind_cong_eq case_option_eq) simp_all

lemma finished_run: "follows perform [] b (fst (run_state (ret Returned) b)) (snd (run_state (ret Returned) b))"
  by (simp add: follows.finished)

lemma main_follows:
  "follows perform (boot_plan E fl) b (fst (run_state (operator_main E perform fl) b))
     (snd (run_state (operator_main E perform fl) b))"
  unfolding operator_main_def indexers_exits boot_plan_def
  by (cases "fl_enableValidatingWebhook fl")
    (simp_all only: if_True if_False id_apply webhook_setup_defs append_Cons append_Nil attempt_follows finished_run)

text \<open>The state of the surroundings after the steps of a plan.\<close>

definition after :: "('w setup_step \<Rightarrow> 'x \<Rightarrow> error option \<times> 'x) \<Rightarrow> 'w setup_step list \<Rightarrow> 'x \<Rightarrow> 'x" where
  "after perform sts x = fold (\<lambda>st x. snd (perform st x)) sts x"

text \<open>
  The first \<open>n\<close> steps of the plan succeed; the run either has gone through the plan, or the
  next step fails, is the last that is taken and has its error logged.
\<close>

definition stops_at ::
  "('w setup_step \<Rightarrow> 'x \<Rightarrow> error option \<times> 'x) \<Rightarrow> 'w setup_step list \<Rightarrow> nat \<Rightarrow> ('x, 'w) boot \<Rightarrow> exit \<Rightarrow>
   ('x, 'w) boot \<Rightarrow> bool" where
  "stops_at perform plan n b r b' \<longleftrightarrow> n \<le> length plan \<and>
     (\<forall>i < n. fst (perform (plan ! i) (after perform (take i plan) (bt_ext b))) = None) \<and>
     (if n = length plan
      then r = Returned \<and> bt_errors b' = bt_errors b \<and> bt_ext b' = after perform plan (bt_ext b) \<and>
        bt_steps b' = bt_steps b @ map (\<lambda>st. (st, True)) plan
      else r = Exit1 \<and> bt_ext b' = after perform (take (Suc n) plan) (bt_ext b) \<and>
        bt_steps b' = bt_steps b @ map (\<lambda>st. (st, True)) (take n plan) @ [(plan ! n, False)] \<and>
        (\<exists>msg err. fst (perform (plan ! n) (after perform (take n plan) (bt_ext b))) = Some err \<and>
           bt_errors b' = bt_errors b @ [(msg, err)]))"

lemma stops_at_step:
  assumes st: "perform st (bt_ext b) = (None, x)" and rest: "stops_at perform plan n (took st True x b) r b'"
  shows "stops_at perform (st # plan) (Suc n) b r b'"
proof -
  have step: "after perform (st # sts) (bt_ext b) = after perform sts x" for sts
    using st by (simp add: after_def)
  have took: "bt_ext (took st True x b) = x" "bt_errors (took st True x b) = bt_errors b"
    "bt_steps (took st True x b) = bt_steps b @ [(st, True)]"
    by (simp_all add: took_def)
  note rest = rest[unfolded stops_at_def took]
  have first: "fst (perform ((st # plan) ! i) (after perform (take i (st # plan)) (bt_ext b))) = None" if "i < Suc n" for i
  proof (cases i)
    case 0
    then show ?thesis using st by (simp add: after_def)
  next
    case (Suc m)
    then show ?thesis using that rest by (simp add: step)
  qed
  show ?thesis
  proof (cases "n = length plan")
    case True
    then show ?thesis using rest first by (simp add: stops_at_def step)
  next
    case False
    then show ?thesis using rest first by (simp add: stops_at_def step)
  qed
qed

lemma follows_stops: "follows perform plan b r b' \<Longrightarrow> \<exists>n. stops_at perform plan n b r b'"
proof (induction rule: follows.induct)
  case (finished b)
  show ?case by (intro exI[of _ 0]) (simp add: stops_at_def after_def)
next
  case (failed st b err x plan msg)
  then show ?case by (intro exI[of _ 0]) (simp add: stops_at_def after_def took_def)
next
  case (stepped st b x plan r b'')
  from stepped.IH obtain n where "stops_at perform plan n (took st True x b) r b''" by (elim exE)
  from stops_at_step[OF stepped.hyps(1) this] show ?case by (rule exI)
qed

section \<open>Guarantees\<close>

lemma Start_last: "boot_plan E fl = butlast (boot_plan E fl) @ [Start]" "Start \<notin> set (butlast (boot_plan E fl))"
  by (simp_all add: boot_plan_def)

text \<open>
  C21. Starting up takes the steps of one plan in order and stops at the first that fails. There
  is a number \<open>n\<close> such that the first \<open>n\<close> steps of the plan succeed. Either that is the whole plan,
  the last step of which runs the manager, and the process returns with nothing logged; or the next
  step fails, no step after it is taken, its error is logged and the process leaves with
  status 1. So the manager runs just when the indexes, the three controllers (which share one
  factory and one limiter registry), the webhooks if they are enabled, and the probes could
  all be set up.
\<close>

theorem boot_follows_plan:
  "(\<exists>n. stops_at perform (boot_plan E fl) n b (fst (run_state (operator_main E perform fl) b))
       (snd (run_state (operator_main E perform fl) b))) \<and>
   boot_plan E fl = butlast (boot_plan E fl) @ [Start] \<and> Start \<notin> set (butlast (boot_plan E fl))"
  by (intro conjI follows_stops[OF main_follows] Start_last)

end
