(* ===== verification/Trace_Laws.thy ===== *)
theory Trace_Laws
  imports Operator_Main
begin

text \<open>
  Laws of the whole operator's trace. A law is a property of traces that holds of the empty
  one and of two traces in a row; the controllers, the watches, the endpoint and the webhooks
  obey a law when single cluster calls and directory queries do, which is proved once for all
  laws. The laws: every call is covered by a permission the operator asks for, every dial is
  paid for with a token, every connection is closed, and binds go over TLS.
\<close>

section \<open>Permissions\<close>

text \<open>
  The \<open>+kubebuilder:rbac\<close> markers, from which the operator's role is generated: API groups,
  resources and verbs.
\<close>

type_synonym rbac_rule = "string list \<times> string list \<times> string list"

definition RGB_rules :: "rbac_rule list" where
  "RGB_rules =
     [([''ldaprbac.io''], [''rbacgroupbindings''], [''get'', ''list'', ''watch'', ''update'', ''patch'']),
      ([''ldaprbac.io''], [''rbacgroupbindings/status''], [''get'', ''update'', ''patch'']),
      ([''ldaprbac.io''], [''ldapproviders''], [''get'', ''list'', ''watch'']),
      ([''''], [''secrets''], [''get'', ''list'', ''watch'']),
      ([''rbac.authorization.k8s.io''], [''rolebindings''],
        [''get'', ''list'', ''watch'', ''create'', ''update'', ''patch'', ''delete'']),
      ([''rbac.authorization.k8s.io''], [''roles'', ''clusterroles''], [''bind''])]"

definition CRGB_rules :: "rbac_rule list" where
  "CRGB_rules =
     [([''ldaprbac.io''], [''clusterrbacgroupbindings''], [''get'', ''list'', ''watch'', ''update'', ''patch'']),
      ([''ldaprbac.io''], [''clusterrbacgroupbindings/status''], [''get'', ''update'', ''patch'']),
      ([''rbac.authorization.k8s.io''], [''clusterrolebindings''],
        [''get'', ''list'', ''watch'', ''create'', ''update'', ''patch'', ''delete''])]"

definition LP_rules :: "rbac_rule list" where
  "LP_rules =
     [([''ldaprbac.io''], [''ldapproviders''], [''get'', ''list'', ''watch'', ''update'', ''patch'']),
      ([''ldaprbac.io''], [''ldapproviders/status''], [''get'', ''update'', ''patch'']),
      ([''ldaprbac.io''], [''ldapproviders/finalizers''], [''update''])]"

definition main_rules :: "rbac_rule list" where
  "main_rules =
     [([''coordination.k8s.io''], [''leases''],
        [''get'', ''list'', ''watch'', ''create'', ''update'', ''patch'', ''delete'']),
      ([''''], [''events''], [''create'', ''patch''])]"

definition operator_rules :: "rbac_rule list" where
  "operator_rules = RGB_rules @ CRGB_rules @ LP_rules @ main_rules"

definition permits :: "rbac_rule list \<Rightarrow> string \<times> string \<times> string \<Rightarrow> bool" where
  "permits rules = (\<lambda>(group, res, verb).
     list_ex (\<lambda>(gs, rs, vs). group \<in> set gs \<and> res \<in> set rs \<and> verb \<in> set vs) rules)"

text \<open>The group and resource of a kind, and what a call needs. Events use the new events API.\<close>

definition kind_resource :: "string \<Rightarrow> string \<times> string" where
  "kind_resource kind =
     (if kind = ''RBACGroupBinding'' then (''ldaprbac.io'', ''rbacgroupbindings'')
      else if kind = ''ClusterRBACGroupBinding'' then (''ldaprbac.io'', ''clusterrbacgroupbindings'')
      else if kind = ''LDAPProvider'' then (''ldaprbac.io'', ''ldapproviders'')
      else if kind = ''RoleBinding'' then (''rbac.authorization.k8s.io'', ''rolebindings'')
      else if kind = ''ClusterRoleBinding'' then (''rbac.authorization.k8s.io'', ''clusterrolebindings'')
      else if kind = ''Secret'' then ('''', ''secrets'')
      else ('''', []))"

fun needs :: "action \<Rightarrow> (string \<times> string \<times> string) option" where
  "needs (AGet kind k) = Some (fst (kind_resource kind), snd (kind_resource kind), ''get'')"
| "needs (AList kind opts) = Some (fst (kind_resource kind), snd (kind_resource kind), ''list'')"
| "needs (ACreate x ok) = Some (fst (kind_resource (object_kind x)), snd (kind_resource (object_kind x)), ''create'')"
| "needs (AUpdate x ok) = Some (fst (kind_resource (object_kind x)), snd (kind_resource (object_kind x)), ''update'')"
| "needs (ADelete x ok) = Some (fst (kind_resource (object_kind x)), snd (kind_resource (object_kind x)), ''delete'')"
| "needs (AStatusUpdate x ok) =
     Some (fst (kind_resource (object_kind x)), snd (kind_resource (object_kind x)) @ ''/status'', ''update'')"
| "needs (AEvent x t reason act msg) = Some (''events.k8s.io'', ''events'', ''create'')"
| "needs _ = None"

definition granted :: "action \<Rightarrow> bool" where
  "granted a \<longleftrightarrow> (case needs a of None \<Rightarrow> True | Some n \<Rightarrow> permits operator_rules n)"

fun is_event :: "action \<Rightarrow> bool" where
  "is_event (AEvent _ _ _ _ _) = True"
| "is_event _ = False"

lemmas rules_defs = operator_rules_def RGB_rules_def CRGB_rules_def LP_rules_def main_rules_def

lemma granted_calls:
  "kind \<in> {''RBACGroupBinding'', ''ClusterRBACGroupBinding'', ''LDAPProvider'', ''RoleBinding'',
     ''ClusterRoleBinding'', ''Secret''} \<Longrightarrow> granted (AGet kind k) \<and> granted (AList kind opts)"
  "object_kind x \<in> {''RoleBinding'', ''ClusterRoleBinding''} \<Longrightarrow>
     granted (ACreate x ok) \<and> granted (AUpdate x ok) \<and> granted (ADelete x ok)"
  "object_kind x = ''LDAPProvider'' \<Longrightarrow> granted (AUpdate x ok)"
  "object_kind x \<in> {''RBACGroupBinding'', ''ClusterRBACGroupBinding'', ''LDAPProvider''} \<Longrightarrow>
     granted (AStatusUpdate x ok)"
  "granted (ALog msg args)"
  by (auto simp: granted_def kind_resource_def permits_def rules_defs)

lemma directory_granted: "directory_action a \<Longrightarrow> granted a"
  by (cases a) (simp_all add: granted_def)

section \<open>Laws of a run\<close>

text \<open>A law relates the states before and after; running two steps composes it.\<close>

locale step_law =
  fixes R :: "'w op_state \<Rightarrow> 'w op_state \<Rightarrow> bool"
  assumes law_refl: "R s s" and law_trans: "R s t \<Longrightarrow> R t u \<Longrightarrow> R s u"
begin

definition obeys :: "('w op_state, 'a) state \<Rightarrow> bool" where
  "obeys m \<longleftrightarrow> (\<forall>s. R s (snd (run_state m s)))"

lemma obeysI: "(\<And>s x t. run_state m s = (x, t) \<Longrightarrow> R s t) \<Longrightarrow> obeys m"
  by (metis obeys_def prod.collapse)

lemma obeysD: "obeys m \<Longrightarrow> run_state m s = (x, t) \<Longrightarrow> R s t"
  by (metis obeys_def snd_conv)

lemma obeys_ret: "obeys (ret x)"
  by (simp add: obeys_def law_refl)

text \<open>A step whose value is known to satisfy \<open>P\<close>.\<close>

lemma obeys_bind_yields:
  assumes "obeys m" and "yields P m" and "\<And>x. P x \<Longrightarrow> obeys (f x)"
  shows "obeys (State_Monad.bind m f)"
proof (rule obeysI)
  fix s x t
  assume run: "run_state (State_Monad.bind m f) s = (x, t)"
  obtain y u where m: "run_state m s = (y, u)" by (cases "run_state m s")
  with run have "run_state (f y) u = (x, t)" by simp
  then show "R s t"
    using law_trans obeysD[OF assms(1) m] obeysD[OF assms(3)[OF yields_run[OF assms(2) m]]] by blast
qed

lemma obeys_bind: "obeys m \<Longrightarrow> (\<And>x. obeys (f x)) \<Longrightarrow> obeys (State_Monad.bind m f)"
  by (rule obeys_bind_yields[where P = "\<lambda>_. True"]) (simp_all add: yields_def)

lemma obeys_observe: "obeys (observe f)"
  by (simp add: obeys_def observe_def law_refl)

lemma obeys_call:
  "(\<And>s x w. R s (s\<lparr>os_world := w, os_trace := os_trace s @ [act x]\<rparr>)) \<Longrightarrow> obeys (call act f)"
  by (simp add: obeys_def call_def split: prod.splits)

lemma obeys_emit: "(\<And>s. R s (s\<lparr>os_trace := os_trace s @ [a]\<rparr>)) \<Longrightarrow> obeys (emit a)"
  by (simp add: obeys_def emit_def)

lemma obeys_sum:
  "(\<And>e. x = Inl e \<Longrightarrow> obeys (g e)) \<Longrightarrow> (\<And>y. x = Inr y \<Longrightarrow> obeys (h y)) \<Longrightarrow>
   obeys (case x of Inl e \<Rightarrow> g e | Inr y \<Rightarrow> h y)"
  by (cases x) simp_all

lemma obeys_option:
  "obeys n \<Longrightarrow> (\<And>y. x = Some y \<Longrightarrow> obeys (h y)) \<Longrightarrow> obeys (case x of None \<Rightarrow> n | Some y \<Rightarrow> h y)"
  by (cases x) simp_all

lemma obeys_if: "(b \<Longrightarrow> obeys m) \<Longrightarrow> (\<not> b \<Longrightarrow> obeys n) \<Longrightarrow> obeys (if b then m else n)"
  by simp

lemma obeys_outcome:
  "obeys m1 \<Longrightarrow> obeys m2 \<Longrightarrow> obeys m3 \<Longrightarrow> obeys m4 \<Longrightarrow>
   obeys (case x of syncUnchanged \<Rightarrow> m1 | syncCreated \<Rightarrow> m2 | syncUpdated \<Rightarrow> m3 | syncRecreated \<Rightarrow> m4)"
  by (cases x) simp_all

lemmas obeys_intros = obeys_ret obeys_bind obeys_observe obeys_sum obeys_option obeys_if obeys_outcome

end

section \<open>The operator obeys a law\<close>

text \<open>
  What a law needs of the wiring: it holds across single cluster calls that the operator may
  make, across metrics, log lines and uses of a limiter registry, and across a directory query of a
  client that the factory \<open>f\<close> builds for a provider that \<open>Q\<close> holds of, which it does of every
  provider the API server hands out.
\<close>

locale wiring_law = step_law R for R :: "'w op_state \<Rightarrow> 'w op_state \<Rightarrow> bool" +
  fixes E :: "'w env" and f :: GrouperFactory and Q :: "LDAPProvider \<Rightarrow> bool"
  assumes cluster: "granted a \<or> is_event a \<Longrightarrow> \<not> directory_action a \<Longrightarrow>
      R s (s\<lparr>os_world := w, os_trace := os_trace s @ [a]\<rparr>)"
    and elsewhere: "R s (s\<lparr>os_world := w\<rparr>)"
    and log: "R s (s\<lparr>os_trace := os_trace s @ [ALog msg args]\<rparr>)"
    and metrics: "R s (s\<lparr>os_metrics := m\<rparr>)"
    and registry_get: "R s (s\<lparr>os_registries := (os_registries s)(addr := snd (Limiters_Get (os_registries s addr) name))\<rparr>)"
    and registry_delete: "R s (s\<lparr>os_registries := (os_registries s)(addr := Limiters_Delete (os_registries s addr) name)\<rparr>)"
    and query: "Q p \<Longrightarrow> faithful_config f p cfg \<Longrightarrow>
      obeys (GetGroupMembers E cfg ctx dn) \<and> obeys (Ping E cfg ctx)"
    and provider_read: "k_Get (lp_client E) k w = (Inr p, w') \<Longrightarrow> Q p"
    and provider_written: "k_Update (lp_client E) p w = (Inr p', w') \<Longrightarrow> Q p'"
begin

lemma obeys_log: "obeys (emit (ALog msg args))"
  by (intro obeys_emit log)

lemma obeys_metric: "obeys (metric g)"
  by (simp add: obeys_def metric_def metrics)

lemma obeys_event: "obeys (emit (AEvent x t reason act msg))"
proof (rule obeys_emit)
  show "R s (s\<lparr>os_trace := os_trace s @ [AEvent x t reason act msg]\<rparr>)" for s
    using cluster[of "AEvent x t reason act msg" s "os_world s"] by simp
qed

lemma registry_obeys: "obeys (registryGet reg name)" "obeys (registryDelete reg name)"
  by (simp_all add: obeys_def registryGet_run registryDelete_def registry_get registry_delete law_refl
      split: option.splits)

lemma cluster_calls:
  "kind \<in> {''RBACGroupBinding'', ''ClusterRBACGroupBinding'', ''LDAPProvider'', ''RoleBinding'',
     ''ClusterRoleBinding'', ''Secret''} \<Longrightarrow> obeys (clientGet kind K k)"
  "kind \<in> {''RBACGroupBinding'', ''ClusterRBACGroupBinding'', ''LDAPProvider'', ''RoleBinding'',
     ''ClusterRoleBinding'', ''Secret''} \<Longrightarrow> obeys (clientList kind K' opts)"
  "obeys (clientCreate ORoleBinding K1 x1)" "obeys (clientUpdate ORoleBinding K1 x1)"
  "obeys (clientDelete ORoleBinding K1 x1)" "obeys (clientCreate OClusterRoleBinding K2 x2)"
  "obeys (clientUpdate OClusterRoleBinding K2 x2)" "obeys (clientDelete OClusterRoleBinding K2 x2)"
  "obeys (clientUpdate OLDAPProvider K3 x3)" "obeys (clientStatusUpdate OLDAPProvider K3 x3)"
  "obeys (clientStatusUpdate ORBACGroupBinding K4 x4)" "obeys (clientStatusUpdate OClusterRBACGroupBinding K5 x5)"
  unfolding call_defs by (intro obeys_call cluster; auto simp: granted_calls)+

lemmas cluster_intros = obeys_intros cluster_calls obeys_log obeys_metric obeys_event registry_obeys

lemmas handler_defs = recordWarning_def recordSuccessf_def SetStatusCondition_def Log_def Now_def Let_def

lemma get_provider:
  assumes "\<And>e. obeys (g e)" and "\<And>p. Q p \<Longrightarrow> obeys (h p)"
  shows "obeys (do { p \<leftarrow> clientGet ''LDAPProvider'' (lp_client E) k; case p of Inl e \<Rightarrow> g e | Inr p \<Rightarrow> h p })"
proof (rule obeys_bind_yields)
  show "obeys (clientGet ''LDAPProvider'' (lp_client E) k)"
    by (intro cluster_intros) simp
  show "yields (\<lambda>r. \<forall>p. r = Inr p \<longrightarrow> Q p) (clientGet ''LDAPProvider'' (lp_client E) k)"
    by (auto simp: yields_def clientGet_def call_def intro: provider_read split: prod.splits)
qed (auto intro!: assms split: sum.splits)

lemma factory_client_obeys: "obeys (GrouperFactory_client E f ctx p)"
  unfolding GrouperFactory_client_def GrouperFactory_tlsConfig_def GrouperFactory_secretValue_def
    Let_def secretKind_def
  by (auto intro!: cluster_intros registry_obeys split: prod.splits)

lemma resolve_grouper:
  assumes "Q p" and "\<And>e. obeys (g e)" and "\<And>gr. (\<And>c dn. obeys (gr c dn)) \<Longrightarrow> obeys (h gr)"
  shows "obeys (do { r \<leftarrow> GrouperFactory_Grouper E f ctx p; case r of Inl e \<Rightarrow> g e | Inr gr \<Rightarrow> h gr })"
proof (rule obeys_bind_yields)
  show "obeys (GrouperFactory_Grouper E f ctx p)"
    unfolding GrouperFactory_Grouper_def by (intro cluster_intros factory_client_obeys)
  show "yields (\<lambda>r. case r of Inl _ \<Rightarrow> True | Inr gr \<Rightarrow> \<forall>c dn. obeys (gr c dn)) (GrouperFactory_Grouper E f ctx p)"
    unfolding GrouperFactory_Grouper_def
    by (rule yields_bind[OF factory_client_faithful])
      (auto intro!: yields_intro query[OF assms(1), THEN conjunct1] split: sum.splits)
qed (auto intro!: assms split: sum.splits)

lemma resolve_pinger:
  assumes "Q p" and "\<And>e. obeys (g e)" and "\<And>pg. (\<And>c. obeys (pg c)) \<Longrightarrow> obeys (h pg)"
  shows "obeys (do { r \<leftarrow> GrouperFactory_Pinger E f ctx p; case r of Inl e \<Rightarrow> g e | Inr pg \<Rightarrow> h pg })"
proof (rule obeys_bind_yields)
  show "obeys (GrouperFactory_Pinger E f ctx p)"
    unfolding GrouperFactory_Pinger_def by (intro cluster_intros factory_client_obeys)
  show "yields (\<lambda>r. case r of Inl _ \<Rightarrow> True | Inr pg \<Rightarrow> \<forall>c. obeys (pg c)) (GrouperFactory_Pinger E f ctx p)"
    unfolding GrouperFactory_Pinger_def
    by (rule yields_bind[OF factory_client_faithful])
      (auto intro!: yields_intro query[OF assms(1), THEN conjunct2] split: sum.splits)
qed (auto intro!: assms split: sum.splits)

lemma RGB_handlers:
  "obeys (RGB_markReady E b ms i)" "obeys (RGB_markDegraded E b err)" "obeys (RGB_markGroupNotFound E b i)"
  "obeys (RGB_recordOutcome b d ms oc)" "obeys (reconcileRoleBinding E d)"
  unfolding RGB_markReady_def RGB_markDegraded_def RGB_markGroupNotFound_def RGB_recordOutcome_def
    reconcileRoleBinding_def handler_defs
  by (auto intro!: cluster_intros split: prod.splits)

lemma RGB_obeys: "obeys (RGB_Reconcile E (GrouperFactory_Grouper E f) ctx k)"
proof -
  have "obeys (RGB_reconcileBody E (GrouperFactory_Grouper E f) ctx k)"
    unfolding RGB_reconcileBody_def rbacGroupBindingKind_def
    apply (rule obeys_bind)
    subgoal by (intro cluster_intros) simp
    by (intro obeys_sum obeys_ret get_provider resolve_grouper RGB_handlers)
      (auto intro!: cluster_intros RGB_handlers simp: handler_defs)
  then show ?thesis unfolding RGB_Reconcile_def Now_def by (intro cluster_intros)
qed

lemma CRGB_handlers:
  "obeys (CRGB_markReady E b ms i)" "obeys (CRGB_markDegraded E b err)" "obeys (CRGB_markGroupNotFound E b i)"
  "obeys (CRGB_recordOutcome b d ms oc)" "obeys (reconcileClusterRoleBinding E d)"
  unfolding CRGB_markReady_def CRGB_markDegraded_def CRGB_markGroupNotFound_def CRGB_recordOutcome_def
    reconcileClusterRoleBinding_def handler_defs
  by (auto intro!: cluster_intros split: prod.splits)

lemma CRGB_obeys: "obeys (CRGB_Reconcile E (GrouperFactory_Grouper E f) ctx k)"
proof -
  have "obeys (CRGB_reconcileBody E (GrouperFactory_Grouper E f) ctx k)"
    unfolding CRGB_reconcileBody_def clusterRBACGroupBindingKind_def
    apply (rule obeys_bind)
    subgoal by (intro cluster_intros) simp
    by (intro obeys_sum obeys_ret get_provider resolve_grouper CRGB_handlers)
      (auto intro!: cluster_intros CRGB_handlers simp: handler_defs)
  then show ?thesis unfolding CRGB_Reconcile_def Now_def by (intro cluster_intros)
qed

lemma LP_handlers:
  "obeys (LP_markReady E p)" "obeys (LP_markDegraded E p err)" "obeys (LP_markInvalidSpec E p err)"
  "obeys (finalize E reg p)"
  unfolding LP_markReady_def LP_markDegraded_def LP_markInvalidSpec_def finalize_def hasDependents_def handler_defs
  by (auto intro!: cluster_intros registry_obeys)

lemma healthCheck_obeys:
  assumes "Q p"
  shows "obeys (healthCheck E (GrouperFactory_Pinger E f) ctx p)"
proof -
  have "obeys (do {
      r \<leftarrow> GrouperFactory_Pinger E f ctx p;
      case r of
        Inl err \<Rightarrow> LP_markDegraded E p err
      | Inr pinger \<Rightarrow> do {
          e \<leftarrow> pinger ctx;
          case e of None \<Rightarrow> LP_markReady E p | Some err \<Rightarrow> LP_markDegraded E p err } })"
    by (rule resolve_pinger) (auto intro!: assms LP_handlers obeys_bind obeys_option)
  then show ?thesis
    unfolding healthCheck_def Log_def
    by - (rule obeys_bind, (intro cluster_intros)[1], rule obeys_option, assumption, rule LP_handlers)
qed

lemma LP_obeys: "obeys (LP_Reconcile E (GrouperFactory_Pinger E f) reg ctx k)"
proof -
  have update: "obeys (do { u \<leftarrow> clientUpdate OLDAPProvider (lp_client E) p;
      case u of Inl err \<Rightarrow> ret (zeroResult, Some err) | Inr q \<Rightarrow> healthCheck E (GrouperFactory_Pinger E f) ctx q })" for p
  proof (rule obeys_bind_yields)
    show "obeys (clientUpdate OLDAPProvider (lp_client E) p)"
      by (intro cluster_intros)
    show "yields (\<lambda>r. \<forall>q. r = Inr q \<longrightarrow> Q q) (clientUpdate OLDAPProvider (lp_client E) p)"
      by (auto simp: yields_def clientUpdate_def call_def intro: provider_written split: prod.splits)
  qed (auto intro!: obeys_ret healthCheck_obeys split: sum.splits)
  have "obeys (LP_reconcileBody E (GrouperFactory_Pinger E f) reg ctx k)"
    unfolding LP_reconcileBody_def ldapProviderKind_def
    by (intro get_provider obeys_if obeys_ret LP_handlers update healthCheck_obeys)
  then show ?thesis unfolding LP_Reconcile_def Now_def by (intro cluster_intros)
qed

lemma secret_loops_obey: "obeys (secretRequestsRBAC E ps reqs)" "obeys (secretRequestsCluster E ps reqs)"
  by (induction ps arbitrary: reqs) (auto intro!: cluster_intros)

lemma mappers_obey:
  "obeys (mapProviderToRBACGroupBindings E x)" "obeys (mapProviderToClusterRBACGroupBindings E x)"
  "obeys (mapSecretToRBACGroupBindings E x)" "obeys (mapSecretToClusterRBACGroupBindings E x)"
  unfolding mapProviderToRBACGroupBindings_def mapProviderToClusterRBACGroupBindings_def mapSecretToRBACGroupBindings_def
    mapSecretToClusterRBACGroupBindings_def providersReferencingSecret_def
  by (auto intro!: cluster_intros secret_loops_obey split: object.split)

lemma watches_obey: "list_all (\<lambda>w. \<forall>x. obeys (w_map w x)) ws \<Longrightarrow> obeys (watchRequests ws x)"
  by (induction ws) (auto intro!: obeys_intros)

lemma endpoint_obeys: "obeys (Check E rd)"
  unfolding Check_def by (auto intro!: cluster_intros)

lemma webhooks_obey:
  "obeys (RGB_ValidateCreate E b)" "obeys (RGB_ValidateUpdate E old b)" "obeys (RGB_ValidateDelete b)"
  "obeys (CRGB_ValidateCreate E c)" "obeys (CRGB_ValidateUpdate E old' c)" "obeys (CRGB_ValidateDelete c)"
  unfolding RGB_ValidateCreate_def RGB_ValidateUpdate_def RGB_ValidateDelete_def RGB_rejectDuplicate_def
    CRGB_ValidateCreate_def CRGB_ValidateUpdate_def CRGB_ValidateDelete_def CRGB_rejectDuplicate_def
  by (auto intro!: cluster_intros)

end

section \<open>The running operator\<close>

text \<open>
  What the started process does, in any order: reconciles of the three controllers, mapping
  of changed objects, readiness probes and, where they are enabled, validations. Between any
  two of them the outside may change in any way. Within one, the world changes only through
  the answers of the calls, which are arbitrary.
\<close>

definition controllers :: "'w env \<Rightarrow> flags \<Rightarrow> 'w controller list" where
  "controllers E fl = [RGB_controller E fl, CRGB_controller E fl, LP_controller E fl]"

inductive operator :: "'w env \<Rightarrow> flags \<Rightarrow> 'w op_state \<Rightarrow> bool" for E fl where
  booted: "os_trace s = [] \<Longrightarrow> os_metrics s = emptyMetrics \<Longrightarrow>
    os_registries s limitersAddr = newLimiters 0 0 \<Longrightarrow> operator E fl s"
| outside: "operator E fl s \<Longrightarrow> operator E fl (s\<lparr>os_world := w\<rparr>)"
| reconciled: "operator E fl s \<Longrightarrow> c \<in> set (controllers E fl) \<Longrightarrow>
    operator E fl (snd (run_state (ctl_Reconciler c ctx k) s))"
| mapped: "operator E fl s \<Longrightarrow> c \<in> set (controllers E fl) \<Longrightarrow>
    operator E fl (snd (run_state (watchRequests (ctl_Watches c) x) s))"
| probed: "operator E fl s \<Longrightarrow> operator E fl (snd (run_state (Check E NewLDAPProviderReadiness) s))"
| validated_create: "operator E fl s \<Longrightarrow> fl_enableValidatingWebhook fl \<Longrightarrow>
    operator E fl (snd (run_state (RGB_ValidateCreate E b) s))"
| validated_update: "operator E fl s \<Longrightarrow> fl_enableValidatingWebhook fl \<Longrightarrow>
    operator E fl (snd (run_state (RGB_ValidateUpdate E old b) s))"
| validated_cluster_create: "operator E fl s \<Longrightarrow> fl_enableValidatingWebhook fl \<Longrightarrow>
    operator E fl (snd (run_state (CRGB_ValidateCreate E c) s))"
| validated_cluster_update: "operator E fl s \<Longrightarrow> fl_enableValidatingWebhook fl \<Longrightarrow>
    operator E fl (snd (run_state (CRGB_ValidateUpdate E old' c) s))"

context wiring_law
begin

lemma controllers_obey:
  assumes "f = grouperFactory fl" and "c \<in> set (controllers E fl)"
  shows "obeys (ctl_Reconciler c ctx k)" and "obeys (watchRequests (ctl_Watches c) x)"
proof -
  note defs = controllers_def RGB_controller_def CRGB_controller_def LP_controller_def RGB_SetupWithManager_def
    CRGB_SetupWithManager_def LP_SetupWithManager_def
  show "obeys (ctl_Reconciler c ctx k)"
    using assms(2) RGB_obeys CRGB_obeys LP_obeys by (auto simp: defs assms(1)[symmetric])
  show "obeys (watchRequests (ctl_Watches c) x)"
    using assms(2) mappers_obey by (intro watches_obey) (auto simp: defs)
qed

text \<open>Every state of the running operator is related to a state it booted in.\<close>

definition since_boot :: "'w op_state \<Rightarrow> bool" where
  "since_boot s \<longleftrightarrow> (\<exists>s0. os_trace s0 = [] \<and> os_registries s0 limitersAddr = newLimiters 0 0 \<and> R s0 s)"

lemma since_boot_step: "since_boot s \<Longrightarrow> obeys m \<Longrightarrow> since_boot (snd (run_state m s))"
  unfolding since_boot_def obeys_def using law_trans by metis

lemma operator_obeys:
  assumes "f = grouperFactory fl" and "operator E fl s"
  shows "since_boot s"
  using assms(2)
proof (induction rule: operator.induct)
  case (booted s)
  then show ?case unfolding since_boot_def using law_refl by metis
next
  case (outside s w)
  then show ?case unfolding since_boot_def using law_trans elsewhere by metis
next
  case (reconciled s c ctx k)
  show ?case by (rule since_boot_step[OF reconciled.IH controllers_obey(1)[OF assms(1) reconciled.hyps(2)]])
next
  case (mapped s c x)
  show ?case by (rule since_boot_step[OF mapped.IH controllers_obey(2)[OF assms(1) mapped.hyps(2)]])
qed (rule since_boot_step, assumption, rule webhooks_obey endpoint_obeys)+

end

section \<open>Laws of the trace alone\<close>

text \<open>
  A property of action sequences that holds of none and of two in a row gives a law: what a
  run appends has it.
\<close>

locale trace_law =
  fixes L :: "action list \<Rightarrow> bool"
  assumes law_Nil: "L []" and law_append: "L as \<Longrightarrow> L bs \<Longrightarrow> L (as @ bs)"
begin

definition appends :: "'w op_state \<Rightarrow> 'w op_state \<Rightarrow> bool" where
  "appends s t \<longleftrightarrow> (\<exists>as. os_trace t = os_trace s @ as \<and> L as)"

lemma appends_same: "os_trace t = os_trace s \<Longrightarrow> appends s t"
  using law_Nil by (simp add: appends_def)

lemma appends_trans: "appends s t \<Longrightarrow> appends t u \<Longrightarrow> appends s u"
  unfolding appends_def using law_append by force

lemma appends_step_law: "step_law appends"
  by unfold_locales (auto intro: appends_same appends_trans)

lemma appends_obeys: "emits (\<lambda>_. L) m \<Longrightarrow> step_law.obeys appends m"
  by (simp add: step_law.obeys_def[OF appends_step_law] appends_def emits_def)

lemma appends_wiring:
  fixes E :: "'w env"
  assumes "\<And>a. granted a \<or> is_event a \<Longrightarrow> \<not> directory_action a \<Longrightarrow> L [a]"
    and "\<And>msg args. L [ALog msg args]"
    and "\<And>p cfg as. Q p \<Longrightarrow> faithful_config f p cfg \<Longrightarrow> query_trace cfg as \<Longrightarrow> L as"
    and "\<And>k w p w'. k_Get (lp_client E) k w = (Inr p, w') \<Longrightarrow> Q p"
    and "\<And>p w p' w'. k_Update (lp_client E) p w = (Inr p', w') \<Longrightarrow> Q p'"
  shows "wiring_law appends E f Q"
proof (intro wiring_law.intro wiring_law_axioms.intro appends_step_law)
  show "Q p \<Longrightarrow> faithful_config f p cfg \<Longrightarrow> step_law.obeys appends (GetGroupMembers E cfg ctx dn) \<and>
      step_law.obeys appends (Ping E cfg ctx)" for p cfg ctx dn
    using assms(3) by (intro conjI appends_obeys emits_mono[OF GetGroupMembers_trace[of cfg]]
        emits_mono[OF Ping_trace[of cfg]])
qed (use assms(1,2,4,5) in \<open>auto simp: appends_def law_Nil\<close>)

lemma operator_law:
  assumes "wiring_law appends E (grouperFactory fl) Q" and "operator E fl s"
  shows "L (os_trace s)"
  using wiring_law.operator_obeys[OF assms(1) refl assms(2)] assms(1)
  unfolding wiring_law.since_boot_def[OF assms(1)] appends_def by auto

end

text \<open>
  A monitor reads the trace with a state of its own; a larger state accepts more, so that
  what is accepted from the least state is accepted anywhere.
\<close>

locale trace_monitor =
  fixes step :: "'s :: order_bot \<Rightarrow> action \<Rightarrow> 's" and ok :: "'s \<Rightarrow> action \<Rightarrow> bool"
    and accepts :: "'s \<Rightarrow> action list \<Rightarrow> bool"
  assumes accepts_Nil: "accepts x []" and accepts_Cons: "accepts x (a # as) \<longleftrightarrow> ok x a \<and> accepts (step x a) as"
    and step_mono: "x \<le> y \<Longrightarrow> step x a \<le> step y a" and ok_mono: "x \<le> y \<Longrightarrow> ok x a \<Longrightarrow> ok y a"
begin

lemma accepts_mono: "accepts x as \<Longrightarrow> x \<le> y \<Longrightarrow> accepts y as"
  by (induction "as" arbitrary: x y) (auto simp: accepts_Nil accepts_Cons intro: ok_mono step_mono)

lemma accepts_append: "accepts x as \<Longrightarrow> accepts bot bs \<Longrightarrow> accepts x (as @ bs)"
  by (induction "as" arbitrary: x) (auto simp: accepts_Nil accepts_Cons intro: accepts_mono)

end

sublocale trace_monitor \<subseteq> trace_law "accepts bot"
  by unfold_locales (rule accepts_Nil accepts_append; assumption)+

section \<open>The laws\<close>

text \<open>Binds over TLS.\<close>

lemma tls_step_mono: "S \<subseteq> T \<Longrightarrow> tls_step S a \<subseteq> tls_step T a"
  by (cases "(S, a)" rule: tls_step.cases) (auto split: option.splits)

lemma bind_secured_mono: "S \<subseteq> T \<Longrightarrow> bind_secured S a \<Longrightarrow> bind_secured T a"
  by (cases a) auto

interpretation secure: trace_monitor tls_step bind_secured binds_secured
  by unfold_locales (auto intro: bind_secured_mono dest: tls_step_mono)

text \<open>Every dial is paid for: a granted token comes before it, and each token pays for one dial.\<close>

fun pace_step :: "bool \<Rightarrow> action \<Rightarrow> bool" where
  "pace_step token (AWait l ok) = (token \<or> ok)"
| "pace_step token (ADial url opts c) = False"
| "pace_step token a = token"

fun pace_ok :: "bool \<Rightarrow> action \<Rightarrow> bool" where
  "pace_ok token (ADial url opts c) = token"
| "pace_ok token a = True"

fun paced :: "bool \<Rightarrow> action list \<Rightarrow> bool" where
  "paced token [] = True"
| "paced token (a # as) = (pace_ok token a \<and> paced (pace_step token a) as)"

lemma pace_mono: "x \<le> y \<Longrightarrow> pace_step x a \<le> pace_step y a" "x \<le> y \<Longrightarrow> pace_ok x a \<Longrightarrow> pace_ok y a"
  by (cases a; simp)+

interpretation pacing: trace_monitor pace_step pace_ok paced
  by unfold_locales (simp, simp, erule pace_mono(1), erule (1) pace_mono(2))

fun idle :: "action \<Rightarrow> bool" where
  "idle (ADial _ _ _) = False"
| "idle (AWait _ _) = False"
| "idle _ = True"

lemma idle_pace: "idle a \<Longrightarrow> pace_ok x a \<and> pace_step x a = x"
  by (cases a) simp_all

lemma paced_idle: "list_all idle as \<Longrightarrow> paced x (as @ bs) = paced x bs"
  by (induction "as") (simp_all add: idle_pace)

lemma search_idle: "list_all search_action as \<Longrightarrow> list_all idle as"
  by (induction "as") (auto elim: search_action.elims)

lemma timeouts_unpaced: "list_all (\<lambda>a. \<exists>d. a = ASetTimeout c d) as \<Longrightarrow> list_all idle as"
  by (induction "as") auto

lemma dial_paced: "dial_trace cfg r as \<Longrightarrow> paced True as"
  by (auto elim!: dial_trace.cases simp: upgrade_def)

lemma wait_paced: "wait_trace cfg None ws \<Longrightarrow> cfg_Limiter cfg \<noteq> None \<Longrightarrow> paced x (ws @ as) = paced True as"
  by (auto elim!: wait_trace.cases)

lemma connect_paced: "connect_trace cfg r as \<Longrightarrow> cfg_Limiter cfg \<noteq> None \<Longrightarrow> paced False as"
proof (induction rule: connect_trace.induct)
  case (rate_limited err ws err')
  then show ?case by (auto elim!: wait_trace.cases)
next
  case (bind_failed ws c ts err)
  then show ?case by (simp add: wait_paced upgrade_def paced_idle[OF timeouts_unpaced[OF bind_failed(2)]])
next
  case (connected ws c ts)
  then show ?case by (simp add: wait_paced upgrade_def paced_idle[OF timeouts_unpaced[OF connected(2)]])
qed (simp add: wait_paced dial_paced)

lemma query_paced:
  assumes "query_trace cfg as" and "cfg_Limiter cfg \<noteq> None"
  shows "paced False as"
  using assms(1)
proof (cases rule: query_trace_cases)
  case (queried c cs qs)
  have "paced False cs" by (rule connect_paced[OF queried(1) assms(2)])
  moreover have "paced bot (qs @ [AClose c])" by (simp add: paced_idle[OF search_idle[OF queried(2)]])
  ultimately show ?thesis unfolding queried(3) by (rule pacing.accepts_append)
qed (rule connect_paced[OF _ assms(2)])

text \<open>Every connection that was opened was closed.\<close>

interpretation leaks: trace_law "\<lambda>as. mset (opened as) = mset (closed as)"
  by unfold_locales simp_all

lemma session_closed: "session as \<Longrightarrow> mset (opened as) = mset (closed as)"
  by (auto simp: session_def)

text \<open>Every call is permitted, recording events apart.\<close>

interpretation grants: trace_law "list_all (\<lambda>a. granted a \<or> is_event a)"
  by unfold_locales simp_all

lemma query_directory_trace:
  assumes "query_trace cfg as"
  shows "list_all directory_action as"
proof -
  have searches: "list_all search_action as \<Longrightarrow> list_all directory_action as" for "as"
    by (induction "as") (auto elim: search_action.elims)
  have timeouts: "list_all (\<lambda>a. \<exists>d. a = ASetTimeout c d) as \<Longrightarrow> list_all directory_action as" for c "as"
    by (induction "as") auto
  have connect: "connect_trace cfg r as \<Longrightarrow> list_all directory_action as" for r "as"
    by (induction rule: connect_trace.induct)
      (auto elim!: wait_trace.cases dial_trace.cases simp: upgrade_def timeouts)
  show ?thesis
    using assms by (cases rule: query_trace_cases) (auto simp: searches connect)
qed

section \<open>The operator obeys them\<close>

lemma cluster_idle:
  "\<not> directory_action a \<Longrightarrow> bind_secured S a \<and> pace_ok x a \<and> opens a = [] \<and> closes a = []"
  by (cases a) simp_all

lemma secure_wiring:
  assumes "\<And>k w p w'. k_Get (lp_client E) k w = (Inr p, w') \<Longrightarrow> \<not> lps_InsecureSkipTLS (lp_Spec p)"
    and "\<And>p w p' w'. k_Update (lp_client E) p w = (Inr p', w') \<Longrightarrow> \<not> lps_InsecureSkipTLS (lp_Spec p')"
  shows "wiring_law secure.appends E f (\<lambda>p. \<not> lps_InsecureSkipTLS (lp_Spec p))"
  by (rule secure.appends_wiring)
    (auto simp: cluster_idle faithful_config_def intro: query_trace_secured dest: assms)

interpretation paced_operator: wiring_law pacing.appends E "grouperFactory fl" "\<lambda>_. True" for E fl
  by (rule pacing.appends_wiring)
    (auto simp: cluster_idle faithful_config_def grouperFactory_def intro!: query_paced)

interpretation closing_operator: wiring_law leaks.appends E f "\<lambda>_. True" for E f
  by (rule leaks.appends_wiring) (auto simp: cluster_idle session_closed query_trace_session)

interpretation granted_operator: wiring_law grants.appends E f "\<lambda>_. True" for E f
  by (rule grants.appends_wiring)
    (auto simp: directory_granted list_all_iff dest!: query_directory_trace)

text \<open>The limiter registry is used through its methods only.\<close>

definition registry_used :: "'w op_state \<Rightarrow> 'w op_state \<Rightarrow> bool" where
  "registry_used s t \<longleftrightarrow> (\<exists>ops. os_registries t limitersAddr = registry_run (os_registries s limitersAddr) ops)"

lemma registry_usedI:
  "os_registries t limitersAddr = os_registries s limitersAddr \<Longrightarrow> registry_used s t"
  "os_registries t limitersAddr = registry_step (os_registries s limitersAddr) op \<Longrightarrow> registry_used s t"
  unfolding registry_used_def
  by (rule exI[of _ "[]"], simp add: registry_run_def) (rule exI[of _ "[op]"], simp add: registry_run_def)

lemma registry_used_trans: "registry_used s t \<Longrightarrow> registry_used t u \<Longrightarrow> registry_used s u"
proof -
  assume "registry_used s t" "registry_used t u"
  then obtain ops ops' where "os_registries t limitersAddr = registry_run (os_registries s limitersAddr) ops"
    "os_registries u limitersAddr = registry_run (os_registries t limitersAddr) ops'"
    unfolding registry_used_def by blast
  then have "os_registries u limitersAddr = registry_run (os_registries s limitersAddr) (ops @ ops')"
    by (simp add: registry_run_def)
  then show "registry_used s u" unfolding registry_used_def by blast
qed

interpretation registry_law: step_law registry_used
  by unfold_locales (auto intro: registry_usedI registry_used_trans)

interpretation registry_operator: wiring_law registry_used E f "\<lambda>_. True" for E f
proof unfold_locales
  fix s :: "'a op_state" and addr name
  show "registry_used s (s\<lparr>os_registries := (os_registries s)(addr := snd (Limiters_Get (os_registries s addr) name))\<rparr>)"
    by (cases "addr = limitersAddr") (auto intro: registry_usedI(1) registry_usedI(2)[where op = "RGet name"])
  show "registry_used s (s\<lparr>os_registries := (os_registries s)(addr := Limiters_Delete (os_registries s addr) name)\<rparr>)"
    by (cases "addr = limitersAddr") (auto intro: registry_usedI(1) registry_usedI(2)[where op = "RDelete name"])
next
  fix cfg ctx dn
  show "registry_law.obeys (GetGroupMembers E cfg ctx dn) \<and> registry_law.obeys (Ping E cfg ctx)"
    using client_internals keeps_internalsD(2)
    unfolding registry_law.obeys_def by (metis keeps_def registry_usedI(1))
qed (auto intro: registry_usedI(1))

end
