(* ===== verification/Metrics_Laws.thy ===== *)
theory Metrics_Laws
  imports Trace_Laws
begin

text \<open>
  What the metrics say about the operator. One reconcile observes one duration and counts at
  most one outcome; over a whole run the counters agree with each other. \<open>tally R m\<close> relates the
  value that \<open>m\<close> returns to the metrics before and after it.
\<close>

section \<open>The effect of a step on the metrics\<close>

definition tally :: "('a \<Rightarrow> metrics \<Rightarrow> metrics \<Rightarrow> bool) \<Rightarrow> ('w op_state, 'a) state \<Rightarrow> bool" where
  "tally R m \<longleftrightarrow> (\<forall>s. R (fst (run_state m s)) (os_metrics s) (os_metrics (snd (run_state m s))))"

named_theorems tally_intro \<open>steps whose effect on the metrics is known\<close>

lemma tally_ret [tally_intro]: "(\<And>m. R x m m) \<Longrightarrow> tally R (ret x)"
  by (simp add: tally_def)

lemma tally_bind [tally_intro]:
  "keeps os_metrics m \<Longrightarrow> (\<And>x. tally R (f x)) \<Longrightarrow> tally R (State_Monad.bind m f)"
  by (simp add: tally_def keeps_def split: prod.splits) (metis fst_conv snd_conv)

lemma tally_bind_yields:
  "keeps os_metrics m \<Longrightarrow> yields P m \<Longrightarrow> (\<And>x. P x \<Longrightarrow> tally R (f x)) \<Longrightarrow> tally R (State_Monad.bind m f)"
  by (simp add: tally_def keeps_def yields_def split: prod.splits) (metis fst_conv snd_conv)

lemma tally_sum [tally_intro]:
  "(\<And>e. x = Inl e \<Longrightarrow> tally R (g e)) \<Longrightarrow> (\<And>y. x = Inr y \<Longrightarrow> tally R (h y)) \<Longrightarrow>
   tally R (case x of Inl e \<Rightarrow> g e | Inr y \<Rightarrow> h y)"
  by (cases x) simp_all

lemma tally_option [tally_intro]:
  "(x = None \<Longrightarrow> tally R n) \<Longrightarrow> (\<And>y. x = Some y \<Longrightarrow> tally R (h y)) \<Longrightarrow> tally R (case x of None \<Rightarrow> n | Some y \<Rightarrow> h y)"
  by (cases x) simp_all

lemma tally_if [tally_intro]:
  "(b \<Longrightarrow> tally R m) \<Longrightarrow> (\<not> b \<Longrightarrow> tally R n) \<Longrightarrow> tally R (if b then m else n)"
  by simp

lemma metrics_kept [keeps_intro]:
  "keeps os_metrics (call act g)" "keeps os_metrics (emit a)" "keeps os_metrics (observe h)"
  "keeps os_metrics (registryGet reg name)" "keeps os_metrics (registryDelete reg name)"
  by (simp_all add: keeps_def call_def emit_def observe_def registryGet_run registryDelete_def
      split: prod.splits option.splits)

lemma calls_keep_metrics [keeps_intro]:
  "keeps os_metrics (clientGet kind K k)" "keeps os_metrics (clientList kind K opts)"
  "keeps os_metrics (clientCreate wrap K x)" "keeps os_metrics (clientUpdate wrap K x)"
  "keeps os_metrics (clientDelete wrap K x)" "keeps os_metrics (clientStatusUpdate wrap K x)"
  "keeps os_metrics (Log msg args)" "keeps os_metrics (Now E)"
  unfolding call_defs Log_def Now_def by (intro metrics_kept)+

lemma factory_keeps_metrics [keeps_intro]: "keeps os_metrics (GrouperFactory_client E f ctx p)"
  unfolding factory_defs Let_def by (auto intro!: keeps_intro split: prod.splits)

lemma resolvers_keep_metrics [keeps_intro]:
  "keeps os_metrics (GrouperFactory_Grouper E f ctx p)" "keeps os_metrics (GrouperFactory_Pinger E f ctx p)"
  unfolding GrouperFactory_Grouper_def GrouperFactory_Pinger_def by (intro keeps_intro)+

lemma resolved_keep_metrics:
  "yields (\<lambda>r. \<forall>g c dn. r = Inr g \<longrightarrow> keeps os_metrics (g c dn)) (GrouperFactory_Grouper E f ctx p)"
  "yields (\<lambda>r. \<forall>g c. r = Inr g \<longrightarrow> keeps os_metrics (g c)) (GrouperFactory_Pinger E f ctx p)"
  unfolding GrouperFactory_Grouper_def GrouperFactory_Pinger_def
  by (auto intro!: yields_intro keeps_internalsD(1) client_internals split: sum.splits)

section \<open>One reconcile\<close>

text \<open>
  How a reconcile is counted: not at all (it failed before a verdict or found nothing to do),
  or once under a result. The gauge of the members is set with \<open>ready\<close> only and the errors of a
  provider are counted with \<open>degraded\<close> only, which is always returned as an error.
\<close>

inductive binding_counted :: "string \<Rightarrow> Result \<times> error option \<Rightarrow> metrics \<Rightarrow> metrics \<Rightarrow> bool" for kind where
  stopped: "snd r \<noteq> None \<or> r = (zeroResult, None) \<Longrightarrow> binding_counted kind r m m"
| ready: "binding_counted kind r m (MembersCount_Set kind ns n v (SyncTotal_Inc kind ''ready'' m))"
| degraded: "snd r \<noteq> None \<Longrightarrow> binding_counted kind r m (LDAPErrorsTotal_Inc p (SyncTotal_Inc kind ''degraded'' m))"
| missing: "binding_counted kind r m (SyncTotal_Inc kind ''group_not_found'' m)"

inductive provider_counted :: "Result \<times> error option \<Rightarrow> metrics \<Rightarrow> metrics \<Rightarrow> bool" where
  settled: "snd r \<noteq> None \<or> fst r = zeroResult \<or> fst r = \<lparr>RequeueAfter = inUseRecheckInterval\<rparr> \<Longrightarrow>
    provider_counted r m m"
| healthy: "provider_counted r m (SyncTotal_Inc ldapProviderKind ''ready'' m)"
| unhealthy: "snd r \<noteq> None \<Longrightarrow>
    provider_counted r m (LDAPErrorsTotal_Inc p (SyncTotal_Inc ldapProviderKind ''degraded'' m))"
| invalid: "fst r = zeroResult \<Longrightarrow> provider_counted r m (SyncTotal_Inc ldapProviderKind ''invalid_spec'' m)"

lemmas mark_run = Now_def observe_def metric_def SetStatusCondition_def clientStatusUpdate_def call_def
  recordWarning_def emit_def Let_def

lemma RGB_marks_counted:
  "tally (binding_counted rbacGroupBindingKind) (RGB_markReady E b ms i)"
  "tally (binding_counted rbacGroupBindingKind) (RGB_markDegraded E b e)"
  "tally (binding_counted rbacGroupBindingKind) (RGB_markGroupNotFound E b i)"
  unfolding tally_def RGB_markReady_def RGB_markDegraded_def RGB_markGroupNotFound_def
  by (auto simp: mark_run intro!: binding_counted.intros(2-) split: prod.splits sum.splits)

lemma CRGB_marks_counted:
  "tally (binding_counted clusterRBACGroupBindingKind) (CRGB_markReady E b ms i)"
  "tally (binding_counted clusterRBACGroupBindingKind) (CRGB_markDegraded E b e)"
  "tally (binding_counted clusterRBACGroupBindingKind) (CRGB_markGroupNotFound E b i)"
  unfolding tally_def CRGB_markReady_def CRGB_markDegraded_def CRGB_markGroupNotFound_def
  by (auto simp: mark_run intro!: binding_counted.intros(2-) split: prod.splits sum.splits)

lemma LP_marks_counted:
  "tally provider_counted (LP_markReady E p)"
  "tally provider_counted (LP_markDegraded E p e)"
  "tally provider_counted (LP_markInvalidSpec E p e)"
  unfolding tally_def LP_markReady_def LP_markDegraded_def LP_markInvalidSpec_def
  by (auto simp: mark_run intro!: provider_counted.intros(2-) split: prod.splits sum.splits)

lemma outcomes_keep_metrics [keeps_intro]:
  "keeps os_metrics (RGB_recordOutcome b d ms oc)" "keeps os_metrics (CRGB_recordOutcome cb cd ms oc)"
  "keeps os_metrics (reconcileRoleBinding E d)" "keeps os_metrics (reconcileClusterRoleBinding E cd)"
  "keeps os_metrics (hasDependents E p)" "keeps os_metrics (recordWarning x reason msg)"
  unfolding RGB_recordOutcome_def CRGB_recordOutcome_def reconcileRoleBinding_def reconcileClusterRoleBinding_def
    recordSuccessf_def recordWarning_def hasDependents_def Let_def
  by (cases oc; auto intro!: keeps_intro)+

text \<open>A resolved client is used without touching the metrics.\<close>

lemma tally_grouper:
  assumes "\<And>e. tally R (g e)" and "\<And>gr. (\<And>c dn. keeps os_metrics (gr c dn)) \<Longrightarrow> tally R (h gr)"
  shows "tally R (do { r \<leftarrow> GrouperFactory_Grouper E f ctx p; case r of Inl e \<Rightarrow> g e | Inr gr \<Rightarrow> h gr })"
  by (rule tally_bind_yields[OF resolvers_keep_metrics(1) resolved_keep_metrics(1)])
    (auto intro!: assms split: sum.splits)

lemma tally_pinger:
  assumes "\<And>e. tally R (g e)" and "\<And>pg. (\<And>c. keeps os_metrics (pg c)) \<Longrightarrow> tally R (h pg)"
  shows "tally R (do { r \<leftarrow> GrouperFactory_Pinger E f ctx p; case r of Inl e \<Rightarrow> g e | Inr pg \<Rightarrow> h pg })"
  by (rule tally_bind_yields[OF resolvers_keep_metrics(2) resolved_keep_metrics(2)])
    (auto intro!: assms split: sum.splits)

lemma RGB_body_counted:
  "tally (binding_counted rbacGroupBindingKind) (RGB_reconcileBody E (GrouperFactory_Grouper E f) ctx k)"
  unfolding RGB_reconcileBody_def Let_def
  by (rule tally_bind[OF calls_keep_metrics(1)], rule tally_sum, rule tally_ret, rule binding_counted.stopped, force,
      rule tally_bind[OF calls_keep_metrics(1)], rule tally_sum, rule tally_if, rule RGB_marks_counted, rule tally_ret,
      simp add: binding_counted.stopped, rule tally_grouper, rule RGB_marks_counted)
    (auto intro!: tally_intro RGB_marks_counted keeps_intro binding_counted.stopped)

lemma CRGB_body_counted:
  "tally (binding_counted clusterRBACGroupBindingKind) (CRGB_reconcileBody E (GrouperFactory_Grouper E f) ctx k)"
  unfolding CRGB_reconcileBody_def Let_def
  by (rule tally_bind[OF calls_keep_metrics(1)], rule tally_sum, rule tally_ret, rule binding_counted.stopped, force,
      rule tally_bind[OF calls_keep_metrics(1)], rule tally_sum, rule tally_if, rule CRGB_marks_counted, rule tally_ret,
      simp add: binding_counted.stopped, rule tally_grouper, rule CRGB_marks_counted)
    (auto intro!: tally_intro CRGB_marks_counted keeps_intro binding_counted.stopped)

lemma healthCheck_counted:
  "tally provider_counted (healthCheck E (GrouperFactory_Pinger E f) ctx p)"
  unfolding healthCheck_def
  by (rule tally_bind, intro keeps_intro, rule tally_option, rule tally_pinger)
    (auto intro!: tally_intro LP_marks_counted)

lemma LP_body_counted:
  "tally provider_counted (LP_reconcileBody E (GrouperFactory_Pinger E f) reg ctx k)"
  unfolding LP_reconcileBody_def finalize_def
  by (auto intro!: tally_intro keeps_intro healthCheck_counted provider_counted.settled split: sum.splits)

text \<open>The timer around a reconcile adds one observation.\<close>

definition timed ::
  "string \<Rightarrow> (Result \<times> error option \<Rightarrow> metrics \<Rightarrow> metrics \<Rightarrow> bool) \<Rightarrow> Result \<times> error option \<Rightarrow> metrics \<Rightarrow> metrics \<Rightarrow> bool" where
  "timed kind C r m m' \<longleftrightarrow> (\<exists>d m1. C r m m1 \<and> m' = SyncDuration_Observe kind d m1)"

lemma timedI:
  assumes "tally C body"
  shows "tally (timed kind C) (do { start \<leftarrow> Now E; r \<leftarrow> body; stop \<leftarrow> Now E;
    metric (SyncDuration_Observe kind (stop - start)); ret r })"
  using assms unfolding tally_def timed_def
  by (auto simp: Now_def observe_def metric_def split: prod.splits) (metis fst_conv snd_conv)

lemma reconciles_timed:
  "tally (timed rbacGroupBindingKind (binding_counted rbacGroupBindingKind))
     (RGB_Reconcile E (GrouperFactory_Grouper E f) ctx k)"
  "tally (timed clusterRBACGroupBindingKind (binding_counted clusterRBACGroupBindingKind))
     (CRGB_Reconcile E (GrouperFactory_Grouper E f) ctx k)"
  "tally (timed ldapProviderKind provider_counted) (LP_Reconcile E (GrouperFactory_Pinger E f) reg ctx k)"
  unfolding RGB_Reconcile_def CRGB_Reconcile_def LP_Reconcile_def
  by (intro timedI RGB_body_counted CRGB_body_counted LP_body_counted)+

section \<open>Whole runs\<close>

definition metric_kinds :: "string set" where
  "metric_kinds = {rbacGroupBindingKind, clusterRBACGroupBindingKind, ldapProviderKind}"

definition metric_results :: "string set" where
  "metric_results = {''ready'', ''degraded'', ''group_not_found'', ''invalid_spec''}"

text \<open>
  The metrics agree: only known kinds and results occur, no more outcomes of a kind are counted
  than reconciles of it were timed, and the errors counted by provider are as many as the
  degraded reconciles.
\<close>

definition metrics_agree :: "metrics \<Rightarrow> bool" where
  "metrics_agree m \<longleftrightarrow>
     (\<forall>k r. SyncTotal m (k, r) \<noteq> 0 \<longrightarrow> k \<in> metric_kinds \<and> r \<in> metric_results) \<and>
     (\<forall>k. (\<Sum>r \<in> metric_results. SyncTotal m (k, r)) \<le> length (SyncDuration m k)) \<and>
     finite {p. LDAPErrorsTotal m p \<noteq> 0} \<and>
     (\<Sum>p | LDAPErrorsTotal m p \<noteq> 0. LDAPErrorsTotal m p) = (\<Sum>k \<in> metric_kinds. SyncTotal m (k, ''degraded''))"

lemma finite_labels [simp]: "finite metric_kinds" "finite metric_results"
  by (simp_all add: metric_kinds_def metric_results_def)

lemma metrics_agree_empty: "metrics_agree emptyMetrics"
  by (simp add: metrics_agree_def emptyMetrics_def)

text \<open>Adding one at a point adds one to a sum over the points that count.\<close>

lemma sum_fun_upd_Suc:
  assumes "finite A" and "a \<in> A"
  shows "(\<Sum>x \<in> A. (f(a := Suc (f a))) x) = Suc (\<Sum>x \<in> A. f x)"
  using assms by (simp add: sum.remove)

lemma sum_support_Suc:
  assumes "finite {x. f x \<noteq> (0::nat)}"
  shows "finite {x. (f(a := Suc (f a))) x \<noteq> 0}"
    and "(\<Sum>x | (f(a := Suc (f a))) x \<noteq> 0. (f(a := Suc (f a))) x) = Suc (\<Sum>x | f x \<noteq> 0. f x)"
proof -
  let ?g = "f(a := Suc (f a))" and ?A = "insert a {x. f x \<noteq> 0}"
  have eq: "{x. ?g x \<noteq> 0} = ?A" by auto
  show "finite {x. ?g x \<noteq> 0}" unfolding eq using assms by simp
  have "(\<Sum>x \<in> ?A. ?g x) = Suc (\<Sum>x \<in> ?A. f x)" using assms by (intro sum_fun_upd_Suc) auto
  also have "(\<Sum>x \<in> ?A. f x) = (\<Sum>x | f x \<noteq> 0. f x)" using assms by (cases "f a = 0") (auto simp: insert_absorb)
  finally show "(\<Sum>x | ?g x \<noteq> 0. ?g x) = Suc (\<Sum>x | f x \<noteq> 0. f x)" unfolding eq .
qed

lemma sum_results_Inc:
  "r \<in> metric_results \<Longrightarrow> (\<Sum>r' \<in> metric_results. SyncTotal (SyncTotal_Inc k r m) (k', r')) =
     (if k' = k then Suc (\<Sum>r' \<in> metric_results. SyncTotal m (k, r')) else (\<Sum>r' \<in> metric_results. SyncTotal m (k', r')))"
  using sum_fun_upd_Suc[of metric_results r "\<lambda>r'. SyncTotal m (k, r')"]
  by (simp add: SyncTotal_Inc_def fun_upd_def cong: if_cong)

lemma sum_degraded_Inc:
  "k \<in> metric_kinds \<Longrightarrow> (\<Sum>k' \<in> metric_kinds. SyncTotal (SyncTotal_Inc k r m) (k', ''degraded'')) =
     (\<Sum>k' \<in> metric_kinds. SyncTotal m (k', ''degraded'')) + (if r = ''degraded'' then 1 else 0)"
  using sum_fun_upd_Suc[of metric_kinds k "\<lambda>k'. SyncTotal m (k', ''degraded'')"]
  by (simp add: SyncTotal_Inc_def fun_upd_def cong: if_cong)

lemma metrics_agree_observe: "metrics_agree m \<Longrightarrow> metrics_agree (SyncDuration_Observe k d m)"
  by (auto simp: metrics_agree_def SyncDuration_Observe_def intro: le_SucI)

lemma metrics_agree_count:
  assumes "metrics_agree m" and "k \<in> metric_kinds" and "r \<in> metric_results" and "r \<noteq> ''degraded''"
  shows "metrics_agree (SyncDuration_Observe k d (SyncTotal_Inc k r m))"
  using assms(1) sum_results_Inc[OF assms(3), of k m] sum_degraded_Inc[OF assms(2), of r m] assms(2-4)
  by (auto simp: metrics_agree_def SyncDuration_Observe_def SyncTotal_Inc_def split: if_splits)

lemma metrics_agree_error:
  assumes "metrics_agree m" and "k \<in> metric_kinds"
  shows "metrics_agree (SyncDuration_Observe k d (LDAPErrorsTotal_Inc p (SyncTotal_Inc k ''degraded'' m)))"
proof -
  have r: "''degraded'' \<in> metric_results" by (simp add: metric_results_def)
  have "finite {x. LDAPErrorsTotal m x \<noteq> 0}" using assms(1) by (simp add: metrics_agree_def)
  note e = sum_support_Suc[OF this, of p]
  show ?thesis
    using assms(1) sum_results_Inc[OF r, of k m] sum_degraded_Inc[OF assms(2), of "''degraded''" m] assms(2) r e
    by (auto simp: metrics_agree_def metrics_defs split: if_splits)
qed

lemma metrics_agree_members:
  "metrics_agree (SyncDuration_Observe k d (MembersCount_Set k' ns n v m)) = metrics_agree (SyncDuration_Observe k d m)"
  by (simp add: metrics_agree_def metrics_defs)

lemma metric_kinds_simps [simp]:
  "rbacGroupBindingKind \<in> metric_kinds" "clusterRBACGroupBindingKind \<in> metric_kinds" "ldapProviderKind \<in> metric_kinds"
  by (simp_all add: metric_kinds_def)

lemma timed_agree:
  "timed k (binding_counted k) r m m' \<Longrightarrow> metrics_agree m \<Longrightarrow> k \<in> metric_kinds \<Longrightarrow> metrics_agree m'"
  "timed ldapProviderKind provider_counted r m m' \<Longrightarrow> metrics_agree m \<Longrightarrow> metrics_agree m'"
  unfolding timed_def
  by (auto elim!: binding_counted.cases provider_counted.cases
      simp: metrics_agree_members metric_results_def metrics_agree_observe metrics_agree_count metrics_agree_error)

lemma tallyD: "tally R m \<Longrightarrow> R (fst (run_state m s)) (os_metrics s) (os_metrics (snd (run_state m s)))"
  by (simp add: tally_def)

lemma reconcile_agrees:
  assumes "c \<in> set (controllers E fl)" and "metrics_agree (os_metrics s)"
  shows "metrics_agree (os_metrics (snd (run_state (ctl_Reconciler c ctx k) s)))"
  using assms timed_agree(1)[OF tallyD[OF reconciles_timed(1)]] timed_agree(1)[OF tallyD[OF reconciles_timed(2)]]
    timed_agree(2)[OF tallyD[OF reconciles_timed(3)]]
  by (auto simp: controllers_def RGB_controller_def CRGB_controller_def LP_controller_def RGB_SetupWithManager_def
      CRGB_SetupWithManager_def LP_SetupWithManager_def)

lemma secret_loops_keep_metrics [keeps_intro]:
  "keeps os_metrics (secretRequestsRBAC E ps reqs)" "keeps os_metrics (secretRequestsCluster E ps reqs)"
  by (induction ps arbitrary: reqs) (auto intro!: keeps_intro)

lemma mappers_keep_metrics:
  "keeps os_metrics (mapProviderToRBACGroupBindings E x)" "keeps os_metrics (mapProviderToClusterRBACGroupBindings E x)"
  "keeps os_metrics (mapSecretToRBACGroupBindings E x)" "keeps os_metrics (mapSecretToClusterRBACGroupBindings E x)"
  unfolding mapProviderToRBACGroupBindings_def mapProviderToClusterRBACGroupBindings_def mapSecretToRBACGroupBindings_def
    mapSecretToClusterRBACGroupBindings_def providersReferencingSecret_def
  by (auto intro!: keeps_intro split: object.split)

lemma watchRequests_keep_metrics:
  "list_all (\<lambda>w. \<forall>x. keeps os_metrics (w_map w x)) ws \<Longrightarrow> keeps os_metrics (watchRequests ws x)"
  by (induction ws) (auto intro!: keeps_intro)

lemma watches_keep_metrics: "c \<in> set (controllers E fl) \<Longrightarrow> keeps os_metrics (watchRequests (ctl_Watches c) x)"
  by (rule watchRequests_keep_metrics)
    (auto simp: controllers_def RGB_controller_def CRGB_controller_def LP_controller_def RGB_SetupWithManager_def
      CRGB_SetupWithManager_def LP_SetupWithManager_def mappers_keep_metrics)

lemma others_keep_metrics:
  "keeps os_metrics (Check E rd)" "keeps os_metrics (RGB_ValidateCreate E b)" "keeps os_metrics (RGB_ValidateUpdate E old b)"
  "keeps os_metrics (CRGB_ValidateCreate E c)" "keeps os_metrics (CRGB_ValidateUpdate E old' c)"
  unfolding Check_def RGB_ValidateCreate_def RGB_ValidateUpdate_def RGB_rejectDuplicate_def
    CRGB_ValidateCreate_def CRGB_ValidateUpdate_def CRGB_rejectDuplicate_def
  by (auto intro!: keeps_intro)

section \<open>Guarantees\<close>

text \<open>
  C25. What one reconcile does to the metrics, for each of the three controllers and whatever the
  API server and the directory answer: it observes exactly one duration, counts at most one
  outcome, sets the members gauge only along with the result \<open>ready\<close>, and counts a directory
  error exactly with the result \<open>degraded\<close>, in which case it returns an error. A reconcile that
  returns no error and is not counted found nothing to report.
\<close>

theorem reconcile_metrics:
  "tally (timed rbacGroupBindingKind (binding_counted rbacGroupBindingKind)) (ctl_Reconciler (RGB_controller E fl) ctx k) \<and>
   tally (timed clusterRBACGroupBindingKind (binding_counted clusterRBACGroupBindingKind))
     (ctl_Reconciler (CRGB_controller E fl) ctx k) \<and>
   tally (timed ldapProviderKind provider_counted) (ctl_Reconciler (LP_controller E fl) ctx k)"
  by (simp add: RGB_controller_def CRGB_controller_def LP_controller_def RGB_SetupWithManager_def
      CRGB_SetupWithManager_def LP_SetupWithManager_def reconciles_timed)

text \<open>
  C26. The metrics of the running operator agree at any time between two of its activities: the
  results are counted for the three kinds and under four labels only, no kind has more
  outcomes than reconciles that were timed, and the errors counted by provider add up to the
  reconciles that ended degraded.
\<close>

theorem operator_metrics_agree:
  assumes "operator E fl s"
  shows "metrics_agree (os_metrics s)"
  using assms
proof (induction rule: operator.induct)
  case (booted s)
  then show ?case using metrics_agree_empty by simp
next
  case (outside s w)
  then show ?case by simp
next
  case (reconciled s c ctx k)
  then show ?case by (simp add: reconcile_agrees)
next
  case (mapped s c x)
  then show ?case using watches_keep_metrics by (metis keeps_def)
qed (metis others_keep_metrics keeps_def)+

theorem operator_metrics_agree_witness:
  "metrics_agree (os_metrics (snd (run_state (ctl_Reconciler (RGB_controller sim_env defaultFlags) demo_ctx
     (ObjectKeyFromObject (rgb_meta demo_binding)))
     (sim_start demo_world))))"
  by (rule operator_metrics_agree[OF operator.reconciled[OF operator.booted], where E = sim_env and fl = defaultFlags])
    (simp_all add: sim_start_def controllers_def)

text \<open>
  A gauge that was set is never removed again by a reconcile, not even by the one that finds
  its binding gone, so that the series of the gauge outlive their objects.
\<close>

lemma members_gauge_never_removed:
  assumes "c \<in> set (controllers E fl)" and "MembersCount (os_metrics s) l \<noteq> None"
  shows "MembersCount (os_metrics (snd (run_state (ctl_Reconciler c ctx k) s))) l \<noteq> None"
proof -
  have binding: "timed kd (binding_counted kd) r m m' \<Longrightarrow> MembersCount m l \<noteq> None \<Longrightarrow> MembersCount m' l \<noteq> None"
    and provider: "timed kd provider_counted r m m' \<Longrightarrow> MembersCount m l \<noteq> None \<Longrightarrow> MembersCount m' l \<noteq> None" for kd r m m'
    by (auto simp: timed_def metrics_defs elim!: binding_counted.cases provider_counted.cases)
  show ?thesis
    using assms(1) binding[OF tallyD[OF reconciles_timed(1)] assms(2)] binding[OF tallyD[OF reconciles_timed(2)] assms(2)]
      provider[OF tallyD[OF reconciles_timed(3)] assms(2)]
    by (auto simp: controllers_def RGB_controller_def CRGB_controller_def LP_controller_def RGB_SetupWithManager_def
        CRGB_SetupWithManager_def LP_SetupWithManager_def)
qed

end
