(* ===== verification/Go_Heap.thy ===== *)
theory Go_Heap
  imports Prelude
begin

text \<open>
  Go's memory, for the code that copies structures: a heap of cells addressed by numbers, with
  pointers (an address, or nil) and slices (a window into an array cell, or nil). A cell holds
  a struct value or an array of them; what kinds of cells there are is left open here.

  A structure in memory means a value: \<open>view h x\<close> reads it through all its pointers, and is
  \<^term>\<open>None\<close> if one of them dangles. \<open>foot h x\<close> are the cells this reading depends on. The
  locale \<open>deep_copier\<close> says what a copy function promises: the copy means the same value, the
  heap it was taken from is left as it was, and the copy lives in fresh cells only. Copies of
  pointers, slices and structs are deep if the copies of their parts are.
\<close>

section \<open>The heap\<close>

type_synonym addr = nat

record 'c heap =
  h_next :: addr
  h_cells :: "addr \<rightharpoonup> 'c"

definition heap_ok :: "'c heap \<Rightarrow> bool" where
  "heap_ok h \<longleftrightarrow> (\<forall>a \<ge> h_next h. h_cells h a = None)"

definition alloc :: "'c \<Rightarrow> ('c heap, addr) state" where
  "alloc c = State (\<lambda>h. (h_next h, h\<lparr>h_next := Suc (h_next h), h_cells := (h_cells h)(h_next h \<mapsto> c)\<rparr>))"

definition poke :: "addr \<Rightarrow> 'c \<Rightarrow> ('c heap, unit) state" where
  "poke a c = State (\<lambda>h. ((), h\<lparr>h_cells := (h_cells h)(a \<mapsto> c)\<rparr>))"

text \<open>
  A Go type as the cells hold it: how a value becomes a cell, how a cell is read, and the zero
  value. Go has no dangling pointers; reading one gives the zero value here, which no theorem
  depends on.
\<close>

record ('c, 'a) gotype =
  ct_put :: "'a \<Rightarrow> 'c"
  ct_get :: "'c \<Rightarrow> 'a option"
  ct_zero :: 'a

definition peek :: "('c, 'a) gotype \<Rightarrow> 'c heap \<Rightarrow> addr \<Rightarrow> 'a option" where
  "peek T h a = (case h_cells h a of None \<Rightarrow> None | Some c \<Rightarrow> ct_get T c)"

text \<open>\<open>new(T)\<close>, \<open>*p\<close> and \<open>*p = x\<close>.\<close>

definition newOf :: "('c, 'a) gotype \<Rightarrow> ('c heap, addr) state" where
  "newOf T = alloc (ct_put T (ct_zero T))"

definition load :: "('c, 'a) gotype \<Rightarrow> addr \<Rightarrow> ('c heap, 'a) state" where
  "load T a = State (\<lambda>h. (case peek T h a of None \<Rightarrow> ct_zero T | Some x \<Rightarrow> x, h))"

definition store :: "('c, 'a) gotype \<Rightarrow> addr \<Rightarrow> 'a \<Rightarrow> ('c heap, unit) state" where
  "store T a x = poke a (ct_put T x)"

section \<open>Copying pointers and slices\<close>

text \<open>\<open>out := new(T); (*in).DeepCopyInto(out)\<close> for a pointer that is not nil.\<close>

definition newCopy :: "('c, 'a) gotype \<Rightarrow> ('a \<Rightarrow> ('c heap, 'a) state) \<Rightarrow> addr \<Rightarrow> ('c heap, addr) state" where
  "newCopy T copyInto p = do {
     out \<leftarrow> newOf T;
     x \<leftarrow> load T p;
     y \<leftarrow> copyInto x;
     store T out y;
     ret out
   }"

text \<open>The generated method \<open>DeepCopy\<close>: nil for nil, else a new struct that \<open>DeepCopyInto\<close> fills.\<close>

definition deepCopy ::
  "('c, 'a) gotype \<Rightarrow> ('a \<Rightarrow> ('c heap, 'a) state) \<Rightarrow> addr option \<Rightarrow> ('c heap, addr option) state" where
  "deepCopy T copyInto p = (case p of
     None \<Rightarrow> ret None
   | Some a \<Rightarrow> do { out \<leftarrow> newCopy T copyInto a; ret (Some out) })"

text \<open>A slice that is not nil: \<open>sl_len\<close> elements of an array cell from \<open>sl_off\<close> on.\<close>

record slice =
  sl_array :: addr
  sl_off :: nat
  sl_len :: nat

definition makeSlice :: "('c, 'a list) gotype \<Rightarrow> 'a \<Rightarrow> nat \<Rightarrow> ('c heap, slice) state" where
  "makeSlice T zero n = do {
     a \<leftarrow> alloc (ct_put T (replicate n zero));
     ret \<lparr>sl_array = a, sl_off = 0, sl_len = n\<rparr>
   }"

text \<open>\<open>for i := range *in { (*in)[i].DeepCopyInto(&(*out)[i]) }\<close>, from the index \<open>i\<close> on.\<close>

fun copyElems ::
  "('c, 'a list) gotype \<Rightarrow> ('a \<Rightarrow> ('c heap, 'a) state) \<Rightarrow> slice \<Rightarrow> slice \<Rightarrow> nat \<Rightarrow> nat \<Rightarrow> ('c heap, unit) state"
where
  "copyElems T copyInto src dst i 0 = ret ()"
| "copyElems T copyInto src dst i (Suc n) = do {
     xs \<leftarrow> load T (sl_array src);
     y \<leftarrow> copyInto (xs ! (sl_off src + i));
     ys \<leftarrow> load T (sl_array dst);
     store T (sl_array dst) (ys[sl_off dst + i := y]);
     copyElems T copyInto src dst (Suc i) n
   }"

definition copySlice ::
  "('c, 'a list) gotype \<Rightarrow> 'a \<Rightarrow> ('a \<Rightarrow> ('c heap, 'a) state) \<Rightarrow> slice \<Rightarrow> ('c heap, slice) state" where
  "copySlice T zero copyInto src = do {
     dst \<leftarrow> makeSlice T zero (sl_len src);
     copyElems T copyInto src dst 0 (sl_len src);
     ret dst
   }"

definition window :: "slice \<Rightarrow> 'a list \<Rightarrow> 'a list" where
  "window s xs = take (sl_len s) (drop (sl_off s) xs)"

text \<open>The builtin \<open>copy(dst, src)\<close>: as many elements as both slices have.\<close>

definition copyBuiltin :: "('c, 'a list) gotype \<Rightarrow> slice \<Rightarrow> slice \<Rightarrow> ('c heap, unit) state" where
  "copyBuiltin T dst src = do {
     xs \<leftarrow> load T (sl_array src);
     ys \<leftarrow> load T (sl_array dst);
     let n = min (sl_len dst) (sl_len src);
     store T (sl_array dst)
       (take (sl_off dst) ys @ take n (drop (sl_off src) xs) @ drop (sl_off dst + n) ys)
   }"

section \<open>What a structure in memory means\<close>

definition view_value :: "'c heap \<Rightarrow> 'a \<Rightarrow> 'a option" where
  "view_value h x = Some x"

definition foot_value :: "'c heap \<Rightarrow> 'a \<Rightarrow> addr set" where
  "foot_value h x = {}"

definition view_ptr ::
  "('c, 'a) gotype \<Rightarrow> ('c heap \<Rightarrow> 'a \<Rightarrow> 'v option) \<Rightarrow> 'c heap \<Rightarrow> addr option \<Rightarrow> 'v option option" where
  "view_ptr T view h p = (case p of
     None \<Rightarrow> Some None
   | Some a \<Rightarrow> (case peek T h a of None \<Rightarrow> None | Some x \<Rightarrow> map_option Some (view h x)))"

definition foot_ptr ::
  "('c, 'a) gotype \<Rightarrow> ('c heap \<Rightarrow> 'a \<Rightarrow> addr set) \<Rightarrow> 'c heap \<Rightarrow> addr option \<Rightarrow> addr set" where
  "foot_ptr T foot h p = (case p of
     None \<Rightarrow> {}
   | Some a \<Rightarrow> insert a (case peek T h a of None \<Rightarrow> {} | Some x \<Rightarrow> foot h x))"

definition view_slice ::
  "('c, 'a list) gotype \<Rightarrow> ('c heap \<Rightarrow> 'a \<Rightarrow> 'v option) \<Rightarrow> 'c heap \<Rightarrow> slice option \<Rightarrow> 'v list option option" where
  "view_slice T view h s = (case s of
     None \<Rightarrow> Some None
   | Some w \<Rightarrow> (case peek T h (sl_array w) of
        None \<Rightarrow> None
      | Some xs \<Rightarrow> if sl_off w + sl_len w \<le> length xs
                   then map_option Some (those (map (view h) (window w xs))) else None))"

definition foot_slice ::
  "('c, 'a list) gotype \<Rightarrow> ('c heap \<Rightarrow> 'a \<Rightarrow> addr set) \<Rightarrow> 'c heap \<Rightarrow> slice option \<Rightarrow> addr set" where
  "foot_slice T foot h s = (case s of
     None \<Rightarrow> {}
   | Some w \<Rightarrow> insert (sl_array w) (case peek T h (sl_array w) of
        None \<Rightarrow> {} | Some xs \<Rightarrow> \<Union>x \<in> set (window w xs). foot h x))"

text \<open>The fields of a struct that hold pointers, one after the other.\<close>

definition view_pair ::
  "('c heap \<Rightarrow> 'a \<Rightarrow> 'v option) \<Rightarrow> ('c heap \<Rightarrow> 'b \<Rightarrow> 'u option) \<Rightarrow> 'c heap \<Rightarrow> 'a \<times> 'b \<Rightarrow> ('v \<times> 'u) option" where
  "view_pair v u h p = (case v h (fst p) of None \<Rightarrow> None
     | Some x \<Rightarrow> (case u h (snd p) of None \<Rightarrow> None | Some y \<Rightarrow> Some (x, y)))"

definition foot_pair ::
  "('c heap \<Rightarrow> 'a \<Rightarrow> addr set) \<Rightarrow> ('c heap \<Rightarrow> 'b \<Rightarrow> addr set) \<Rightarrow> 'c heap \<Rightarrow> 'a \<times> 'b \<Rightarrow> addr set" where
  "foot_pair f g h p = f h (fst p) \<union> g h (snd p)"

definition copy_pair ::
  "('a \<Rightarrow> ('c heap, 'a) state) \<Rightarrow> ('b \<Rightarrow> ('c heap, 'b) state) \<Rightarrow> 'a \<times> 'b \<Rightarrow> ('c heap, 'a \<times> 'b) state" where
  "copy_pair c d p = do { x \<leftarrow> c (fst p); y \<leftarrow> d (snd p); ret (x, y) }"

definition view_fields ::
  "('a \<Rightarrow> 'b) \<Rightarrow> ('a \<Rightarrow> 'v \<Rightarrow> 'u) \<Rightarrow> ('c heap \<Rightarrow> 'b \<Rightarrow> 'v option) \<Rightarrow> 'c heap \<Rightarrow> 'a \<Rightarrow> 'u option" where
  "view_fields proj mk view h x = map_option (mk x) (view h (proj x))"

definition foot_fields :: "('a \<Rightarrow> 'b) \<Rightarrow> ('c heap \<Rightarrow> 'b \<Rightarrow> addr set) \<Rightarrow> 'c heap \<Rightarrow> 'a \<Rightarrow> addr set" where
  "foot_fields proj foot h x = foot h (proj x)"

definition copy_fields ::
  "('a \<Rightarrow> 'b) \<Rightarrow> ('a \<Rightarrow> 'b \<Rightarrow> 'a) \<Rightarrow> ('b \<Rightarrow> ('c heap, 'b) state) \<Rightarrow> 'a \<Rightarrow> ('c heap, 'a) state" where
  "copy_fields proj upd c x = do { y \<leftarrow> c (proj x); ret (upd x y) }"

definition copy_slice_field ::
  "('c, 'a list) gotype \<Rightarrow> 'a \<Rightarrow> ('a \<Rightarrow> ('c heap, 'a) state) \<Rightarrow> slice option \<Rightarrow> ('c heap, slice option) state" where
  "copy_slice_field T zero c s = (case s of
     None \<Rightarrow> ret None | Some w \<Rightarrow> do { w' \<leftarrow> copySlice T zero c w; ret (Some w') })"

section \<open>The contract of a deep copy\<close>

definition agree :: "addr set \<Rightarrow> 'c heap \<Rightarrow> 'c heap \<Rightarrow> bool" where
  "agree A h k \<longleftrightarrow> (\<forall>a \<in> A. h_cells k a = h_cells h a)"

definition grows :: "'c heap \<Rightarrow> 'c heap \<Rightarrow> bool" where
  "grows h k \<longleftrightarrow> agree (dom (h_cells h)) h k"

locale deep_copier =
  fixes view :: "'c heap \<Rightarrow> 'a \<Rightarrow> 'v option"
    and foot :: "'c heap \<Rightarrow> 'a \<Rightarrow> addr set"
    and copyInto :: "'a \<Rightarrow> ('c heap, 'a) state"
  assumes foot_allocated: "view h x = Some v \<Longrightarrow> foot h x \<subseteq> dom (h_cells h)"
    and view_local: "view h x = Some v \<Longrightarrow> agree (foot h x) h k \<Longrightarrow> view k x = Some v \<and> foot k x = foot h x"
    and copied: "view h x = Some v \<Longrightarrow> heap_ok h \<Longrightarrow> run_state (copyInto x) h = (y, k) \<Longrightarrow>
      heap_ok k \<and> grows h k \<and> view k y = Some v \<and> foot k y \<inter> dom (h_cells h) = {}"
begin

lemma view_grows: "view h x = Some v \<Longrightarrow> grows h k \<Longrightarrow> view k x = Some v \<and> foot k x = foot h x"
  using view_local foot_allocated unfolding grows_def agree_def by (metis subsetD)

text \<open>
  The two directions of isolation. Whatever is done to the cells of the copy, the original
  still means what it meant; and whatever is done to the cells of the original, the copy does.
\<close>

lemma original_isolated:
  assumes "view h x = Some v" and "heap_ok h" and "run_state (copyInto x) h = (y, k)"
    and "agree (- foot k y) k l"
  shows "view l x = Some v"
proof -
  have c: "grows h k" "foot k y \<inter> dom (h_cells h) = {}" using copied[OF assms(1-3)] by auto
  have "view k x = Some v" "foot k x = foot h x" using view_grows[OF assms(1) c(1)] by auto
  moreover have "agree (foot k x) k l"
    using assms(4) c(2) foot_allocated[OF assms(1)] calculation(2) unfolding agree_def by auto
  ultimately show ?thesis using view_local by blast
qed

lemma copy_isolated:
  assumes "view h x = Some v" and "heap_ok h" and "run_state (copyInto x) h = (y, k)"
    and "agree (- foot k x) k l"
  shows "view l y = Some v"
proof -
  have c: "grows h k" "view k y = Some v" "foot k y \<inter> dom (h_cells h) = {}"
    using copied[OF assms(1-3)] by auto
  have "foot k x \<subseteq> dom (h_cells h)"
    using view_grows[OF assms(1) c(1)] foot_allocated[OF assms(1)] by simp
  then have "agree (foot k y) k l"
    using assms(4) c(3) unfolding agree_def by blast
  then show ?thesis using view_local[OF c(2)] by blast
qed

end

section \<open>Steps on the heap\<close>

definition go_type :: "('c, 'a) gotype \<Rightarrow> bool" where
  "go_type T \<longleftrightarrow> (\<forall>x. ct_get T (ct_put T x) = Some x)"

lemma grows_refl: "grows h h"
  by (simp add: grows_def agree_def)

lemma grows_dom: "grows h k \<Longrightarrow> dom (h_cells h) \<subseteq> dom (h_cells k)"
  by (auto simp: grows_def agree_def dom_def)

lemma grows_trans: "grows h k \<Longrightarrow> grows k l \<Longrightarrow> grows h l"
  unfolding grows_def agree_def dom_def by simp

lemma agree_subset: "agree B h k \<Longrightarrow> A \<subseteq> B \<Longrightarrow> agree A h k"
  by (auto simp: agree_def)

lemma peek_agree: "a \<in> A \<Longrightarrow> agree A h k \<Longrightarrow> peek T k a = peek T h a"
  by (simp add: peek_def agree_def)

lemma peek_allocated: "peek T h a = Some x \<Longrightarrow> a \<in> dom (h_cells h)"
  by (auto simp: peek_def split: option.splits)

lemma peek_grows: "peek T h a = Some x \<Longrightarrow> grows h k \<Longrightarrow> peek T k a = Some x"
  using peek_agree peek_allocated unfolding grows_def by metis

lemma load_run [simp]: "peek T h a = Some x \<Longrightarrow> run_state (load T a) h = (x, h)"
  by (simp add: load_def)

text \<open>Allocation takes an address that was free; writing to it does not touch the old heap.\<close>

lemma alloc_run:
  assumes "heap_ok h" and "run_state (alloc c) h = (a, k)"
  shows "a \<notin> dom (h_cells h)" and "heap_ok k" and "grows h k" and "h_cells k a = Some c"
    and "dom (h_cells k) = insert a (dom (h_cells h))"
  using assms by (auto simp: alloc_def heap_ok_def grows_def agree_def)

lemma poke_run:
  assumes "heap_ok k" and "a \<in> dom (h_cells k)" and "run_state (poke a c) k = (u, l)"
  shows "heap_ok l" and "h_cells l a = Some c" and "agree (- {a}) k l" and "dom (h_cells l) = dom (h_cells k)"
  using assms by (auto simp: poke_def heap_ok_def agree_def split: if_splits)

lemma peek_put: "go_type T \<Longrightarrow> h_cells h a = Some (ct_put T x) \<Longrightarrow> peek T h a = Some x"
  by (simp add: peek_def go_type_def)

lemma grows_poke: "grows h k \<Longrightarrow> a \<notin> dom (h_cells h) \<Longrightarrow> agree (- {a}) k l \<Longrightarrow> grows h l"
  unfolding grows_def agree_def by (metis ComplI singletonD)

section \<open>Copies of parts make copies of the whole\<close>

text \<open>A struct without pointers is copied by assignment.\<close>

lemma value_copier: "deep_copier view_value foot_value ret"
  by unfold_locales (auto simp: view_value_def foot_value_def grows_refl)

lemma view_ptr_Some:
  "view_ptr T v h p = Some u \<longleftrightarrow> (case p of None \<Rightarrow> u = None
     | Some a \<Rightarrow> \<exists>x w. peek T h a = Some x \<and> v h x = Some w \<and> u = Some w)"
  by (auto simp: view_ptr_def split: option.splits)

lemma newCopy_run:
  assumes "deep_copier v f c" and "go_type T" and "heap_ok h" and "peek T h p = Some x" and "v h x = Some w"
    and "run_state (newCopy T c p) h = (b, l)"
  shows "heap_ok l \<and> grows h l \<and> (\<exists>y. peek T l b = Some y \<and> v l y = Some w \<and>
    (insert b (f l y)) \<inter> dom (h_cells h) = {})"
proof -
  obtain a h1 where A: "run_state (alloc (ct_put T (ct_zero T))) h = (a, h1)"
    by (cases "run_state (alloc (ct_put T (ct_zero T))) h")
  note a = alloc_run[OF assms(3) A]
  have x: "peek T h1 p = Some x" by (rule peek_grows[OF assms(4) a(3)])
  have vx: "v h1 x = Some w" using deep_copier.view_grows[OF assms(1) assms(5) a(3)] by simp
  obtain y k where C: "run_state (c x) h1 = (y, k)" by (cases "run_state (c x) h1")
  have k: "heap_ok k" "grows h1 k" "v k y = Some w" "f k y \<inter> dom (h_cells h1) = {}"
    using deep_copier.copied[OF assms(1) vx a(2) C] by auto
  have "a \<in> dom (h_cells k)" using grows_dom[OF k(2)] a(5) by auto
  moreover obtain u l' where P: "run_state (poke a (ct_put T y)) k = (u, l')"
    by (cases "run_state (poke a (ct_put T y)) k")
  ultimately have l: "heap_ok l'" "h_cells l' a = Some (ct_put T y)" "agree (- {a}) k l'"
    using poke_run[OF k(1) _ P] by blast+
  have bl: "b = a" "l = l'"
    using assms(6) A x C P by (auto simp: newCopy_def newOf_def store_def)
  have "agree (f k y) k l'" using k(4) a(5) by (intro agree_subset[OF l(3)]) auto
  with k(3) have "v l' y = Some w" "f l' y = f k y"
    using deep_copier.view_local[OF assms(1)] by blast+
  moreover have "peek T l' a = Some y" by (rule peek_put[OF assms(2) l(2)])
  moreover have "grows h l'"
    by (rule grows_poke[OF grows_trans[OF a(3) k(2)] a(1) l(3)])
  ultimately show ?thesis
    using bl l(1) k(4) a(1,5) by auto
qed

lemma ptr_copier:
  assumes "deep_copier v f c" and "go_type T"
  shows "deep_copier (view_ptr T v) (foot_ptr T f) (deepCopy T c)"
proof
  fix h p u assume p: "view_ptr T v h p = Some u"
  then show "foot_ptr T f h p \<subseteq> dom (h_cells h)"
    by (auto simp: view_ptr_Some foot_ptr_def split: option.splits
        dest: peek_allocated subsetD[OF deep_copier.foot_allocated[OF assms(1)]])
  fix k assume ag: "agree (foot_ptr T f h p) h k"
  show "view_ptr T v k p = Some u \<and> foot_ptr T f k p = foot_ptr T f h p"
  proof (cases p)
    case (Some a)
    with p obtain x w where x: "peek T h a = Some x" "v h x = Some w" "u = Some w"
      by (auto simp: view_ptr_Some)
    have "peek T k a = Some x" using x(1) Some by (simp add: foot_ptr_def peek_agree[OF _ ag])
    moreover have "v k x = Some w \<and> f k x = f h x"
      using ag x Some by (intro deep_copier.view_local[OF assms(1)]) (auto simp: foot_ptr_def agree_def)
    ultimately show ?thesis using x Some by (simp add: view_ptr_Some foot_ptr_def)
  qed (use p in \<open>simp add: view_ptr_Some foot_ptr_def\<close>)
next
  fix h p u q l
  assume p: "view_ptr T v h p = Some u" and ok: "heap_ok h" and run: "run_state (deepCopy T c p) h = (q, l)"
  show "heap_ok l \<and> grows h l \<and> view_ptr T v l q = Some u \<and> foot_ptr T f l q \<inter> dom (h_cells h) = {}"
  proof (cases p)
    case None
    with p ok run show ?thesis by (auto simp: deepCopy_def view_ptr_Some foot_ptr_def grows_refl)
  next
    case (Some a)
    with p obtain x w where x: "peek T h a = Some x" "v h x = Some w" "u = Some w"
      by (auto simp: view_ptr_Some)
    from run Some obtain b where b: "run_state (newCopy T c a) h = (b, l)" "q = Some b"
      by (auto simp: deepCopy_def split: prod.splits)
    from newCopy_run[OF assms ok x(1,2) b(1)] show ?thesis
      by (auto simp: b(2) x(3) view_ptr_Some foot_ptr_def)
  qed
qed

text \<open>Structs: the fields with pointers are copied in turn, the others by assignment.\<close>

lemma view_pair_Some:
  "view_pair v u h p = Some w \<longleftrightarrow> v h (fst p) = Some (fst w) \<and> u h (snd p) = Some (snd w)"
  by (cases w) (auto simp: view_pair_def split: option.splits)

lemma pair_copier:
  assumes "deep_copier v f c" and "deep_copier u g d"
  shows "deep_copier (view_pair v u) (foot_pair f g) (copy_pair c d)"
proof
  fix h p w assume p: "view_pair v u h p = Some w"
  then show "foot_pair f g h p \<subseteq> dom (h_cells h)"
    using deep_copier.foot_allocated[OF assms(1)] deep_copier.foot_allocated[OF assms(2)]
    by (simp add: view_pair_Some foot_pair_def)
  fix k assume "agree (foot_pair f g h p) h k"
  then show "view_pair v u k p = Some w \<and> foot_pair f g k p = foot_pair f g h p"
    using p deep_copier.view_local[OF assms(1), of h "fst p" "fst w" k]
      deep_copier.view_local[OF assms(2), of h "snd p" "snd w" k]
    by (simp add: view_pair_Some foot_pair_def agree_def)
next
  fix h p w q l
  assume p: "view_pair v u h p = Some w" and ok: "heap_ok h" and run: "run_state (copy_pair c d p) h = (q, l)"
  from run obtain x k y where C: "run_state (c (fst p)) h = (x, k)" and D: "run_state (d (snd p)) k = (y, l)"
    and q: "q = (x, y)" by (auto simp: copy_pair_def split: prod.splits)
  from p have v: "v h (fst p) = Some (fst w)" and u: "u h (snd p) = Some (snd w)"
    by (auto simp: view_pair_Some)
  note c = deep_copier.copied[OF assms(1) v ok C]
  have "u k (snd p) = Some (snd w)" using deep_copier.view_grows[OF assms(2) u] c by blast
  note d = deep_copier.copied[OF assms(2) this _ D]
  have "v l x = Some (fst w) \<and> f l x = f k x"
    using deep_copier.view_grows[OF assms(1)] c d by blast
  moreover have "g l y \<inter> dom (h_cells h) = {}" using c d grows_dom[of h k] by blast
  ultimately show "heap_ok l \<and> grows h l \<and> view_pair v u l q = Some w \<and> foot_pair f g l q \<inter> dom (h_cells h) = {}"
    using c d grows_trans[of h k l] by (auto simp: q view_pair_Some foot_pair_def)
qed

lemma fields_copier:
  assumes "deep_copier v f c" and "\<And>x y. proj (upd x y) = y" and "\<And>x y w. mk (upd x y) w = mk x w"
    and "\<And>x. cp x = copy_fields proj upd c x"
  shows "deep_copier (view_fields proj mk v) (foot_fields proj f) cp"
proof
  fix h x u assume x: "view_fields proj mk v h x = Some u"
  then obtain w where w: "v h (proj x) = Some w" "u = mk x w" by (auto simp: view_fields_def)
  then show "foot_fields proj f h x \<subseteq> dom (h_cells h)"
    using deep_copier.foot_allocated[OF assms(1)] by (simp add: foot_fields_def)
  fix k assume "agree (foot_fields proj f h x) h k"
  then show "view_fields proj mk v k x = Some u \<and> foot_fields proj f k x = foot_fields proj f h x"
    using w deep_copier.view_local[OF assms(1) w(1), of k] by (simp add: view_fields_def foot_fields_def)
next
  fix h x u q l
  assume x: "view_fields proj mk v h x = Some u" and ok: "heap_ok h" and run: "run_state (cp x) h = (q, l)"
  then obtain w where w: "v h (proj x) = Some w" "u = mk x w" by (auto simp: view_fields_def)
  from run obtain y where "run_state (c (proj x)) h = (y, l)" "q = upd x y"
    by (auto simp: assms(4) copy_fields_def split: prod.splits)
  with deep_copier.copied[OF assms(1) w(1) ok] w(2)
  show "heap_ok l \<and> grows h l \<and> view_fields proj mk v l q = Some u \<and> foot_fields proj f l q \<inter> dom (h_cells h) = {}"
    by (auto simp: view_fields_def foot_fields_def assms(2,3))
qed

text \<open>Slices. The loop has copied the elements before \<open>i\<close> into cells that are new.\<close>

lemma those_Some: "those xs = Some ys \<longleftrightarrow> xs = map Some ys"
  by (induction xs arbitrary: ys) (auto split: option.splits)

lemma view_slice_Some:
  "view_slice T v h s = Some u \<longleftrightarrow> (case s of None \<Rightarrow> u = None
     | Some w \<Rightarrow> \<exists>xs ws. peek T h (sl_array w) = Some xs \<and> sl_off w + sl_len w \<le> length xs \<and>
         map (v h) (window w xs) = map Some ws \<and> u = Some ws)"
  by (auto simp: view_slice_def those_Some split: option.splits)

definition copied_upto ::
  "('c heap \<Rightarrow> 'a \<Rightarrow> 'v option) \<Rightarrow> ('c heap \<Rightarrow> 'a \<Rightarrow> addr set) \<Rightarrow> 'c heap \<Rightarrow> addr \<Rightarrow> 'v list \<Rightarrow> 'c heap \<Rightarrow> 'a list \<Rightarrow> nat \<Rightarrow> bool"
where
  "copied_upto v f h0 b ws h ys i \<longleftrightarrow> heap_ok h \<and> grows h0 h \<and> b \<in> dom (h_cells h) \<and> length ys = length ws \<and>
     (\<forall>j < i. v h (ys ! j) = Some (ws ! j) \<and> f h (ys ! j) \<inter> insert b (dom (h_cells h0)) = {})"

lemma copied_upto_step:
  assumes dc: "deep_copier v f c" and inv: "copied_upto v f h0 b ws h ys i" and b: "b \<notin> dom (h_cells h0)"
    and x: "v h0 x = Some (ws ! i)" and i: "i < length ws"
    and C: "run_state (c x) h = (y, k)" and P: "run_state (poke b e) k = (u, l)"
  shows "copied_upto v f h0 b ws l (ys[i := y]) (Suc i)" and "h_cells l b = Some e"
proof -
  from inv have h: "heap_ok h" "grows h0 h" "b \<in> dom (h_cells h)" "length ys = length ws"
    and done_: "\<And>j. j < i \<Longrightarrow> v h (ys ! j) = Some (ws ! j) \<and> f h (ys ! j) \<inter> insert b (dom (h_cells h0)) = {}"
    by (auto simp: copied_upto_def)
  have k: "heap_ok k" "grows h k" "v k y = Some (ws ! i)" "f k y \<inter> dom (h_cells h) = {}"
    using deep_copier.copied[OF dc conjunct1[OF deep_copier.view_grows[OF dc x h(2)]] h(1) C] by auto
  have bk: "b \<in> dom (h_cells k)" using grows_dom[OF k(2)] h(3) by blast
  note l = poke_run[OF k(1) bk P]
  show "h_cells l b = Some e" by (rule l(2))
  have moved: "v l z = Some w \<and> f l z = f k z" if "v k z = Some w" "b \<notin> f k z" for z w
    using that by (intro deep_copier.view_local[OF dc] agree_subset[OF l(3)]) auto
  have "v l (ys[i := y] ! j) = Some (ws ! j) \<and> f l (ys[i := y] ! j) \<inter> insert b (dom (h_cells h0)) = {}"
    if "j < Suc i" for j
  proof (cases "j = i")
    case True
    have "f k y \<inter> insert b (dom (h_cells h0)) = {}" using k(4) h(3) grows_dom[OF h(2)] by blast
    with True show ?thesis using moved[OF k(3)] h(4) i by simp
  next
    case False
    with that have j: "j < i" by simp
    have "v k (ys ! j) = Some (ws ! j)" "f k (ys ! j) = f h (ys ! j)"
      using deep_copier.view_grows[OF dc _ k(2)] done_[OF j] by blast+
    then show ?thesis using moved[of "ys ! j"] done_[OF j] False by auto
  qed
  moreover have "grows h0 l" by (rule grows_poke[OF grows_trans[OF h(2) k(2)] b l(3)])
  ultimately show "copied_upto v f h0 b ws l (ys[i := y]) (Suc i)"
    using l(1,4) bk h(4) by (simp add: copied_upto_def)
qed

lemma copyElems_run:
  assumes dc: "deep_copier v f c" and T: "go_type T" and src: "peek T h0 (sl_array s) = Some xs"
    and len: "sl_off s + length ws \<le> length xs" and vs: "\<And>j. j < length ws \<Longrightarrow> v h0 (xs ! (sl_off s + j)) = Some (ws ! j)"
    and b: "b \<notin> dom (h_cells h0)" and d: "sl_array d = b" "sl_off d = 0"
  shows "copied_upto v f h0 b ws h ys i \<Longrightarrow> peek T h b = Some ys \<Longrightarrow> i + n = length ws \<Longrightarrow>
    run_state (copyElems T c s d i n) h = (u, l) \<Longrightarrow>
    \<exists>zs. copied_upto v f h0 b ws l zs (length ws) \<and> peek T l b = Some zs"
proof (induction n arbitrary: i h ys)
  case 0
  then show ?case by auto
next
  case (Suc n)
  let ?x = "xs ! (sl_off s + i)"
  have i: "i < length ws" using Suc.prems(3) by simp
  have g: "grows h0 h" using Suc.prems(1) by (simp add: copied_upto_def)
  obtain y k where C: "run_state (c ?x) h = (y, k)" by (cases "run_state (c ?x) h")
  obtain w l1 where P: "run_state (poke b (ct_put T (ys[i := y]))) k = (w, l1)"
    by (cases "run_state (poke b (ct_put T (ys[i := y]))) k")
  note st = copied_upto_step[OF dc Suc.prems(1) b vs[OF i] i C P]
  have "grows h k"
    using deep_copier.copied[OF dc _ _ C] deep_copier.view_grows[OF dc vs[OF i] g] Suc.prems(1)
    by (auto simp: copied_upto_def)
  then have "peek T k b = Some ys" by (rule peek_grows[OF Suc.prems(2)])
  with peek_grows[OF src g] C P Suc.prems(4) d
  have "run_state (copyElems T c s d (Suc i) n) l1 = (u, l)" by (simp add: store_def)
  from Suc.IH[OF st(1) peek_put[OF T st(2)] _ this] Suc.prems(3) show ?case by simp
qed

lemma copySlice_run:
  assumes dc: "deep_copier v f c" and T: "go_type T" and ok: "heap_ok h"
    and src: "peek T h (sl_array s) = Some xs" "sl_off s + sl_len s \<le> length xs"
    and ws: "map (v h) (window s xs) = map Some ws" and run: "run_state (copySlice T zero c s) h = (d, l)"
  shows "heap_ok l \<and> grows h l \<and> view_slice T v l (Some d) = Some (Some ws) \<and>
    foot_slice T f l (Some d) \<inter> dom (h_cells h) = {}"
proof -
  obtain b h1 where A: "run_state (alloc (ct_put T (replicate (sl_len s) zero))) h = (b, h1)"
    by (cases "run_state (alloc (ct_put T (replicate (sl_len s) zero))) h")
  note b = alloc_run[OF ok A]
  have d: "d = \<lparr>sl_array = b, sl_off = 0, sl_len = sl_len s\<rparr>"
    and L: "run_state (copyElems T c s d 0 (sl_len s)) h1 = ((), l)"
    using run A by (auto simp: copySlice_def makeSlice_def split: prod.splits)
  have len: "length ws = sl_len s"
    using arg_cong[OF ws, of length] src(2) by (simp add: window_def)
  have vs: "v h (xs ! (sl_off s + j)) = Some (ws ! j)" if "j < length ws" for j
    using arg_cong[OF ws, of "\<lambda>z. z ! j"] that src(2) len by (simp add: window_def)
  have "copied_upto v f h b ws h1 (replicate (sl_len s) zero) 0"
    using b len by (simp add: copied_upto_def)
  from copyElems_run[OF dc T src(1) _ vs b(1) _ _ this peek_put[OF T b(4)] _ L]
  obtain zs where zs: "copied_upto v f h b ws l zs (length ws)" "peek T l b = Some zs"
    using src(2) len d by auto
  have "window d zs = zs" using zs(1) len d by (simp add: window_def copied_upto_def)
  moreover have "map (v l) zs = map Some ws" using zs(1) by (auto simp: copied_upto_def list_eq_iff_nth_eq)
  moreover have "f l z \<inter> dom (h_cells h) = {}" if "z \<in> set zs" for z
    using that zs(1) by (auto simp: copied_upto_def in_set_conv_nth)
  ultimately show ?thesis
    using zs b(1) len by (auto simp: d view_slice_Some foot_slice_def copied_upto_def)
qed

lemma slice_copier:
  assumes "deep_copier v f c" and "go_type T"
  shows "deep_copier (view_slice T v) (foot_slice T f) (copy_slice_field T zero c)"
proof
  fix h s u assume s: "view_slice T v h s = Some u"
  have elems: "\<exists>w. v h x = Some w" if "map (v h) ys = map Some ws" "x \<in> set ys" for x ys ws
    using that by (induction ys arbitrary: ws) auto
  show "foot_slice T f h s \<subseteq> dom (h_cells h)"
    using s by (auto simp: view_slice_Some foot_slice_def split: option.splits dest: peek_allocated)
      (metis elems deep_copier.foot_allocated[OF assms(1)] domD subsetD)
  fix k assume ag: "agree (foot_slice T f h s) h k"
  show "view_slice T v k s = Some u \<and> foot_slice T f k s = foot_slice T f h s"
  proof (cases s)
    case (Some w)
    with s obtain xs ws where x: "peek T h (sl_array w) = Some xs" "sl_off w + sl_len w \<le> length xs"
      "map (v h) (window w xs) = map Some ws" "u = Some ws"
      by (auto simp: view_slice_Some)
    have "peek T k (sl_array w) = Some xs" using x(1) Some by (simp add: foot_slice_def peek_agree[OF _ ag])
    moreover have same: "v k z = v h z \<and> f k z = f h z" if "z \<in> set (window w xs)" for z
    proof -
      have "agree (f h z) h k" using ag that Some x(1) by (auto simp: foot_slice_def agree_def)
      then show ?thesis using elems[OF x(3) that] deep_copier.view_local[OF assms(1)] by metis
    qed
    moreover have "map (v k) (window w xs) = map Some ws" using same x(3) by (metis (no_types, lifting) map_eq_conv)
    ultimately show ?thesis using x Some by (auto simp: view_slice_Some foot_slice_def)
  qed (use s in \<open>simp add: view_slice_Some foot_slice_def\<close>)
next
  fix h s u q l
  assume s: "view_slice T v h s = Some u" and ok: "heap_ok h"
    and run: "run_state (copy_slice_field T zero c s) h = (q, l)"
  show "heap_ok l \<and> grows h l \<and> view_slice T v l q = Some u \<and> foot_slice T f l q \<inter> dom (h_cells h) = {}"
  proof (cases s)
    case None
    with s ok run show ?thesis
      by (auto simp: copy_slice_field_def view_slice_Some foot_slice_def grows_refl)
  next
    case (Some w)
    with s obtain xs ws where x: "peek T h (sl_array w) = Some xs" "sl_off w + sl_len w \<le> length xs"
      "map (v h) (window w xs) = map Some ws" "u = Some ws"
      by (auto simp: view_slice_Some)
    from run Some obtain d where d: "run_state (copySlice T zero c w) h = (d, l)" "q = Some d"
      by (auto simp: copy_slice_field_def split: prod.splits)
    from copySlice_run[OF assms ok x(1-3) d(1)] show ?thesis by (simp add: d(2) x(4))
  qed
qed

text \<open>The builtin \<open>copy\<close> of a whole slice of plain values does what the loop does.\<close>

lemma copyBuiltin_run:
  assumes T: "go_type T" and ok: "heap_ok h"
    and src: "peek T h (sl_array s) = Some xs" "sl_off s + sl_len s \<le> length xs"
    and run: "run_state (do { d \<leftarrow> makeSlice T zero (sl_len s); copyBuiltin T d s; ret d }) h = (d, l)"
  shows "heap_ok l \<and> grows h l \<and> view_slice T view_value l (Some d) = Some (Some (window s xs)) \<and>
    foot_slice T foot_value l (Some d) \<inter> dom (h_cells h) = {}"
proof -
  let ?new = "ct_put T (replicate (sl_len s) zero)"
  obtain b h1 where A: "run_state (alloc ?new) h = (b, h1)" by (cases "run_state (alloc ?new) h")
  note b = alloc_run[OF ok A]
  obtain u l' where P: "run_state (poke b (ct_put T (window s xs))) h1 = (u, l')"
    by (cases "run_state (poke b (ct_put T (window s xs))) h1")
  have l: "heap_ok l'" "h_cells l' b = Some (ct_put T (window s xs))" "agree (- {b}) h1 l'"
    using poke_run[OF b(2) _ P] b(5) by auto
  have "run_state (load T (sl_array s)) h1 = (xs, h1)" by (simp add: peek_grows[OF src(1) b(3)])
  moreover have "run_state (load T b) h1 = (replicate (sl_len s) zero, h1)" by (simp add: peek_put[OF T b(4)])
  ultimately have "d = \<lparr>sl_array = b, sl_off = 0, sl_len = sl_len s\<rparr> \<and> l = l'"
    using run A P by (auto simp: makeSlice_def copyBuiltin_def store_def Let_def window_def)
  moreover have "grows h l'" by (rule grows_poke[OF b(3) b(1) l(3)])
  ultimately show ?thesis
    using l(1) peek_put[OF T l(2)] b(1) src(2)
    by (auto simp: view_slice_Some foot_slice_def foot_value_def view_value_def window_def)
qed

definition copy_values_field :: "('c, 'a list) gotype \<Rightarrow> 'a \<Rightarrow> slice option \<Rightarrow> ('c heap, slice option) state" where
  "copy_values_field T zero s = (case s of
     None \<Rightarrow> ret None
   | Some w \<Rightarrow> do { d \<leftarrow> makeSlice T zero (sl_len w); copyBuiltin T d w; ret (Some d) })"

lemma values_copier:
  assumes "go_type T"
  shows "deep_copier (view_slice T view_value) (foot_slice T foot_value) (copy_values_field T zero)"
proof -
  note base = slice_copier[OF value_copier assms, where zero = zero]
  show ?thesis
  proof
    show "view_slice T view_value h s = Some u \<Longrightarrow> foot_slice T foot_value h s \<subseteq> dom (h_cells h)" for h s u
      by (rule deep_copier.foot_allocated[OF base])
    show "view_slice T view_value h s = Some u \<Longrightarrow> agree (foot_slice T foot_value h s) h k \<Longrightarrow>
      view_slice T view_value k s = Some u \<and> foot_slice T foot_value k s = foot_slice T foot_value h s" for h s u k
      by (rule deep_copier.view_local[OF base])
  next
    fix h s u q l
    assume s: "view_slice T view_value h s = Some u" and ok: "heap_ok h"
      and run: "run_state (copy_values_field T zero s) h = (q, l)"
    show "heap_ok l \<and> grows h l \<and> view_slice T view_value l q = Some u \<and>
      foot_slice T foot_value l q \<inter> dom (h_cells h) = {}"
    proof (cases s)
      case None
      with s ok run show ?thesis
        by (auto simp: copy_values_field_def view_slice_Some foot_slice_def grows_refl)
    next
      case (Some w)
      with s obtain xs ws where x: "peek T h (sl_array w) = Some xs" "sl_off w + sl_len w \<le> length xs"
        "map Some (window w xs) = map Some ws" "u = Some ws"
        by (auto simp: view_slice_Some view_value_def[abs_def])
      from x(3) have "window w xs = ws" by (simp add: inj_map_eq_map)
      moreover from run Some obtain d where
        "run_state (do { d \<leftarrow> makeSlice T zero (sl_len w); copyBuiltin T d w; ret d }) h = (d, l)" "q = Some d"
        by (auto simp: copy_values_field_def split: prod.splits)
      ultimately show ?thesis using copyBuiltin_run[OF assms ok x(1,2)] x(4) by auto
    qed
  qed
qed

end
