(* ===== verification/Api_Memory.thy ===== *)
theory Api_Memory
  imports Api_Types Go_Heap
begin

text \<open>
  The resources of \<open>api/v1alpha1\<close> as Go lays them out in memory: structs whose pointer and
  slice fields are addresses into the heap of \<open>Go_Heap\<close>, the cells of that heap, and for each
  struct the value it stands for. These values are the records of \<open>Api_Types\<close> that the rest of
  the development works with. A nil slice and an empty one stand for the same list there.
\<close>

section \<open>Structs\<close>

record TypeMeta =
  tm_Kind :: string
  tm_APIVersion :: string

record mOwnerReference =
  mor_APIVersion :: string
  mor_Kind :: string
  mor_Name :: string
  mor_UID :: string
  mor_Controller :: "addr option"
  mor_BlockOwnerDeletion :: "addr option"

record mObjectMeta =
  mom_Name :: string
  mom_Namespace :: string
  mom_UID :: string
  mom_ResourceVersion :: string
  mom_Generation :: int64
  mom_DeletionTimestamp :: "addr option"
  mom_Finalizers :: "slice option"
  mom_OwnerReferences :: "slice option"
  mom_Labels :: "addr option"
  mom_Annotations :: "addr option"

record mListMeta =
  mlm_ResourceVersion :: string
  mlm_Continue :: string
  mlm_RemainingItemCount :: "addr option"

record mTLSConfig =
  mtc_CASecretRef :: "addr option"

record mLDAPProviderSpec =
  mlps_URL :: string
  mlps_BindDN :: string
  mlps_BindPasswordSecretRef :: SecretKeyRef
  mlps_TLSConfig :: "addr option"
  mlps_InsecureSkipTLS :: bool
  mlps_UserSearchBase :: string
  mlps_GroupSearchBase :: string
  mlps_SyncInterval :: duration
  mlps_UsernameAttribute :: string
  mlps_DirectoryType :: DirectoryType

record mLDAPProviderStatus =
  mlpst_ObservedGeneration :: int64
  mlpst_Conditions :: "slice option"
  mlpst_LastVerifiedTime :: "addr option"

record mLDAPProvider =
  mlp_TypeMeta :: TypeMeta
  mlp_ObjectMeta :: mObjectMeta
  mlp_Spec :: mLDAPProviderSpec
  mlp_Status :: mLDAPProviderStatus

record mLDAPProviderList =
  mlpl_TypeMeta :: TypeMeta
  mlpl_ListMeta :: mListMeta
  mlpl_Items :: "slice option"

record mRBACGroupBindingStatus =
  mrgbst_ObservedGeneration :: int64
  mrgbst_Conditions :: "slice option"
  mrgbst_LastSyncTime :: "addr option"
  mrgbst_MemberCount :: int32
  mrgbst_MembersPreview :: "slice option"
  mrgbst_MembersTruncated :: bool
  mrgbst_MembersHash :: string
  mrgbst_RoleBindingRef :: "addr option"

record mRBACGroupBinding =
  mrgb_TypeMeta :: TypeMeta
  mrgb_ObjectMeta :: mObjectMeta
  mrgb_Spec :: RBACGroupBindingSpec
  mrgb_Status :: mRBACGroupBindingStatus

record mRBACGroupBindingList =
  mrgbl_TypeMeta :: TypeMeta
  mrgbl_ListMeta :: mListMeta
  mrgbl_Items :: "slice option"

record mClusterRBACGroupBindingStatus =
  mcrgbst_ObservedGeneration :: int64
  mcrgbst_Conditions :: "slice option"
  mcrgbst_LastSyncTime :: "addr option"
  mcrgbst_MemberCount :: int32
  mcrgbst_MembersPreview :: "slice option"
  mcrgbst_MembersTruncated :: bool
  mcrgbst_MembersHash :: string
  mcrgbst_ClusterRoleBindingRef :: "addr option"

record mClusterRBACGroupBinding =
  mcrgb_TypeMeta :: TypeMeta
  mcrgb_ObjectMeta :: mObjectMeta
  mcrgb_Spec :: ClusterRBACGroupBindingSpec
  mcrgb_Status :: mClusterRBACGroupBindingStatus

record mClusterRBACGroupBindingList =
  mcrgbl_TypeMeta :: TypeMeta
  mcrgbl_ListMeta :: mListMeta
  mcrgbl_Items :: "slice option"

section \<open>Cells\<close>

datatype cell =
    CTime time
  | CBool bool
  | CInt64 int64
  | CLocalObjectReference string
  | CStrings "string list"
  | CStringMap "(string \<times> string) list"
  | CConditions "Condition list"
  | COwnerReferences "mOwnerReference list"
  | CSecretKeyRef SecretKeyRef
  | CRoleRef RoleRef
  | CTLSConfig mTLSConfig
  | CLDAPProviderSpec mLDAPProviderSpec
  | CLDAPProviderStatus mLDAPProviderStatus
  | CLDAPProvider mLDAPProvider
  | CLDAPProviders "mLDAPProvider list"
  | CLDAPProviderList mLDAPProviderList
  | CRBACGroupBindingSpec RBACGroupBindingSpec
  | CRBACGroupBindingStatus mRBACGroupBindingStatus
  | CRBACGroupBinding mRBACGroupBinding
  | CRBACGroupBindings "mRBACGroupBinding list"
  | CRBACGroupBindingList mRBACGroupBindingList
  | CClusterRBACGroupBindingSpec ClusterRBACGroupBindingSpec
  | CClusterRBACGroupBindingStatus mClusterRBACGroupBindingStatus
  | CClusterRBACGroupBinding mClusterRBACGroupBinding
  | CClusterRBACGroupBindings "mClusterRBACGroupBinding list"
  | CClusterRBACGroupBindingList mClusterRBACGroupBindingList

type_synonym mem = "cell heap"

section \<open>Zero values\<close>

definition zero_TypeMeta :: TypeMeta where
  "zero_TypeMeta =
     \<lparr>tm_Kind = [], tm_APIVersion = []\<rparr>"

definition zero_mOwnerReference :: mOwnerReference where
  "zero_mOwnerReference =
     \<lparr>mor_APIVersion = [], mor_Kind = [], mor_Name = [], mor_UID = [], mor_Controller = None,
       mor_BlockOwnerDeletion = None\<rparr>"

definition zero_mObjectMeta :: mObjectMeta where
  "zero_mObjectMeta =
     \<lparr>mom_Name = [], mom_Namespace = [], mom_UID = [], mom_ResourceVersion = [],
       mom_Generation = 0, mom_DeletionTimestamp = None, mom_Finalizers = None,
       mom_OwnerReferences = None, mom_Labels = None, mom_Annotations = None\<rparr>"

definition zero_mListMeta :: mListMeta where
  "zero_mListMeta =
     \<lparr>mlm_ResourceVersion = [], mlm_Continue = [], mlm_RemainingItemCount = None\<rparr>"

definition zero_SecretKeyRef :: SecretKeyRef where
  "zero_SecretKeyRef =
     \<lparr>skr_Name = [], skr_Key = []\<rparr>"

definition zero_RoleRef :: RoleRef where
  "zero_RoleRef =
     \<lparr>role_Kind = [], role_Name = []\<rparr>"

definition zero_mTLSConfig :: mTLSConfig where
  "zero_mTLSConfig =
     \<lparr>mtc_CASecretRef = None\<rparr>"

definition zero_mLDAPProviderSpec :: mLDAPProviderSpec where
  "zero_mLDAPProviderSpec =
     \<lparr>mlps_URL = [], mlps_BindDN = [], mlps_BindPasswordSecretRef = zero_SecretKeyRef,
       mlps_TLSConfig = None, mlps_InsecureSkipTLS = False, mlps_UserSearchBase = [],
       mlps_GroupSearchBase = [], mlps_SyncInterval = 0, mlps_UsernameAttribute = [],
       mlps_DirectoryType = []\<rparr>"

definition zero_mLDAPProviderStatus :: mLDAPProviderStatus where
  "zero_mLDAPProviderStatus =
     \<lparr>mlpst_ObservedGeneration = 0, mlpst_Conditions = None, mlpst_LastVerifiedTime = None\<rparr>"

definition zero_mLDAPProvider :: mLDAPProvider where
  "zero_mLDAPProvider =
     \<lparr>mlp_TypeMeta = zero_TypeMeta, mlp_ObjectMeta = zero_mObjectMeta,
       mlp_Spec = zero_mLDAPProviderSpec, mlp_Status = zero_mLDAPProviderStatus\<rparr>"

definition zero_mLDAPProviderList :: mLDAPProviderList where
  "zero_mLDAPProviderList =
     \<lparr>mlpl_TypeMeta = zero_TypeMeta, mlpl_ListMeta = zero_mListMeta, mlpl_Items = None\<rparr>"

definition zero_RBACGroupBindingSpec :: RBACGroupBindingSpec where
  "zero_RBACGroupBindingSpec =
     \<lparr>rgbs_ProviderRef = [], rgbs_GroupDN = [], rgbs_RoleRef = zero_RoleRef\<rparr>"

definition zero_mRBACGroupBindingStatus :: mRBACGroupBindingStatus where
  "zero_mRBACGroupBindingStatus =
     \<lparr>mrgbst_ObservedGeneration = 0, mrgbst_Conditions = None, mrgbst_LastSyncTime = None,
       mrgbst_MemberCount = 0, mrgbst_MembersPreview = None, mrgbst_MembersTruncated = False,
       mrgbst_MembersHash = [], mrgbst_RoleBindingRef = None\<rparr>"

definition zero_mRBACGroupBinding :: mRBACGroupBinding where
  "zero_mRBACGroupBinding =
     \<lparr>mrgb_TypeMeta = zero_TypeMeta, mrgb_ObjectMeta = zero_mObjectMeta,
       mrgb_Spec = zero_RBACGroupBindingSpec, mrgb_Status = zero_mRBACGroupBindingStatus\<rparr>"

definition zero_mRBACGroupBindingList :: mRBACGroupBindingList where
  "zero_mRBACGroupBindingList =
     \<lparr>mrgbl_TypeMeta = zero_TypeMeta, mrgbl_ListMeta = zero_mListMeta, mrgbl_Items = None\<rparr>"

definition zero_ClusterRBACGroupBindingSpec :: ClusterRBACGroupBindingSpec where
  "zero_ClusterRBACGroupBindingSpec =
     \<lparr>crgbs_ProviderRef = [], crgbs_GroupDN = [], crgbs_ClusterRoleRef = []\<rparr>"

definition zero_mClusterRBACGroupBindingStatus :: mClusterRBACGroupBindingStatus where
  "zero_mClusterRBACGroupBindingStatus =
     \<lparr>mcrgbst_ObservedGeneration = 0, mcrgbst_Conditions = None, mcrgbst_LastSyncTime = None,
       mcrgbst_MemberCount = 0, mcrgbst_MembersPreview = None, mcrgbst_MembersTruncated = False,
       mcrgbst_MembersHash = [], mcrgbst_ClusterRoleBindingRef = None\<rparr>"

definition zero_mClusterRBACGroupBinding :: mClusterRBACGroupBinding where
  "zero_mClusterRBACGroupBinding =
     \<lparr>mcrgb_TypeMeta = zero_TypeMeta, mcrgb_ObjectMeta = zero_mObjectMeta,
       mcrgb_Spec = zero_ClusterRBACGroupBindingSpec,
       mcrgb_Status = zero_mClusterRBACGroupBindingStatus\<rparr>"

definition zero_mClusterRBACGroupBindingList :: mClusterRBACGroupBindingList where
  "zero_mClusterRBACGroupBindingList =
     \<lparr>mcrgbl_TypeMeta = zero_TypeMeta, mcrgbl_ListMeta = zero_mListMeta, mcrgbl_Items = None\<rparr>"

text \<open>The zero condition has the empty status, which no enumeration value stands for; the slot is
  overwritten before it is read.\<close>

definition zero_Condition :: Condition where
  "zero_Condition = newCondition [] ConditionUnknown [] []"

section \<open>Go types\<close>

definition TimeT :: "(cell, time) gotype" where
  "TimeT = \<lparr>ct_put = CTime, ct_get = (\<lambda>c. case c of CTime x \<Rightarrow> Some x | _ \<Rightarrow> None), ct_zero = 0\<rparr>"

definition BoolT :: "(cell, bool) gotype" where
  "BoolT = \<lparr>ct_put = CBool, ct_get = (\<lambda>c. case c of CBool x \<Rightarrow> Some x | _ \<Rightarrow> None), ct_zero = False\<rparr>"

definition Int64T :: "(cell, int64) gotype" where
  "Int64T = \<lparr>ct_put = CInt64, ct_get = (\<lambda>c. case c of CInt64 x \<Rightarrow> Some x | _ \<Rightarrow> None), ct_zero = 0\<rparr>"

definition LocalObjectReferenceT :: "(cell, string) gotype" where
  "LocalObjectReferenceT = \<lparr>ct_put = CLocalObjectReference, ct_get = (\<lambda>c. case c of CLocalObjectReference x \<Rightarrow> Some x | _ \<Rightarrow> None), ct_zero = []\<rparr>"

definition StringsT :: "(cell, string list) gotype" where
  "StringsT = \<lparr>ct_put = CStrings, ct_get = (\<lambda>c. case c of CStrings x \<Rightarrow> Some x | _ \<Rightarrow> None), ct_zero = []\<rparr>"

definition StringMapT :: "(cell, (string \<times> string) list) gotype" where
  "StringMapT = \<lparr>ct_put = CStringMap, ct_get = (\<lambda>c. case c of CStringMap x \<Rightarrow> Some x | _ \<Rightarrow> None), ct_zero = []\<rparr>"

definition ConditionsT :: "(cell, Condition list) gotype" where
  "ConditionsT = \<lparr>ct_put = CConditions, ct_get = (\<lambda>c. case c of CConditions x \<Rightarrow> Some x | _ \<Rightarrow> None), ct_zero = []\<rparr>"

definition OwnerReferencesT :: "(cell, mOwnerReference list) gotype" where
  "OwnerReferencesT = \<lparr>ct_put = COwnerReferences, ct_get = (\<lambda>c. case c of COwnerReferences x \<Rightarrow> Some x | _ \<Rightarrow> None), ct_zero = []\<rparr>"

definition SecretKeyRefT :: "(cell, SecretKeyRef) gotype" where
  "SecretKeyRefT = \<lparr>ct_put = CSecretKeyRef, ct_get = (\<lambda>c. case c of CSecretKeyRef x \<Rightarrow> Some x | _ \<Rightarrow> None), ct_zero = zero_SecretKeyRef\<rparr>"

definition RoleRefT :: "(cell, RoleRef) gotype" where
  "RoleRefT = \<lparr>ct_put = CRoleRef, ct_get = (\<lambda>c. case c of CRoleRef x \<Rightarrow> Some x | _ \<Rightarrow> None), ct_zero = zero_RoleRef\<rparr>"

definition TLSConfigT :: "(cell, mTLSConfig) gotype" where
  "TLSConfigT = \<lparr>ct_put = CTLSConfig, ct_get = (\<lambda>c. case c of CTLSConfig x \<Rightarrow> Some x | _ \<Rightarrow> None), ct_zero = zero_mTLSConfig\<rparr>"

definition LDAPProviderSpecT :: "(cell, mLDAPProviderSpec) gotype" where
  "LDAPProviderSpecT = \<lparr>ct_put = CLDAPProviderSpec, ct_get = (\<lambda>c. case c of CLDAPProviderSpec x \<Rightarrow> Some x | _ \<Rightarrow> None), ct_zero = zero_mLDAPProviderSpec\<rparr>"

definition LDAPProviderStatusT :: "(cell, mLDAPProviderStatus) gotype" where
  "LDAPProviderStatusT = \<lparr>ct_put = CLDAPProviderStatus, ct_get = (\<lambda>c. case c of CLDAPProviderStatus x \<Rightarrow> Some x | _ \<Rightarrow> None), ct_zero = zero_mLDAPProviderStatus\<rparr>"

definition LDAPProviderT :: "(cell, mLDAPProvider) gotype" where
  "LDAPProviderT = \<lparr>ct_put = CLDAPProvider, ct_get = (\<lambda>c. case c of CLDAPProvider x \<Rightarrow> Some x | _ \<Rightarrow> None), ct_zero = zero_mLDAPProvider\<rparr>"

definition LDAPProvidersT :: "(cell, mLDAPProvider list) gotype" where
  "LDAPProvidersT = \<lparr>ct_put = CLDAPProviders, ct_get = (\<lambda>c. case c of CLDAPProviders x \<Rightarrow> Some x | _ \<Rightarrow> None), ct_zero = []\<rparr>"

definition LDAPProviderListT :: "(cell, mLDAPProviderList) gotype" where
  "LDAPProviderListT = \<lparr>ct_put = CLDAPProviderList, ct_get = (\<lambda>c. case c of CLDAPProviderList x \<Rightarrow> Some x | _ \<Rightarrow> None), ct_zero = zero_mLDAPProviderList\<rparr>"

definition RBACGroupBindingSpecT :: "(cell, RBACGroupBindingSpec) gotype" where
  "RBACGroupBindingSpecT = \<lparr>ct_put = CRBACGroupBindingSpec, ct_get = (\<lambda>c. case c of CRBACGroupBindingSpec x \<Rightarrow> Some x | _ \<Rightarrow> None), ct_zero = zero_RBACGroupBindingSpec\<rparr>"

definition RBACGroupBindingStatusT :: "(cell, mRBACGroupBindingStatus) gotype" where
  "RBACGroupBindingStatusT = \<lparr>ct_put = CRBACGroupBindingStatus, ct_get = (\<lambda>c. case c of CRBACGroupBindingStatus x \<Rightarrow> Some x | _ \<Rightarrow> None), ct_zero = zero_mRBACGroupBindingStatus\<rparr>"

definition RBACGroupBindingT :: "(cell, mRBACGroupBinding) gotype" where
  "RBACGroupBindingT = \<lparr>ct_put = CRBACGroupBinding, ct_get = (\<lambda>c. case c of CRBACGroupBinding x \<Rightarrow> Some x | _ \<Rightarrow> None), ct_zero = zero_mRBACGroupBinding\<rparr>"

definition RBACGroupBindingsT :: "(cell, mRBACGroupBinding list) gotype" where
  "RBACGroupBindingsT = \<lparr>ct_put = CRBACGroupBindings, ct_get = (\<lambda>c. case c of CRBACGroupBindings x \<Rightarrow> Some x | _ \<Rightarrow> None), ct_zero = []\<rparr>"

definition RBACGroupBindingListT :: "(cell, mRBACGroupBindingList) gotype" where
  "RBACGroupBindingListT = \<lparr>ct_put = CRBACGroupBindingList, ct_get = (\<lambda>c. case c of CRBACGroupBindingList x \<Rightarrow> Some x | _ \<Rightarrow> None), ct_zero = zero_mRBACGroupBindingList\<rparr>"

definition ClusterRBACGroupBindingSpecT :: "(cell, ClusterRBACGroupBindingSpec) gotype" where
  "ClusterRBACGroupBindingSpecT = \<lparr>ct_put = CClusterRBACGroupBindingSpec, ct_get = (\<lambda>c. case c of CClusterRBACGroupBindingSpec x \<Rightarrow> Some x | _ \<Rightarrow> None), ct_zero = zero_ClusterRBACGroupBindingSpec\<rparr>"

definition ClusterRBACGroupBindingStatusT :: "(cell, mClusterRBACGroupBindingStatus) gotype" where
  "ClusterRBACGroupBindingStatusT = \<lparr>ct_put = CClusterRBACGroupBindingStatus, ct_get = (\<lambda>c. case c of CClusterRBACGroupBindingStatus x \<Rightarrow> Some x | _ \<Rightarrow> None), ct_zero = zero_mClusterRBACGroupBindingStatus\<rparr>"

definition ClusterRBACGroupBindingT :: "(cell, mClusterRBACGroupBinding) gotype" where
  "ClusterRBACGroupBindingT = \<lparr>ct_put = CClusterRBACGroupBinding, ct_get = (\<lambda>c. case c of CClusterRBACGroupBinding x \<Rightarrow> Some x | _ \<Rightarrow> None), ct_zero = zero_mClusterRBACGroupBinding\<rparr>"

definition ClusterRBACGroupBindingsT :: "(cell, mClusterRBACGroupBinding list) gotype" where
  "ClusterRBACGroupBindingsT = \<lparr>ct_put = CClusterRBACGroupBindings, ct_get = (\<lambda>c. case c of CClusterRBACGroupBindings x \<Rightarrow> Some x | _ \<Rightarrow> None), ct_zero = []\<rparr>"

definition ClusterRBACGroupBindingListT :: "(cell, mClusterRBACGroupBindingList) gotype" where
  "ClusterRBACGroupBindingListT = \<lparr>ct_put = CClusterRBACGroupBindingList, ct_get = (\<lambda>c. case c of CClusterRBACGroupBindingList x \<Rightarrow> Some x | _ \<Rightarrow> None), ct_zero = zero_mClusterRBACGroupBindingList\<rparr>"

lemmas gotype_defs = go_type_def TimeT_def BoolT_def Int64T_def LocalObjectReferenceT_def
  StringsT_def StringMapT_def ConditionsT_def OwnerReferencesT_def SecretKeyRefT_def
  RoleRefT_def TLSConfigT_def LDAPProviderSpecT_def LDAPProviderStatusT_def LDAPProviderT_def
  LDAPProvidersT_def LDAPProviderListT_def RBACGroupBindingSpecT_def RBACGroupBindingStatusT_def
  RBACGroupBindingT_def RBACGroupBindingsT_def RBACGroupBindingListT_def
  ClusterRBACGroupBindingSpecT_def ClusterRBACGroupBindingStatusT_def
  ClusterRBACGroupBindingT_def ClusterRBACGroupBindingsT_def ClusterRBACGroupBindingListT_def

lemma go_types [simp]:
  "go_type TimeT"
  "go_type BoolT"
  "go_type Int64T"
  "go_type LocalObjectReferenceT"
  "go_type StringsT"
  "go_type StringMapT"
  "go_type ConditionsT"
  "go_type OwnerReferencesT"
  "go_type SecretKeyRefT"
  "go_type RoleRefT"
  "go_type TLSConfigT"
  "go_type LDAPProviderSpecT"
  "go_type LDAPProviderStatusT"
  "go_type LDAPProviderT"
  "go_type LDAPProvidersT"
  "go_type LDAPProviderListT"
  "go_type RBACGroupBindingSpecT"
  "go_type RBACGroupBindingStatusT"
  "go_type RBACGroupBindingT"
  "go_type RBACGroupBindingsT"
  "go_type RBACGroupBindingListT"
  "go_type ClusterRBACGroupBindingSpecT"
  "go_type ClusterRBACGroupBindingStatusT"
  "go_type ClusterRBACGroupBindingT"
  "go_type ClusterRBACGroupBindingsT"
  "go_type ClusterRBACGroupBindingListT"
  by (simp_all add: gotype_defs)

section \<open>What the structs stand for\<close>

record ListMeta =
  lm_ResourceVersion :: string
  lm_Continue :: string
  lm_RemainingItemCount :: "int64 option"

text \<open>A list object, with items of any kind.\<close>

record 'o ObjectList =
  ol_TypeMeta :: TypeMeta
  ol_ListMeta :: ListMeta
  ol_Items :: "'o list"

definition elems :: "'a list option \<Rightarrow> 'a list" where
  "elems s = (case s of None \<Rightarrow> [] | Some xs \<Rightarrow> xs)"

abbreviation view_ref :: "(cell, 'a) gotype \<Rightarrow> mem \<Rightarrow> addr option \<Rightarrow> 'a option option" where
  "view_ref T \<equiv> view_ptr T view_value"

abbreviation foot_ref :: "(cell, 'a) gotype \<Rightarrow> mem \<Rightarrow> addr option \<Rightarrow> addr set" where
  "foot_ref T \<equiv> foot_ptr T foot_value"

abbreviation view_array :: "(cell, 'a list) gotype \<Rightarrow> mem \<Rightarrow> slice option \<Rightarrow> 'a list option option" where
  "view_array T \<equiv> view_slice T view_value"

abbreviation foot_array :: "(cell, 'a list) gotype \<Rightarrow> mem \<Rightarrow> slice option \<Rightarrow> addr set" where
  "foot_array T \<equiv> foot_slice T foot_value"

definition ptrs_OwnerReference where
  "ptrs_OwnerReference x = (mor_Controller (x :: mOwnerReference), mor_BlockOwnerDeletion x)"

definition mk_OwnerReference where
  "mk_OwnerReference (x :: mOwnerReference) v = (case v of (c, b) \<Rightarrow>
     \<lparr>or_APIVersion = mor_APIVersion x, or_Kind = mor_Kind x, or_Name = mor_Name x, or_UID = mor_UID x,
      or_Controller = c, or_BlockOwnerDeletion = b\<rparr>)"

definition view_OwnerReference :: "mem \<Rightarrow> mOwnerReference \<Rightarrow> OwnerReference option" where
  "view_OwnerReference = view_fields ptrs_OwnerReference mk_OwnerReference
     (view_pair (view_ref BoolT) (view_ref BoolT))"

definition foot_OwnerReference :: "mem \<Rightarrow> mOwnerReference \<Rightarrow> addr set" where
  "foot_OwnerReference = foot_fields ptrs_OwnerReference
     (foot_pair (foot_ref BoolT) (foot_ref BoolT))"

definition ptrs_ObjectMeta where
  "ptrs_ObjectMeta x = (mom_DeletionTimestamp (x :: mObjectMeta), (mom_Finalizers x, (mom_OwnerReferences x, (mom_Labels x, mom_Annotations x))))"

definition mk_ObjectMeta where
  "mk_ObjectMeta (x :: mObjectMeta) v = (case v of (t, (fs, (rs, (ls, ns)))) \<Rightarrow>
     \<lparr>om_Name = mom_Name x, om_Namespace = mom_Namespace x, om_UID = mom_UID x,
      om_ResourceVersion = mom_ResourceVersion x, om_Generation = mom_Generation x, om_DeletionTimestamp = t,
      om_Finalizers = elems fs, om_OwnerReferences = elems rs, om_Labels = elems ls, om_Annotations = elems ns\<rparr>)"

definition view_ObjectMeta :: "mem \<Rightarrow> mObjectMeta \<Rightarrow> ObjectMeta option" where
  "view_ObjectMeta = view_fields ptrs_ObjectMeta mk_ObjectMeta
     (view_pair (view_ref TimeT) (view_pair (view_array StringsT) (view_pair (view_slice OwnerReferencesT view_OwnerReference) (view_pair (view_ref StringMapT) (view_ref StringMapT)))))"

definition foot_ObjectMeta :: "mem \<Rightarrow> mObjectMeta \<Rightarrow> addr set" where
  "foot_ObjectMeta = foot_fields ptrs_ObjectMeta
     (foot_pair (foot_ref TimeT) (foot_pair (foot_array StringsT) (foot_pair (foot_slice OwnerReferencesT foot_OwnerReference) (foot_pair (foot_ref StringMapT) (foot_ref StringMapT)))))"

definition ptrs_ListMeta where
  "ptrs_ListMeta x = mlm_RemainingItemCount (x :: mListMeta)"

definition mk_ListMeta where
  "mk_ListMeta (x :: mListMeta) v = (case v of n \<Rightarrow>
     \<lparr>lm_ResourceVersion = mlm_ResourceVersion x, lm_Continue = mlm_Continue x, lm_RemainingItemCount = n\<rparr>)"

definition view_ListMeta :: "mem \<Rightarrow> mListMeta \<Rightarrow> ListMeta option" where
  "view_ListMeta = view_fields ptrs_ListMeta mk_ListMeta
     (view_ref Int64T)"

definition foot_ListMeta :: "mem \<Rightarrow> mListMeta \<Rightarrow> addr set" where
  "foot_ListMeta = foot_fields ptrs_ListMeta
     (foot_ref Int64T)"

definition ptrs_TLSConfig where
  "ptrs_TLSConfig x = mtc_CASecretRef (x :: mTLSConfig)"

definition mk_TLSConfig where
  "mk_TLSConfig (x :: mTLSConfig) v = (case v of r \<Rightarrow>
     \<lparr>tcs_CASecretRef = r\<rparr>)"

definition view_TLSConfig :: "mem \<Rightarrow> mTLSConfig \<Rightarrow> TLSConfigSpec option" where
  "view_TLSConfig = view_fields ptrs_TLSConfig mk_TLSConfig
     (view_ref SecretKeyRefT)"

definition foot_TLSConfig :: "mem \<Rightarrow> mTLSConfig \<Rightarrow> addr set" where
  "foot_TLSConfig = foot_fields ptrs_TLSConfig
     (foot_ref SecretKeyRefT)"

definition ptrs_LDAPProviderSpec where
  "ptrs_LDAPProviderSpec x = mlps_TLSConfig (x :: mLDAPProviderSpec)"

definition mk_LDAPProviderSpec where
  "mk_LDAPProviderSpec (x :: mLDAPProviderSpec) v = (case v of t \<Rightarrow>
     \<lparr>lps_URL = mlps_URL x, lps_BindDN = mlps_BindDN x, lps_BindPasswordSecretRef = mlps_BindPasswordSecretRef x,
      lps_TLSConfig = t, lps_InsecureSkipTLS = mlps_InsecureSkipTLS x, lps_UserSearchBase = mlps_UserSearchBase x,
      lps_GroupSearchBase = mlps_GroupSearchBase x, lps_SyncInterval = mlps_SyncInterval x,
      lps_UsernameAttribute = mlps_UsernameAttribute x, lps_DirectoryType = mlps_DirectoryType x\<rparr>)"

definition view_LDAPProviderSpec :: "mem \<Rightarrow> mLDAPProviderSpec \<Rightarrow> LDAPProviderSpec option" where
  "view_LDAPProviderSpec = view_fields ptrs_LDAPProviderSpec mk_LDAPProviderSpec
     (view_ptr TLSConfigT view_TLSConfig)"

definition foot_LDAPProviderSpec :: "mem \<Rightarrow> mLDAPProviderSpec \<Rightarrow> addr set" where
  "foot_LDAPProviderSpec = foot_fields ptrs_LDAPProviderSpec
     (foot_ptr TLSConfigT foot_TLSConfig)"

definition ptrs_LDAPProviderStatus where
  "ptrs_LDAPProviderStatus x = (mlpst_Conditions (x :: mLDAPProviderStatus), mlpst_LastVerifiedTime x)"

definition mk_LDAPProviderStatus where
  "mk_LDAPProviderStatus (x :: mLDAPProviderStatus) v = (case v of (cs, t) \<Rightarrow>
     \<lparr>lpst_ObservedGeneration = mlpst_ObservedGeneration x, lpst_Conditions = elems cs, lpst_LastVerifiedTime = t\<rparr>)"

definition view_LDAPProviderStatus :: "mem \<Rightarrow> mLDAPProviderStatus \<Rightarrow> LDAPProviderStatus option" where
  "view_LDAPProviderStatus = view_fields ptrs_LDAPProviderStatus mk_LDAPProviderStatus
     (view_pair (view_array ConditionsT) (view_ref TimeT))"

definition foot_LDAPProviderStatus :: "mem \<Rightarrow> mLDAPProviderStatus \<Rightarrow> addr set" where
  "foot_LDAPProviderStatus = foot_fields ptrs_LDAPProviderStatus
     (foot_pair (foot_array ConditionsT) (foot_ref TimeT))"

definition ptrs_LDAPProvider where
  "ptrs_LDAPProvider x = (mlp_ObjectMeta (x :: mLDAPProvider), (mlp_Spec x, mlp_Status x))"

definition mk_LDAPProvider where
  "mk_LDAPProvider (x :: mLDAPProvider) v = (case v of (m, (s, st)) \<Rightarrow>
     (mlp_TypeMeta x, \<lparr>lp_meta = m, lp_Spec = s, lp_Status = st\<rparr>))"

definition view_LDAPProvider :: "mem \<Rightarrow> mLDAPProvider \<Rightarrow> (TypeMeta \<times> LDAPProvider) option" where
  "view_LDAPProvider = view_fields ptrs_LDAPProvider mk_LDAPProvider
     (view_pair view_ObjectMeta (view_pair view_LDAPProviderSpec view_LDAPProviderStatus))"

definition foot_LDAPProvider :: "mem \<Rightarrow> mLDAPProvider \<Rightarrow> addr set" where
  "foot_LDAPProvider = foot_fields ptrs_LDAPProvider
     (foot_pair foot_ObjectMeta (foot_pair foot_LDAPProviderSpec foot_LDAPProviderStatus))"

definition ptrs_LDAPProviderList where
  "ptrs_LDAPProviderList x = (mlpl_ListMeta (x :: mLDAPProviderList), mlpl_Items x)"

definition mk_LDAPProviderList where
  "mk_LDAPProviderList (x :: mLDAPProviderList) v = (case v of (m, ys) \<Rightarrow>
     \<lparr>ol_TypeMeta = mlpl_TypeMeta x, ol_ListMeta = m, ol_Items = elems ys\<rparr>)"

definition view_LDAPProviderList :: "mem \<Rightarrow> mLDAPProviderList \<Rightarrow> (TypeMeta \<times> LDAPProvider) ObjectList option" where
  "view_LDAPProviderList = view_fields ptrs_LDAPProviderList mk_LDAPProviderList
     (view_pair view_ListMeta (view_slice LDAPProvidersT view_LDAPProvider))"

definition foot_LDAPProviderList :: "mem \<Rightarrow> mLDAPProviderList \<Rightarrow> addr set" where
  "foot_LDAPProviderList = foot_fields ptrs_LDAPProviderList
     (foot_pair foot_ListMeta (foot_slice LDAPProvidersT foot_LDAPProvider))"

definition ptrs_RBACGroupBindingStatus where
  "ptrs_RBACGroupBindingStatus x = (mrgbst_Conditions (x :: mRBACGroupBindingStatus), (mrgbst_LastSyncTime x, (mrgbst_MembersPreview x, mrgbst_RoleBindingRef x)))"

definition mk_RBACGroupBindingStatus where
  "mk_RBACGroupBindingStatus (x :: mRBACGroupBindingStatus) v = (case v of (cs, (t, (ps, r))) \<Rightarrow>
     \<lparr>rgbst_ObservedGeneration = mrgbst_ObservedGeneration x, rgbst_Conditions = elems cs, rgbst_LastSyncTime = t,
      rgbst_MemberCount = mrgbst_MemberCount x, rgbst_MembersPreview = elems ps,
      rgbst_MembersTruncated = mrgbst_MembersTruncated x, rgbst_MembersHash = mrgbst_MembersHash x,
      rgbst_RoleBindingRef = r\<rparr>)"

definition view_RBACGroupBindingStatus :: "mem \<Rightarrow> mRBACGroupBindingStatus \<Rightarrow> RBACGroupBindingStatus option" where
  "view_RBACGroupBindingStatus = view_fields ptrs_RBACGroupBindingStatus mk_RBACGroupBindingStatus
     (view_pair (view_array ConditionsT) (view_pair (view_ref TimeT) (view_pair (view_array StringsT) (view_ref LocalObjectReferenceT))))"

definition foot_RBACGroupBindingStatus :: "mem \<Rightarrow> mRBACGroupBindingStatus \<Rightarrow> addr set" where
  "foot_RBACGroupBindingStatus = foot_fields ptrs_RBACGroupBindingStatus
     (foot_pair (foot_array ConditionsT) (foot_pair (foot_ref TimeT) (foot_pair (foot_array StringsT) (foot_ref LocalObjectReferenceT))))"

definition ptrs_RBACGroupBinding where
  "ptrs_RBACGroupBinding x = (mrgb_ObjectMeta (x :: mRBACGroupBinding), mrgb_Status x)"

definition mk_RBACGroupBinding where
  "mk_RBACGroupBinding (x :: mRBACGroupBinding) v = (case v of (m, st) \<Rightarrow>
     (mrgb_TypeMeta x, \<lparr>rgb_meta = m, rgb_Spec = mrgb_Spec x, rgb_Status = st\<rparr>))"

definition view_RBACGroupBinding :: "mem \<Rightarrow> mRBACGroupBinding \<Rightarrow> (TypeMeta \<times> RBACGroupBinding) option" where
  "view_RBACGroupBinding = view_fields ptrs_RBACGroupBinding mk_RBACGroupBinding
     (view_pair view_ObjectMeta view_RBACGroupBindingStatus)"

definition foot_RBACGroupBinding :: "mem \<Rightarrow> mRBACGroupBinding \<Rightarrow> addr set" where
  "foot_RBACGroupBinding = foot_fields ptrs_RBACGroupBinding
     (foot_pair foot_ObjectMeta foot_RBACGroupBindingStatus)"

definition ptrs_RBACGroupBindingList where
  "ptrs_RBACGroupBindingList x = (mrgbl_ListMeta (x :: mRBACGroupBindingList), mrgbl_Items x)"

definition mk_RBACGroupBindingList where
  "mk_RBACGroupBindingList (x :: mRBACGroupBindingList) v = (case v of (m, ys) \<Rightarrow>
     \<lparr>ol_TypeMeta = mrgbl_TypeMeta x, ol_ListMeta = m, ol_Items = elems ys\<rparr>)"

definition view_RBACGroupBindingList :: "mem \<Rightarrow> mRBACGroupBindingList \<Rightarrow> (TypeMeta \<times> RBACGroupBinding) ObjectList option" where
  "view_RBACGroupBindingList = view_fields ptrs_RBACGroupBindingList mk_RBACGroupBindingList
     (view_pair view_ListMeta (view_slice RBACGroupBindingsT view_RBACGroupBinding))"

definition foot_RBACGroupBindingList :: "mem \<Rightarrow> mRBACGroupBindingList \<Rightarrow> addr set" where
  "foot_RBACGroupBindingList = foot_fields ptrs_RBACGroupBindingList
     (foot_pair foot_ListMeta (foot_slice RBACGroupBindingsT foot_RBACGroupBinding))"

definition ptrs_ClusterRBACGroupBindingStatus where
  "ptrs_ClusterRBACGroupBindingStatus x = (mcrgbst_Conditions (x :: mClusterRBACGroupBindingStatus), (mcrgbst_LastSyncTime x, (mcrgbst_MembersPreview x, mcrgbst_ClusterRoleBindingRef x)))"

definition mk_ClusterRBACGroupBindingStatus where
  "mk_ClusterRBACGroupBindingStatus (x :: mClusterRBACGroupBindingStatus) v = (case v of (cs, (t, (ps, r))) \<Rightarrow>
     \<lparr>crgbst_ObservedGeneration = mcrgbst_ObservedGeneration x, crgbst_Conditions = elems cs, crgbst_LastSyncTime = t,
      crgbst_MemberCount = mcrgbst_MemberCount x, crgbst_MembersPreview = elems ps,
      crgbst_MembersTruncated = mcrgbst_MembersTruncated x, crgbst_MembersHash = mcrgbst_MembersHash x,
      crgbst_ClusterRoleBindingRef = r\<rparr>)"

definition view_ClusterRBACGroupBindingStatus :: "mem \<Rightarrow> mClusterRBACGroupBindingStatus \<Rightarrow> ClusterRBACGroupBindingStatus option" where
  "view_ClusterRBACGroupBindingStatus = view_fields ptrs_ClusterRBACGroupBindingStatus mk_ClusterRBACGroupBindingStatus
     (view_pair (view_array ConditionsT) (view_pair (view_ref TimeT) (view_pair (view_array StringsT) (view_ref LocalObjectReferenceT))))"

definition foot_ClusterRBACGroupBindingStatus :: "mem \<Rightarrow> mClusterRBACGroupBindingStatus \<Rightarrow> addr set" where
  "foot_ClusterRBACGroupBindingStatus = foot_fields ptrs_ClusterRBACGroupBindingStatus
     (foot_pair (foot_array ConditionsT) (foot_pair (foot_ref TimeT) (foot_pair (foot_array StringsT) (foot_ref LocalObjectReferenceT))))"

definition ptrs_ClusterRBACGroupBinding where
  "ptrs_ClusterRBACGroupBinding x = (mcrgb_ObjectMeta (x :: mClusterRBACGroupBinding), mcrgb_Status x)"

definition mk_ClusterRBACGroupBinding where
  "mk_ClusterRBACGroupBinding (x :: mClusterRBACGroupBinding) v = (case v of (m, st) \<Rightarrow>
     (mcrgb_TypeMeta x, \<lparr>crgb_meta = m, crgb_Spec = mcrgb_Spec x, crgb_Status = st\<rparr>))"

definition view_ClusterRBACGroupBinding :: "mem \<Rightarrow> mClusterRBACGroupBinding \<Rightarrow> (TypeMeta \<times> ClusterRBACGroupBinding) option" where
  "view_ClusterRBACGroupBinding = view_fields ptrs_ClusterRBACGroupBinding mk_ClusterRBACGroupBinding
     (view_pair view_ObjectMeta view_ClusterRBACGroupBindingStatus)"

definition foot_ClusterRBACGroupBinding :: "mem \<Rightarrow> mClusterRBACGroupBinding \<Rightarrow> addr set" where
  "foot_ClusterRBACGroupBinding = foot_fields ptrs_ClusterRBACGroupBinding
     (foot_pair foot_ObjectMeta foot_ClusterRBACGroupBindingStatus)"

definition ptrs_ClusterRBACGroupBindingList where
  "ptrs_ClusterRBACGroupBindingList x = (mcrgbl_ListMeta (x :: mClusterRBACGroupBindingList), mcrgbl_Items x)"

definition mk_ClusterRBACGroupBindingList where
  "mk_ClusterRBACGroupBindingList (x :: mClusterRBACGroupBindingList) v = (case v of (m, ys) \<Rightarrow>
     \<lparr>ol_TypeMeta = mcrgbl_TypeMeta x, ol_ListMeta = m, ol_Items = elems ys\<rparr>)"

definition view_ClusterRBACGroupBindingList :: "mem \<Rightarrow> mClusterRBACGroupBindingList \<Rightarrow> (TypeMeta \<times> ClusterRBACGroupBinding) ObjectList option" where
  "view_ClusterRBACGroupBindingList = view_fields ptrs_ClusterRBACGroupBindingList mk_ClusterRBACGroupBindingList
     (view_pair view_ListMeta (view_slice ClusterRBACGroupBindingsT view_ClusterRBACGroupBinding))"

definition foot_ClusterRBACGroupBindingList :: "mem \<Rightarrow> mClusterRBACGroupBindingList \<Rightarrow> addr set" where
  "foot_ClusterRBACGroupBindingList = foot_fields ptrs_ClusterRBACGroupBindingList
     (foot_pair foot_ListMeta (foot_slice ClusterRBACGroupBindingsT foot_ClusterRBACGroupBinding))"

lemmas struct_defs = ptrs_OwnerReference_def mk_OwnerReference_def ptrs_ObjectMeta_def
  mk_ObjectMeta_def ptrs_ListMeta_def mk_ListMeta_def ptrs_TLSConfig_def mk_TLSConfig_def
  ptrs_LDAPProviderSpec_def mk_LDAPProviderSpec_def ptrs_LDAPProviderStatus_def
  mk_LDAPProviderStatus_def ptrs_LDAPProvider_def mk_LDAPProvider_def ptrs_LDAPProviderList_def
  mk_LDAPProviderList_def ptrs_RBACGroupBindingStatus_def mk_RBACGroupBindingStatus_def
  ptrs_RBACGroupBinding_def mk_RBACGroupBinding_def ptrs_RBACGroupBindingList_def
  mk_RBACGroupBindingList_def ptrs_ClusterRBACGroupBindingStatus_def
  mk_ClusterRBACGroupBindingStatus_def ptrs_ClusterRBACGroupBinding_def
  mk_ClusterRBACGroupBinding_def ptrs_ClusterRBACGroupBindingList_def
  mk_ClusterRBACGroupBindingList_def

lemmas view_defs = view_fields_def view_pair_def view_ptr_def view_slice_def view_value_def
  view_OwnerReference_def view_ObjectMeta_def view_ListMeta_def view_TLSConfig_def
  view_LDAPProviderSpec_def view_LDAPProviderStatus_def view_LDAPProvider_def
  view_LDAPProviderList_def view_RBACGroupBindingStatus_def view_RBACGroupBinding_def
  view_RBACGroupBindingList_def view_ClusterRBACGroupBindingStatus_def
  view_ClusterRBACGroupBinding_def view_ClusterRBACGroupBindingList_def

end
