(* ===== verification/Deepcopy.thy ===== *)
theory Deepcopy
  imports Api_Memory
begin

text \<open>
  \<open>zz_generated.deepcopy.go\<close>: the copy methods of the API types, over the memory of
  \<open>Api_Memory\<close>. The reconcilers are handed objects by a shared cache, which copies them with
  these methods first; the other theories treat an object as a value, and the properties here
  are what justifies it.

  \<open>T_DeepCopyInto\<close> takes the struct that \<open>in\<close> points to and gives the one that is written to
  \<open>*out\<close> (every such method starts with \<open>*out = *in\<close>, so what was there before is not read);
  \<open>T_DeepCopy\<close> takes and gives pointers. The methods of the embedded types of apimachinery are
  parameters, with the contract \<open>deep_copier\<close> as a hypothesis.
\<close>

section \<open>The methods of apimachinery\<close>

record copy_methods =
  ObjectMeta_DeepCopyInto :: "mObjectMeta \<Rightarrow> (mem, mObjectMeta) state"
  ListMeta_DeepCopyInto :: "mListMeta \<Rightarrow> (mem, mListMeta) state"
  Condition_DeepCopyInto :: "Condition \<Rightarrow> (mem, Condition) state"
  Time_DeepCopy :: "addr option \<Rightarrow> (mem, addr option) state"

section \<open>DeepCopyInto\<close>

definition SecretKeyRef_DeepCopyInto :: "SecretKeyRef \<Rightarrow> (mem, SecretKeyRef) state" where
  "SecretKeyRef_DeepCopyInto x = ret x"

definition RoleRef_DeepCopyInto :: "RoleRef \<Rightarrow> (mem, RoleRef) state" where
  "RoleRef_DeepCopyInto x = ret x"

definition TLSConfig_DeepCopyInto :: "mTLSConfig \<Rightarrow> (mem, mTLSConfig) state" where
  "TLSConfig_DeepCopyInto x = do {
     let out = x;
     out \<leftarrow> (case mtc_CASecretRef x of
         None \<Rightarrow> ret out
       | Some p \<Rightarrow> do { p' \<leftarrow> newCopy SecretKeyRefT ret p; ret (out\<lparr>mtc_CASecretRef := Some p'\<rparr>) });
     ret out
   }"

definition LDAPProviderSpec_DeepCopyInto :: "mLDAPProviderSpec \<Rightarrow> (mem, mLDAPProviderSpec) state" where
  "LDAPProviderSpec_DeepCopyInto x = do {
     let out = x;
     let out = out\<lparr>mlps_BindPasswordSecretRef := mlps_BindPasswordSecretRef x\<rparr>;
     out \<leftarrow> (case mlps_TLSConfig x of
         None \<Rightarrow> ret out
       | Some p \<Rightarrow> do { p' \<leftarrow> newCopy TLSConfigT TLSConfig_DeepCopyInto p; ret (out\<lparr>mlps_TLSConfig := Some p'\<rparr>) });
     let out = out\<lparr>mlps_SyncInterval := mlps_SyncInterval x\<rparr>;
     ret out
   }"

definition LDAPProviderStatus_DeepCopyInto :: "copy_methods \<Rightarrow> mLDAPProviderStatus \<Rightarrow> (mem, mLDAPProviderStatus) state" where
  "LDAPProviderStatus_DeepCopyInto X x = do {
     let out = x;
     out \<leftarrow> (case mlpst_Conditions x of
         None \<Rightarrow> ret out
       | Some s \<Rightarrow> do {
           s' \<leftarrow> copySlice ConditionsT zero_Condition (Condition_DeepCopyInto X) s;
           ret (out\<lparr>mlpst_Conditions := Some s'\<rparr>)
         });
     out \<leftarrow> (case mlpst_LastVerifiedTime x of
         None \<Rightarrow> ret out
       | Some t \<Rightarrow> do { t' \<leftarrow> Time_DeepCopy X (Some t); ret (out\<lparr>mlpst_LastVerifiedTime := t'\<rparr>) });
     ret out
   }"

definition LDAPProvider_DeepCopyInto :: "copy_methods \<Rightarrow> mLDAPProvider \<Rightarrow> (mem, mLDAPProvider) state" where
  "LDAPProvider_DeepCopyInto X x = do {
     let out = x;
     let out = out\<lparr>mlp_TypeMeta := mlp_TypeMeta x\<rparr>;
     y \<leftarrow> ObjectMeta_DeepCopyInto X (mlp_ObjectMeta x);
     let out = out\<lparr>mlp_ObjectMeta := y\<rparr>;
     y \<leftarrow> LDAPProviderSpec_DeepCopyInto (mlp_Spec x);
     let out = out\<lparr>mlp_Spec := y\<rparr>;
     y \<leftarrow> LDAPProviderStatus_DeepCopyInto X (mlp_Status x);
     let out = out\<lparr>mlp_Status := y\<rparr>;
     ret out
   }"

definition LDAPProviderList_DeepCopyInto :: "copy_methods \<Rightarrow> mLDAPProviderList \<Rightarrow> (mem, mLDAPProviderList) state" where
  "LDAPProviderList_DeepCopyInto X x = do {
     let out = x;
     let out = out\<lparr>mlpl_TypeMeta := mlpl_TypeMeta x\<rparr>;
     y \<leftarrow> ListMeta_DeepCopyInto X (mlpl_ListMeta x);
     let out = out\<lparr>mlpl_ListMeta := y\<rparr>;
     out \<leftarrow> (case mlpl_Items x of
         None \<Rightarrow> ret out
       | Some s \<Rightarrow> do {
           s' \<leftarrow> copySlice LDAPProvidersT zero_mLDAPProvider (LDAPProvider_DeepCopyInto X) s;
           ret (out\<lparr>mlpl_Items := Some s'\<rparr>)
         });
     ret out
   }"

definition RBACGroupBindingSpec_DeepCopyInto :: "RBACGroupBindingSpec \<Rightarrow> (mem, RBACGroupBindingSpec) state" where
  "RBACGroupBindingSpec_DeepCopyInto x = do {
     let out = x;
     ret (out\<lparr>rgbs_RoleRef := rgbs_RoleRef x\<rparr>)
   }"

definition ClusterRBACGroupBindingSpec_DeepCopyInto :: "ClusterRBACGroupBindingSpec \<Rightarrow> (mem, ClusterRBACGroupBindingSpec) state" where
  "ClusterRBACGroupBindingSpec_DeepCopyInto x = ret x"

definition ClusterRBACGroupBindingStatus_DeepCopyInto :: "copy_methods \<Rightarrow> mClusterRBACGroupBindingStatus \<Rightarrow> (mem, mClusterRBACGroupBindingStatus) state" where
  "ClusterRBACGroupBindingStatus_DeepCopyInto X x = do {
     let out = x;
     out \<leftarrow> (case mcrgbst_Conditions x of
         None \<Rightarrow> ret out
       | Some s \<Rightarrow> do {
           s' \<leftarrow> copySlice ConditionsT zero_Condition (Condition_DeepCopyInto X) s;
           ret (out\<lparr>mcrgbst_Conditions := Some s'\<rparr>)
         });
     out \<leftarrow> (case mcrgbst_LastSyncTime x of
         None \<Rightarrow> ret out
       | Some t \<Rightarrow> do { t' \<leftarrow> Time_DeepCopy X (Some t); ret (out\<lparr>mcrgbst_LastSyncTime := t'\<rparr>) });
     out \<leftarrow> (case mcrgbst_MembersPreview x of
         None \<Rightarrow> ret out
       | Some s \<Rightarrow> do {
           s' \<leftarrow> makeSlice StringsT [] (sl_len s);
           copyBuiltin StringsT s' s;
           ret (out\<lparr>mcrgbst_MembersPreview := Some s'\<rparr>)
         });
     out \<leftarrow> (case mcrgbst_ClusterRoleBindingRef x of
         None \<Rightarrow> ret out
       | Some p \<Rightarrow> do { p' \<leftarrow> newCopy LocalObjectReferenceT ret p; ret (out\<lparr>mcrgbst_ClusterRoleBindingRef := Some p'\<rparr>) });
     ret out
   }"

definition ClusterRBACGroupBinding_DeepCopyInto :: "copy_methods \<Rightarrow> mClusterRBACGroupBinding \<Rightarrow> (mem, mClusterRBACGroupBinding) state" where
  "ClusterRBACGroupBinding_DeepCopyInto X x = do {
     let out = x;
     let out = out\<lparr>mcrgb_TypeMeta := mcrgb_TypeMeta x\<rparr>;
     y \<leftarrow> ObjectMeta_DeepCopyInto X (mcrgb_ObjectMeta x);
     let out = out\<lparr>mcrgb_ObjectMeta := y\<rparr>;
     let out = out\<lparr>mcrgb_Spec := mcrgb_Spec x\<rparr>;
     y \<leftarrow> ClusterRBACGroupBindingStatus_DeepCopyInto X (mcrgb_Status x);
     let out = out\<lparr>mcrgb_Status := y\<rparr>;
     ret out
   }"

definition ClusterRBACGroupBindingList_DeepCopyInto :: "copy_methods \<Rightarrow> mClusterRBACGroupBindingList \<Rightarrow> (mem, mClusterRBACGroupBindingList) state" where
  "ClusterRBACGroupBindingList_DeepCopyInto X x = do {
     let out = x;
     let out = out\<lparr>mcrgbl_TypeMeta := mcrgbl_TypeMeta x\<rparr>;
     y \<leftarrow> ListMeta_DeepCopyInto X (mcrgbl_ListMeta x);
     let out = out\<lparr>mcrgbl_ListMeta := y\<rparr>;
     out \<leftarrow> (case mcrgbl_Items x of
         None \<Rightarrow> ret out
       | Some s \<Rightarrow> do {
           s' \<leftarrow> copySlice ClusterRBACGroupBindingsT zero_mClusterRBACGroupBinding (ClusterRBACGroupBinding_DeepCopyInto X) s;
           ret (out\<lparr>mcrgbl_Items := Some s'\<rparr>)
         });
     ret out
   }"

definition RBACGroupBindingStatus_DeepCopyInto :: "copy_methods \<Rightarrow> mRBACGroupBindingStatus \<Rightarrow> (mem, mRBACGroupBindingStatus) state" where
  "RBACGroupBindingStatus_DeepCopyInto X x = do {
     let out = x;
     out \<leftarrow> (case mrgbst_Conditions x of
         None \<Rightarrow> ret out
       | Some s \<Rightarrow> do {
           s' \<leftarrow> copySlice ConditionsT zero_Condition (Condition_DeepCopyInto X) s;
           ret (out\<lparr>mrgbst_Conditions := Some s'\<rparr>)
         });
     out \<leftarrow> (case mrgbst_LastSyncTime x of
         None \<Rightarrow> ret out
       | Some t \<Rightarrow> do { t' \<leftarrow> Time_DeepCopy X (Some t); ret (out\<lparr>mrgbst_LastSyncTime := t'\<rparr>) });
     out \<leftarrow> (case mrgbst_MembersPreview x of
         None \<Rightarrow> ret out
       | Some s \<Rightarrow> do {
           s' \<leftarrow> makeSlice StringsT [] (sl_len s);
           copyBuiltin StringsT s' s;
           ret (out\<lparr>mrgbst_MembersPreview := Some s'\<rparr>)
         });
     out \<leftarrow> (case mrgbst_RoleBindingRef x of
         None \<Rightarrow> ret out
       | Some p \<Rightarrow> do { p' \<leftarrow> newCopy LocalObjectReferenceT ret p; ret (out\<lparr>mrgbst_RoleBindingRef := Some p'\<rparr>) });
     ret out
   }"

definition RBACGroupBinding_DeepCopyInto :: "copy_methods \<Rightarrow> mRBACGroupBinding \<Rightarrow> (mem, mRBACGroupBinding) state" where
  "RBACGroupBinding_DeepCopyInto X x = do {
     let out = x;
     let out = out\<lparr>mrgb_TypeMeta := mrgb_TypeMeta x\<rparr>;
     y \<leftarrow> ObjectMeta_DeepCopyInto X (mrgb_ObjectMeta x);
     let out = out\<lparr>mrgb_ObjectMeta := y\<rparr>;
     let out = out\<lparr>mrgb_Spec := mrgb_Spec x\<rparr>;
     y \<leftarrow> RBACGroupBindingStatus_DeepCopyInto X (mrgb_Status x);
     let out = out\<lparr>mrgb_Status := y\<rparr>;
     ret out
   }"

definition RBACGroupBindingList_DeepCopyInto :: "copy_methods \<Rightarrow> mRBACGroupBindingList \<Rightarrow> (mem, mRBACGroupBindingList) state" where
  "RBACGroupBindingList_DeepCopyInto X x = do {
     let out = x;
     let out = out\<lparr>mrgbl_TypeMeta := mrgbl_TypeMeta x\<rparr>;
     y \<leftarrow> ListMeta_DeepCopyInto X (mrgbl_ListMeta x);
     let out = out\<lparr>mrgbl_ListMeta := y\<rparr>;
     out \<leftarrow> (case mrgbl_Items x of
         None \<Rightarrow> ret out
       | Some s \<Rightarrow> do {
           s' \<leftarrow> copySlice RBACGroupBindingsT zero_mRBACGroupBinding (RBACGroupBinding_DeepCopyInto X) s;
           ret (out\<lparr>mrgbl_Items := Some s'\<rparr>)
         });
     ret out
   }"

section \<open>DeepCopy\<close>

definition SecretKeyRef_DeepCopy :: "addr option \<Rightarrow> (mem, addr option) state" where
  "SecretKeyRef_DeepCopy = deepCopy SecretKeyRefT SecretKeyRef_DeepCopyInto"

definition RoleRef_DeepCopy :: "addr option \<Rightarrow> (mem, addr option) state" where
  "RoleRef_DeepCopy = deepCopy RoleRefT RoleRef_DeepCopyInto"

definition TLSConfig_DeepCopy :: "addr option \<Rightarrow> (mem, addr option) state" where
  "TLSConfig_DeepCopy = deepCopy TLSConfigT TLSConfig_DeepCopyInto"

definition LDAPProviderSpec_DeepCopy :: "addr option \<Rightarrow> (mem, addr option) state" where
  "LDAPProviderSpec_DeepCopy = deepCopy LDAPProviderSpecT LDAPProviderSpec_DeepCopyInto"

definition RBACGroupBindingSpec_DeepCopy :: "addr option \<Rightarrow> (mem, addr option) state" where
  "RBACGroupBindingSpec_DeepCopy = deepCopy RBACGroupBindingSpecT RBACGroupBindingSpec_DeepCopyInto"

definition ClusterRBACGroupBindingSpec_DeepCopy :: "addr option \<Rightarrow> (mem, addr option) state" where
  "ClusterRBACGroupBindingSpec_DeepCopy = deepCopy ClusterRBACGroupBindingSpecT ClusterRBACGroupBindingSpec_DeepCopyInto"

definition LDAPProviderStatus_DeepCopy :: "copy_methods \<Rightarrow> addr option \<Rightarrow> (mem, addr option) state" where
  "LDAPProviderStatus_DeepCopy X = deepCopy LDAPProviderStatusT (LDAPProviderStatus_DeepCopyInto X)"

definition LDAPProvider_DeepCopy :: "copy_methods \<Rightarrow> addr option \<Rightarrow> (mem, addr option) state" where
  "LDAPProvider_DeepCopy X = deepCopy LDAPProviderT (LDAPProvider_DeepCopyInto X)"

definition LDAPProviderList_DeepCopy :: "copy_methods \<Rightarrow> addr option \<Rightarrow> (mem, addr option) state" where
  "LDAPProviderList_DeepCopy X = deepCopy LDAPProviderListT (LDAPProviderList_DeepCopyInto X)"

definition RBACGroupBindingStatus_DeepCopy :: "copy_methods \<Rightarrow> addr option \<Rightarrow> (mem, addr option) state" where
  "RBACGroupBindingStatus_DeepCopy X = deepCopy RBACGroupBindingStatusT (RBACGroupBindingStatus_DeepCopyInto X)"

definition RBACGroupBinding_DeepCopy :: "copy_methods \<Rightarrow> addr option \<Rightarrow> (mem, addr option) state" where
  "RBACGroupBinding_DeepCopy X = deepCopy RBACGroupBindingT (RBACGroupBinding_DeepCopyInto X)"

definition RBACGroupBindingList_DeepCopy :: "copy_methods \<Rightarrow> addr option \<Rightarrow> (mem, addr option) state" where
  "RBACGroupBindingList_DeepCopy X = deepCopy RBACGroupBindingListT (RBACGroupBindingList_DeepCopyInto X)"

definition ClusterRBACGroupBindingStatus_DeepCopy :: "copy_methods \<Rightarrow> addr option \<Rightarrow> (mem, addr option) state" where
  "ClusterRBACGroupBindingStatus_DeepCopy X = deepCopy ClusterRBACGroupBindingStatusT (ClusterRBACGroupBindingStatus_DeepCopyInto X)"

definition ClusterRBACGroupBinding_DeepCopy :: "copy_methods \<Rightarrow> addr option \<Rightarrow> (mem, addr option) state" where
  "ClusterRBACGroupBinding_DeepCopy X = deepCopy ClusterRBACGroupBindingT (ClusterRBACGroupBinding_DeepCopyInto X)"

definition ClusterRBACGroupBindingList_DeepCopy :: "copy_methods \<Rightarrow> addr option \<Rightarrow> (mem, addr option) state" where
  "ClusterRBACGroupBindingList_DeepCopy X = deepCopy ClusterRBACGroupBindingListT (ClusterRBACGroupBindingList_DeepCopyInto X)"

section \<open>DeepCopyObject\<close>

text \<open>
  A \<open>runtime.Object\<close> holding a pointer to one of the six registered kinds; the nil interface is
  \<^term>\<open>None\<close>. A nil pointer in the interface is not the nil interface: the methods return the
  latter for the former.
\<close>

datatype runtime_Object =
  RLDAPProvider "addr option"
  | RLDAPProviderList "addr option"
  | RRBACGroupBinding "addr option"
  | RRBACGroupBindingList "addr option"
  | RClusterRBACGroupBinding "addr option"
  | RClusterRBACGroupBindingList "addr option"

text \<open>\<open>if c := in.DeepCopy(); c != nil { return c }; return nil\<close>.\<close>

definition copyObject ::
  "(addr option \<Rightarrow> runtime_Object) \<Rightarrow> (addr option \<Rightarrow> (mem, addr option) state) \<Rightarrow> addr option \<Rightarrow> (mem, runtime_Object option) state" where
  "copyObject wrap deep p = do {
     c \<leftarrow> deep p;
     ret (case c of None \<Rightarrow> None | Some a \<Rightarrow> Some (wrap (Some a)))
   }"

definition LDAPProvider_DeepCopyObject :: "copy_methods \<Rightarrow> addr option \<Rightarrow> (mem, runtime_Object option) state" where
  "LDAPProvider_DeepCopyObject X = copyObject RLDAPProvider (LDAPProvider_DeepCopy X)"

definition LDAPProviderList_DeepCopyObject :: "copy_methods \<Rightarrow> addr option \<Rightarrow> (mem, runtime_Object option) state" where
  "LDAPProviderList_DeepCopyObject X = copyObject RLDAPProviderList (LDAPProviderList_DeepCopy X)"

definition RBACGroupBinding_DeepCopyObject :: "copy_methods \<Rightarrow> addr option \<Rightarrow> (mem, runtime_Object option) state" where
  "RBACGroupBinding_DeepCopyObject X = copyObject RRBACGroupBinding (RBACGroupBinding_DeepCopy X)"

definition RBACGroupBindingList_DeepCopyObject :: "copy_methods \<Rightarrow> addr option \<Rightarrow> (mem, runtime_Object option) state" where
  "RBACGroupBindingList_DeepCopyObject X = copyObject RRBACGroupBindingList (RBACGroupBindingList_DeepCopy X)"

definition ClusterRBACGroupBinding_DeepCopyObject :: "copy_methods \<Rightarrow> addr option \<Rightarrow> (mem, runtime_Object option) state" where
  "ClusterRBACGroupBinding_DeepCopyObject X = copyObject RClusterRBACGroupBinding (ClusterRBACGroupBinding_DeepCopy X)"

definition ClusterRBACGroupBindingList_DeepCopyObject :: "copy_methods \<Rightarrow> addr option \<Rightarrow> (mem, runtime_Object option) state" where
  "ClusterRBACGroupBindingList_DeepCopyObject X = copyObject RClusterRBACGroupBindingList (ClusterRBACGroupBindingList_DeepCopy X)"

text \<open>The method call through the interface.\<close>

primrec DeepCopyObject :: "copy_methods \<Rightarrow> runtime_Object \<Rightarrow> (mem, runtime_Object option) state" where
  "DeepCopyObject X (RLDAPProvider p) = LDAPProvider_DeepCopyObject X p"
| "DeepCopyObject X (RLDAPProviderList p) = LDAPProviderList_DeepCopyObject X p"
| "DeepCopyObject X (RRBACGroupBinding p) = RBACGroupBinding_DeepCopyObject X p"
| "DeepCopyObject X (RRBACGroupBindingList p) = RBACGroupBindingList_DeepCopyObject X p"
| "DeepCopyObject X (RClusterRBACGroupBinding p) = ClusterRBACGroupBinding_DeepCopyObject X p"
| "DeepCopyObject X (RClusterRBACGroupBindingList p) = ClusterRBACGroupBindingList_DeepCopyObject X p"

section \<open>The copies are deep\<close>

text \<open>A call that the code guards by a nil check is a copier of the pointer, nil included.\<close>

definition guarded :: "('p option \<Rightarrow> (mem, 'q option) state) \<Rightarrow> 'p option \<Rightarrow> (mem, 'q option) state" where
  "guarded c p = (case p of None \<Rightarrow> ret None | Some a \<Rightarrow> c (Some a))"

lemma guarded_copier:
  assumes "deep_copier (view_ptr T v) (foot_ptr T f) c"
  shows "deep_copier (view_ptr T v) (foot_ptr T f) (guarded c)"
proof
  fix h p u q l
  assume p: "view_ptr T v h p = Some u" and ok: "heap_ok h" and run: "run_state (guarded c p) h = (q, l)"
  show "heap_ok l \<and> grows h l \<and> view_ptr T v l q = Some u \<and> foot_ptr T f l q \<inter> dom (h_cells h) = {}"
  proof (cases p)
    case None
    with p ok run show ?thesis by (auto simp: guarded_def view_ptr_Some foot_ptr_def grows_refl)
  next
    case (Some a)
    with run have "run_state (c p) h = (q, l)" by (simp add: guarded_def)
    then show ?thesis by (rule deep_copier.copied[OF assms p ok])
  qed
qed (rule deep_copier.foot_allocated[OF assms] deep_copier.view_local[OF assms]; assumption)+

text \<open>The structs that hold no pointer to a struct of apimachinery.\<close>

interpretation secret_key_ref: deep_copier view_value foot_value SecretKeyRef_DeepCopyInto
  using value_copier by (simp add: SecretKeyRef_DeepCopyInto_def[abs_def])

interpretation role_ref: deep_copier view_value foot_value RoleRef_DeepCopyInto
  using value_copier by (simp add: RoleRef_DeepCopyInto_def[abs_def])

interpretation rbac_spec: deep_copier view_value foot_value RBACGroupBindingSpec_DeepCopyInto
  using value_copier by (simp add: RBACGroupBindingSpec_DeepCopyInto_def[abs_def] Let_def)

interpretation cluster_spec: deep_copier view_value foot_value ClusterRBACGroupBindingSpec_DeepCopyInto
  using value_copier by (simp add: ClusterRBACGroupBindingSpec_DeepCopyInto_def[abs_def])

interpretation tls_config: deep_copier view_TLSConfig foot_TLSConfig TLSConfig_DeepCopyInto
  unfolding view_TLSConfig_def foot_TLSConfig_def
proof (rule fields_copier[OF ptr_copier[OF value_copier go_types(9)]])
  show "TLSConfig_DeepCopyInto x = copy_fields ptrs_TLSConfig (\<lambda>x p. x\<lparr>mtc_CASecretRef := p\<rparr>) (deepCopy SecretKeyRefT ret) x"
    for x
    by (cases x) (simp add: TLSConfig_DeepCopyInto_def copy_fields_def deepCopy_def struct_defs Let_def split: option.split)
qed (simp_all add: struct_defs)

interpretation provider_spec: deep_copier view_LDAPProviderSpec foot_LDAPProviderSpec LDAPProviderSpec_DeepCopyInto
  unfolding view_LDAPProviderSpec_def foot_LDAPProviderSpec_def
proof (rule fields_copier[OF ptr_copier[OF tls_config.deep_copier_axioms go_types(11)]])
  show "LDAPProviderSpec_DeepCopyInto x = copy_fields ptrs_LDAPProviderSpec (\<lambda>x p. x\<lparr>mlps_TLSConfig := p\<rparr>)
      (deepCopy TLSConfigT TLSConfig_DeepCopyInto) x" for x
    by (cases x) (simp add: LDAPProviderSpec_DeepCopyInto_def copy_fields_def deepCopy_def struct_defs Let_def split: option.split)
qed (simp_all add: struct_defs)

text \<open>The others, over methods of apimachinery that keep the contract.\<close>

locale apimachinery =
  fixes X :: copy_methods
  assumes object_meta: "deep_copier view_ObjectMeta foot_ObjectMeta (ObjectMeta_DeepCopyInto X)"
    and list_meta: "deep_copier view_ListMeta foot_ListMeta (ListMeta_DeepCopyInto X)"
    and condition: "deep_copier view_value foot_value (Condition_DeepCopyInto X)"
    and time: "deep_copier (view_ref TimeT) (foot_ref TimeT) (Time_DeepCopy X)"
begin

lemmas conditions = slice_copier[OF condition go_types(7), where zero = zero_Condition]

lemmas timestamp = guarded_copier[OF time]

lemmas preview = values_copier[OF go_types(5), where zero = "[]"]

lemmas local_ref = ptr_copier[OF value_copier go_types(4)]

lemmas provider_status_parts = pair_copier[OF conditions timestamp]

lemmas binding_status_parts = pair_copier[OF conditions pair_copier[OF timestamp pair_copier[OF preview local_ref]]]

lemmas unfold_copy = copy_fields_def copy_pair_def copy_slice_field_def copy_values_field_def guarded_def deepCopy_def
  struct_defs Let_def

end

sublocale apimachinery \<subseteq> provider_status: deep_copier view_LDAPProviderStatus foot_LDAPProviderStatus "LDAPProviderStatus_DeepCopyInto X"
  unfolding view_LDAPProviderStatus_def foot_LDAPProviderStatus_def
proof (rule fields_copier[OF provider_status_parts])
  show "LDAPProviderStatus_DeepCopyInto X x = copy_fields ptrs_LDAPProviderStatus (\<lambda>x (cs, t). x\<lparr>mlpst_Conditions := cs, mlpst_LastVerifiedTime := t\<rparr>) (copy_pair (copy_slice_field ConditionsT zero_Condition (Condition_DeepCopyInto X)) (guarded (Time_DeepCopy X))) x" for x
    by (cases x) (simp add: LDAPProviderStatus_DeepCopyInto_def unfold_copy split: option.split)
qed (simp_all add: struct_defs split: prod.splits)

sublocale apimachinery \<subseteq> provider: deep_copier view_LDAPProvider foot_LDAPProvider "LDAPProvider_DeepCopyInto X"
  unfolding view_LDAPProvider_def foot_LDAPProvider_def
proof (rule fields_copier[OF pair_copier[OF object_meta pair_copier[OF provider_spec.deep_copier_axioms provider_status.deep_copier_axioms]]])
  show "LDAPProvider_DeepCopyInto X x = copy_fields ptrs_LDAPProvider (\<lambda>x (m, s, t). x\<lparr>mlp_ObjectMeta := m, mlp_Spec := s, mlp_Status := t\<rparr>) (copy_pair (ObjectMeta_DeepCopyInto X)
      (copy_pair LDAPProviderSpec_DeepCopyInto (LDAPProviderStatus_DeepCopyInto X))) x" for x
    by (cases x) (simp add: LDAPProvider_DeepCopyInto_def unfold_copy split: option.split)
qed (simp_all add: struct_defs split: prod.splits)

sublocale apimachinery \<subseteq> provider_list: deep_copier view_LDAPProviderList foot_LDAPProviderList "LDAPProviderList_DeepCopyInto X"
  unfolding view_LDAPProviderList_def foot_LDAPProviderList_def
proof (rule fields_copier[OF pair_copier[OF list_meta slice_copier[OF provider.deep_copier_axioms go_types(15)]]])
  show "LDAPProviderList_DeepCopyInto X x = copy_fields ptrs_LDAPProviderList (\<lambda>x (m, s). x\<lparr>mlpl_ListMeta := m, mlpl_Items := s\<rparr>) (copy_pair (ListMeta_DeepCopyInto X)
      (copy_slice_field LDAPProvidersT zero_mLDAPProvider (LDAPProvider_DeepCopyInto X))) x" for x
    by (cases x) (simp add: LDAPProviderList_DeepCopyInto_def unfold_copy split: option.split)
qed (simp_all add: struct_defs split: prod.splits)

sublocale apimachinery \<subseteq> rbac_status: deep_copier view_RBACGroupBindingStatus foot_RBACGroupBindingStatus "RBACGroupBindingStatus_DeepCopyInto X"
  unfolding view_RBACGroupBindingStatus_def foot_RBACGroupBindingStatus_def
proof (rule fields_copier[OF binding_status_parts])
  show "RBACGroupBindingStatus_DeepCopyInto X x = copy_fields ptrs_RBACGroupBindingStatus (\<lambda>x (cs, t, ps, r). x\<lparr>mrgbst_Conditions := cs, mrgbst_LastSyncTime := t, mrgbst_MembersPreview := ps, mrgbst_RoleBindingRef := r\<rparr>) (copy_pair (copy_slice_field ConditionsT zero_Condition (Condition_DeepCopyInto X))
      (copy_pair (guarded (Time_DeepCopy X)) (copy_pair (copy_values_field StringsT []) (deepCopy LocalObjectReferenceT ret)))) x" for x
    by (cases x) (simp add: RBACGroupBindingStatus_DeepCopyInto_def unfold_copy split: option.split)
qed (simp_all add: struct_defs split: prod.splits)

sublocale apimachinery \<subseteq> rbac_binding: deep_copier view_RBACGroupBinding foot_RBACGroupBinding "RBACGroupBinding_DeepCopyInto X"
  unfolding view_RBACGroupBinding_def foot_RBACGroupBinding_def
proof (rule fields_copier[OF pair_copier[OF object_meta rbac_status.deep_copier_axioms]])
  show "RBACGroupBinding_DeepCopyInto X x = copy_fields ptrs_RBACGroupBinding (\<lambda>x (m, t). x\<lparr>mrgb_ObjectMeta := m, mrgb_Status := t\<rparr>) (copy_pair (ObjectMeta_DeepCopyInto X) (RBACGroupBindingStatus_DeepCopyInto X)) x" for x
    by (cases x) (simp add: RBACGroupBinding_DeepCopyInto_def unfold_copy split: option.split)
qed (simp_all add: struct_defs split: prod.splits)

sublocale apimachinery \<subseteq> rbac_binding_list: deep_copier view_RBACGroupBindingList foot_RBACGroupBindingList "RBACGroupBindingList_DeepCopyInto X"
  unfolding view_RBACGroupBindingList_def foot_RBACGroupBindingList_def
proof (rule fields_copier[OF pair_copier[OF list_meta slice_copier[OF rbac_binding.deep_copier_axioms go_types(20)]]])
  show "RBACGroupBindingList_DeepCopyInto X x = copy_fields ptrs_RBACGroupBindingList (\<lambda>x (m, s). x\<lparr>mrgbl_ListMeta := m, mrgbl_Items := s\<rparr>) (copy_pair (ListMeta_DeepCopyInto X)
      (copy_slice_field RBACGroupBindingsT zero_mRBACGroupBinding (RBACGroupBinding_DeepCopyInto X))) x" for x
    by (cases x) (simp add: RBACGroupBindingList_DeepCopyInto_def unfold_copy split: option.split)
qed (simp_all add: struct_defs split: prod.splits)

sublocale apimachinery \<subseteq> cluster_status: deep_copier view_ClusterRBACGroupBindingStatus foot_ClusterRBACGroupBindingStatus "ClusterRBACGroupBindingStatus_DeepCopyInto X"
  unfolding view_ClusterRBACGroupBindingStatus_def foot_ClusterRBACGroupBindingStatus_def
proof (rule fields_copier[OF binding_status_parts])
  show "ClusterRBACGroupBindingStatus_DeepCopyInto X x = copy_fields ptrs_ClusterRBACGroupBindingStatus (\<lambda>x (cs, t, ps, r). x\<lparr>mcrgbst_Conditions := cs, mcrgbst_LastSyncTime := t, mcrgbst_MembersPreview := ps, mcrgbst_ClusterRoleBindingRef := r\<rparr>) (copy_pair (copy_slice_field ConditionsT zero_Condition (Condition_DeepCopyInto X))
      (copy_pair (guarded (Time_DeepCopy X)) (copy_pair (copy_values_field StringsT []) (deepCopy LocalObjectReferenceT ret)))) x" for x
    by (cases x) (simp add: ClusterRBACGroupBindingStatus_DeepCopyInto_def unfold_copy split: option.split)
qed (simp_all add: struct_defs split: prod.splits)

sublocale apimachinery \<subseteq> cluster_binding: deep_copier view_ClusterRBACGroupBinding foot_ClusterRBACGroupBinding "ClusterRBACGroupBinding_DeepCopyInto X"
  unfolding view_ClusterRBACGroupBinding_def foot_ClusterRBACGroupBinding_def
proof (rule fields_copier[OF pair_copier[OF object_meta cluster_status.deep_copier_axioms]])
  show "ClusterRBACGroupBinding_DeepCopyInto X x = copy_fields ptrs_ClusterRBACGroupBinding (\<lambda>x (m, t). x\<lparr>mcrgb_ObjectMeta := m, mcrgb_Status := t\<rparr>) (copy_pair (ObjectMeta_DeepCopyInto X) (ClusterRBACGroupBindingStatus_DeepCopyInto X)) x" for x
    by (cases x) (simp add: ClusterRBACGroupBinding_DeepCopyInto_def unfold_copy split: option.split)
qed (simp_all add: struct_defs split: prod.splits)

sublocale apimachinery \<subseteq> cluster_binding_list: deep_copier view_ClusterRBACGroupBindingList foot_ClusterRBACGroupBindingList "ClusterRBACGroupBindingList_DeepCopyInto X"
  unfolding view_ClusterRBACGroupBindingList_def foot_ClusterRBACGroupBindingList_def
proof (rule fields_copier[OF pair_copier[OF list_meta slice_copier[OF cluster_binding.deep_copier_axioms go_types(25)]]])
  show "ClusterRBACGroupBindingList_DeepCopyInto X x = copy_fields ptrs_ClusterRBACGroupBindingList (\<lambda>x (m, s). x\<lparr>mcrgbl_ListMeta := m, mcrgbl_Items := s\<rparr>) (copy_pair (ListMeta_DeepCopyInto X)
      (copy_slice_field ClusterRBACGroupBindingsT zero_mClusterRBACGroupBinding (ClusterRBACGroupBinding_DeepCopyInto X))) x" for x
    by (cases x) (simp add: ClusterRBACGroupBindingList_DeepCopyInto_def unfold_copy split: option.split)
qed (simp_all add: struct_defs split: prod.splits)

context apimachinery
begin

lemmas provider_copier = provider.deep_copier_axioms
lemmas provider_list_copier = provider_list.deep_copier_axioms
lemmas rbac_binding_copier = rbac_binding.deep_copier_axioms
lemmas rbac_binding_list_copier = rbac_binding_list.deep_copier_axioms
lemmas cluster_binding_copier = cluster_binding.deep_copier_axioms
lemmas cluster_binding_list_copier = cluster_binding_list.deep_copier_axioms
lemmas status_copiers = provider_status.deep_copier_axioms rbac_status.deep_copier_axioms
  cluster_status.deep_copier_axioms

end

end
