(* ===== verification/Deepcopy_Guarantees.thy ===== *)
theory Deepcopy_Guarantees
  imports Deepcopy
begin

text \<open>
  What the generated copy methods guarantee, through the interface \<open>runtime.Object\<close> that the
  cache of controller-runtime calls and for the pointers to the parts. The methods of
  apimachinery are written out once, to show that the contract can be met.
\<close>

section \<open>Objects as values\<close>

datatype api_value =
    VLDAPProvider "(TypeMeta \<times> LDAPProvider) option"
  | VLDAPProviderList "(TypeMeta \<times> LDAPProvider) ObjectList option"
  | VRBACGroupBinding "(TypeMeta \<times> RBACGroupBinding) option"
  | VRBACGroupBindingList "(TypeMeta \<times> RBACGroupBinding) ObjectList option"
  | VClusterRBACGroupBinding "(TypeMeta \<times> ClusterRBACGroupBinding) option"
  | VClusterRBACGroupBindingList "(TypeMeta \<times> ClusterRBACGroupBinding) ObjectList option"

primrec view_Object :: "mem \<Rightarrow> runtime_Object \<Rightarrow> api_value option" where
  "view_Object h (RLDAPProvider p) = map_option VLDAPProvider (view_ptr LDAPProviderT view_LDAPProvider h p)"
| "view_Object h (RLDAPProviderList p) = map_option VLDAPProviderList (view_ptr LDAPProviderListT view_LDAPProviderList h p)"
| "view_Object h (RRBACGroupBinding p) = map_option VRBACGroupBinding (view_ptr RBACGroupBindingT view_RBACGroupBinding h p)"
| "view_Object h (RRBACGroupBindingList p) =
     map_option VRBACGroupBindingList (view_ptr RBACGroupBindingListT view_RBACGroupBindingList h p)"
| "view_Object h (RClusterRBACGroupBinding p) =
     map_option VClusterRBACGroupBinding (view_ptr ClusterRBACGroupBindingT view_ClusterRBACGroupBinding h p)"
| "view_Object h (RClusterRBACGroupBindingList p) =
     map_option VClusterRBACGroupBindingList (view_ptr ClusterRBACGroupBindingListT view_ClusterRBACGroupBindingList h p)"

primrec foot_Object :: "mem \<Rightarrow> runtime_Object \<Rightarrow> addr set" where
  "foot_Object h (RLDAPProvider p) = foot_ptr LDAPProviderT foot_LDAPProvider h p"
| "foot_Object h (RLDAPProviderList p) = foot_ptr LDAPProviderListT foot_LDAPProviderList h p"
| "foot_Object h (RRBACGroupBinding p) = foot_ptr RBACGroupBindingT foot_RBACGroupBinding h p"
| "foot_Object h (RRBACGroupBindingList p) = foot_ptr RBACGroupBindingListT foot_RBACGroupBindingList h p"
| "foot_Object h (RClusterRBACGroupBinding p) = foot_ptr ClusterRBACGroupBindingT foot_ClusterRBACGroupBinding h p"
| "foot_Object h (RClusterRBACGroupBindingList p) =
     foot_ptr ClusterRBACGroupBindingListT foot_ClusterRBACGroupBindingList h p"

primrec object_ptr :: "runtime_Object \<Rightarrow> addr option" where
  "object_ptr (RLDAPProvider p) = p"
| "object_ptr (RLDAPProviderList p) = p"
| "object_ptr (RRBACGroupBinding p) = p"
| "object_ptr (RRBACGroupBindingList p) = p"
| "object_ptr (RClusterRBACGroupBinding p) = p"
| "object_ptr (RClusterRBACGroupBindingList p) = p"

section \<open>Copies through the interface\<close>

text \<open>A copy \<open>y\<close> in the heap \<open>k\<close> of what was \<open>x\<close> in the heap \<open>h\<close>, apart from it.\<close>

definition isolated_copy ::
  "(mem \<Rightarrow> 'a \<Rightarrow> 'v option) \<Rightarrow> (mem \<Rightarrow> 'a \<Rightarrow> addr set) \<Rightarrow> 'v \<Rightarrow> mem \<Rightarrow> 'a \<Rightarrow> mem \<Rightarrow> 'a \<Rightarrow> bool" where
  "isolated_copy view foot v h x k y \<longleftrightarrow> heap_ok k \<and> grows h k \<and> view k y = Some v \<and>
     foot k y \<inter> dom (h_cells h) = {} \<and>
     (\<forall>l. agree (- foot k y) k l \<longrightarrow> view l x = Some v) \<and>
     (\<forall>l. agree (- foot k x) k l \<longrightarrow> view l y = Some v)"

lemma deep_copier_isolates:
  assumes "deep_copier view foot c" and "view h x = Some v" and "heap_ok h" and "run_state (c x) h = (y, k)"
  shows "isolated_copy view foot v h x k y"
  using deep_copier.copied[OF assms] deep_copier.original_isolated[OF assms] deep_copier.copy_isolated[OF assms]
  by (simp add: isolated_copy_def)

lemma deepCopy_nil: "run_state (deepCopy T c None) h = (None, h)"
  by (simp add: deepCopy_def)

lemma deepCopy_not_nil: "run_state (deepCopy T c (Some a)) h = (q, k) \<Longrightarrow> \<exists>b. q = Some b"
  by (auto simp: deepCopy_def split: prod.splits)

text \<open>One kind: \<open>DeepCopyObject\<close> wraps the copy of the pointer, whose value is wrapped in turn.\<close>

lemma copyObject_isolates:
  assumes dc: "deep_copier view foot c" and T: "go_type T"
    and view: "\<And>h p. view_Object h (wrap p) = map_option mk (view_ptr T view h p)"
    and foot: "\<And>h p. foot_Object h (wrap p) = foot_ptr T foot h p" and ptr: "\<And>p. object_ptr (wrap p) = p"
    and v: "view_Object h (wrap p) = Some v" and ok: "heap_ok h"
    and run: "run_state (copyObject wrap (deepCopy T c) p) h = (r, k)"
  shows "case object_ptr (wrap p) of None \<Rightarrow> r = None \<and> k = h
    | Some _ \<Rightarrow> \<exists>y. r = Some y \<and> object_ptr y \<noteq> None \<and> isolated_copy view_Object foot_Object v h (wrap p) k y"
proof (cases p)
  case None
  with run show ?thesis by (simp add: ptr copyObject_def deepCopy_nil)
next
  case (Some a)
  from v obtain u where u: "view_ptr T view h p = Some u" "v = mk u" by (auto simp: view)
  from run obtain q where q: "run_state (deepCopy T c p) h = (q, k)"
    "r = (case q of None \<Rightarrow> None | Some b \<Rightarrow> Some (wrap (Some b)))"
    by (auto simp: copyObject_def split: prod.splits)
  with Some obtain b where b: "q = Some b" using deepCopy_not_nil by blast
  have "isolated_copy (view_ptr T view) (foot_ptr T foot) u h p k q"
    by (rule deep_copier_isolates[OF ptr_copier[OF dc T] u(1) ok q(1)])
  then have "isolated_copy view_Object foot_Object v h (wrap p) k (wrap q)"
    by (auto simp: isolated_copy_def view foot u(2))
  with q(2) b Some show ?thesis by (simp add: ptr)
qed

section \<open>The methods of apimachinery, written out\<close>

definition copyOwnerReference :: "mOwnerReference \<Rightarrow> (mem, mOwnerReference) state" where
  "copyOwnerReference = copy_fields ptrs_OwnerReference
     (\<lambda>x (c, b). x\<lparr>mor_Controller := c, mor_BlockOwnerDeletion := b\<rparr>) (copy_pair (deepCopy BoolT ret) (deepCopy BoolT ret))"

definition copyObjectMeta :: "mObjectMeta \<Rightarrow> (mem, mObjectMeta) state" where
  "copyObjectMeta = copy_fields ptrs_ObjectMeta
     (\<lambda>x (t, fs, rs, ls, ns). x\<lparr>mom_DeletionTimestamp := t, mom_Finalizers := fs, mom_OwnerReferences := rs,
        mom_Labels := ls, mom_Annotations := ns\<rparr>)
     (copy_pair (deepCopy TimeT ret) (copy_pair (copy_values_field StringsT [])
        (copy_pair (copy_slice_field OwnerReferencesT zero_mOwnerReference copyOwnerReference)
           (copy_pair (deepCopy StringMapT ret) (deepCopy StringMapT ret)))))"

definition copyListMeta :: "mListMeta \<Rightarrow> (mem, mListMeta) state" where
  "copyListMeta = copy_fields ptrs_ListMeta (\<lambda>x n. x\<lparr>mlm_RemainingItemCount := n\<rparr>) (deepCopy Int64T ret)"

definition copies :: copy_methods where
  "copies = \<lparr>ObjectMeta_DeepCopyInto = copyObjectMeta, ListMeta_DeepCopyInto = copyListMeta,
     Condition_DeepCopyInto = ret, Time_DeepCopy = deepCopy TimeT ret\<rparr>"

lemmas ref_copier = ptr_copier[OF value_copier]

lemma OwnerReference_copier: "deep_copier view_OwnerReference foot_OwnerReference copyOwnerReference"
  unfolding view_OwnerReference_def foot_OwnerReference_def
  by (rule fields_copier[OF pair_copier[OF ref_copier[OF go_types(2)] ref_copier[OF go_types(2)]] _ _
        fun_cong[OF copyOwnerReference_def]]) (simp_all add: struct_defs split: prod.splits)

interpretation written_out: apimachinery copies
proof (rule apimachinery.intro)
  have "deep_copier view_ObjectMeta foot_ObjectMeta copyObjectMeta"
    unfolding view_ObjectMeta_def foot_ObjectMeta_def
    by (rule fields_copier[OF pair_copier[OF ref_copier[OF go_types(1)] pair_copier[OF values_copier[OF go_types(5)]
          pair_copier[OF slice_copier[OF OwnerReference_copier go_types(8)]
            pair_copier[OF ref_copier[OF go_types(6)] ref_copier[OF go_types(6)]]]]] _ _
            fun_cong[OF copyObjectMeta_def]]) (simp_all add: struct_defs split: prod.splits)
  then show "deep_copier view_ObjectMeta foot_ObjectMeta (ObjectMeta_DeepCopyInto copies)" by (simp add: copies_def)
  have "deep_copier view_ListMeta foot_ListMeta copyListMeta"
    unfolding view_ListMeta_def foot_ListMeta_def
    by (rule fields_copier[OF ref_copier[OF go_types(3)] _ _ fun_cong[OF copyListMeta_def]]) (simp_all add: struct_defs)
  then show "deep_copier view_ListMeta foot_ListMeta (ListMeta_DeepCopyInto copies)" by (simp add: copies_def)
  show "deep_copier view_value foot_value (Condition_DeepCopyInto copies)" using value_copier by (simp add: copies_def)
  show "deep_copier (view_ref TimeT) (foot_ref TimeT) (Time_DeepCopy copies)"
    using ref_copier[OF go_types(1)] by (simp add: copies_def)
qed

section \<open>Guarantees\<close>

text \<open>
  C22. Copying an object of any of the six kinds through \<open>DeepCopyObject\<close>, as the cache does with
  every object it hands out. A nil pointer gives the nil interface. Otherwise the copy stands
  for the same value, the old heap is left as it was, and the copy is made of fresh cells only;
  so nothing that is later done to the cells of the copy (a reconciler setting a condition in
  the status, say) changes what the original stands for, and nothing done to the original
  changes the copy.
\<close>

theorem DeepCopyObject_isolates:
  assumes "apimachinery X" and "view_Object h x = Some v" and "heap_ok h"
    and "run_state (DeepCopyObject X x) h = (r, k)"
  shows "case object_ptr x of None \<Rightarrow> r = None \<and> k = h
    | Some _ \<Rightarrow> \<exists>y. r = Some y \<and> object_ptr y \<noteq> None \<and> isolated_copy view_Object foot_Object v h x k y"
proof (cases x)
  case (RLDAPProvider p)
  show ?thesis
    using assms unfolding RLDAPProvider
    by (intro copyObject_isolates[OF apimachinery.provider_copier[OF assms(1)] go_types(14)])
      (simp_all add: LDAPProvider_DeepCopyObject_def LDAPProvider_DeepCopy_def)
next
  case (RLDAPProviderList p)
  show ?thesis
    using assms unfolding RLDAPProviderList
    by (intro copyObject_isolates[OF apimachinery.provider_list_copier[OF assms(1)] go_types(16)])
      (simp_all add: LDAPProviderList_DeepCopyObject_def LDAPProviderList_DeepCopy_def)
next
  case (RRBACGroupBinding p)
  show ?thesis
    using assms unfolding RRBACGroupBinding
    by (intro copyObject_isolates[OF apimachinery.rbac_binding_copier[OF assms(1)] go_types(19)])
      (simp_all add: RBACGroupBinding_DeepCopyObject_def RBACGroupBinding_DeepCopy_def)
next
  case (RRBACGroupBindingList p)
  show ?thesis
    using assms unfolding RRBACGroupBindingList
    by (intro copyObject_isolates[OF apimachinery.rbac_binding_list_copier[OF assms(1)] go_types(21)])
      (simp_all add: RBACGroupBindingList_DeepCopyObject_def RBACGroupBindingList_DeepCopy_def)
next
  case (RClusterRBACGroupBinding p)
  show ?thesis
    using assms unfolding RClusterRBACGroupBinding
    by (intro copyObject_isolates[OF apimachinery.cluster_binding_copier[OF assms(1)] go_types(24)])
      (simp_all add: ClusterRBACGroupBinding_DeepCopyObject_def ClusterRBACGroupBinding_DeepCopy_def)
next
  case (RClusterRBACGroupBindingList p)
  show ?thesis
    using assms unfolding RClusterRBACGroupBindingList
    by (intro copyObject_isolates[OF apimachinery.cluster_binding_list_copier[OF assms(1)] go_types(26)])
      (simp_all add: ClusterRBACGroupBindingList_DeepCopyObject_def ClusterRBACGroupBindingList_DeepCopy_def)
qed

text \<open>A provider with a CA reference behind two pointers, a condition and a finalizer.\<close>

definition demo_condition :: Condition where
  "demo_condition = newCondition ConditionReady ConditionTrue ReasonSyncSucceeded ''ok''"

definition demo_mprovider :: mLDAPProvider where
  "demo_mprovider = zero_mLDAPProvider
     \<lparr>mlp_ObjectMeta := zero_mObjectMeta\<lparr>mom_Name := ''corp'', mom_Finalizers := Some \<lparr>sl_array = 4, sl_off = 0, sl_len = 1\<rparr>\<rparr>,
      mlp_Spec := zero_mLDAPProviderSpec\<lparr>mlps_URL := ''ldaps://dir'', mlps_TLSConfig := Some 1\<rparr>,
      mlp_Status := zero_mLDAPProviderStatus\<lparr>mlpst_Conditions := Some \<lparr>sl_array = 3, sl_off = 1, sl_len = 1\<rparr>\<rparr>\<rparr>"

definition demo_mem :: mem where
  "demo_mem = \<lparr>h_next = 5, h_cells =
     [0 \<mapsto> CLDAPProvider demo_mprovider, 1 \<mapsto> CTLSConfig \<lparr>mtc_CASecretRef = Some 2\<rparr>,
      2 \<mapsto> CSecretKeyRef \<lparr>skr_Name = ''ca'', skr_Key = ''ca.crt''\<rparr>, 3 \<mapsto> CConditions [zero_Condition, demo_condition],
      4 \<mapsto> CStrings [''in-use'']]\<rparr>"

definition demo_value :: api_value where
  "demo_value = VLDAPProvider (Some (zero_TypeMeta,
     \<lparr>lp_meta = (newObjectMeta ''corp'' [])\<lparr>om_Finalizers := [''in-use'']\<rparr>,
      lp_Spec = \<lparr>lps_URL = ''ldaps://dir'', lps_BindDN = [], lps_BindPasswordSecretRef = zero_SecretKeyRef,
        lps_TLSConfig = Some \<lparr>tcs_CASecretRef = Some \<lparr>skr_Name = ''ca'', skr_Key = ''ca.crt''\<rparr>\<rparr>,
        lps_InsecureSkipTLS = False, lps_UserSearchBase = [], lps_GroupSearchBase = [], lps_SyncInterval = 0,
        lps_UsernameAttribute = [], lps_DirectoryType = []\<rparr>,
      lp_Status = \<lparr>lpst_ObservedGeneration = 0, lpst_Conditions = [demo_condition], lpst_LastVerifiedTime = None\<rparr>\<rparr>))"

lemma demo_view: "view_Object demo_mem (RLDAPProvider (Some 0)) = Some demo_value"
  by (simp add: demo_mem_def demo_mprovider_def demo_value_def view_defs struct_defs peek_def gotype_defs
      zero_mLDAPProvider_def zero_mObjectMeta_def zero_mLDAPProviderSpec_def zero_mLDAPProviderStatus_def
      window_def elems_def newObjectMeta_def)

lemma demo_ok: "heap_ok demo_mem"
  by (simp add: heap_ok_def demo_mem_def)

theorem DeepCopyObject_isolates_witness:
  "\<exists>y. fst (run_state (DeepCopyObject copies (RLDAPProvider (Some 0))) demo_mem) = Some y \<and>
     isolated_copy view_Object foot_Object demo_value demo_mem (RLDAPProvider (Some 0))
       (snd (run_state (DeepCopyObject copies (RLDAPProvider (Some 0))) demo_mem)) y"
  using DeepCopyObject_isolates[OF written_out.apimachinery_axioms demo_view demo_ok prod.collapse[symmetric]]
  by auto

text \<open>
  C23. The same for the pointers to the parts: the \<open>DeepCopy\<close> methods of the specifications, the
  statuses, the TLS configuration and the references to secrets and roles are deep copiers. In
  particular the CA reference, two pointers below a specification, is not shared.
\<close>

theorem DeepCopy_parts:
  assumes "apimachinery X"
  shows "deep_copier (view_ptr TLSConfigT view_TLSConfig) (foot_ptr TLSConfigT foot_TLSConfig) TLSConfig_DeepCopy \<and>
    deep_copier (view_ptr LDAPProviderSpecT view_LDAPProviderSpec) (foot_ptr LDAPProviderSpecT foot_LDAPProviderSpec)
      LDAPProviderSpec_DeepCopy \<and>
    deep_copier (view_ptr LDAPProviderStatusT view_LDAPProviderStatus)
      (foot_ptr LDAPProviderStatusT foot_LDAPProviderStatus) (LDAPProviderStatus_DeepCopy X) \<and>
    deep_copier (view_ptr RBACGroupBindingStatusT view_RBACGroupBindingStatus)
      (foot_ptr RBACGroupBindingStatusT foot_RBACGroupBindingStatus) (RBACGroupBindingStatus_DeepCopy X) \<and>
    deep_copier (view_ptr ClusterRBACGroupBindingStatusT view_ClusterRBACGroupBindingStatus)
      (foot_ptr ClusterRBACGroupBindingStatusT foot_ClusterRBACGroupBindingStatus) (ClusterRBACGroupBindingStatus_DeepCopy X) \<and>
    deep_copier (view_ref SecretKeyRefT) (foot_ref SecretKeyRefT) SecretKeyRef_DeepCopy \<and>
    deep_copier (view_ref RoleRefT) (foot_ref RoleRefT) RoleRef_DeepCopy \<and>
    deep_copier (view_ref RBACGroupBindingSpecT) (foot_ref RBACGroupBindingSpecT) RBACGroupBindingSpec_DeepCopy \<and>
    deep_copier (view_ref ClusterRBACGroupBindingSpecT) (foot_ref ClusterRBACGroupBindingSpecT)
      ClusterRBACGroupBindingSpec_DeepCopy"
  unfolding TLSConfig_DeepCopy_def LDAPProviderSpec_DeepCopy_def LDAPProviderStatus_DeepCopy_def
    RBACGroupBindingStatus_DeepCopy_def ClusterRBACGroupBindingStatus_DeepCopy_def SecretKeyRef_DeepCopy_def
    RoleRef_DeepCopy_def RBACGroupBindingSpec_DeepCopy_def ClusterRBACGroupBindingSpec_DeepCopy_def
  by (intro conjI ptr_copier go_types tls_config.deep_copier_axioms provider_spec.deep_copier_axioms
      apimachinery.status_copiers[OF assms] secret_key_ref.deep_copier_axioms role_ref.deep_copier_axioms
      rbac_spec.deep_copier_axioms cluster_spec.deep_copier_axioms)

theorem DeepCopy_parts_witness:
  "isolated_copy (view_ptr TLSConfigT view_TLSConfig) (foot_ptr TLSConfigT foot_TLSConfig)
     (Some \<lparr>tcs_CASecretRef = Some \<lparr>skr_Name = ''ca'', skr_Key = ''ca.crt''\<rparr>\<rparr>) demo_mem (Some 1)
     (snd (run_state (TLSConfig_DeepCopy (Some 1)) demo_mem)) (fst (run_state (TLSConfig_DeepCopy (Some 1)) demo_mem))"
proof (rule deep_copier_isolates[OF conjunct1[OF DeepCopy_parts[OF written_out.apimachinery_axioms]] _ demo_ok])
  show "view_ptr TLSConfigT view_TLSConfig demo_mem (Some 1) =
      Some (Some \<lparr>tcs_CASecretRef = Some \<lparr>skr_Name = ''ca'', skr_Key = ''ca.crt''\<rparr>\<rparr>)"
    by (simp add: demo_mem_def view_defs struct_defs peek_def gotype_defs)
qed simp

end
