(* ===== verification/Scheme.thy ===== *)
theory Scheme
  imports Api_Types
begin

text \<open>
  \<open>groupversion_info.go\<close> and the \<open>init\<close> of \<open>main.go\<close>: which types the scheme of the manager knows.
  A client request for an object whose type is not registered fails, so the scheme has to know
  every kind that the operator reads or writes, and the list kinds of those it lists. The scheme
  and its builder are parts of apimachinery, the built-in types are registered by client-go;
  both are parameters.
\<close>

record GroupVersion =
  gv_Group :: string
  gv_Version :: string

type_synonym 's builder_func = "'s \<Rightarrow> error option \<times> 's"

record 's scheme_lib =
  runtime_NewScheme :: 's
  scheme_AddKnownTypes :: "'s \<Rightarrow> GroupVersion \<Rightarrow> string list \<Rightarrow> 's"
  metav1_AddToGroupVersion :: "'s \<Rightarrow> GroupVersion \<Rightarrow> 's"
  scheme_Recognizes :: "'s \<Rightarrow> GroupVersion \<Rightarrow> string \<Rightarrow> bool"
  builder_Register :: "'s builder_func list \<Rightarrow> 's builder_func \<Rightarrow> 's builder_func list"
  builder_AddToScheme :: "'s builder_func list \<Rightarrow> 's builder_func"
  clientgo_AddToScheme :: "'s builder_func"

section \<open>Registration\<close>

definition schemeGroupVersion :: GroupVersion where
  "schemeGroupVersion = \<lparr>gv_Group = ''ldaprbac.io'', gv_Version = ''v1alpha1''\<rparr>"

text \<open>The function that \<open>init\<close> registers: a type is known by its name.\<close>

definition addKnownTypes :: "'s scheme_lib \<Rightarrow> 's builder_func" where
  "addKnownTypes S s =
     (let s = scheme_AddKnownTypes S s schemeGroupVersion
        [''LDAPProvider'', ''LDAPProviderList'',
         ''RBACGroupBinding'', ''RBACGroupBindingList'',
         ''ClusterRBACGroupBinding'', ''ClusterRBACGroupBindingList''];
          s = metav1_AddToGroupVersion S s schemeGroupVersion
      in (None, s))"

definition SchemeBuilder :: "'s scheme_lib \<Rightarrow> 's builder_func list" where
  "SchemeBuilder S = builder_Register S [] (addKnownTypes S)"

definition AddToScheme :: "'s scheme_lib \<Rightarrow> 's builder_func" where
  "AddToScheme S = builder_AddToScheme S (SchemeBuilder S)"

text \<open>\<open>utilruntime.Must\<close> panics on an error, which is the left of the result here.\<close>

definition Must :: "error option \<times> 's \<Rightarrow> error + 's" where
  "Must r = (case fst r of Some err \<Rightarrow> Inl err | None \<Rightarrow> Inr (snd r))"

definition main_init :: "'s scheme_lib \<Rightarrow> error + 's" where
  "main_init S = (case Must (clientgo_AddToScheme S (runtime_NewScheme S)) of
     Inl err \<Rightarrow> Inl err
   | Inr scheme \<Rightarrow> Must (AddToScheme S scheme))"

section \<open>What is relied on\<close>

text \<open>
  A builder runs its functions in the order of their registration and stops at the first
  error. Adding types makes them known and forgets none. The scheme of client-go knows the
  built-in kinds with their lists.
\<close>

fun run_builder :: "'s builder_func list \<Rightarrow> 's builder_func" where
  "run_builder [] s = (None, s)"
| "run_builder (f # fs) s = (case f s of (Some err, t) \<Rightarrow> (Some err, t) | (None, t) \<Rightarrow> run_builder fs t)"

definition core_v1 :: GroupVersion where "core_v1 = \<lparr>gv_Group = '''', gv_Version = ''v1''\<rparr>"

definition rbac_v1 :: GroupVersion where "rbac_v1 = \<lparr>gv_Group = ''rbac.authorization.k8s.io'', gv_Version = ''v1''\<rparr>"

definition builtin_kinds :: "(GroupVersion \<times> string) list" where
  "builtin_kinds = [(core_v1, ''Secret''), (core_v1, ''SecretList''), (rbac_v1, ''RoleBinding''), (rbac_v1, ''RoleBindingList''),
     (rbac_v1, ''ClusterRoleBinding''), (rbac_v1, ''ClusterRoleBindingList'')]"

definition scheme_lib_ok :: "'s scheme_lib \<Rightarrow> bool" where
  "scheme_lib_ok S \<longleftrightarrow>
     (\<forall>b f. builder_Register S b f = b @ [f]) \<and>
     (\<forall>b s. builder_AddToScheme S b s = run_builder b s) \<and>
     (\<forall>s gv ks gv' k. scheme_Recognizes S (scheme_AddKnownTypes S s gv ks) gv' k \<longleftrightarrow>
        scheme_Recognizes S s gv' k \<or> gv' = gv \<and> k \<in> set ks) \<and>
     (\<forall>s gv gv' k. scheme_Recognizes S s gv' k \<longrightarrow> scheme_Recognizes S (metav1_AddToGroupVersion S s gv) gv' k) \<and>
     (\<exists>s. clientgo_AddToScheme S (runtime_NewScheme S) = (None, s) \<and>
        list_all (\<lambda>(gv, k). scheme_Recognizes S s gv k) builtin_kinds)"

section \<open>The scheme of the manager\<close>

text \<open>The kinds of the repository, with their lists, and the built-in ones.\<close>

definition scheme_kinds :: "(GroupVersion \<times> string) list" where
  "scheme_kinds = map (Pair schemeGroupVersion)
     [''LDAPProvider'', ''LDAPProviderList'', ''RBACGroupBinding'', ''RBACGroupBindingList'',
      ''ClusterRBACGroupBinding'', ''ClusterRBACGroupBindingList''] @ builtin_kinds"

lemma main_init_recognizes:
  assumes "scheme_lib_ok S"
  shows "\<exists>sch. main_init S = Inr sch \<and> list_all (\<lambda>(gv, k). scheme_Recognizes S sch gv k) scheme_kinds"
proof -
  note ok = assms[unfolded scheme_lib_ok_def]
  obtain s where s: "clientgo_AddToScheme S (runtime_NewScheme S) = (None, s)"
    "list_all (\<lambda>(gv, k). scheme_Recognizes S s gv k) builtin_kinds" using ok by blast
  let ?t = "snd (addKnownTypes S s)"
  have "main_init S = Inr ?t"
    using ok s(1) by (simp add: main_init_def AddToScheme_def SchemeBuilder_def Must_def addKnownTypes_def Let_def)
  moreover have "scheme_Recognizes S ?t gv k" if "(gv, k) \<in> set scheme_kinds" for gv k
  proof -
    have "scheme_Recognizes S s gv k \<or> gv = schemeGroupVersion \<and>
      k \<in> set [''LDAPProvider'', ''LDAPProviderList'', ''RBACGroupBinding'', ''RBACGroupBindingList'',
        ''ClusterRBACGroupBinding'', ''ClusterRBACGroupBindingList'']"
      using that s(2) by (auto simp: scheme_kinds_def list_all_iff)
    then show ?thesis using ok by (simp only: addKnownTypes_def Let_def snd_conv)
  qed
  ultimately show ?thesis by (auto simp: list_all_iff)
qed

end
