(* ===== verification/Spec2Isabelle.thy ===== *)
theory Spec2Isabelle
  imports Eventual_Access LDAPProvider_Guarantees
    Ldap_Guarantees Ldap_Cost Metrics_Laws Deepcopy_Guarantees Scheme
begin

text \<open>
  A verification of directory-rbac-operator, a Kubernetes operator written in Go that keeps
  RoleBindings and ClusterRoleBindings in step with the groups of an LDAP or Active Directory
  server. File names below are under \<open>src/\<close>.

  \<^bold>\<open>The program.\<close> Three custom resources (\<open>api/v1alpha1\<close>): an \<open>LDAPProvider\<close> describes a
  directory; an \<open>RBACGroupBinding\<close> maps a group of a directory to a role in a namespace; a
  \<open>ClusterRBACGroupBinding\<close> does so for a cluster role. Three reconcilers
  (\<open>internal/controller\<close>) act on them. The binding reconcilers look up the provider, build a
  client for it (\<open>grouperfactory.go\<close>, with secrets for the password and the CA), ask it for the
  members of the group (\<open>internal/ldapclient\<close>), bring the managed binding in line
  (\<open>internal/rbacsync\<close>) and report in the status. The provider reconciler checks the
  specification, tries a bind, reports, and protects a provider in use from deletion. Indexes
  and mappers decide what is reconciled when a provider or a secret changes, a readiness
  endpoint reads the cached status, an optional webhook refuses duplicate mappings, and
  \<open>main.go\<close> wires it all. All clients of one directory share a rate limiter.

  \<^bold>\<open>How it is modelled.\<close> Every function is translated branch by branch, in the order of the
  source, into a function of \<open>State_Monad\<close> over \<open>op_state\<close> (theory \<open>Environment\<close>): the external
  world, of an arbitrary type; a trace of the external calls, events and log lines; the
  metrics; and the limiter registries by address. What is not in the repository (the
  Kubernetes client, go-ldap, the clock, TLS, the rate limiter, helpers of controller-runtime)
  is a field of the record \<open>env\<close> (of \<open>copy_methods\<close> and \<open>scheme_lib\<close> for apimachinery's own types),
  and every definition takes it as a parameter; nothing is
  assumed of it except where a theorem names a hypothesis. These are \<open>SetStatusCondition_ok\<close>
  and \<open>finalizers_ok\<close> (the documented helpers), \<open>kclient_ok\<close> (reads return what is stored,
  accepted writes store, rejected ones do not; the manager's client reads a cache, which this takes
  to be up to date), \<open>klist_ok\<close> and \<open>lists_steadily\<close> (a list answers
  from a cache through its index), \<open>directory_errors_ok\<close> and \<open>snapshot\<close> (errors and answers of a
  directory), \<open>handshake_needs_name\<close> (TLS), \<open>apimachinery\<close> (the copy methods of embedded types are
  deep), \<open>scheme_lib_ok\<close> (registering makes a type known), and \<open>cluster_up\<close> for the theorems that
  say that something does happen: the API server answers reads and accepts well-formed writes
  (\<open>reads_served\<close>, \<open>writes_served\<close>, \<open>status_served\<close>), the directories can be reached and each answers
  from a snapshot (\<open>directories_up\<close>), and an owner reference can be set (\<open>owner_references_ok\<close>).
  \<open>Sim_World\<close> has a concrete environment for the other hypotheses on \<open>env\<close> and \<open>Fair_World\<close> one for
  \<open>cluster_up\<close>; the witnesses run on them. Errors are a datatype with Go's wrapping; a nil error is
  \<open>None\<close>. Strings are byte strings; counters that the code keeps in 32 bits are words, and
  SHA-256 is computed on words. Durations are integers in nanoseconds.

  \<^bold>\<open>Theories.\<close>
  \<^item> \<open>Prelude\<close>: errors, strings, the calculus \<open>post\<close>, \<open>keeps\<close>, \<open>yields\<close> for stateful code.
  \<^item> \<open>Api_Types\<close>: the resources and conditions of \<open>api/v1alpha1\<close>, and \<open>findCondition\<close>.
  \<^item> \<open>Go_Heap\<close>, \<open>Api_Memory\<close>, \<open>Deepcopy\<close>, \<open>Deepcopy_Guarantees\<close>: \<open>zz_generated.deepcopy.go\<close> over an
    explicit heap. \<open>Go_Heap\<close> has cells, pointers and slices and the locale \<open>deep_copier\<close> (same value,
    fresh cells, old heap untouched), closed under pointers, slices and structs; \<open>Api_Memory\<close> the
    structs with their pointers and the value of \<open>Api_Types\<close> that each stands for; \<open>Deepcopy\<close> the
    methods, with the locale \<open>apimachinery\<close>, a sublocale of \<open>deep_copier\<close> for each type. They justify
    that the other theories treat an object handed out by the cache as a value.
  \<^item> \<open>Scheme\<close>: \<open>groupversion_info.go\<close> and the \<open>init\<close> of \<open>main.go\<close>.
  \<^item> \<open>Metrics\<close>, \<open>Ratelimit\<close>: \<open>metrics.go\<close>; \<open>ratelimit.go\<close> with the locale \<open>keyed_registry\<close>: one limiter
    per key until it is deleted, distinct for distinct keys.
  \<^item> \<open>Environment\<close>, \<open>Indexers\<close>, \<open>Sim_World\<close>: the parameters, the trace and its calculus \<open>emits\<close>;
    \<open>indexers.go\<close>; the simulation for witnesses.
  \<^item> \<open>Ldap_Client\<close>, \<open>Ldap_Client_Correct\<close>, \<open>Ldap_Guarantees\<close>: \<open>client.go\<close>, \<open>grouper.go\<close> and the fake
    grouper; traces as inductive relations (\<open>dial_trace\<close>, \<open>connect_trace\<close>); the refinement of the
    abstract \<open>directory_members\<close>; sessions, TLS, rate limiting, errors. The locale
    \<open>membership_source\<close> is the \<open>Grouper\<close> interface. \<open>Ldap_Cost\<close> bounds the requests of a query by the
    pages of its search and the members that the group entry lists.
  \<^item> \<open>Sha256\<close>, \<open>Rbacsync\<close>: \<open>internal/rbacsync\<close>, with the locale \<open>slice_sorter\<close>.
  \<^item> \<open>Controller_Base\<close>, \<open>Grouper_Factory\<close>: \<open>events.go\<close>, the resolver interfaces (locale
    \<open>grouper_resolver\<close>) and \<open>grouperfactory.go\<close>.
  \<^item> \<open>Managed_Sync\<close>, \<open>Binding_Sync\<close>: what the two binding reconcilers share, as locales:
    \<open>managed_object\<close> (create, update, recreate) and \<open>binding_reconciler\<close> (a lookup gives a verdict,
    the verdict decides what may be written and what is reported).
  \<^item> \<open>RBACGroupBinding_Controller\<close>, \<open>ClusterRBACGroupBinding_Controller\<close> and their \<open>_Guarantees\<close>: the
    handlers, the interpretations of those locales on them, and the properties: fail-safe
    behaviour, convergence, idempotence, truthful status, results.
  \<^item> \<open>Cluster_Spec\<close>, \<open>Lookup_Served\<close>, \<open>Convergence\<close>, \<open>Surroundings\<close>, \<open>Eventual_Access\<close>: whole reconciles
    against an abstract specification. A \<open>cluster\<close> is a map of the stored objects, and
    \<open>group_access\<close> says which users a binding stands for, in terms of the cluster and the
    directories. \<open>Lookup_Served\<close> shows that factory and client compute it, \<open>Convergence\<close> extends the
    locales \<open>managed_object\<close> and \<open>binding_reconciler\<close> by what their operations do when they are
    served, \<open>Surroundings\<close> gathers the hypotheses in \<open>cluster_up\<close>, and \<open>Eventual_Access\<close> has the
    refinement for both kinds, the convergence of any sequence of reconciles and the steady
    state after it. \<open>Fair_World\<close> is the concrete environment of their witnesses.
  \<^item> \<open>LDAPProvider_Controller\<close>, \<open>LDAPProvider_Guarantees\<close>: the provider reconciler; what the health
    check reports (locale \<open>pinger_resolver\<close>), and the in-use protection.
  \<^item> \<open>Mappers\<close>, \<open>Readiness\<close>, \<open>Webhook\<close>: \<open>mappers.go\<close> and the watches of \<open>SetupWithManager\<close> (locale
    \<open>watch_mapper\<close>); \<open>readiness.go\<close>; \<open>internal/webhook\<close> (locale \<open>duplicate_validator\<close>) with the
    inductive relation \<open>admitted\<close> of request sequences, decided on a cache that may lag.
  \<^item> \<open>Operator_Main\<close>: \<open>main.go\<close>, and that it carries out a plan and stops at the first failure.
  \<^item> \<open>Trace_Laws\<close>: the permissions the markers ask for; laws of whole runs (locales \<open>step_law\<close>,
    \<open>wiring_law\<close>, \<open>trace_law\<close>, \<open>trace_monitor\<close>), proved of every handler once; the inductive relation
    \<open>operator\<close>, in which reconciles, watches, probes, validations and changes from outside
    follow each other in any order.
  \<^item> \<open>Metrics_Laws\<close>: what a reconcile does to the metrics, and that they agree over a whole run.
  \<^item> This theory: the invariants of \<open>operator\<close>, and that the scheme knows every type it uses.

  \<^bold>\<open>Bounds.\<close> There is no fuel: every loop of the program runs over a finite list and is a
  structural recursion, and SHA-256 has a measure. Handlers are atomic in \<open>operator\<close>: the world
  changes between them at will and inside them only through the answers of the calls, which
  the parameters leave open; two reconciles that run at the same time on different objects
  share only the limiter registry, whose methods hold a lock.

  \<^bold>\<open>Not modelled.\<close> The version string; flag parsing and informational log lines of \<open>main.go\<close>; the
  registration of the collectors with the process-wide registry; what controller-runtime does
  with \<open>For\<close> and \<open>Owns\<close>; cancellation of a context (its deadline is modelled); paging itself is
  go-ldap's (the page size is modelled). Of the Kubernetes structs the fields that the operator
  does not touch are left out, also in memory. A copy method writes its result at once; the
  partial states of \<open>*out\<close> in between, which no other code can see, are not modelled, nor is a
  call whose \<open>in\<close> and \<open>out\<close> are the same struct; the value of a slice does not tell nil from empty.
  A deletion timestamp is present or absent; a pointer to the zero time, which the API server
  does not send, is not told apart. Registering a webhook is a step with the name of its kind.
\<close>

section \<open>The operator as a whole\<close>

text \<open>
  C12. Invariants of the running operator, whatever the API server and the directories answer
  and in whatever order reconciles, watches, probes and validations run. Every call to the
  API server, recording events apart, is covered by a permission in the operator's role.
  Every dial to a directory was paid for with a token of a rate limiter. Between any two of
  these activities no connection is open. The limiters are handed out by one registry that
  is used through its methods only, so that different providers have different limiters, of
  five requests a second in bursts of ten. Recording an event needs a permission on the
  events API group that the role does not have.
\<close>

theorem operator_invariants:
  assumes "operator E fl s"
  shows "list_all (\<lambda>a. granted a \<or> is_event a) (os_trace s) \<and>
    paced False (os_trace s) \<and>
    mset (opened (os_trace s)) = mset (closed (os_trace s)) \<and>
    (\<forall>k k' x y. Limiters_lookup (os_registries s limitersAddr) k = Some x \<and>
       Limiters_lookup (os_registries s limitersAddr) k' = Some y \<longrightarrow>
       lim_rate x = 5 \<and> lim_burst x = 10 \<and> (k = k' \<longleftrightarrow> lim_id x = lim_id y)) \<and>
    (\<forall>x t reason act msg. \<not> granted (AEvent x t reason act msg))"
proof (intro conjI)
  show "list_all (\<lambda>a. granted a \<or> is_event a) (os_trace s)"
    by (rule grants.operator_law[OF granted_operator.wiring_law_axioms assms])
  show "paced False (os_trace s)"
    using pacing.operator_law[OF paced_operator.wiring_law_axioms assms] by simp
  show "mset (opened (os_trace s)) = mset (closed (os_trace s))"
    by (rule leaks.operator_law[OF closing_operator.wiring_law_axioms assms])
  obtain ops where reg: "os_registries s limitersAddr = registry_run (newLimiters 0 0) ops"
    using registry_operator.operator_obeys[OF refl assms]
    unfolding registry_operator.since_boot_def registry_used_def by auto
  have "Limiters_wf (os_registries s limitersAddr)"
    unfolding reg by (rule registry_run_keeps(1)[OF Limiters_wf_new])
  moreover have "Limiters_rate (os_registries s limitersAddr) = 5" "Limiters_burst (os_registries s limitersAddr) = 10"
    unfolding reg registry_run_keeps
    by (simp_all add: Limiters_rate_def Limiters_burst_def newLimiters_def DefaultRate_def DefaultBurst_def)
  ultimately show "\<forall>k k' x y. Limiters_lookup (os_registries s limitersAddr) k = Some x \<and>
       Limiters_lookup (os_registries s limitersAddr) k' = Some y \<longrightarrow>
       lim_rate x = 5 \<and> lim_burst x = 10 \<and> (k = k' \<longleftrightarrow> lim_id x = lim_id y)"
    unfolding Limiters_wf_def by (intro allI impI; elim conjE) (metis option.sel)
  show "\<forall>x t reason act msg. \<not> granted (AEvent x t reason act msg)"
    by (simp add: granted_def permits_def rules_defs)
qed

definition demo_flags :: flags where
  "demo_flags = defaultFlags\<lparr>fl_secretNamespace := ''ops''\<rparr>"

text \<open>The operator after one reconcile of the sample binding.\<close>

definition demo_run :: "sim op_state" where
  "demo_run = snd (run_state (ctl_Reconciler (RGB_controller sim_env demo_flags) demo_ctx devs_key)
     (sim_start demo_world))"

lemma demo_run_reached: "operator sim_env demo_flags demo_run"
  unfolding demo_run_def
  by (rule operator.reconciled[OF operator.booted])
    (simp_all add: sim_start_def controllers_def)

theorem operator_invariants_witness:
  "paced False (os_trace demo_run) \<and> mset (opened (os_trace demo_run)) = mset (closed (os_trace demo_run))"
  using operator_invariants[OF demo_run_reached] by blast

text \<open>
  C13. If no provider that the API server hands out asks for plaintext, the running operator
  never sends credentials in the clear: every bind in its whole history was made on a
  connection that had been dialled with TLS or upgraded with StartTLS before.
\<close>

theorem operator_never_plaintext:
  assumes "\<And>k w p w'. k_Get (lp_client E) k w = (Inr p, w') \<Longrightarrow> \<not> lps_InsecureSkipTLS (lp_Spec p)"
    and "\<And>p w p' w'. k_Update (lp_client E) p w = (Inr p', w') \<Longrightarrow> \<not> lps_InsecureSkipTLS (lp_Spec p')"
    and "operator E fl s"
  shows "binds_secured {} (os_trace s)"
proof -
  have "wiring_law secure.appends E (grouperFactory fl) (\<lambda>p. \<not> lps_InsecureSkipTLS (lp_Spec p))"
    by (rule secure_wiring; rule assms(1,2))
  from secure.operator_law[OF this assms(3)] show ?thesis by simp
qed

definition strict_env :: "sim env" where
  "strict_env = sim_env\<lparr>lp_client := (lp_client sim_env)\<lparr>k_Get := \<lambda>k w. (Inr demo_provider, w),
     k_Update := \<lambda>p w. (Inr demo_provider, w)\<rparr>\<rparr>"

theorem operator_never_plaintext_witness:
  "binds_secured {} (os_trace (snd (run_state (ctl_Reconciler (RGB_controller strict_env demo_flags) demo_ctx devs_key)
     (sim_start demo_world))))"
proof (rule operator_never_plaintext)
  show "operator strict_env demo_flags (snd (run_state (ctl_Reconciler (RGB_controller strict_env demo_flags)
      demo_ctx devs_key) (sim_start demo_world)))"
    by (rule operator.reconciled[OF operator.booted]) (simp_all add: sim_start_def controllers_def)
qed (auto simp: strict_env_def demo_provider_def)

section \<open>The types that the scheme knows\<close>

text \<open>The group, version and kind of the Go type that a call passes to the client.\<close>

definition kind_version :: "string \<Rightarrow> GroupVersion" where
  "kind_version kind =
     (if kind = ''Secret'' then core_v1
      else if kind = ''RoleBinding'' \<or> kind = ''ClusterRoleBinding'' then rbac_v1
      else schemeGroupVersion)"

fun type_used :: "action \<Rightarrow> (GroupVersion \<times> string) option" where
  "type_used (AGet kind k) = Some (kind_version kind, kind)"
| "type_used (AList kind opts) = Some (kind_version kind, kind @ ''List'')"
| "type_used (ACreate x ok) = Some (kind_version (object_kind x), object_kind x)"
| "type_used (AUpdate x ok) = Some (kind_version (object_kind x), object_kind x)"
| "type_used (ADelete x ok) = Some (kind_version (object_kind x), object_kind x)"
| "type_used (AStatusUpdate x ok) = Some (kind_version (object_kind x), object_kind x)"
| "type_used _ = None"

lemma object_types_known: "(kind_version (object_kind x), object_kind x) \<in> set scheme_kinds"
  by (cases x) (simp_all add: kind_version_def scheme_kinds_def builtin_kinds_def)

lemma granted_kinds:
  assumes "kind_resource kind \<noteq> ('''', [])"
  shows "(kind_version kind, kind) \<in> set scheme_kinds" and "(kind_version kind, kind @ ''List'') \<in> set scheme_kinds"
  using assms
  by (auto simp: kind_resource_def kind_version_def scheme_kinds_def builtin_kinds_def split: if_splits)

lemma granted_types_known:
  assumes "granted a \<or> is_event a" and "type_used a = Some t"
  shows "t \<in> set scheme_kinds"
proof -
  have named: "kind_resource kind \<noteq> ('''', [])"
    if "permits operator_rules (fst (kind_resource kind), snd (kind_resource kind), verb)" for kind verb
    using that by (auto simp: permits_def rules_defs)
  show ?thesis
    using assms granted_kinds[OF named] object_types_known by (cases a) (auto simp: granted_def)
qed

text \<open>
  C24. The scheme that \<open>main\<close> sets up knows every type that the operator ever passes to the API
  client, in any run: setting it up does not panic, and every object read or written and the
  list type of every list has been registered under its group and version.
\<close>

theorem operator_types_registered:
  assumes "scheme_lib_ok S"
  shows "\<exists>sch. main_init S = Inr sch \<and> (\<forall>E fl s. operator E fl s \<longrightarrow>
    list_all (\<lambda>a. case type_used a of None \<Rightarrow> True | Some (gv, k) \<Rightarrow> scheme_Recognizes S sch gv k) (os_trace s))"
proof -
  obtain sch where sch: "main_init S = Inr sch" "list_all (\<lambda>(gv, k). scheme_Recognizes S sch gv k) scheme_kinds"
    using main_init_recognizes[OF assms] by blast
  have "list_all (\<lambda>a. case type_used a of None \<Rightarrow> True | Some (gv, k) \<Rightarrow> scheme_Recognizes S sch gv k) (os_trace s)"
    if "operator E fl s" for E fl and s :: "'b op_state"
    using grants.operator_law[OF granted_operator.wiring_law_axioms that] granted_types_known sch(2)
    by (fastforce simp: list_all_iff split: option.split)
  with sch(1) show ?thesis by blast
qed

text \<open>A scheme as the set of the kinds it knows.\<close>

definition set_scheme :: "(GroupVersion \<times> string) set scheme_lib" where
  "set_scheme = \<lparr>runtime_NewScheme = {}, scheme_AddKnownTypes = (\<lambda>s gv ks. s \<union> Pair gv ` set ks),
     metav1_AddToGroupVersion = (\<lambda>s gv. insert (gv, ''WatchEvent'') s), scheme_Recognizes = (\<lambda>s gv k. (gv, k) \<in> s),
     builder_Register = (\<lambda>b f. b @ [f]), builder_AddToScheme = run_builder,
     clientgo_AddToScheme = (\<lambda>s. (None, s \<union> set builtin_kinds))\<rparr>"

lemma set_scheme_ok: "scheme_lib_ok set_scheme"
  by (auto simp: scheme_lib_ok_def set_scheme_def list_all_iff)

theorem operator_types_registered_witness:
  "\<exists>sch. main_init set_scheme = Inr sch \<and>
     list_all (\<lambda>a. case type_used a of None \<Rightarrow> True | Some (gv, k) \<Rightarrow> scheme_Recognizes set_scheme sch gv k)
       (os_trace demo_run)"
  using operator_types_registered[OF set_scheme_ok] demo_run_reached by blast

section \<open>A specification that is rejected and still used\<close>

fun is_dial :: "action \<Rightarrow> bool" where
  "is_dial (ADial _ _ _) = True"
| "is_dial _ = False"

lemma demo_run_dials: "list_ex is_dial (os_trace demo_run)"
  by (simp add: demo_run_def RGB_controller_def RGB_SetupWithManager_def RGB_Reconcile_def RGB_reconcileBody_def
      GrouperFactory_Grouper_def factory_defs registryGet_run GetGroupMembers_def client_defs lookupGroup_def
      RGB_markGroupNotFound_def RGB_markDegraded_def recordWarning_def Log_def emit_def call_def observe_def metric_def
      SetStatusCondition_def sim_env_def sim_kclient_def demo_defs sim_start_def demo_flags_def grouperFactory_def
      defaultFlags_def demo_ctx_def isLDAPS_def HasPrefix_def Let_def)

text \<open>
  The check of a provider's transport security binds the health check only: there is a
  provider whose specification it rejects and which a binding's reconcile dials all the same.
\<close>

theorem rejected_spec_still_dialled:
  "validateTLSConfig (lp_Spec demo_provider) \<noteq> None \<and>
   operator sim_env demo_flags demo_run \<and> list_ex is_dial (os_trace demo_run)"
  using demo_run_reached demo_run_dials
  by (simp add: validateTLSConfig_def demo_provider_def HasPrefix_def)

end
